(* ===== verification/Prelude.thy ===== *)
theory Prelude
  imports Main "HOL-Library.Word"
begin

text \<open>
  Shared vocabulary of the development: the error values of the Go code, results and
  panics, bounded channels, and the generic lemmas the components use.

  A Go \<open>string\<close> and a Go \<open>[]byte\<close> are both sequences of bytes, and an
  Isabelle \<open>char\<close> is one byte, so both are modelled by the type \<open>string\<close>.
  Where the code tells a nil slice from an empty one, the slice is an \<open>option\<close>.
\<close>

named_theorems go_split \<open>definitions that are unfolded together with their case splits\<close>

subsection \<open>Errors, results, panics\<close>

text \<open>
  \<open>utils/types/errors.go\<close> and the error variables of \<open>utils/tss\<close>. Errors made by
  \<open>errors.New\<close> and \<open>fmt.Errorf\<close> keep their text (\<open>ErrNew\<close>); an error that a
  library returned keeps the text that its \<open>Error()\<close> method gives (\<open>ErrLib\<close>).
\<close>

type_synonym bytes = string

datatype go_error =
    ErrNotFound
  | ErrUnauthorized
  | ErrBadRequest
  | ErrTssProcessFailed
  | ErrConflict
  | ErrTimeOut
  | ErrNoRows
  | ErrConversion
  | ErrNotEnoughPeers
  | ErrAbsentCurve
  | ErrPubKeyMismatch
  | ErrNew string
  | ErrLib string

type_synonym 'a result = "go_error + 'a"

fun Error :: "go_error \<Rightarrow> string" where
  "Error ErrNotFound = ''not found''"
| "Error ErrUnauthorized = ''unauthorized''"
| "Error ErrBadRequest = ''bad request''"
| "Error ErrTssProcessFailed = ''tss process failed''"
| "Error ErrConflict = ''conflict''"
| "Error ErrTimeOut = ''timed out''"
| "Error ErrNoRows = ''sql: no rows in result set''"
| "Error ErrConversion = ''conversion error''"
| "Error ErrNotEnoughPeers = ''not enough input peers, need at least 2''"
| "Error ErrAbsentCurve = ''curve is nil''"
| "Error ErrPubKeyMismatch =
     ''pubkey derived from recovered privkey is not equal to pubkey provided''"
| "Error (ErrNew s) = s"
| "Error (ErrLib s) = s"

text \<open>A call that may panic (nil dereference, send on or close of a closed channel).\<close>

datatype 'a go = Ret 'a | Panic string

primrec panics :: "'a go \<Rightarrow> bool" where
  "panics (Ret a) = False"
| "panics (Panic m) = True"

definition is_err :: "'a result \<Rightarrow> bool" where
  "is_err r = (case r of Inl e \<Rightarrow> True | Inr a \<Rightarrow> False)"

lemma is_err_simps [simp]: "is_err (Inl e)" "\<not> is_err (Inr a)"
  by (simp_all add: is_err_def)

subsection \<open>Bounded channels\<close>

text \<open>
  A buffered Go channel: a queue of at most \<open>cap\<close> elements. A send on a full channel
  and a receive on an empty one block, which is \<open>None\<close> here: the goroutine cannot
  take the step.
\<close>

definition chan_send :: "nat \<Rightarrow> 'a list \<Rightarrow> 'a \<Rightarrow> 'a list option" where
  "chan_send cap q x = (if length q < cap then Some (q @ [x]) else None)"

definition chan_recv :: "'a list \<Rightarrow> ('a \<times> 'a list) option" where
  "chan_recv q = (case q of [] \<Rightarrow> None | x # xs \<Rightarrow> Some (x, xs))"

lemma chan_send_Some [simp]:
  "chan_send c q x = Some q' \<longleftrightarrow> length q < c \<and> q' = q @ [x]"
  by (auto simp: chan_send_def)

lemma chan_send_None [simp]: "chan_send c q x = None \<longleftrightarrow> c \<le> length q"
  by (auto simp: chan_send_def)

lemma chan_recv_Some [simp]: "chan_recv q = Some (x, q') \<longleftrightarrow> q = x # q'"
  by (auto simp: chan_recv_def split: list.splits)

lemma chan_recv_None [simp]: "chan_recv q = None \<longleftrightarrow> q = []"
  by (auto simp: chan_recv_def split: list.splits)

subsection \<open>Lists and maps\<close>

text \<open>Removing the first element that satisfies a predicate, and what it is.\<close>

fun remove_first :: "('a \<Rightarrow> bool) \<Rightarrow> 'a list \<Rightarrow> 'a list" where
  "remove_first P [] = []"
| "remove_first P (x # xs) = (if P x then xs else x # remove_first P xs)"

lemma remove_first_id: "\<forall>x \<in> set xs. \<not> P x \<Longrightarrow> remove_first P xs = xs"
  by (induction xs) auto

lemma find_None_remove_first: "find P xs = None \<Longrightarrow> remove_first P xs = xs"
  by (induction xs) (auto split: if_splits)

lemma filter_remove_first:
  "filter P (remove_first P xs) = tl (filter P xs)"
  by (induction xs) auto

lemma filter_remove_first_other:
  "(\<And>x. P x \<Longrightarrow> \<not> Q x) \<Longrightarrow> filter Q (remove_first P xs) = filter Q xs"
  by (induction xs) auto

lemma find_hd_filter:
  "find P xs = (case filter P xs of [] \<Rightarrow> None | y # ys \<Rightarrow> Some y)"
  by (induction xs) auto

lemma set_remove_first_subset: "set (remove_first P xs) \<subseteq> set xs"
  by (induction xs) auto

lemma length_remove_first:
  "find P xs = Some y \<Longrightarrow> Suc (length (remove_first P xs)) = length xs"
  by (induction xs) (auto split: if_splits)

text \<open>Copying a Go map into another one, entry by entry.\<close>

lemma map_add_dom_Some: "(m ++ n) k = Some v \<longleftrightarrow> n k = Some v \<or> (n k = None \<and> m k = Some v)"
  by (rule map_add_Some_iff)

subsection \<open>Runs of a step function\<close>

text \<open>The events one after the other; \<open>None\<close> when one of them is not possible.\<close>

fun steps :: "('e \<Rightarrow> 's \<Rightarrow> 's option) \<Rightarrow> 'e list \<Rightarrow> 's \<Rightarrow> 's option" where
  "steps f [] s = Some s"
| "steps f (ev # evs) s = (case f ev s of None \<Rightarrow> None | Some s' \<Rightarrow> steps f evs s')"

lemma steps_append:
  "steps f (xs @ ys) s = (case steps f xs s of None \<Rightarrow> None | Some s' \<Rightarrow> steps f ys s')"
  by (induction xs arbitrary: s) (auto split: option.split)

lemma steps_invariant:
  "steps f evs s = Some s' \<Longrightarrow> P s \<Longrightarrow> (\<And>s ev s'. P s \<Longrightarrow> ev \<in> set evs \<Longrightarrow> f ev s = Some s' \<Longrightarrow> P s') \<Longrightarrow> P s'"
proof (induction evs arbitrary: s)
  case Nil
  then show ?case by simp
next
  case (Cons ev evs)
  from Cons.prems(1) obtain s1 where s1: "f ev s = Some s1" "steps f evs s1 = Some s'"
    by (auto split: option.split_asm)
  have "P s1" by (rule Cons.prems(3) [OF Cons.prems(2) _ s1(1)]) simp
  then show ?case
  proof (rule Cons.IH [OF s1(2)])
    fix s ev' s'
    assume "P s" "ev' \<in> set evs" "f ev' s = Some s'"
    then show "P s'" by (intro Cons.prems(3) [of s ev' s']) simp_all
  qed
qed

end
