(* ===== verification/GoStd.thy ===== *)
theory GoStd
  imports Prelude
begin

text \<open>
  The parts of the Go standard library that the program calls on data:
  \<open>encoding/hex\<close>, \<open>strings\<close>, \<open>strconv\<close> and the decimal and hexadecimal
  conversions of \<open>math/big.Int\<close>.
\<close>

subsection \<open>encoding/hex\<close>

definition hex_digit :: "nat \<Rightarrow> char" where
  "hex_digit n = ''0123456789abcdef'' ! n"

text \<open>\<open>fromHexChar\<close>: lower and upper case digits are accepted.\<close>

definition hex_val :: "char \<Rightarrow> nat option" where
  "hex_val c =
     (let n = of_char c in
      if 48 \<le> n \<and> n \<le> 57 then Some (n - 48)
      else if 97 \<le> n \<and> n \<le> 102 then Some (n - 87)
      else if 65 \<le> n \<and> n \<le> 70 then Some (n - 55)
      else None)"

fun hex_encode :: "bytes \<Rightarrow> string" where
  "hex_encode [] = []"
| "hex_encode (c # cs) =
     hex_digit (of_char c div 16) # hex_digit (of_char c mod 16) # hex_encode cs"

definition err_hex_length :: go_error where
  "err_hex_length = ErrLib ''encoding/hex: odd length hex string''"

definition err_hex_byte :: go_error where
  "err_hex_byte = ErrLib ''encoding/hex: invalid byte''"

fun hex_decode :: "string \<Rightarrow> bytes result" where
  "hex_decode [] = Inr []"
| "hex_decode [a] = (case hex_val a of None \<Rightarrow> Inl err_hex_byte | Some _ \<Rightarrow> Inl err_hex_length)"
| "hex_decode (a # b # cs) =
     (case hex_val a of
        None \<Rightarrow> Inl err_hex_byte
      | Some x \<Rightarrow>
          (case hex_val b of
             None \<Rightarrow> Inl err_hex_byte
           | Some y \<Rightarrow>
               (case hex_decode cs of
                  Inl e \<Rightarrow> Inl e
                | Inr bs \<Rightarrow> Inr (char_of (16 * x + y) # bs))))"

lemma hex_digit_all:
  assumes "list_all P (map (\<lambda>n. (n, hex_digit n)) [0..<16])" and "n < 16"
  shows "P (n, hex_digit n)"
  using assms by (auto simp: list_all_iff)

lemma hex_val_digit [simp]: "n < 16 \<Longrightarrow> hex_val (hex_digit n) = Some n"
  by (drule hex_digit_all [of "\<lambda>(k, d). hex_val d = Some k", rotated])
     (simp_all add: upt_rec hex_digit_def hex_val_def Let_def)

lemma of_char_less_256: "(of_char (c :: char) :: nat) < 256"
  by (rule nat_of_char_less_256)

lemma hex_decode_encode [simp]: "hex_decode (hex_encode bs) = Inr bs"
proof (induction bs)
  case Nil
  show ?case by simp
next
  case (Cons c cs)
  have "(of_char c :: nat) div 16 < 16"
    using of_char_less_256 [of c] by (simp add: less_mult_imp_div_less)
  moreover have "16 * ((of_char c :: nat) div 16) + of_char c mod 16 = of_char c"
    by simp
  ultimately show ?case using Cons.IH by simp
qed

lemma hex_encode_eq_iff [simp]: "hex_encode a = hex_encode b \<longleftrightarrow> a = b"
  by (metis hex_decode_encode sum.inject(2))

lemma length_hex_encode [simp]: "length (hex_encode bs) = 2 * length bs"
  by (induction bs) auto

lemma hex_encode_Nil_iff [simp]: "hex_encode bs = [] \<longleftrightarrow> bs = []"
  by (cases bs) auto

text \<open>A decoded string has half the length, so an odd one is always refused.\<close>

lemma hex_decode_length: "hex_decode s = Inr bs \<Longrightarrow> length s = 2 * length bs"
  by (induction s arbitrary: bs rule: hex_decode.induct)
     (auto split: option.splits sum.splits)

subsection \<open>strings\<close>

definition HasPrefix :: "string \<Rightarrow> string \<Rightarrow> bool" where
  "HasPrefix s p = (take (length p) s = p)"

definition HasSuffix :: "string \<Rightarrow> string \<Rightarrow> bool" where
  "HasSuffix s p = HasPrefix (rev s) (rev p)"

definition TrimPrefix :: "string \<Rightarrow> string \<Rightarrow> string" where
  "TrimPrefix s p = (if HasPrefix s p then drop (length p) s else s)"

definition TrimSuffix :: "string \<Rightarrow> string \<Rightarrow> string" where
  "TrimSuffix s p = (if HasSuffix s p then take (length s - length p) s else s)"

fun Contains :: "string \<Rightarrow> string \<Rightarrow> bool" where
  "Contains [] p = (p = [])"
| "Contains (c # cs) p = (HasPrefix (c # cs) p \<or> Contains cs p)"

text \<open>\<open>strings.Replace (s, old, new, 1)\<close>: the first occurrence only.\<close>

fun replace_first :: "string \<Rightarrow> string \<Rightarrow> string \<Rightarrow> string" where
  "replace_first [] old new = (if old = [] then new else [])"
| "replace_first (c # cs) old new =
     (if HasPrefix (c # cs) old then new @ drop (length old) (c # cs)
      else c # replace_first cs old new)"

text \<open>\<open>strings.ToLower\<close> on ASCII text (header names are ASCII tokens).\<close>

definition lower_char :: "char \<Rightarrow> char" where
  "lower_char c =
     (if 65 \<le> (of_char c :: nat) \<and> (of_char c :: nat) \<le> 90
      then char_of ((of_char c :: nat) + 32) else c)"

definition ToLower :: "string \<Rightarrow> string" where
  "ToLower s = map lower_char s"

text \<open>\<open>strings.Split\<close> at a single separator byte.\<close>

fun split_at :: "char \<Rightarrow> string \<Rightarrow> string list" where
  "split_at d [] = [[]]"
| "split_at d (c # cs) =
     (if c = d then [] # split_at d cs
      else (case split_at d cs of [] \<Rightarrow> [[c]] | w # ws \<Rightarrow> (c # w) # ws))"

lemma HasPrefix_append [simp]: "HasPrefix (p @ s) p"
  by (simp add: HasPrefix_def)

lemma HasPrefix_iff: "HasPrefix s p \<longleftrightarrow> (\<exists>t. s = p @ t)"
  by (metis HasPrefix_def HasPrefix_append append_take_drop_id)

lemma HasSuffix_iff: "HasSuffix s p \<longleftrightarrow> (\<exists>t. s = t @ p)"
  by (metis HasPrefix_iff HasSuffix_def rev_append rev_rev_ident)

lemma TrimPrefix_append [simp]: "TrimPrefix (p @ s) p = s"
  by (simp add: TrimPrefix_def)

lemma TrimSuffix_append [simp]: "TrimSuffix (s @ p) p = s"
  by (auto simp: TrimSuffix_def HasSuffix_iff)

lemma Contains_iff: "Contains s p \<longleftrightarrow> (\<exists>u v. s = u @ p @ v)"
proof (induction s p rule: Contains.induct)
  case (1 p)
  then show ?case by auto
next
  case (2 c cs p)
  show ?case
  proof
    assume "Contains (c # cs) p"
    then consider "HasPrefix (c # cs) p" | "Contains cs p" by auto
    then show "\<exists>u v. c # cs = u @ p @ v"
    proof cases
      case 1
      then show ?thesis by (metis HasPrefix_iff append_Nil)
    next
      case 2
      with "2.IH" obtain u v where "cs = u @ p @ v" by auto
      then have "c # cs = (c # u) @ p @ v" by simp
      then show ?thesis by blast
    qed
  next
    assume "\<exists>u v. c # cs = u @ p @ v"
    then obtain u v where uv: "c # cs = u @ p @ v" by blast
    show "Contains (c # cs) p"
    proof (cases u)
      case Nil
      with uv have "HasPrefix (c # cs) p" by (auto simp: HasPrefix_iff)
      then show ?thesis by simp
    next
      case (Cons d u')
      with uv have "cs = u' @ p @ v" by simp
      with "2.IH" show ?thesis by auto
    qed
  qed
qed

lemma split_at_not_Nil [simp]: "split_at d s \<noteq> []"
  by (induction s) (auto split: list.splits)

lemma ToLower_append [simp]: "ToLower (a @ b) = ToLower a @ ToLower b"
  by (simp add: ToLower_def)

subsection \<open>Digits, strconv and math/big conversions\<close>

text \<open>Digits of a number in a base, most significant first.\<close>

fun nat_digits :: "nat \<Rightarrow> nat \<Rightarrow> string" where
  "nat_digits b n =
     (if n < b \<or> b < 2 then [hex_digit n] else nat_digits b (n div b) @ [hex_digit (n mod b)])"

declare nat_digits.simps [simp del]

text \<open>\<open>big.Int.String\<close>.\<close>

definition big_String :: "int \<Rightarrow> string" where
  "big_String i = (if i < 0 then CHR ''-'' # nat_digits 10 (nat (- i)) else nat_digits 10 (nat i))"

text \<open>Reading a non-empty string of digits below the base.\<close>

fun digits_val :: "nat \<Rightarrow> nat \<Rightarrow> string \<Rightarrow> nat option" where
  "digits_val b acc [] = Some acc"
| "digits_val b acc (c # cs) =
     (case hex_val c of
        None \<Rightarrow> None
      | Some d \<Rightarrow> if d < b then digits_val b (b * acc + d) cs else None)"

definition unsigned_val :: "nat \<Rightarrow> string \<Rightarrow> nat option" where
  "unsigned_val b s = (if s = [] then None else digits_val b 0 s)"

text \<open>
  \<open>new(big.Int).SetString(s, b)\<close> for \<open>b = 10\<close> and \<open>b = 16\<close>: an optional sign,
  then digits to the end of the string.
\<close>

definition big_SetString :: "nat \<Rightarrow> string \<Rightarrow> int option" where
  "big_SetString b s =
     (case s of
        [] \<Rightarrow> None
      | c # cs \<Rightarrow>
          if c = CHR ''-'' then map_option (\<lambda>n. - int n) (unsigned_val b cs)
          else if c = CHR ''+'' then map_option int (unsigned_val b cs)
          else map_option int (unsigned_val b s))"

lemma digits_val_append:
  "digits_val b acc (xs @ ys) =
     (case digits_val b acc xs of None \<Rightarrow> None | Some v \<Rightarrow> digits_val b v ys)"
  by (induction xs arbitrary: acc) (auto split: option.splits)

lemma digits_val_nat_digits:
  "2 \<le> b \<Longrightarrow> b \<le> 16 \<Longrightarrow> digits_val b 0 (nat_digits b n) = Some n"
proof (induction b n rule: nat_digits.induct)
  case (1 b n)
  show ?case
  proof (cases "n < b")
    case True
    with "1.prems" show ?thesis by (simp add: nat_digits.simps [of b n])
  next
    case False
    with "1.IH" "1.prems" have IH: "digits_val b 0 (nat_digits b (n div b)) = Some (n div b)"
      by simp
    have "n mod b < b" using "1.prems" by simp
    with "1.prems" have "n mod b < 16" by linarith
    with False "1.prems" IH show ?thesis
      by (simp add: nat_digits.simps [of b n] digits_val_append)
  qed
qed

lemma nat_digits_not_Nil [simp]: "nat_digits b n \<noteq> []"
  by (subst nat_digits.simps) simp

lemma hex_digit_not_sign: "n < 16 \<Longrightarrow> hex_digit n \<noteq> CHR ''-'' \<and> hex_digit n \<noteq> CHR ''+''"
  by (drule hex_digit_all [of "\<lambda>(k, d). d \<noteq> CHR ''-'' \<and> d \<noteq> CHR ''+''", rotated])
     (simp_all add: upt_rec hex_digit_def)

lemma hd_nat_digits:
  "2 \<le> b \<Longrightarrow> b \<le> 16 \<Longrightarrow> hd (nat_digits b n) \<noteq> CHR ''-'' \<and> hd (nat_digits b n) \<noteq> CHR ''+''"
proof (induction b n rule: nat_digits.induct)
  case (1 b n)
  show ?case
  proof (cases "n < b")
    case True
    with "1.prems" have "n < 16" by linarith
    with True show ?thesis by (simp add: nat_digits.simps [of b n] hex_digit_not_sign)
  next
    case False
    with "1" show ?thesis by (simp add: nat_digits.simps [of b n] hd_append)
  qed
qed

lemma big_SetString_digits:
  "2 \<le> b \<Longrightarrow> b \<le> 16 \<Longrightarrow> big_SetString b (nat_digits b n) = Some (int n)"
proof -
  assume b: "2 \<le> b" "b \<le> 16"
  obtain c cs where s: "nat_digits b n = c # cs"
    by (cases "nat_digits b n") auto
  with hd_nat_digits [OF b, of n] have "c \<noteq> CHR ''-''" "c \<noteq> CHR ''+''" by auto
  with s digits_val_nat_digits [OF b, of n] show ?thesis
    by (simp add: big_SetString_def unsigned_val_def)
qed

lemma big_SetString_String [simp]: "big_SetString 10 (big_String i) = Some i"
proof (cases "i < 0")
  case True
  then show ?thesis
    using digits_val_nat_digits [of 10 "nat (- i)"]
    by (simp add: big_String_def big_SetString_def unsigned_val_def)
next
  case False
  then show ?thesis by (simp add: big_String_def big_SetString_digits)
qed

lemma big_String_inject [simp]: "big_String i = big_String j \<longleftrightarrow> i = j"
  by (metis big_SetString_String option.inject)

text \<open>\<open>strconv.Atoi\<close> on a 64-bit platform.\<close>

definition Atoi :: "string \<Rightarrow> int result" where
  "Atoi s =
     (case big_SetString 10 s of
        None \<Rightarrow> Inl (ErrLib ''strconv.Atoi: invalid syntax'')
      | Some i \<Rightarrow>
          if - (2 ^ 63) \<le> i \<and> i < 2 ^ 63 then Inr i
          else Inl (ErrLib ''strconv.Atoi: value out of range''))"

definition ParseBool :: "string \<Rightarrow> bool result" where
  "ParseBool s =
     (if s \<in> {''1'', ''t'', ''T'', ''TRUE'', ''true'', ''True''} then Inr True
      else if s \<in> {''0'', ''f'', ''F'', ''FALSE'', ''false'', ''False''} then Inr False
      else Inl (ErrLib ''strconv.ParseBool: invalid syntax''))"

end
