(* ===== verification/PeerQueue.thy ===== *)
theory PeerQueue
  imports GoStd
begin

text \<open>
  \<open>utils/tss/peerManager.go\<close>: the peer manager that every TSS actor owns. It holds
  the identifiers of the peers, the queue of outgoing messages and the function that
  handles incoming ones. The type \<open>'m\<close> is the protobuf message type of the TSS
  library, \<open>'e\<close> the state of the library's engine that the handling function
  updates; \<open>marshal\<close> is \<open>proto.Marshal\<close>.
\<close>

subsection \<open>Data\<close>

text \<open>
  The dynamic value of a Go \<open>interface{}\<close> field: nil, a protobuf message, a string,
  or a value of any other type (printed text only).
\<close>

datatype 'm payload = PNil | PProto 'm | PStr string | POther string

record 'm tss_msg =
  PeerID :: string
  Msg :: "'m payload"

definition empty_msg :: "'m tss_msg" where
  "empty_msg = \<lparr>PeerID = [], Msg = PNil\<rparr>"

record ('m, 'e) PeerManager =
  pm_id :: string
  pm_peers :: "string \<rightharpoonup> bool"
  pm_handle :: "('e \<Rightarrow> 'm \<Rightarrow> unit result \<times> 'e) option"
  pm_out :: "'m tss_msg list"

subsection \<open>Operations\<close>

definition NewPeerManager :: "string \<Rightarrow> ('m, 'e) PeerManager" where
  "NewPeerManager self = \<lparr>pm_id = self, pm_peers = Map.empty, pm_handle = None, pm_out = []\<rparr>"

definition NumPeers :: "('m, 'e) PeerManager \<Rightarrow> 32 word" where
  "NumPeers p = of_nat (card (dom (pm_peers p)))"

definition SelfID :: "('m, 'e) PeerManager \<Rightarrow> string" where
  "SelfID p = pm_id p"

text \<open>\<open>PeerIDs\<close> ranges over a map, whose order Go leaves open: any enumeration of the keys.\<close>

definition PeerIDs :: "('m, 'e) PeerManager \<Rightarrow> string list \<Rightarrow> bool" where
  "PeerIDs p ids \<longleftrightarrow> distinct ids \<and> set ids = dom (pm_peers p)"

definition MustSend ::
  "('m, 'e) PeerManager \<Rightarrow> string \<Rightarrow> 'm payload \<Rightarrow> ('m, 'e) PeerManager" where
  "MustSend p peerID message =
     p\<lparr>pm_out := pm_out p @ [\<lparr>PeerID = peerID, Msg = message\<rparr>]\<rparr>"

definition AddPeer :: "('m, 'e) PeerManager \<Rightarrow> string \<Rightarrow> ('m, 'e) PeerManager" where
  "AddPeer p peerID = p\<lparr>pm_peers := (pm_peers p)(peerID \<mapsto> True)\<rparr>"

definition err_no_message :: go_error where
  "err_no_message = ErrNew ''no message to be sent''"

text \<open>The payload as \<open>%v\<close> prints it; a protobuf message is not printed here.\<close>

fun payload_text :: "'m payload \<Rightarrow> string" where
  "payload_text PNil = ''<nil>''"
| "payload_text (PStr s) = s"
| "payload_text (POther s) = s"
| "payload_text (PProto m) = []"

definition err_invalid_proto :: "string \<Rightarrow> 'm payload \<Rightarrow> go_error" where
  "err_invalid_proto peerID message =
     ErrNew (''invalid proto message for '' @ peerID @ '' : '' @ payload_text message)"

definition GetNextMessageToSendAll ::
  "('m \<Rightarrow> bytes result) \<Rightarrow> ('m, 'e) PeerManager
     \<Rightarrow> 'm tss_msg result \<times> ('m, 'e) PeerManager" where
  "GetNextMessageToSendAll marshal p =
     (case pm_out p of
        [] \<Rightarrow> (Inl err_no_message, p)
      | ret # rest \<Rightarrow>
          (case Msg ret of
             PProto msg \<Rightarrow>
               (case marshal msg of
                  Inl err \<Rightarrow> (Inl err, p)
                | Inr bs \<Rightarrow> (Inr (ret\<lparr>Msg := PStr (hex_encode bs)\<rparr>), p\<lparr>pm_out := rest\<rparr>))
           | _ \<Rightarrow> (Inl (err_invalid_proto (PeerID ret) (Msg ret)), p)))"

text \<open>
  The loop of \<open>GetNextMessageToSendPeer\<close>: \<open>nextMsg\<close> and \<open>newOutwardMessages\<close>
  are the accumulators, an error returns at once and leaves the queue as it was.
\<close>

fun next_peer_loop ::
  "('m \<Rightarrow> bytes result) \<Rightarrow> string \<Rightarrow> 'm tss_msg \<Rightarrow> 'm tss_msg list \<Rightarrow> 'm tss_msg list
     \<Rightarrow> ('m tss_msg \<times> 'm tss_msg list) result" where
  "next_peer_loop marshal peerID nextMsg newOut [] = Inr (nextMsg, newOut)"
| "next_peer_loop marshal peerID nextMsg newOut (el # els) =
     (if PeerID el = peerID \<and> length (PeerID nextMsg) = 0 then
        (case Msg el of
           PProto msg \<Rightarrow>
             (case marshal msg of
                Inl err \<Rightarrow> Inl err
              | Inr bs \<Rightarrow>
                  next_peer_loop marshal peerID
                    \<lparr>PeerID = PeerID el, Msg = PStr (hex_encode bs)\<rparr> newOut els)
         | _ \<Rightarrow> Inl (err_invalid_proto peerID (Msg el)))
      else next_peer_loop marshal peerID nextMsg (newOut @ [el]) els)"

definition GetNextMessageToSendPeer ::
  "('m \<Rightarrow> bytes result) \<Rightarrow> string \<Rightarrow> ('m, 'e) PeerManager
     \<Rightarrow> 'm tss_msg result \<times> ('m, 'e) PeerManager" where
  "GetNextMessageToSendPeer marshal peerID p =
     (case next_peer_loop marshal peerID empty_msg [] (pm_out p) of
        Inl err \<Rightarrow> (Inl err, p)
      | Inr (nextMsg, newOut) \<Rightarrow> (Inr nextMsg, p\<lparr>pm_out := newOut\<rparr>))"

text \<open>
  The older variant on raw bytes. The slice \<open>nextMsg\<close> starts as nil (\<open>None\<close>); the
  test is on its length, so a message that marshals to no bytes counts as none yet.
\<close>

fun next_raw_loop ::
  "('m \<Rightarrow> bytes result) \<Rightarrow> string \<Rightarrow> bytes option \<Rightarrow> 'm tss_msg list \<Rightarrow> 'm tss_msg list
     \<Rightarrow> (bytes option \<times> 'm tss_msg list) result" where
  "next_raw_loop marshal peerID nextMsg newOut [] = Inr (nextMsg, newOut)"
| "next_raw_loop marshal peerID nextMsg newOut (el # els) =
     (if PeerID el = peerID \<and> (nextMsg = None \<or> nextMsg = Some []) then
        (case Msg el of
           PProto msg \<Rightarrow>
             (case marshal msg of
                Inl err \<Rightarrow> Inl err
              | Inr bs \<Rightarrow> next_raw_loop marshal peerID (Some bs) newOut els)
         | _ \<Rightarrow> Inl (ErrNew ''invalid proto message''))
      else next_raw_loop marshal peerID nextMsg (newOut @ [el]) els)"

definition GetNextMessageToSend ::
  "('m \<Rightarrow> bytes result) \<Rightarrow> string \<Rightarrow> ('m, 'e) PeerManager
     \<Rightarrow> bytes option result \<times> ('m, 'e) PeerManager" where
  "GetNextMessageToSend marshal peerID p =
     (case next_raw_loop marshal peerID None [] (pm_out p) of
        Inl err \<Rightarrow> (Inl err, p)
      | Inr (nextMsg, newOut) \<Rightarrow> (Inr nextMsg, p\<lparr>pm_out := newOut\<rparr>))"

definition RegisterHandleMessage ::
  "('m, 'e) PeerManager \<Rightarrow> ('e \<Rightarrow> 'm \<Rightarrow> unit result \<times> 'e) \<Rightarrow> ('m, 'e) PeerManager" where
  "RegisterHandleMessage p handleFunc = p\<lparr>pm_handle := Some handleFunc\<rparr>"

text \<open>Calling the registered function; a call of the nil function panics.\<close>

definition HandleMessage ::
  "('m, 'e) PeerManager \<Rightarrow> 'e \<Rightarrow> 'm \<Rightarrow> (unit result \<times> 'e) go" where
  "HandleMessage p e msg =
     (case pm_handle p of
        None \<Rightarrow> Panic ''call of nil function''
      | Some f \<Rightarrow> Ret (f e msg))"

subsection \<open>What the loops compute\<close>

lemma MustSend_simps [simp]:
  "pm_out (MustSend p q m) = pm_out p @ [\<lparr>PeerID = q, Msg = m\<rparr>]"
  "pm_peers (MustSend p q m) = pm_peers p"
  "pm_handle (MustSend p q m) = pm_handle p"
  "pm_id (MustSend p q m) = pm_id p"
  by (simp_all add: MustSend_def)

text \<open>The message that the queue yields for an element, once marshalled.\<close>

definition sent_form :: "('m \<Rightarrow> bytes result) \<Rightarrow> 'm tss_msg \<Rightarrow> 'm tss_msg result" where
  "sent_form marshal el =
     (case Msg el of
        PProto msg \<Rightarrow>
          (case marshal msg of
             Inl err \<Rightarrow> Inl err
           | Inr bs \<Rightarrow> Inr \<lparr>PeerID = PeerID el, Msg = PStr (hex_encode bs)\<rparr>)
      | _ \<Rightarrow> Inl (err_invalid_proto (PeerID el) (Msg el)))"

lemma next_peer_loop_taken:
  "PeerID nxt \<noteq> [] \<Longrightarrow> next_peer_loop marshal q nxt acc els = Inr (nxt, acc @ els)"
  by (induction els arbitrary: acc) auto

lemma next_peer_loop_eq:
  "q \<noteq> [] \<Longrightarrow> PeerID nxt = [] \<Longrightarrow>
     next_peer_loop marshal q nxt acc els =
       (case find (\<lambda>el. PeerID el = q) els of
          None \<Rightarrow> Inr (nxt, acc @ els)
        | Some el \<Rightarrow>
            (case sent_form marshal el of
               Inl err \<Rightarrow> Inl err
             | Inr m \<Rightarrow> Inr (m, acc @ remove_first (\<lambda>el. PeerID el = q) els)))"
proof (induction els arbitrary: acc)
  case Nil
  then show ?case by simp
next
  case (Cons el els)
  show ?case
  proof (cases "PeerID el = q")
    case True
    with Cons.prems show ?thesis
      by (auto simp: sent_form_def next_peer_loop_taken split: payload.splits sum.splits)
  next
    case False
    with Cons.prems Cons.IH [of "acc @ [el]"] show ?thesis
      by (simp split: option.split sum.split)
  qed
qed

lemma next_peer_loop_empty_id:
  "(\<And>el. el \<in> set els \<Longrightarrow> PeerID el = [] \<Longrightarrow> sent_form marshal el = Inr (f el)) \<Longrightarrow>
   PeerID nxt = [] \<Longrightarrow>
     next_peer_loop marshal [] nxt acc els =
       Inr (last (nxt # map f (filter (\<lambda>el. PeerID el = []) els)),
            acc @ filter (\<lambda>el. PeerID el \<noteq> []) els)"
proof (induction els arbitrary: nxt acc)
  case Nil
  then show ?case by simp
next
  case (Cons el els)
  show ?case
  proof (cases "PeerID el = []")
    case True
    then have sf: "sent_form marshal el = Inr (f el)" using Cons.prems(1) by simp
    then obtain msg bs where m: "Msg el = PProto msg" "marshal msg = Inr bs"
        and fe: "f el = \<lparr>PeerID = PeerID el, Msg = PStr (hex_encode bs)\<rparr>"
      by (auto simp: sent_form_def split: payload.splits sum.splits)
    have "next_peer_loop marshal [] (f el) acc els =
        Inr (last (f el # map f (filter (\<lambda>el. PeerID el = []) els)),
             acc @ filter (\<lambda>el. PeerID el \<noteq> []) els)"
      using Cons.prems fe True by (intro Cons.IH) auto
    then show ?thesis using True m fe Cons.prems(2) by simp
  next
    case False
    have "next_peer_loop marshal [] nxt (acc @ [el]) els =
        Inr (last (nxt # map f (filter (\<lambda>el. PeerID el = []) els)),
             (acc @ [el]) @ filter (\<lambda>el. PeerID el \<noteq> []) els)"
      using Cons.prems by (intro Cons.IH) auto
    then show ?thesis using False by simp
  qed
qed

lemma next_raw_loop_taken:
  "bs \<noteq> [] \<Longrightarrow> next_raw_loop marshal q (Some bs) acc els = Inr (Some bs, acc @ els)"
  by (induction els arbitrary: acc) auto

lemma next_raw_loop_no_match:
  "\<forall>el \<in> set els. PeerID el \<noteq> q \<Longrightarrow> next_raw_loop marshal q nxt acc els = Inr (nxt, acc @ els)"
  by (induction els arbitrary: acc) auto

text \<open>Messages for other peers keep their place, whatever the requested identifier is.\<close>

lemma next_peer_loop_frame:
  "next_peer_loop marshal q nxt acc els = Inr (n, out) \<Longrightarrow> p \<noteq> q \<Longrightarrow>
     filter (\<lambda>el. PeerID el = p) out =
       filter (\<lambda>el. PeerID el = p) acc @ filter (\<lambda>el. PeerID el = p) els"
  by (induction els arbitrary: nxt acc) (fastforce split: if_splits payload.splits sum.splits)+

definition waiting :: "('m, 'e) PeerManager \<Rightarrow> string \<Rightarrow> 'm tss_msg list" where
  "waiting p peerID = filter (\<lambda>el. PeerID el = peerID) (pm_out p)"

lemma waiting_MustSend:
  "waiting (MustSend p q m) r = (if r = q then waiting p q @ [\<lparr>PeerID = q, Msg = m\<rparr>] else waiting p r)"
  by (simp add: waiting_def)

lemma GetNextMessageToSendPeer_eq:
  "q \<noteq> [] \<Longrightarrow>
     GetNextMessageToSendPeer marshal q p =
       (case waiting p q of
          [] \<Rightarrow> (Inr empty_msg, p)
        | el # _ \<Rightarrow>
            (case sent_form marshal el of
               Inl err \<Rightarrow> (Inl err, p)
             | Inr m \<Rightarrow> (Inr m, p\<lparr>pm_out := remove_first (\<lambda>el. PeerID el = q) (pm_out p)\<rparr>)))"
  by (auto simp: GetNextMessageToSendPeer_def next_peer_loop_eq empty_msg_def find_hd_filter
        waiting_def split: list.splits sum.splits)

lemma GetNextMessageToSendPeer_frame:
  "r \<noteq> q \<Longrightarrow> waiting (snd (GetNextMessageToSendPeer marshal q p)) r = waiting p r"
  by (auto simp: GetNextMessageToSendPeer_def waiting_def dest: next_peer_loop_frame
        split: sum.splits prod.splits)

subsection \<open>The outbox interface\<close>

text \<open>
  What the users of a peer manager rely on: a queue per peer, in the order of the sends.
  \<open>wire\<close> is the form in which a queued message leaves the queue.
\<close>

datatype 'm outbox_op = Push string "'m payload" | Pop string

fun run_outbox ::
  "('q \<Rightarrow> string \<Rightarrow> 'm payload \<Rightarrow> 'q) \<Rightarrow> (string \<Rightarrow> 'q \<Rightarrow> 'm tss_msg result \<times> 'q)
     \<Rightarrow> 'm outbox_op list \<Rightarrow> 'q \<Rightarrow> (string \<times> 'm tss_msg result) list \<times> 'q" where
  "run_outbox push pop [] q = ([], q)"
| "run_outbox push pop (Push p m # ops) q = run_outbox push pop ops (push q p m)"
| "run_outbox push pop (Pop p # ops) q =
     (let (r, q1) = pop p q; (log, q2) = run_outbox push pop ops q1 in ((p, r) # log, q2))"

fun delivered :: "string \<Rightarrow> (string \<times> 'm tss_msg result) list \<Rightarrow> 'm tss_msg list" where
  "delivered p [] = []"
| "delivered p ((p', r) # log) =
     (case r of
        Inl err \<Rightarrow> delivered p log
      | Inr m \<Rightarrow> if p' = p \<and> PeerID m \<noteq> [] then m # delivered p log else delivered p log)"

fun pushed :: "string \<Rightarrow> 'm outbox_op list \<Rightarrow> 'm tss_msg list" where
  "pushed p [] = []"
| "pushed p (Push p' m # ops) =
     (if p' = p then \<lparr>PeerID = p, Msg = m\<rparr> # pushed p ops else pushed p ops)"
| "pushed p (Pop p' # ops) = pushed p ops"

locale peer_outbox =
  fixes push :: "'q \<Rightarrow> string \<Rightarrow> 'm payload \<Rightarrow> 'q"
    and pop :: "string \<Rightarrow> 'q \<Rightarrow> 'm tss_msg result \<times> 'q"
    and wait_for :: "'q \<Rightarrow> string \<Rightarrow> 'm tss_msg list"
    and wire :: "'m tss_msg \<Rightarrow> 'm tss_msg result"
  assumes wait_push:
      "wait_for (push q p m) r =
         (if r = p then wait_for q p @ [\<lparr>PeerID = p, Msg = m\<rparr>] else wait_for q r)"
    and wait_id: "x \<in> set (wait_for q p) \<Longrightarrow> PeerID x = p"
    and wire_id: "wire x = Inr y \<Longrightarrow> PeerID y = PeerID x"
    and pop_none: "p \<noteq> [] \<Longrightarrow> wait_for q p = [] \<Longrightarrow> pop p q = (Inr empty_msg, q)"
    and pop_some:
      "p \<noteq> [] \<Longrightarrow> wait_for q p = x # xs \<Longrightarrow> wire x = Inr y \<Longrightarrow>
         fst (pop p q) = Inr y \<and> wait_for (snd (pop p q)) p = xs"
    and pop_fail:
      "p \<noteq> [] \<Longrightarrow> wait_for q p = x # xs \<Longrightarrow> wire x = Inl e \<Longrightarrow> pop p q = (Inl e, q)"
    and pop_frame: "r \<noteq> p \<Longrightarrow> wait_for (snd (pop p q)) r = wait_for q r"
begin

text \<open>One pop delivers the head of the peer's queue, or nothing and keeps the queue.\<close>

lemma pop_conserves:
  assumes "p \<noteq> []"
  shows "map Inr (delivered p [(p, fst (pop p q))]) @ map wire (wait_for (snd (pop p q)) p) =
           map wire (wait_for q p)"
proof (cases "wait_for q p")
  case Nil
  with assms show ?thesis by (simp add: pop_none empty_msg_def)
next
  case (Cons x xs)
  show ?thesis
  proof (cases "wire x")
    case (Inl e)
    with assms Cons show ?thesis by (simp add: pop_fail)
  next
    case (Inr m)
    have "PeerID m = p" using wire_id [OF Inr] wait_id [of x q p] Cons by simp
    with assms pop_some [OF assms Cons Inr] Cons Inr show ?thesis by simp
  qed
qed

text \<open>
  Any interleaving of sends and receives: what was delivered for a peer, followed by what
  still waits for it, is what waited before followed by what was sent, in order.
\<close>

lemma run_conserves:
  assumes "p \<noteq> []"
  shows "run_outbox push pop ops q = (log, q') \<Longrightarrow>
           map Inr (delivered p log) @ map wire (wait_for q' p) =
             map wire (wait_for q p @ pushed p ops)"
proof (induction ops arbitrary: q log)
  case Nil
  then show ?case by simp
next
  case (Cons op ops)
  show ?case
  proof (cases op)
    case (Push r m)
    with Cons.prems have "run_outbox push pop ops (push q r m) = (log, q')" by simp
    from Cons.IH [OF this] Push show ?thesis by (simp add: wait_push)
  next
    case (Pop r)
    obtain log' where run: "run_outbox push pop ops (snd (pop r q)) = (log', q')"
        and log: "log = (r, fst (pop r q)) # log'"
      using Cons.prems Pop by (auto split: prod.splits)
    note IH = Cons.IH [OF run]
    show ?thesis
    proof (cases "r = p")
      case True
      have "delivered p log = delivered p [(p, fst (pop p q))] @ delivered p log'"
        using log True by (auto split: sum.splits)
      with IH pop_conserves [OF assms, of q] True Pop show ?thesis
        by (metis append.assoc map_append pushed.simps(3))
    next
      case False
      then have "delivered p log = delivered p log'" using log by (auto split: sum.splits)
      with IH False Pop show ?thesis by (simp add: pop_frame)
    qed
  qed
qed

end

interpretation pm_outbox:
  peer_outbox MustSend "GetNextMessageToSendPeer marshal" waiting "sent_form marshal"
  for marshal :: "'m \<Rightarrow> bytes result"
proof unfold_locales
  fix q :: "('m, 'e) PeerManager" and p x xs m
  assume "p \<noteq> []" "waiting q p = x # xs" "sent_form marshal x = Inr m"
  moreover from this have "xs = filter (\<lambda>el. PeerID el = p) (remove_first (\<lambda>el. PeerID el = p) (pm_out q))"
    by (simp add: filter_remove_first waiting_def)
  ultimately show "fst (GetNextMessageToSendPeer marshal p q) = Inr m \<and>
      waiting (snd (GetNextMessageToSendPeer marshal p q)) p = xs"
    by (simp add: GetNextMessageToSendPeer_eq waiting_def)
next
  show "r \<noteq> p \<Longrightarrow> waiting (snd (GetNextMessageToSendPeer marshal p q)) r = waiting q r"
    for r p and q :: "('m, 'e) PeerManager"
    by (rule GetNextMessageToSendPeer_frame)
next
  show "sent_form marshal x = Inr y \<Longrightarrow> PeerID y = PeerID x" for x y
    by (auto simp: sent_form_def split: payload.splits sum.splits)
next
  show "x \<in> set (waiting q p) \<Longrightarrow> PeerID x = p" for x p and q :: "('m, 'e) PeerManager"
    by (simp add: waiting_def)
qed (simp_all add: waiting_MustSend GetNextMessageToSendPeer_eq)

subsection \<open>Properties\<close>

end
