(* ===== verification/TssData.thy ===== *)
theory TssData
  imports PeerQueue "HOL-Library.Finite_Map"
begin

text \<open>
  The wallet data of \<open>utils/tss/tssManager.go\<close> and \<open>serviceSigner.go\<close>: public keys,
  Birkhoff parameters, DKG results, their conversions between the text form that is stored
  and the numeric form that the TSS library works on, and the merge of two results.
  Go maps are finite maps.
\<close>

subsection \<open>Library code the wallet data depends on\<close>

text \<open>
  Functions of packages that are not in the repository: the elliptic curve points of
  \<open>getamis/alice\<close>, the secp256k1 curve of \<open>decred\<close>, legacy Keccak-256 and
  go-ethereum's \<open>common.Address\<close>. They are parameters, collected in one record; \<open>'pt\<close>
  is the type of curve points. \<open>RecoverCompact\<close> gives the uncompressed form of the
  recovered key; the Birkhoff functions take nil pointers too, hence the options.
  \<open>ecdsa_pub\<close> is \<open>ecdsa.PublicKey\<close>, whose coordinates are pointers, and \<open>BkParameter\<close>
  the pair that the library's constructor takes and its getters return.
\<close>

record ecdsa_pub =
  ec_X :: "int option"
  ec_Y :: "int option"

record BkParameter =
  bp_x :: int
  bp_rank :: "32 word"

record 'pt curve_lib =
  NewECPoint :: "int \<Rightarrow> int \<Rightarrow> 'pt result"
  GetX :: "'pt \<Rightarrow> int"
  GetY :: "'pt \<Rightarrow> int"
  BaseMult :: "int \<Rightarrow> 'pt"
  PointEqual :: "'pt \<Rightarrow> 'pt \<Rightarrow> bool"
  CurveOrder :: int
  IsOnCurve :: "int \<Rightarrow> int \<Rightarrow> bool"
  KeccakSum :: "bytes \<Rightarrow> bytes"
  BytesToAddress :: "bytes \<Rightarrow> bytes"
  AddressHex :: "bytes \<Rightarrow> string"
  RecoverCompact :: "bytes \<Rightarrow> bytes \<Rightarrow> bytes result"
  EcdsaVerify :: "ecdsa_pub \<Rightarrow> bytes \<Rightarrow> int option \<Rightarrow> int option \<Rightarrow> bool"
  EnsureThreshold :: "32 word \<Rightarrow> 32 word \<Rightarrow> unit result"
  CheckValid :: "32 word \<Rightarrow> int \<Rightarrow> BkParameter option list \<Rightarrow> unit result go"
  ComputeBkCoefficient :: "32 word \<Rightarrow> int \<Rightarrow> BkParameter option list \<Rightarrow> int list result go"

text \<open>Documented behaviour of these functions, used as a hypothesis where it matters.\<close>

definition point_coords_ok :: "'pt curve_lib \<Rightarrow> 'pt \<Rightarrow> bool" where
  "point_coords_ok lib P = (NewECPoint lib (GetX lib P) (GetY lib P) = Inr P)"

subsection \<open>Data\<close>

definition serverID :: string where
  "serverID = ''server''"

definition rank0 :: "32 word" where
  "rank0 = 0"

definition threshold2 :: "32 word" where
  "threshold2 = 2"

record PubkeyStr =
  ps_X :: string
  ps_Y :: string

record Pubkey =
  pk_X :: int
  pk_Y :: int

record BK =
  bk_X :: string
  bk_Rank :: "32 word"

type_synonym BKs = "(string, BK) fmap"

record DkgResult =
  dr_Pubkey :: PubkeyStr
  dr_BKs :: BKs
  dr_Share :: string
  dr_Address :: string
  dr_PeerID :: string

record 'pt ProcessResult =
  pr_PublicKey :: 'pt
  pr_Share :: int
  pr_Bks :: "(string, BkParameter) fmap"
  pr_PeerID :: string

text \<open>\<open>dkg.Result\<close> of the library, which \<open>ConvertDKGResult\<close> builds.\<close>

record 'pt lib_result =
  lr_PublicKey :: 'pt
  lr_Share :: int
  lr_Bks :: "(string, BkParameter) fmap"

subsection \<open>Big-endian bytes\<close>

fun be_bytes :: "nat \<Rightarrow> nat \<Rightarrow> bytes" where
  "be_bytes 0 n = []"
| "be_bytes (Suc k) n = be_bytes k (n div 256) @ [char_of (n mod 256)]"

fun be_val :: "bytes \<Rightarrow> nat" where
  "be_val [] = 0"
| "be_val (c # cs) = of_char c * 256 ^ length cs + be_val cs"

lemma length_be_bytes [simp]: "length (be_bytes k n) = k"
  by (induction k n rule: be_bytes.induct) auto

lemma be_val_append: "be_val (xs @ ys) = be_val xs * 256 ^ length ys + be_val ys"
  by (induction xs) (auto simp: algebra_simps power_add)

lemma be_val_bytes: "n < 256 ^ k \<Longrightarrow> be_val (be_bytes k n) = n"
proof (induction k n rule: be_bytes.induct)
  case (1 n)
  then show ?case by simp
next
  case (2 k n)
  then have "n div 256 < 256 ^ k" by (simp add: less_mult_imp_div_less mult.commute)
  with "2.IH" show ?case by (simp add: be_val_append)
qed

text \<open>\<open>big.Int.BitLen\<close> rounded up to bytes, and \<open>FillBytes\<close> into a slice of \<open>k\<close> bytes.\<close>

fun byte_len :: "nat \<Rightarrow> nat" where
  "byte_len n = (if n = 0 then 0 else Suc (byte_len (n div 256)))"

declare byte_len.simps [simp del]

lemma byte_len_0 [simp]: "byte_len 0 = 0"
  by (simp add: byte_len.simps)

lemma byte_len_bound: "n < 256 ^ byte_len n"
proof (induction n rule: byte_len.induct)
  case (1 n)
  show ?case
  proof (cases "n = 0")
    case True
    then show ?thesis by simp
  next
    case False
    with "1.IH" have "n div 256 < 256 ^ byte_len (n div 256)" by simp
    then have "n < 256 ^ byte_len (n div 256) * 256"
      by (simp add: div_less_iff_less_mult)
    with False show ?thesis by (simp add: byte_len.simps [of n] mult.commute)
  qed
qed

lemma byte_len_eq_0 [simp]: "byte_len n = 0 \<longleftrightarrow> n = 0"
  by (subst byte_len.simps) simp

definition FillBytes :: "nat \<Rightarrow> int \<Rightarrow> bytes go" where
  "FillBytes k x =
     (if nat \<bar>x\<bar> < 256 ^ k then Ret (be_bytes k (nat \<bar>x\<bar>))
      else Panic ''math/big: buffer too small to fit value'')"

subsection \<open>Keys and addresses\<close>

definition NewPubkey :: "PubkeyStr \<Rightarrow> Pubkey result" where
  "NewPubkey k =
     (case big_SetString 10 (ps_X k) of
        None \<Rightarrow> Inl (ErrNew ''invalid hex for X'')
      | Some X \<Rightarrow>
          (case big_SetString 10 (ps_Y k) of
             None \<Rightarrow> Inl (ErrNew ''invalid hex for Y'')
           | Some Y \<Rightarrow> Inr \<lparr>pk_X = X, pk_Y = Y\<rparr>))"

definition GetStr :: "Pubkey \<Rightarrow> PubkeyStr" where
  "GetStr k = \<lparr>ps_X = big_String (pk_X k), ps_Y = big_String (pk_Y k)\<rparr>"

definition GetECDSA :: "Pubkey \<Rightarrow> ecdsa_pub" where
  "GetECDSA k = \<lparr>ec_X = Some (pk_X k), ec_Y = Some (pk_Y k)\<rparr>"

definition GetECPoint :: "'pt curve_lib \<Rightarrow> Pubkey \<Rightarrow> 'pt result" where
  "GetECPoint lib k = NewECPoint lib (pk_X k) (pk_Y k)"

definition Keccak256 :: "'pt curve_lib \<Rightarrow> bytes list \<Rightarrow> bytes" where
  "Keccak256 lib data = KeccakSum lib (concat data)"

text \<open>
  \<open>elliptic.Marshal\<close> on a 256-bit curve: it panics for a point off the curve, else gives
  the byte 4 and the two coordinates on 32 bytes each.
\<close>

definition ec_Marshal :: "'pt curve_lib \<Rightarrow> int \<Rightarrow> int \<Rightarrow> bytes go" where
  "ec_Marshal lib x y =
     (if \<not> IsOnCurve lib x y then Panic ''crypto/elliptic: attempted operation on invalid point''
      else
        (case FillBytes 32 x of
           Panic m \<Rightarrow> Panic m
         | Ret xb \<Rightarrow>
             (case FillBytes 32 y of
                Panic m \<Rightarrow> Panic m
              | Ret yb \<Rightarrow> Ret (char_of (4::nat) # xb @ yb))))"

definition FromECDSAPub :: "'pt curve_lib \<Rightarrow> ecdsa_pub option \<Rightarrow> bytes option go" where
  "FromECDSAPub lib pub =
     (case pub of
        None \<Rightarrow> Ret None
      | Some k \<Rightarrow>
          (case (ec_X k, ec_Y k) of
             (Some x, Some y) \<Rightarrow>
               (case ec_Marshal lib x y of Panic m \<Rightarrow> Panic m | Ret bs \<Rightarrow> Ret (Some bs))
           | _ \<Rightarrow> Ret None))"

text \<open>Slicing \<open>bs[1:]\<close> panics on a nil or empty slice.\<close>

definition slice_from_1 :: "bytes option \<Rightarrow> bytes go" where
  "slice_from_1 bs =
     (case bs of
        Some (c # cs) \<Rightarrow> Ret cs
      | _ \<Rightarrow> Panic ''slice bounds out of range'')"

definition PubkeyToAddress :: "'pt curve_lib \<Rightarrow> ecdsa_pub \<Rightarrow> bytes go" where
  "PubkeyToAddress lib p =
     (case FromECDSAPub lib (Some p) of
        Panic m \<Rightarrow> Panic m
      | Ret pubBytes \<Rightarrow>
          (case slice_from_1 pubBytes of
             Panic m \<Rightarrow> Panic m
           | Ret bs \<Rightarrow> Ret (BytesToAddress lib (drop 12 (Keccak256 lib [bs])))))"

definition pubKeyAddr :: "'pt curve_lib \<Rightarrow> bytes \<Rightarrow> bytes go" where
  "pubKeyAddr lib bs =
     (case slice_from_1 (Some bs) of
        Panic m \<Rightarrow> Panic m
      | Ret cs \<Rightarrow> Ret (take 20 (drop 12 (Keccak256 lib [cs]))))"

definition GetAddress :: "'pt curve_lib \<Rightarrow> Pubkey \<Rightarrow> bytes go" where
  "GetAddress lib k = PubkeyToAddress lib (GetECDSA k)"

definition GetBytes :: "'pt curve_lib \<Rightarrow> Pubkey \<Rightarrow> bytes option go" where
  "GetBytes lib k = FromECDSAPub lib (Some (GetECDSA k))"

subsection \<open>Results\<close>

definition bk_text :: "BkParameter \<Rightarrow> BK" where
  "bk_text bk = \<lparr>bk_X = big_String (bp_x bk), bk_Rank = bp_rank bk\<rparr>"

definition PostProcessResult ::
  "'pt curve_lib \<Rightarrow> 'pt ProcessResult \<Rightarrow> DkgResult result go" where
  "PostProcessResult lib r =
     (let pubkey = \<lparr>pk_X = GetX lib (pr_PublicKey r), pk_Y = GetY lib (pr_PublicKey r)\<rparr> in
      case GetAddress lib pubkey of
        Panic m \<Rightarrow> Panic m
      | Ret addr \<Rightarrow>
          Ret (Inr \<lparr>dr_Pubkey = GetStr pubkey,
                    dr_BKs = fmmap bk_text (pr_Bks r),
                    dr_Share = big_String (pr_Share r),
                    dr_Address = AddressHex lib addr,
                    dr_PeerID = pr_PeerID r\<rparr>))"

definition MergeDkgResults :: "DkgResult \<Rightarrow> DkgResult \<Rightarrow> DkgResult option" where
  "MergeDkgResults first second =
     (if dr_Address first \<noteq> dr_Address second \<or> dr_PeerID first \<noteq> dr_PeerID second
         \<or> dr_Share first \<noteq> dr_Share second
         \<or> ps_X (dr_Pubkey first) \<noteq> ps_X (dr_Pubkey second)
         \<or> ps_Y (dr_Pubkey first) \<noteq> ps_Y (dr_Pubkey second)
      then None
      else
        Some \<lparr>dr_Pubkey = dr_Pubkey first,
              dr_BKs = fmadd (fmadd fmempty (dr_BKs first)) (dr_BKs second),
              dr_Share = dr_Share first,
              dr_Address = dr_Address first,
              dr_PeerID = dr_PeerID first\<rparr>)"

definition bk_param :: "BK \<Rightarrow> BkParameter option" where
  "bk_param bk =
     map_option (\<lambda>x. \<lparr>bp_x = x, bp_rank = bk_Rank bk\<rparr>) (big_SetString 10 (bk_X bk))"

text \<open>
  \<open>ConvertDKGResult\<close>: the loop over the map stops at the first entry that does not parse;
  the error is the same for every entry, so the order of the map does not matter.
\<close>

definition ConvertDKGResult ::
  "'pt curve_lib \<Rightarrow> Pubkey \<Rightarrow> string \<Rightarrow> BKs \<Rightarrow> 'pt lib_result result" where
  "ConvertDKGResult lib k cfgShare cfgBKs =
     (case GetECPoint lib k of
        Inl err \<Rightarrow> Inl err
      | Inr pubkey \<Rightarrow>
          (case big_SetString 10 cfgShare of
             None \<Rightarrow> Inl ErrConversion
           | Some share \<Rightarrow>
               if fmpred (\<lambda>peerID bk. bk_param bk \<noteq> None) cfgBKs
               then Inr \<lparr>lr_PublicKey = pubkey, lr_Share = share,
                         lr_Bks = fmmap (\<lambda>bk. the (bk_param bk)) cfgBKs\<rparr>
               else Inl ErrConversion))"

text \<open>The entries of the server and of one client, as the signer and adder constructors keep them.\<close>

definition party_BKs :: "string \<Rightarrow> BKs \<Rightarrow> BKs" where
  "party_BKs clientPeerID bks = fmfilter (\<lambda>key. key = serverID \<or> key = clientPeerID) bks"

subsection \<open>Lemmas\<close>

lemma bk_param_text [simp]: "bk_param (bk_text bk) = Some bk"
  by (simp add: bk_param_def bk_text_def)

lemma NewPubkey_GetStr [simp]: "NewPubkey (GetStr k) = Inr k"
  by (simp add: NewPubkey_def GetStr_def)

lemma fmlookup_party_BKs:
  "fmlookup (party_BKs c bks) p =
     (if p = serverID \<or> p = c then fmlookup bks p else None)"
  by (simp add: party_BKs_def)

lemma ConvertDKGResult_text:
  "ConvertDKGResult lib k (big_String s) (fmmap bk_text bks) =
     (case GetECPoint lib k of
        Inl err \<Rightarrow> Inl err
      | Inr pt \<Rightarrow> Inr \<lparr>lr_PublicKey = pt, lr_Share = s, lr_Bks = bks\<rparr>)"
proof -
  have "fmpred (\<lambda>peerID bk. bk_param bk \<noteq> None) (fmmap bk_text bks)"
    by (auto simp: fmpred_iff)
  moreover have "fmmap (\<lambda>bk. the (bk_param bk)) (fmmap bk_text bks) = bks"
    by (rule fmap_ext) (simp add: option.map_comp comp_def option.map_ident)
  ultimately show ?thesis
    by (simp add: ConvertDKGResult_def split: sum.split)
qed

lemma ConvertDKGResult_lookup:
  "ConvertDKGResult lib k s bks = Inr r \<Longrightarrow>
     fmlookup (lr_Bks r) p = Option.bind (fmlookup bks p) bk_param"
  by (cases "fmlookup bks p")
     (auto simp: ConvertDKGResult_def fmpred_iff split: sum.splits option.splits if_splits)

lemma MergeDkgResults_Some_iff:
  "MergeDkgResults a b = Some m \<longleftrightarrow>
     dr_Address a = dr_Address b \<and> dr_PeerID a = dr_PeerID b \<and> dr_Share a = dr_Share b \<and>
     dr_Pubkey a = dr_Pubkey b \<and> m = a\<lparr>dr_BKs := fmadd (dr_BKs a) (dr_BKs b)\<rparr>"
proof -
  have "fmadd (fmadd fmempty (dr_BKs a)) (dr_BKs b) = fmadd (dr_BKs a) (dr_BKs b)"
    by (rule fmap_ext) simp
  then show ?thesis
    by (auto simp: MergeDkgResults_def intro: PubkeyStr.equality DkgResult.equality)
qed

end
