(* ===== verification/Signatures.thy ===== *)
theory Signatures
  imports TssData
begin

text \<open>
  The signature utilities of \<open>utils/tss/tssManager.go\<close> (low-S form, the 65-byte
  Ethereum signature with its recovery identifier) and \<open>PostProcess\<close> of
  \<open>utils/tss/serviceSigner.go\<close>, which turns the library's result into a signature.
\<close>

subsection \<open>Low S\<close>

definition IsLowS :: "int \<Rightarrow> int \<Rightarrow> bool" where
  "IsLowS N s = (\<not> (s > N div 2))"

text \<open>
  \<open>ToLowS\<close> updates \<open>*s\<close> in place (\<open>s.Sub\<close>) and returns the same pointer: the value
  below is both the result and the new content of the caller's \<open>s\<close>.
\<close>

definition ToLowS :: "int \<Rightarrow> int \<Rightarrow> int" where
  "ToLowS N s = (if \<not> IsLowS N s then N - s else s)"

definition secp256k1SignatureToLowS :: "int \<Rightarrow> int \<Rightarrow> int \<Rightarrow> int \<times> int" where
  "secp256k1SignatureToLowS N r s = (r, ToLowS N s)"

lemma ToLowS_low: "0 < N \<Longrightarrow> s < N \<Longrightarrow> ToLowS N s \<le> N div 2"
  by (auto simp: ToLowS_def IsLowS_def)

lemma ToLowS_pos: "0 < s \<Longrightarrow> s < N \<Longrightarrow> 0 < ToLowS N s"
  by (auto simp: ToLowS_def)

lemma ToLowS_idem: "s < N \<Longrightarrow> 0 < N \<Longrightarrow> ToLowS N (ToLowS N s) = ToLowS N s"
  by (auto simp: ToLowS_def IsLowS_def)

lemma ToLowS_cases: "ToLowS N s = s \<or> ToLowS N s = N - s"
  by (simp add: ToLowS_def)

lemma ToLowS_mirror: "odd N \<Longrightarrow> 0 < s \<Longrightarrow> s < N \<Longrightarrow> ToLowS N (N - s) = ToLowS N s"
  by (auto simp: ToLowS_def IsLowS_def elim!: oddE)

subsection \<open>The Ethereum signature\<close>

text \<open>Writing a slice into an array at an offset.\<close>

definition splice :: "nat \<Rightarrow> bytes \<Rightarrow> bytes \<Rightarrow> bytes" where
  "splice i bs arr = take i arr @ bs @ drop (i + length bs) arr"

text \<open>
  The search for the recovery identifier: the header byte is overwritten in every round,
  a failed recovery is remembered in \<open>recoverErr\<close> and the loop goes on, a match writes
  the last byte and leaves the loop.
\<close>

fun recover_loop ::
  "'pt curve_lib \<Rightarrow> Pubkey \<Rightarrow> bytes \<Rightarrow> nat list \<Rightarrow> bytes \<Rightarrow> go_error option
     \<Rightarrow> (bytes \<times> go_error option) go" where
  "recover_loop lib pubkey msg [] sig recoverErr = Ret (sig, recoverErr)"
| "recover_loop lib pubkey msg (recoveryID # ids) sig recoverErr =
     (let sig1 = sig[0 := char_of (recoveryID + 27)]; btcsig = take 65 sig1 in
      case RecoverCompact lib btcsig msg of
        Inl err \<Rightarrow> recover_loop lib pubkey msg ids sig1 (Some err)
      | Inr pubKey \<Rightarrow>
          (case pubKeyAddr lib pubKey of
             Panic m \<Rightarrow> Panic m
           | Ret a \<Rightarrow>
               (case GetAddress lib pubkey of
                  Panic m \<Rightarrow> Panic m
                | Ret b \<Rightarrow>
                    if a = b then Ret (sig1[65 := char_of recoveryID], recoverErr)
                    else recover_loop lib pubkey msg ids sig1 recoverErr)))"

definition int_byte_len :: "int option \<Rightarrow> nat" where
  "int_byte_len x = (case x of None \<Rightarrow> 0 | Some i \<Rightarrow> byte_len (nat \<bar>i\<bar>))"

definition int_be :: "int option \<Rightarrow> bytes" where
  "int_be x = (case x of None \<Rightarrow> [] | Some i \<Rightarrow> be_bytes (byte_len (nat \<bar>i\<bar>)) (nat \<bar>i\<bar>))"

definition err_sig_size :: "nat \<Rightarrow> nat \<Rightarrow> go_error" where
  "err_sig_size rLen sLen =
     ErrNew (''google KMS asymmetric signature with '' @ nat_digits 10 rLen @ ''-byte r and ''
             @ nat_digits 10 sLen @ ''-byte s denied on size'')"

definition err_not_verified :: go_error where
  "err_not_verified = ErrNew ''signature does not ECDSA verify''"

definition GenerateSignature ::
  "'pt curve_lib \<Rightarrow> int option \<Rightarrow> int option \<Rightarrow> Pubkey \<Rightarrow> bytes \<Rightarrow> bytes result go" where
  "GenerateSignature lib r s pubkey msg =
     (let rLen = int_byte_len r; sLen = int_byte_len s in
      if rLen = 0 \<or> rLen > 32 \<or> sLen = 0 \<or> sLen > 32 then Ret (Inl (err_sig_size rLen sLen))
      else
        (let sig0 = replicate 66 (char_of (0::nat));
             sig1 = splice (33 - rLen) (int_be r) sig0;
             sig2 = splice (65 - sLen) (int_be s) sig1 in
         case recover_loop lib pubkey msg [0, 1] sig2 None of
           Panic m \<Rightarrow> Panic m
         | Ret (sig, recoverErr) \<Rightarrow>
             (case recoverErr of
                Some err \<Rightarrow> Ret (Inl err)
              | None \<Rightarrow>
                  if EcdsaVerify lib (GetECDSA pubkey) msg r s then Ret (Inr (drop 1 sig))
                  else Ret (Inl err_not_verified))))"

subsection \<open>PostProcess\<close>

record Signature =
  sg_R :: int
  sg_S :: int
  sg_Signature :: bytes

record sign_result =
  sr_R :: int
  sr_S :: int

text \<open>
  \<open>PostProcess\<close> of the signing service. The second component is the library's result
  afterwards: \<open>ToLowS\<close> has overwritten its \<open>S\<close>, also when the signature is refused.
\<close>

definition SignerPostProcess ::
  "'pt curve_lib \<Rightarrow> Pubkey \<Rightarrow> bytes \<Rightarrow> sign_result \<Rightarrow> Signature result go \<times> sign_result" where
  "SignerPostProcess lib pubkey message result =
     (case secp256k1SignatureToLowS (CurveOrder lib) (sr_R result) (sr_S result) of
        (newR, newS) \<Rightarrow>
          (case GenerateSignature lib (Some newR) (Some newS) pubkey message of
             Panic m \<Rightarrow> Panic m
           | Ret (Inl err) \<Rightarrow> Ret (Inl err)
           | Ret (Inr signature) \<Rightarrow>
               Ret (Inr \<lparr>sg_R = newR, sg_S = newS, sg_Signature = signature\<rparr>),
           result\<lparr>sr_S := newS\<rparr>))"

subsection \<open>Lemmas\<close>

lemma be_bytes_zero: "be_bytes k 0 = replicate k (char_of (0::nat))"
  by (induction k) (auto simp: replicate_append_same)

lemma be_bytes_pad:
  "n < 256 ^ k \<Longrightarrow> be_bytes (j + k) n = replicate j (char_of (0::nat)) @ be_bytes k n"
proof (induction k arbitrary: n)
  case 0
  then show ?case by (simp add: be_bytes_zero)
next
  case (Suc k)
  then have "n div 256 < 256 ^ k" by (simp add: less_mult_imp_div_less mult.commute)
  from Suc.IH [OF this] show ?case by simp
qed

lemma pad_be:
  "byte_len n \<le> 32 \<Longrightarrow>
     replicate (32 - byte_len n) (char_of (0::nat)) @ be_bytes (byte_len n) n = be_bytes 32 n"
  using be_bytes_pad [OF byte_len_bound, of "32 - byte_len n" n] by simp

text \<open>The array before the search: a zero byte, \<open>r\<close> and \<open>s\<close> on 32 bytes each, a zero byte.\<close>

definition sig_body :: "int \<Rightarrow> int \<Rightarrow> bytes" where
  "sig_body r s = be_bytes 32 (nat \<bar>r\<bar>) @ be_bytes 32 (nat \<bar>s\<bar>)"

lemma length_sig_body [simp]: "length (sig_body r s) = 64"
  by (simp add: sig_body_def)

lemma spliced:
  assumes "byte_len (nat \<bar>r\<bar>) \<le> 32" and "byte_len (nat \<bar>s\<bar>) \<le> 32"
  shows "splice (65 - byte_len (nat \<bar>s\<bar>)) (int_be (Some s))
           (splice (33 - byte_len (nat \<bar>r\<bar>)) (int_be (Some r)) (replicate 66 (char_of (0::nat)))) =
         char_of (0::nat) # sig_body r s @ [char_of (0::nat)]"
proof -
  let ?z = "char_of (0::nat) :: char"
  let ?R = "be_bytes 32 (nat \<bar>r\<bar>)" and ?S = "be_bytes 32 (nat \<bar>s\<bar>)"
  define i where "i = 32 - byte_len (nat \<bar>r\<bar>)"
  define j where "j = 32 - byte_len (nat \<bar>s\<bar>)"
  have i: "33 - byte_len (nat \<bar>r\<bar>) = Suc i" "Suc i + byte_len (nat \<bar>r\<bar>) = 33"
    and j: "65 - byte_len (nat \<bar>s\<bar>) = 33 + j" "33 + j + byte_len (nat \<bar>s\<bar>) = 65" "j \<le> 32"
    using assms unfolding i_def j_def by arith+
  have "i \<le> 32" by (simp add: i_def)
  have "splice (Suc i) (int_be (Some r)) (replicate 66 ?z) =
      ?z # (replicate i ?z @ be_bytes (byte_len (nat \<bar>r\<bar>)) (nat \<bar>r\<bar>)) @ replicate 33 ?z"
    using i \<open>i \<le> 32\<close> by (simp add: splice_def int_be_def min_def)
  also have "replicate i ?z @ be_bytes (byte_len (nat \<bar>r\<bar>)) (nat \<bar>r\<bar>) = ?R"
    unfolding i_def using assms(1) by (rule pad_be)
  finally have one: "splice (Suc i) (int_be (Some r)) (replicate 66 ?z) = ?z # ?R @ replicate 33 ?z" .
  have "splice (33 + j) (int_be (Some s)) (?z # ?R @ replicate 33 ?z) =
      ?z # ?R @ (replicate j ?z @ be_bytes (byte_len (nat \<bar>s\<bar>)) (nat \<bar>s\<bar>)) @ [?z]"
  proof -
    have Suc: "33 + j = Suc (32 + j)" by simp
    have t: "take (33 + j) (?z # ?R @ replicate 33 ?z) = ?z # ?R @ replicate j ?z"
      unfolding Suc take_Suc_Cons using j(3) by (simp add: min_def)
    have d: "drop (33 + j + byte_len (nat \<bar>s\<bar>)) (?z # ?R @ replicate 33 ?z) = [?z]"
      by (simp add: j(2))
    show ?thesis
      unfolding splice_def int_be_def option.case length_be_bytes t d by simp
  qed
  also have "replicate j ?z @ be_bytes (byte_len (nat \<bar>s\<bar>)) (nat \<bar>s\<bar>) = ?S"
    unfolding j_def using assms(2) by (rule pad_be)
  finally show ?thesis using one by (simp add: i j sig_body_def)
qed

text \<open>What one recovery attempt says about an identifier.\<close>

definition recovered :: "'pt curve_lib \<Rightarrow> bytes \<Rightarrow> int \<Rightarrow> int \<Rightarrow> nat \<Rightarrow> bytes result" where
  "recovered lib msg r s v = RecoverCompact lib (char_of (v + 27) # sig_body r s) msg"

definition matches :: "'pt curve_lib \<Rightarrow> Pubkey \<Rightarrow> bytes \<Rightarrow> int \<Rightarrow> int \<Rightarrow> nat \<Rightarrow> bool" where
  "matches lib pubkey msg r s v =
     (case recovered lib msg r s v of
        Inl err \<Rightarrow> False
      | Inr pub \<Rightarrow>
          (case (pubKeyAddr lib pub, GetAddress lib pubkey) of
             (Ret a, Ret b) \<Rightarrow> a = b
           | _ \<Rightarrow> False))"

lemma recover_step:
  "recover_loop lib pubkey msg (v # ids) (h # sig_body r s @ [t]) e =
     (case recovered lib msg r s v of
        Inl err \<Rightarrow> recover_loop lib pubkey msg ids (char_of (v + 27) # sig_body r s @ [t]) (Some err)
      | Inr pub \<Rightarrow>
          (case pubKeyAddr lib pub of
             Panic m \<Rightarrow> Panic m
           | Ret a \<Rightarrow>
               (case GetAddress lib pubkey of
                  Panic m \<Rightarrow> Panic m
                | Ret b \<Rightarrow>
                    if a = b then Ret (char_of (v + 27) # sig_body r s @ [char_of v], e)
                    else recover_loop lib pubkey msg ids
                           (char_of (v + 27) # sig_body r s @ [t]) e)))"
  by (simp add: recovered_def Let_def list_update_append split: sum.split go.split)

declare recover_loop.simps(2) [simp del]

lemma recover_loop_sticky:
  "recover_loop lib pubkey msg ids (h # sig_body r s @ [t]) (Some e) = Ret (sig, err) \<Longrightarrow> err \<noteq> None"
  by (induction ids arbitrary: h e)
     (auto simp: recover_step split: sum.splits go.splits if_splits)

lemma GenerateSignature_sized:
  assumes "r \<noteq> 0" "s \<noteq> 0" "byte_len (nat \<bar>r\<bar>) \<le> 32" "byte_len (nat \<bar>s\<bar>) \<le> 32"
  shows "GenerateSignature lib (Some r) (Some s) pubkey msg =
     (case recover_loop lib pubkey msg [0, 1]
             (char_of (0::nat) # sig_body r s @ [char_of (0::nat)]) None of
        Panic m \<Rightarrow> Panic m
      | Ret (sig, Some err) \<Rightarrow> Ret (Inl err)
      | Ret (sig, None) \<Rightarrow>
          if EcdsaVerify lib (GetECDSA pubkey) msg (Some r) (Some s) then Ret (Inr (drop 1 sig))
          else Ret (Inl err_not_verified))"
  using assms spliced [of r s]
  by (simp add: GenerateSignature_def int_byte_len_def Let_def split: go.split option.split)

lemma GenerateSignature_sizes:
  "GenerateSignature lib (Some r) (Some s) pubkey msg = Ret (Inr sig) \<Longrightarrow>
     r \<noteq> 0 \<and> s \<noteq> 0 \<and> byte_len (nat \<bar>r\<bar>) \<le> 32 \<and> byte_len (nat \<bar>s\<bar>) \<le> 32"
  by (auto simp: GenerateSignature_def int_byte_len_def Let_def split: if_splits)

lemma recover_two_ok:
  assumes "recover_loop lib pubkey msg [0, 1] (h # sig_body r s @ [char_of (0::nat)]) None =
             Ret (sig, None)"
  shows "\<exists>h' v. sig = h' # sig_body r s @ [char_of v] \<and> (v = 0 \<or> v = (1::nat)) \<and>
           (matches lib pubkey msg r s 0 \<longrightarrow> v = 0) \<and>
           (v = 1 \<longrightarrow> matches lib pubkey msg r s 1) \<and>
           (matches lib pubkey msg r s 1 \<longrightarrow> v = 1 \<or> matches lib pubkey msg r s 0)"
  using assms recover_loop_sticky [of lib pubkey msg "[1]"]
  by (fastforce simp: recover_step matches_def split: sum.splits go.splits if_splits)

end
