(* ===== verification/TssServices.thy ===== *)
theory TssServices
  imports Signatures
begin

text \<open>
  The services that run one execution of the TSS library and listen to its state:
  \<open>utils/tss/serviceDkg.go\<close>, \<open>serviceSigner.go\<close> and the two services of
  \<open>serviceAdd.go\<close>. The library (\<open>getamis/alice\<close>) and protobuf are parameters; \<open>'e\<close> is the
  state of a running execution, \<open>'m\<close> the message type, \<open>'pl\<close> a Paillier key.
\<close>

subsection \<open>The TSS library\<close>

datatype msg_kind = DkgKind | SignKind | AddKind

datatype MainState = StateFailed | StateDone | StateOther

type_synonym pm_view = "string \<times> (string \<rightharpoonup> bool)"

record ('m, 'e, 'pt, 'pl) alice =
  ProtoMarshal :: "'m \<Rightarrow> bytes result"
  ProtoUnmarshal :: "msg_kind \<Rightarrow> bytes \<Rightarrow> 'm result"
  GetId :: "'m \<Rightarrow> string"
  AddMessage :: "'e \<Rightarrow> string \<Rightarrow> 'm \<Rightarrow> unit result \<times> 'e"
  NewDKG :: "pm_view \<Rightarrow> 32 word \<Rightarrow> 32 word \<Rightarrow> 'e result"
  NewPaillier :: "nat \<Rightarrow> 'pl result"
  NewSigner ::
    "pm_view \<Rightarrow> 'pt \<Rightarrow> 'pl \<Rightarrow> int \<Rightarrow> (string, BkParameter) fmap \<Rightarrow> bytes \<Rightarrow> 'e result"
  NewOldAddShare ::
    "pm_view \<Rightarrow> 'pt \<Rightarrow> 32 word \<Rightarrow> int \<Rightarrow> (string, BkParameter) fmap \<Rightarrow> string \<Rightarrow> 'e result"
  NewNewAddShare :: "pm_view \<Rightarrow> 'pt \<Rightarrow> 32 word \<Rightarrow> 32 word \<Rightarrow> 'e"

definition view_of :: "('m, 'e) PeerManager \<Rightarrow> pm_view" where
  "view_of pm = (pm_id pm, pm_peers pm)"

text \<open>Protobuf round trip, the documented behaviour that message relaying relies on.\<close>

definition proto_ok :: "('m, 'e, 'pt, 'pl) alice \<Rightarrow> msg_kind \<Rightarrow> 'm \<Rightarrow> bool" where
  "proto_ok al k m =
     (case ProtoMarshal al m of
        Inl err \<Rightarrow> False
      | Inr bs \<Rightarrow> ProtoUnmarshal al k bs = Inr m)"

text \<open>Closing a channel twice panics.\<close>

definition err_close_closed :: string where
  "err_close_closed = ''close of closed channel''"

text \<open>The function every constructor registers: \<open>service.Handle\<close>, that is \<open>AddMessage(msg.GetId(), msg)\<close>.\<close>

definition service_handle :: "('m, 'e, 'pt, 'pl) alice \<Rightarrow> 'e \<Rightarrow> 'm \<Rightarrow> unit result \<times> 'e" where
  "service_handle al e msg = AddMessage al e (GetId al msg) msg"

subsection \<open>serviceDkg\<close>

record ('m, 'e, 'pt) serviceDkg =
  dk_pm :: "('m, 'e) PeerManager option"
  dk_dkg :: "'e option"
  dk_threshold :: "32 word"
  dk_rank :: "32 word"
  dk_done :: bool
  dk_result :: "'pt lib_result option"

definition NewServiceDkg :: "32 word \<Rightarrow> 32 word \<Rightarrow> ('m, 'e, 'pt) serviceDkg" where
  "NewServiceDkg t r =
     \<lparr>dk_pm = None, dk_dkg = None, dk_threshold = t, dk_rank = r, dk_done = False, dk_result = None\<rparr>"

definition Dkg_Init ::
  "('m, 'e, 'pt, 'pl) alice \<Rightarrow> ('m, 'e) PeerManager \<Rightarrow> ('m, 'e, 'pt) serviceDkg
     \<Rightarrow> ('m, 'e, 'pt) serviceDkg result" where
  "Dkg_Init al pm p =
     (case NewDKG al (view_of pm) (dk_threshold p) (dk_rank p) of
        Inl err \<Rightarrow> Inl err
      | Inr d \<Rightarrow> Inr (p\<lparr>dk_pm := Some pm, dk_dkg := Some d\<rparr>))"

definition Dkg_close :: "('m, 'e, 'pt) serviceDkg \<Rightarrow> ('m, 'e, 'pt) serviceDkg go" where
  "Dkg_close p = (if dk_done p then Panic err_close_closed else Ret (p\<lparr>dk_done := True\<rparr>))"

text \<open>\<open>Process\<close> starts the library and waits on the channel \<open>done\<close>, here until it is closed.\<close>

definition Dkg_Process :: "('m, 'e, 'pt) serviceDkg \<Rightarrow> unit option" where
  [simp]: "Dkg_Process p = (if dk_done p then Some () else None)"

definition Dkg_OnStateChanged ::
  "'pt lib_result result \<Rightarrow> MainState \<Rightarrow> ('m, 'e, 'pt) serviceDkg
     \<Rightarrow> ('m, 'e, 'pt) serviceDkg go" where
  "Dkg_OnStateChanged getResult newState p =
     (if newState = StateFailed then Dkg_close p
      else if newState = StateDone then
        (case getResult of
           Inr r \<Rightarrow> Dkg_close (p\<lparr>dk_result := Some r\<rparr>)
         | Inl err \<Rightarrow> Dkg_close p)
      else Ret p)"

subsection \<open>serviceSigner\<close>

record ('m, 'e) serviceSigner =
  ss_pm :: "('m, 'e) PeerManager option"
  ss_signer :: "'e option"
  ss_pubkey :: Pubkey
  ss_share :: string
  ss_BKs :: BKs
  ss_message :: bytes
  ss_done :: bool
  ss_result :: "sign_result option"
  ss_err :: "go_error option"

definition NewServiceSigner :: "Pubkey \<Rightarrow> string \<Rightarrow> BKs \<Rightarrow> bytes \<Rightarrow> ('m, 'e) serviceSigner" where
  "NewServiceSigner pubkey share bks message =
     \<lparr>ss_pm = None, ss_signer = None, ss_pubkey = pubkey, ss_share = share, ss_BKs = bks,
      ss_message = message, ss_done = False, ss_result = None, ss_err = None\<rparr>"

definition Signer_Init ::
  "'pt curve_lib \<Rightarrow> ('m, 'e, 'pt, 'pl) alice \<Rightarrow> ('m, 'e) PeerManager \<Rightarrow> ('m, 'e) serviceSigner
     \<Rightarrow> ('m, 'e) serviceSigner result" where
  "Signer_Init lib al pm p =
     (case ConvertDKGResult lib (ss_pubkey p) (ss_share p) (ss_BKs p) of
        Inl err \<Rightarrow> Inl err
      | Inr dkgResult \<Rightarrow>
          (case NewPaillier al 2048 of
             Inl err \<Rightarrow> Inl err
           | Inr paillier \<Rightarrow>
               (case NewSigner al (view_of pm) (lr_PublicKey dkgResult) paillier
                       (lr_Share dkgResult) (lr_Bks dkgResult) (ss_message p) of
                  Inl err \<Rightarrow> Inl err
                | Inr signer \<Rightarrow> Inr (p\<lparr>ss_pm := Some pm, ss_signer := Some signer\<rparr>))))"

definition Signer_close :: "('m, 'e) serviceSigner \<Rightarrow> ('m, 'e) serviceSigner go" where
  "Signer_close p = (if ss_done p then Panic err_close_closed else Ret (p\<lparr>ss_done := True\<rparr>))"

definition ServiceSigner_Process :: "('m, 'e) serviceSigner \<Rightarrow> unit option" where
  [simp]: "ServiceSigner_Process p = (if ss_done p then Some () else None)"

definition ServiceSigner_Handle :: "('m, 'e, 'pt, 'pl) alice \<Rightarrow> 'e \<Rightarrow> 'm \<Rightarrow> unit result \<times> 'e" where
  [simp]: "ServiceSigner_Handle al = service_handle al"

definition Signer_OnStateChanged ::
  "sign_result result \<Rightarrow> MainState \<Rightarrow> ('m, 'e) serviceSigner \<Rightarrow> ('m, 'e) serviceSigner go" where
  "Signer_OnStateChanged getResult newState p =
     (if newState = StateFailed then
        Signer_close (p\<lparr>ss_err := Some (ErrNew ''signing failed'')\<rparr>)
      else if newState = StateDone then
        (case getResult of
           Inr r \<Rightarrow> Signer_close (p\<lparr>ss_result := Some r\<rparr>)
         | Inl err \<Rightarrow> Signer_close (p\<lparr>ss_err := Some err\<rparr>))
      else Ret p)"

subsection \<open>serviceAddExisting\<close>

record ('m, 'e, 'pt) serviceAddExisting =
  ax_pm :: "('m, 'e) PeerManager option"
  ax_adder :: "'e option"
  ax_pubkey :: Pubkey
  ax_share :: string
  ax_threshold :: "32 word"
  ax_newClientID :: string
  ax_BKs :: BKs
  ax_done :: bool
  ax_result :: "'pt lib_result option"
  ax_err :: "go_error option"

definition NewServiceAddExisting ::
  "Pubkey \<Rightarrow> string \<Rightarrow> 32 word \<Rightarrow> string \<Rightarrow> BKs \<Rightarrow> ('m, 'e, 'pt) serviceAddExisting" where
  "NewServiceAddExisting pubkey share t newClientID bks =
     \<lparr>ax_pm = None, ax_adder = None, ax_pubkey = pubkey, ax_share = share, ax_threshold = t,
      ax_newClientID = newClientID, ax_BKs = bks, ax_done = False, ax_result = None, ax_err = None\<rparr>"

definition AddExisting_Init ::
  "'pt curve_lib \<Rightarrow> ('m, 'e, 'pt, 'pl) alice \<Rightarrow> ('m, 'e) PeerManager
     \<Rightarrow> ('m, 'e, 'pt) serviceAddExisting \<Rightarrow> ('m, 'e, 'pt) serviceAddExisting result" where
  "AddExisting_Init lib al pm p =
     (case ConvertDKGResult lib (ax_pubkey p) (ax_share p) (ax_BKs p) of
        Inl err \<Rightarrow> Inl err
      | Inr dkgResult \<Rightarrow>
          (case NewOldAddShare al (view_of pm) (lr_PublicKey dkgResult) (ax_threshold p)
                  (lr_Share dkgResult) (lr_Bks dkgResult) (ax_newClientID p) of
             Inl err \<Rightarrow> Inl err
           | Inr a \<Rightarrow> Inr (p\<lparr>ax_pm := Some pm, ax_adder := Some a\<rparr>)))"

definition AddExisting_close ::
  "('m, 'e, 'pt) serviceAddExisting \<Rightarrow> ('m, 'e, 'pt) serviceAddExisting go" where
  "AddExisting_close p = (if ax_done p then Panic err_close_closed else Ret (p\<lparr>ax_done := True\<rparr>))"

definition AddExisting_Process :: "('m, 'e, 'pt) serviceAddExisting \<Rightarrow> unit option" where
  [simp]: "AddExisting_Process p = (if ax_done p then Some () else None)"

definition AddExisting_GetDoneChan :: "('m, 'e, 'pt) serviceAddExisting \<Rightarrow> bool" where
  [simp]: "AddExisting_GetDoneChan p = ax_done p"

definition AddExisting_Handle :: "('m, 'e, 'pt, 'pl) alice \<Rightarrow> 'e \<Rightarrow> 'm \<Rightarrow> unit result \<times> 'e" where
  [simp]: "AddExisting_Handle al = service_handle al"

definition AddExisting_OnStateChanged ::
  "'pt lib_result result \<Rightarrow> MainState \<Rightarrow> ('m, 'e, 'pt) serviceAddExisting
     \<Rightarrow> ('m, 'e, 'pt) serviceAddExisting go" where
  "AddExisting_OnStateChanged getResult newState p =
     (if newState = StateFailed then
        AddExisting_close (p\<lparr>ax_err := Some (ErrNew ''adding failed'')\<rparr>)
      else if newState = StateDone then
        (case getResult of
           Inr r \<Rightarrow> AddExisting_close (p\<lparr>ax_result := Some r\<rparr>)
         | Inl err \<Rightarrow> AddExisting_close (p\<lparr>ax_err := Some err\<rparr>))
      else Ret p)"

subsection \<open>serviceAddNew\<close>

record ('m, 'e, 'pt) serviceAddNew =
  an_pm :: "('m, 'e) PeerManager option"
  an_adder :: "'e option"
  an_pubkey :: Pubkey
  an_threshold :: "32 word"
  an_rank :: "32 word"
  an_BKs :: BKs
  an_done :: bool
  an_result :: "'pt lib_result option"
  an_err :: "go_error option"

definition NewServiceAddNew ::
  "Pubkey \<Rightarrow> 32 word \<Rightarrow> 32 word \<Rightarrow> BKs \<Rightarrow> ('m, 'e, 'pt) serviceAddNew" where
  "NewServiceAddNew pubkey t r bks =
     \<lparr>an_pm = None, an_adder = None, an_pubkey = pubkey, an_threshold = t, an_rank = r,
      an_BKs = bks, an_done = False, an_result = None, an_err = None\<rparr>"

definition AddNew_Init ::
  "'pt curve_lib \<Rightarrow> ('m, 'e, 'pt, 'pl) alice \<Rightarrow> ('m, 'e) PeerManager
     \<Rightarrow> ('m, 'e, 'pt) serviceAddNew \<Rightarrow> ('m, 'e, 'pt) serviceAddNew result" where
  "AddNew_Init lib al pm p =
     (case GetECPoint lib (an_pubkey p) of
        Inl err \<Rightarrow> Inl err
      | Inr pubkey \<Rightarrow>
          Inr (p\<lparr>an_pm := Some pm,
                 an_adder := Some (NewNewAddShare al (view_of pm) pubkey (an_threshold p) (an_rank p))\<rparr>))"

definition AddNew_close :: "('m, 'e, 'pt) serviceAddNew \<Rightarrow> ('m, 'e, 'pt) serviceAddNew go" where
  "AddNew_close p = (if an_done p then Panic err_close_closed else Ret (p\<lparr>an_done := True\<rparr>))"

definition AddNew_Process :: "('m, 'e, 'pt) serviceAddNew \<Rightarrow> unit option" where
  [simp]: "AddNew_Process p = (if an_done p then Some () else None)"

definition AddNew_GetDoneChan :: "('m, 'e, 'pt) serviceAddNew \<Rightarrow> bool" where
  [simp]: "AddNew_GetDoneChan p = an_done p"

definition AddNew_Handle :: "('m, 'e, 'pt, 'pl) alice \<Rightarrow> 'e \<Rightarrow> 'm \<Rightarrow> unit result \<times> 'e" where
  [simp]: "AddNew_Handle al = service_handle al"

definition AddNew_OnStateChanged ::
  "'pt lib_result result \<Rightarrow> MainState \<Rightarrow> ('m, 'e, 'pt) serviceAddNew
     \<Rightarrow> ('m, 'e, 'pt) serviceAddNew go" where
  "AddNew_OnStateChanged getResult newState p =
     (if newState = StateFailed then
        AddNew_close (p\<lparr>an_err := Some (ErrNew ''adding failed'')\<rparr>)
      else if newState = StateDone then
        (case getResult of
           Inr r \<Rightarrow> AddNew_close (p\<lparr>an_result := Some r\<rparr>)
         | Inl err \<Rightarrow> AddNew_close (p\<lparr>an_err := Some err\<rparr>))
      else Ret p)"

subsection \<open>The listener contract\<close>

text \<open>
  All four services listen to the library in the same way: nothing happens before a final
  state, a final state closes the \<open>done\<close> channel that \<open>Process\<close> waits on, a result is kept
  for \<open>StateDone\<close> only, and a second final state panics.
\<close>

definition final_state :: "MainState \<Rightarrow> bool" where
  "final_state st = (st = StateFailed \<or> st = StateDone)"

fun run_changes ::
  "('r result \<Rightarrow> MainState \<Rightarrow> 's \<Rightarrow> 's go) \<Rightarrow> ('r result \<times> MainState) list \<Rightarrow> 's \<Rightarrow> 's go" where
  "run_changes f [] s = Ret s"
| "run_changes f ((g, st) # chs) s =
     (case f g st s of Panic m \<Rightarrow> Panic m | Ret s' \<Rightarrow> run_changes f chs s')"

fun final_result :: "('r result \<times> MainState) list \<Rightarrow> 'r option" where
  "final_result [] = None"
| "final_result ((g, st) # chs) =
     (if st = StateDone then (case g of Inl err \<Rightarrow> None | Inr r \<Rightarrow> Some r)
      else if st = StateFailed then None else final_result chs)"

locale tss_listener =
  fixes on_change :: "'r result \<Rightarrow> MainState \<Rightarrow> 's \<Rightarrow> 's go"
    and finished :: "'s \<Rightarrow> bool"
    and outcome :: "'s \<Rightarrow> 'r option"
  assumes quiet: "\<not> final_state st \<Longrightarrow> on_change g st s = Ret s"
    and fails: "\<not> finished s \<Longrightarrow>
      \<exists>s'. on_change g StateFailed s = Ret s' \<and> finished s' \<and> outcome s' = outcome s"
    and ends: "\<not> finished s \<Longrightarrow>
      \<exists>s'. on_change g StateDone s = Ret s' \<and> finished s' \<and>
           outcome s' = (case g of Inl err \<Rightarrow> outcome s | Inr r \<Rightarrow> Some r)"
    and twice: "finished s \<Longrightarrow> final_state st \<Longrightarrow> panics (on_change g st s)"
begin

lemma run_finished:
  "finished s \<Longrightarrow> run_changes on_change chs s = Ret s' \<Longrightarrow>
     s' = s \<and> (\<forall>c \<in> set chs. \<not> final_state (snd c))"
proof (induction chs)
  case Nil
  then show ?case by simp
next
  case (Cons c chs)
  obtain g st where c: "c = (g, st)" by (cases c)
  show ?case
  proof (cases "final_state st")
    case True
    with Cons.prems c twice [of s st g] show ?thesis by (auto split: go.splits)
  next
    case False
    with Cons c show ?thesis by (simp add: quiet)
  qed
qed

text \<open>
  \<open>Process\<close> returns exactly when the library has reported a final state, reports at most
  one, and keeps the result of a successful end.
\<close>

lemma run_changes_outcome:
  "\<not> finished s \<Longrightarrow> outcome s = None \<Longrightarrow> run_changes on_change chs s = Ret s' \<Longrightarrow>
     (finished s' \<longleftrightarrow> (\<exists>c \<in> set chs. final_state (snd c))) \<and>
     length (filter (\<lambda>c. final_state (snd c)) chs) \<le> 1 \<and>
     outcome s' = final_result chs"
proof (induction chs)
  case Nil
  then show ?case by simp
next
  case (Cons c chs)
  obtain g st where c: "c = (g, st)" by (cases c)
  show ?case
  proof (cases "final_state st")
    case True
    then obtain s1 where s1: "on_change g st s = Ret s1" "finished s1" "outcome s1 = final_result [c]"
      using fails [OF Cons.prems(1), of g] ends [OF Cons.prems(1), of g] Cons.prems(2) c
      by (auto simp: final_state_def split: sum.splits)
    with Cons.prems(3) c have "run_changes on_change chs s1 = Ret s'" by simp
    from run_finished [OF s1(2) this] True s1 c show ?thesis
      by (auto simp: final_state_def filter_False split: sum.splits)
  next
    case False
    with Cons c show ?thesis by (auto simp: quiet final_state_def)
  qed
qed

text \<open>A library that reports at most one final state never makes the service panic.\<close>

lemma run_changes_total:
  "length (filter (\<lambda>c. final_state (snd c)) chs) \<le> (if finished s then 0 else 1) \<Longrightarrow>
     \<exists>s'. run_changes on_change chs s = Ret s'"
proof (induction chs arbitrary: s)
  case Nil
  then show ?case by simp
next
  case (Cons c chs)
  obtain g st where c: "c = (g, st)" by (cases c)
  show ?case
  proof (cases "final_state st")
    case True
    with Cons.prems c have nf: "\<not> finished s" by (auto split: if_splits)
    obtain s1 where s1: "on_change g st s = Ret s1" "finished s1"
      using True fails [OF nf, of g] ends [OF nf, of g] by (auto simp: final_state_def)
    have "length (filter (\<lambda>c. final_state (snd c)) chs) = 0"
      using Cons.prems True c nf by simp
    then have "\<exists>s'. run_changes on_change chs s1 = Ret s'"
      using s1(2) by (intro Cons.IH) simp
    with s1 c show ?thesis by simp
  next
    case False
    with Cons c show ?thesis by (simp add: quiet)
  qed
qed

end

lemmas close_defs = Dkg_close_def Signer_close_def AddExisting_close_def AddNew_close_def

lemmas change_defs =
  Dkg_OnStateChanged_def Signer_OnStateChanged_def
  AddExisting_OnStateChanged_def AddNew_OnStateChanged_def

interpretation dkg_listener: tss_listener Dkg_OnStateChanged dk_done dk_result
  by unfold_locales (auto simp: change_defs close_defs final_state_def split: sum.splits)

interpretation signer_listener: tss_listener Signer_OnStateChanged ss_done ss_result
  by unfold_locales (auto simp: change_defs close_defs final_state_def split: sum.splits)

interpretation old_listener: tss_listener AddExisting_OnStateChanged ax_done ax_result
  by unfold_locales (auto simp: change_defs close_defs final_state_def split: sum.splits)

interpretation new_listener: tss_listener AddNew_OnStateChanged an_done an_result
  by unfold_locales (auto simp: change_defs close_defs final_state_def split: sum.splits)

end
