(* ===== verification/TssActors.thy ===== *)
theory TssActors
  imports TssServices
begin

text \<open>
  The actors of the TSS processes: \<open>ServerDkg\<close>, \<open>ClientDkg\<close>, \<open>ServerSigner\<close> and
  \<open>ClientSigner\<close> of \<open>utils/tss/tssManager.go\<close>; \<open>ServerAdd\<close>, \<open>ExistingClientAdd\<close> and
  \<open>ClientAdd\<close> of \<open>utils/tss/serviceAdd.go\<close>. Each owns a service and its peer manager.
  \<open>Process\<close> blocks until the service's \<open>done\<close> channel is closed: \<open>None\<close> below.
\<close>

subsection \<open>Shared steps\<close>

definition err_nil :: string where
  "err_nil = ''invalid memory address or nil pointer dereference''"

text \<open>Decoding the payload of a \<open>tss.Message\<close>: a string of hexadecimal digits of a protobuf message.\<close>

definition decode_payload :: "('m, 'e, 'pt, 'pl) alice \<Rightarrow> msg_kind \<Rightarrow> 'm tss_msg \<Rightarrow> 'm result" where
  "decode_payload al k msg =
     (case Msg msg of
        PStr msgStr \<Rightarrow>
          (case hex_decode msgStr of
             Inl err \<Rightarrow> Inl err
           | Inr byteString \<Rightarrow> ProtoUnmarshal al k byteString)
      | _ \<Rightarrow> Inl (ErrNew ''msg was not a string''))"

text \<open>\<open>pm.HandleMessage\<close> on the pointers that the service holds.\<close>

definition deliver ::
  "('m, 'e) PeerManager option \<Rightarrow> 'e option \<Rightarrow> 'm \<Rightarrow> (unit result \<times> 'e) go" where
  "deliver pm engine m =
     (case (pm, engine) of
        (Some p, Some e) \<Rightarrow> HandleMessage p e m
      | _ \<Rightarrow> Panic err_nil)"

subsection \<open>DKG actors\<close>

record ('m, 'e, 'pt) ServerDkg =
  sd_service :: "('m, 'e, 'pt) serviceDkg"
  sd_clientPeerID :: string

definition NewServerDkg ::
  "('m, 'e, 'pt, 'pl) alice \<Rightarrow> string \<Rightarrow> ('m, 'e, 'pt) ServerDkg result" where
  "NewServerDkg al clientPeerID =
     (let service = NewServiceDkg threshold2 rank0;
          pm = AddPeer (NewPeerManager serverID) clientPeerID in
      case Dkg_Init al pm service of
        Inl err \<Rightarrow> Inl err
      | Inr s \<Rightarrow>
          Inr \<lparr>sd_service = s\<lparr>dk_pm := Some (RegisterHandleMessage pm (service_handle al))\<rparr>,
               sd_clientPeerID = clientPeerID\<rparr>)"

definition ServerDkg_Process ::
  "'pt curve_lib \<Rightarrow> ('m, 'e, 'pt) ServerDkg \<Rightarrow> DkgResult result go option" where
  "ServerDkg_Process lib p =
     (case Dkg_Process (sd_service p) of
        None \<Rightarrow> None
      | Some _ \<Rightarrow> Some
        (case dk_result (sd_service p) of
           None \<Rightarrow> Ret (Inl (ErrNew ''could not get ServerDkg dkg results''))
         | Some r \<Rightarrow>
             PostProcessResult lib
               \<lparr>pr_PublicKey = lr_PublicKey r, pr_Share = lr_Share r, pr_Bks = lr_Bks r,
                pr_PeerID = sd_clientPeerID p\<rparr>))"

definition ServerDkg_GetNextMessageToSend ::
  "('m, 'e, 'pt, 'pl) alice \<Rightarrow> ('m, 'e, 'pt) ServerDkg
     \<Rightarrow> ('m tss_msg result \<times> ('m, 'e, 'pt) ServerDkg) go" where
  "ServerDkg_GetNextMessageToSend al p =
     (case dk_pm (sd_service p) of
        None \<Rightarrow> Panic err_nil
      | Some pm \<Rightarrow>
          (case GetNextMessageToSendPeer (ProtoMarshal al) (sd_clientPeerID p) pm of
             (r, pm') \<Rightarrow> Ret (r, p\<lparr>sd_service := (sd_service p)\<lparr>dk_pm := Some pm'\<rparr>\<rparr>)))"

definition ServerDkg_HandleMessage ::
  "('m, 'e, 'pt, 'pl) alice \<Rightarrow> ('m, 'e, 'pt) ServerDkg option \<Rightarrow> 'm tss_msg
     \<Rightarrow> (unit result \<times> ('m, 'e, 'pt) ServerDkg option) go" where
  "ServerDkg_HandleMessage al ptr msg =
     (case decode_payload al DkgKind msg of
        Inl err \<Rightarrow> Ret (Inl err, ptr)
      | Inr dkgMsg \<Rightarrow>
          (case ptr of
             None \<Rightarrow> Panic err_nil
           | Some p \<Rightarrow>
               (case deliver (dk_pm (sd_service p)) (dk_dkg (sd_service p)) dkgMsg of
                  Panic m \<Rightarrow> Panic m
                | Ret (r, e) \<Rightarrow>
                    Ret (r, Some (p\<lparr>sd_service := (sd_service p)\<lparr>dk_dkg := Some e\<rparr>\<rparr>)))))"

record ('m, 'e, 'pt) ClientDkg =
  cd_service :: "('m, 'e, 'pt) serviceDkg"
  cd_clientPeerID :: string

definition NewClientDkg ::
  "('m, 'e, 'pt, 'pl) alice \<Rightarrow> string \<Rightarrow> ('m, 'e, 'pt) ClientDkg result" where
  "NewClientDkg al clientPeerID =
     (let service = NewServiceDkg threshold2 rank0;
          pm = AddPeer (NewPeerManager clientPeerID) serverID in
      case Dkg_Init al pm service of
        Inl err \<Rightarrow> Inl err
      | Inr s \<Rightarrow>
          Inr \<lparr>cd_service = s\<lparr>dk_pm := Some (RegisterHandleMessage pm (service_handle al))\<rparr>,
               cd_clientPeerID = clientPeerID\<rparr>)"

definition ClientDkg_Process ::
  "'pt curve_lib \<Rightarrow> ('m, 'e, 'pt) ClientDkg \<Rightarrow> DkgResult result go option" where
  "ClientDkg_Process lib p =
     (case Dkg_Process (cd_service p) of
        None \<Rightarrow> None
      | Some _ \<Rightarrow> Some
        (case dk_result (cd_service p) of
           None \<Rightarrow> Ret (Inl (ErrNew ''could not get client dkg results''))
         | Some r \<Rightarrow>
             PostProcessResult lib
               \<lparr>pr_PublicKey = lr_PublicKey r, pr_Share = lr_Share r, pr_Bks = lr_Bks r,
                pr_PeerID = cd_clientPeerID p\<rparr>))"

definition ClientDkg_GetNextMessageToSend ::
  "('m, 'e, 'pt, 'pl) alice \<Rightarrow> ('m, 'e, 'pt) ClientDkg
     \<Rightarrow> ('m tss_msg result \<times> ('m, 'e, 'pt) ClientDkg) go" where
  "ClientDkg_GetNextMessageToSend al p =
     (case dk_pm (cd_service p) of
        None \<Rightarrow> Panic err_nil
      | Some pm \<Rightarrow>
          (case GetNextMessageToSendPeer (ProtoMarshal al) serverID pm of
             (r, pm') \<Rightarrow> Ret (r, p\<lparr>cd_service := (cd_service p)\<lparr>dk_pm := Some pm'\<rparr>\<rparr>)))"

definition ClientDkg_HandleMessage ::
  "('m, 'e, 'pt, 'pl) alice \<Rightarrow> ('m, 'e, 'pt) ClientDkg \<Rightarrow> 'm tss_msg
     \<Rightarrow> (unit result \<times> ('m, 'e, 'pt) ClientDkg) go" where
  "ClientDkg_HandleMessage al p msg =
     (case decode_payload al DkgKind msg of
        Inl err \<Rightarrow> Ret (Inl err, p)
      | Inr dkgMsg \<Rightarrow>
          (case deliver (dk_pm (cd_service p)) (dk_dkg (cd_service p)) dkgMsg of
             Panic m \<Rightarrow> Panic m
           | Ret (r, e) \<Rightarrow> Ret (r, p\<lparr>cd_service := (cd_service p)\<lparr>dk_dkg := Some e\<rparr>\<rparr>)))"

subsection \<open>Signers\<close>

record ('m, 'e) ServerSigner =
  sv_service :: "('m, 'e) serviceSigner"
  sv_clientPeerID :: string

definition NewServerSigner ::
  "'pt curve_lib \<Rightarrow> ('m, 'e, 'pt, 'pl) alice \<Rightarrow> string \<Rightarrow> PubkeyStr \<Rightarrow> string \<Rightarrow> BKs \<Rightarrow> bytes
     \<Rightarrow> ('m, 'e) ServerSigner result" where
  "NewServerSigner lib al clientPeerID pubkeyStr share bks message =
     (case NewPubkey pubkeyStr of
        Inl err \<Rightarrow> Inl err
      | Inr pubkey \<Rightarrow>
          (let newBKs = party_BKs clientPeerID bks;
               service = NewServiceSigner pubkey share newBKs message;
               pm = AddPeer (NewPeerManager serverID) clientPeerID in
           case Signer_Init lib al pm service of
             Inl err \<Rightarrow> Inl err
           | Inr s \<Rightarrow>
               Inr \<lparr>sv_service = s\<lparr>ss_pm := Some (RegisterHandleMessage pm (ServiceSigner_Handle al))\<rparr>,
                    sv_clientPeerID = clientPeerID\<rparr>))"

text \<open>\<open>Process\<close> post-processes in place: the result of the library is updated by \<open>ToLowS\<close>.\<close>

definition Signer_Process ::
  "string \<Rightarrow> 'pt curve_lib \<Rightarrow> ('m, 'e) serviceSigner
     \<Rightarrow> (Signature result go \<times> ('m, 'e) serviceSigner) option" where
  "Signer_Process what lib s =
     (case ServiceSigner_Process s of
        None \<Rightarrow> None
      | Some _ \<Rightarrow> Some
        (case ss_result s of
           None \<Rightarrow> (Ret (Inl (ErrNew (''could not get '' @ what @ '' signer results''))), s)
         | Some r \<Rightarrow>
             (case SignerPostProcess lib (ss_pubkey s) (ss_message s) r of
                (sig, r') \<Rightarrow> (sig, s\<lparr>ss_result := Some r'\<rparr>))))"

definition ServerSigner_Process ::
  "'pt curve_lib \<Rightarrow> ('m, 'e) ServerSigner \<Rightarrow> (Signature result go \<times> ('m, 'e) ServerSigner) option" where
  "ServerSigner_Process lib p =
     map_option (\<lambda>(r, s). (r, p\<lparr>sv_service := s\<rparr>)) (Signer_Process ''server'' lib (sv_service p))"

definition Signer_GetNext ::
  "('m, 'e, 'pt, 'pl) alice \<Rightarrow> string \<Rightarrow> ('m, 'e) serviceSigner
     \<Rightarrow> (bytes option result \<times> ('m, 'e) serviceSigner) go" where
  "Signer_GetNext al peerID s =
     (case ss_pm s of
        None \<Rightarrow> Panic err_nil
      | Some pm \<Rightarrow>
          (case GetNextMessageToSend (ProtoMarshal al) peerID pm of
             (r, pm') \<Rightarrow> Ret (r, s\<lparr>ss_pm := Some pm'\<rparr>)))"

definition Signer_Handle ::
  "('m, 'e) serviceSigner \<Rightarrow> 'm \<Rightarrow> (unit result \<times> ('m, 'e) serviceSigner) go" where
  "Signer_Handle s msg =
     (case deliver (ss_pm s) (ss_signer s) msg of
        Panic m \<Rightarrow> Panic m
      | Ret (r, e) \<Rightarrow> Ret (r, s\<lparr>ss_signer := Some e\<rparr>))"

definition ServerSigner_GetNextMessageToSend ::
  "('m, 'e, 'pt, 'pl) alice \<Rightarrow> ('m, 'e) ServerSigner
     \<Rightarrow> (bytes option result \<times> ('m, 'e) ServerSigner) go" where
  "ServerSigner_GetNextMessageToSend al p =
     (case Signer_GetNext al (sv_clientPeerID p) (sv_service p) of
        Panic m \<Rightarrow> Panic m
      | Ret (r, s) \<Rightarrow> Ret (r, p\<lparr>sv_service := s\<rparr>))"

definition ServerSigner_HandleMessage ::
  "('m, 'e) ServerSigner \<Rightarrow> 'm \<Rightarrow> (unit result \<times> ('m, 'e) ServerSigner) go" where
  "ServerSigner_HandleMessage p msg =
     (case Signer_Handle (sv_service p) msg of
        Panic m \<Rightarrow> Panic m
      | Ret (r, s) \<Rightarrow> Ret (r, p\<lparr>sv_service := s\<rparr>))"

record ('m, 'e) ClientSigner =
  cs_service :: "('m, 'e) serviceSigner"

definition NewClientSigner ::
  "'pt curve_lib \<Rightarrow> ('m, 'e, 'pt, 'pl) alice \<Rightarrow> string \<Rightarrow> PubkeyStr \<Rightarrow> string \<Rightarrow> BKs \<Rightarrow> bytes
     \<Rightarrow> ('m, 'e) ClientSigner result" where
  "NewClientSigner lib al clientPeerID pubkeyStr share bks message =
     (case NewPubkey pubkeyStr of
        Inl err \<Rightarrow> Inl err
      | Inr pubkey \<Rightarrow>
          (let newBKs = party_BKs clientPeerID bks;
               service = NewServiceSigner pubkey share newBKs message;
               pm = AddPeer (NewPeerManager clientPeerID) serverID in
           case Signer_Init lib al pm service of
             Inl err \<Rightarrow> Inl err
           | Inr s \<Rightarrow>
               Inr \<lparr>cs_service = s\<lparr>ss_pm := Some (RegisterHandleMessage pm (ServiceSigner_Handle al))\<rparr>\<rparr>))"

definition ClientSigner_Process ::
  "'pt curve_lib \<Rightarrow> ('m, 'e) ClientSigner \<Rightarrow> (Signature result go \<times> ('m, 'e) ClientSigner) option" where
  "ClientSigner_Process lib p =
     map_option (\<lambda>(r, s). (r, p\<lparr>cs_service := s\<rparr>)) (Signer_Process ''client'' lib (cs_service p))"

definition ClientSigner_GetNextMessageToSend ::
  "('m, 'e, 'pt, 'pl) alice \<Rightarrow> ('m, 'e) ClientSigner
     \<Rightarrow> (bytes option result \<times> ('m, 'e) ClientSigner) go" where
  "ClientSigner_GetNextMessageToSend al p =
     (case Signer_GetNext al serverID (cs_service p) of
        Panic m \<Rightarrow> Panic m
      | Ret (r, s) \<Rightarrow> Ret (r, p\<lparr>cs_service := s\<rparr>))"

definition ClientSigner_HandleMessage ::
  "('m, 'e) ClientSigner \<Rightarrow> 'm \<Rightarrow> (unit result \<times> ('m, 'e) ClientSigner) go" where
  "ClientSigner_HandleMessage p msg =
     (case Signer_Handle (cs_service p) msg of
        Panic m \<Rightarrow> Panic m
      | Ret (r, s) \<Rightarrow> Ret (r, p\<lparr>cs_service := s\<rparr>))"

text \<open>\<open>DkgOrSign\<close> of the actors, which selects the message type on the wire.\<close>

definition Dkg_DkgOrSign :: int where
  "Dkg_DkgOrSign = 1"

definition Signer_DkgOrSign :: int where
  "Signer_DkgOrSign = 2"

end
