(* ===== verification/TssAdd.thy ===== *)
theory TssAdd
  imports TssActors
begin

text \<open>
  The three actors of the multi-device process in \<open>utils/tss/serviceAdd.go\<close>: the server, the
  existing client and the new client. The server also relays messages between the two
  clients: \<open>AdderGenericHandle\<close> consumes a message for its own peer and queues any other.
\<close>

subsection \<open>Routing\<close>

definition AdderGenericHandle ::
  "('m, 'e, 'pt, 'pl) alice \<Rightarrow> 'm tss_msg \<Rightarrow> ('m, 'e) PeerManager option \<Rightarrow> 'e option \<Rightarrow> string
     \<Rightarrow> (unit result \<times> ('m, 'e) PeerManager option \<times> 'e option) go" where
  "AdderGenericHandle al msg pm engine peerID =
     (case decode_payload al AddKind msg of
        Inl err \<Rightarrow> Ret (Inl err, pm, engine)
      | Inr addMsg \<Rightarrow>
          if PeerID msg = peerID then
            (case deliver pm engine addMsg of
               Panic m \<Rightarrow> Panic m
             | Ret (r, e) \<Rightarrow> Ret (r, pm, Some e))
          else
            (case pm of
               None \<Rightarrow> Panic err_nil
             | Some p \<Rightarrow> Ret (Inr (), Some (MustSend p (PeerID msg) (PProto addMsg)), engine)))"

subsection \<open>Server\<close>

record ('m, 'e, 'pt) ServerAdd =
  sa_service :: "('m, 'e, 'pt) serviceAddExisting"
  sa_originalBKs :: BKs

definition GetOriginalWallet :: "'pt curve_lib \<Rightarrow> ('m, 'e, 'pt) ServerAdd \<Rightarrow> DkgResult go" where
  "GetOriginalWallet lib p =
     (let pubkey = \<lparr>pk_X = pk_X (ax_pubkey (sa_service p)), pk_Y = pk_Y (ax_pubkey (sa_service p))\<rparr> in
      case GetAddress lib pubkey of
        Panic m \<Rightarrow> Panic m
      | Ret addr \<Rightarrow>
          Ret \<lparr>dr_Pubkey = GetStr pubkey, dr_BKs = sa_originalBKs p,
               dr_Share = ax_share (sa_service p), dr_Address = AddressHex lib addr,
               dr_PeerID = serverID\<rparr>)"

definition NewServerAdd ::
  "'pt curve_lib \<Rightarrow> ('m, 'e, 'pt, 'pl) alice \<Rightarrow> string \<Rightarrow> string \<Rightarrow> PubkeyStr \<Rightarrow> string \<Rightarrow> BKs
     \<Rightarrow> ('m, 'e, 'pt) ServerAdd result" where
  "NewServerAdd lib al newClientPeerID existingClientPeerID pubkeyStr share bks =
     (case NewPubkey pubkeyStr of
        Inl err \<Rightarrow> Inl err
      | Inr pubkey \<Rightarrow>
          (let newBKs = party_BKs existingClientPeerID bks;
               service = NewServiceAddExisting pubkey share threshold2 newClientPeerID newBKs;
               pm = AddPeer (NewPeerManager serverID) existingClientPeerID in
           case AddExisting_Init lib al pm service of
             Inl err \<Rightarrow> Inl err
           | Inr s \<Rightarrow>
               Inr \<lparr>sa_service = s\<lparr>ax_pm := Some (RegisterHandleMessage pm (AddExisting_Handle al))\<rparr>,
                    sa_originalBKs = bks\<rparr>))"

definition ServerAdd_GetDoneChan :: "('m, 'e, 'pt) ServerAdd \<Rightarrow> bool" where
  [simp]: "ServerAdd_GetDoneChan p = AddExisting_GetDoneChan (sa_service p)"

definition ServerAdd_Process ::
  "'pt curve_lib \<Rightarrow> ('m, 'e, 'pt) ServerAdd \<Rightarrow> DkgResult result go option" where
  "ServerAdd_Process lib p =
     (case AddExisting_Process (sa_service p) of
        None \<Rightarrow> None
      | Some _ \<Rightarrow> Some
        (case ax_result (sa_service p) of
           None \<Rightarrow> Ret (Inl (ErrNew ''could not get serverAdd results''))
         | Some r \<Rightarrow>
             (let pubkey = \<lparr>pk_X = GetX lib (lr_PublicKey r), pk_Y = GetY lib (lr_PublicKey r)\<rparr> in
              case GetAddress lib pubkey of
                Panic m \<Rightarrow> Panic m
              | Ret addr \<Rightarrow>
                  Ret (Inr \<lparr>dr_Pubkey = GetStr pubkey,
                            dr_BKs = fmmap bk_text (lr_Bks r),
                            dr_Share = big_String (lr_Share r),
                            dr_Address = AddressHex lib addr,
                            dr_PeerID = serverID\<rparr>))))"

definition ServerAdd_GetNextMessageToSend ::
  "('m, 'e, 'pt, 'pl) alice \<Rightarrow> string \<Rightarrow> ('m, 'e, 'pt) ServerAdd
     \<Rightarrow> ('m tss_msg result \<times> ('m, 'e, 'pt) ServerAdd) go" where
  "ServerAdd_GetNextMessageToSend al peerID p =
     (case ax_pm (sa_service p) of
        None \<Rightarrow> Panic err_nil
      | Some pm \<Rightarrow>
          (case GetNextMessageToSendPeer (ProtoMarshal al) peerID pm of
             (r, pm') \<Rightarrow> Ret (r, p\<lparr>sa_service := (sa_service p)\<lparr>ax_pm := Some pm'\<rparr>\<rparr>)))"

text \<open>
  \<open>HandleMessage\<close> evaluates \<open>p.service.pm\<close> before anything else, so it panics on a nil
  receiver whatever the message is.
\<close>

definition ServerAdd_HandleMessage ::
  "('m, 'e, 'pt, 'pl) alice \<Rightarrow> ('m, 'e, 'pt) ServerAdd option \<Rightarrow> 'm tss_msg
     \<Rightarrow> (unit result \<times> ('m, 'e, 'pt) ServerAdd option) go" where
  "ServerAdd_HandleMessage al ptr msg =
     (case ptr of
        None \<Rightarrow> Panic err_nil
      | Some p \<Rightarrow>
          (case AdderGenericHandle al msg (ax_pm (sa_service p)) (ax_adder (sa_service p)) serverID of
             Panic m \<Rightarrow> Panic m
           | Ret (r, pm, e) \<Rightarrow>
               Ret (r, Some (p\<lparr>sa_service := (sa_service p)\<lparr>ax_pm := pm, ax_adder := e\<rparr>\<rparr>))))"

subsection \<open>Existing client\<close>

record ('m, 'e, 'pt) ExistingClientAdd =
  ea_service :: "('m, 'e, 'pt) serviceAddExisting"
  ea_peerID :: string

definition NewExistingClientAdd ::
  "'pt curve_lib \<Rightarrow> ('m, 'e, 'pt, 'pl) alice \<Rightarrow> string \<Rightarrow> string \<Rightarrow> PubkeyStr \<Rightarrow> string \<Rightarrow> BKs
     \<Rightarrow> ('m, 'e, 'pt) ExistingClientAdd result" where
  "NewExistingClientAdd lib al newClientPeerID peerID pubkeyStr share bks =
     (case NewPubkey pubkeyStr of
        Inl err \<Rightarrow> Inl err
      | Inr pubkey \<Rightarrow>
          (let newBKs = party_BKs peerID bks;
               service = NewServiceAddExisting pubkey share threshold2 newClientPeerID newBKs;
               pm = AddPeer (NewPeerManager peerID) serverID in
           case AddExisting_Init lib al pm service of
             Inl err \<Rightarrow> Inl err
           | Inr s \<Rightarrow>
               Inr \<lparr>ea_service = s\<lparr>ax_pm := Some (RegisterHandleMessage pm (AddExisting_Handle al))\<rparr>,
                    ea_peerID = peerID\<rparr>))"

definition ExistingClientAdd_GetDoneChan :: "('m, 'e, 'pt) ExistingClientAdd \<Rightarrow> bool" where
  [simp]: "ExistingClientAdd_GetDoneChan p = AddExisting_GetDoneChan (ea_service p)"

definition ExistingClientAdd_Process ::
  "'pt curve_lib \<Rightarrow> ('m, 'e, 'pt) ExistingClientAdd \<Rightarrow> DkgResult result go option" where
  "ExistingClientAdd_Process lib p =
     (case AddExisting_Process (ea_service p) of
        None \<Rightarrow> None
      | Some _ \<Rightarrow> Some
        (case ax_result (ea_service p) of
           None \<Rightarrow> Ret (Inl (ErrNew ''could not get ExistingClientAdd dkg results''))
         | Some r \<Rightarrow>
             PostProcessResult lib
               \<lparr>pr_PublicKey = lr_PublicKey r, pr_Share = lr_Share r, pr_Bks = lr_Bks r,
                pr_PeerID = ea_peerID p\<rparr>))"

definition ExistingClientAdd_GetNextMessageToSendAll ::
  "('m, 'e, 'pt, 'pl) alice \<Rightarrow> ('m, 'e, 'pt) ExistingClientAdd
     \<Rightarrow> ('m tss_msg result \<times> ('m, 'e, 'pt) ExistingClientAdd) go" where
  "ExistingClientAdd_GetNextMessageToSendAll al p =
     (case ax_pm (ea_service p) of
        None \<Rightarrow> Panic err_nil
      | Some pm \<Rightarrow>
          (case GetNextMessageToSendAll (ProtoMarshal al) pm of
             (r, pm') \<Rightarrow> Ret (r, p\<lparr>ea_service := (ea_service p)\<lparr>ax_pm := Some pm'\<rparr>\<rparr>)))"

text \<open>The variant on raw bytes.\<close>

definition ExistingClientAdd_GetNextMessageToSend ::
  "('m, 'e, 'pt, 'pl) alice \<Rightarrow> string \<Rightarrow> ('m, 'e, 'pt) ExistingClientAdd
     \<Rightarrow> (bytes option result \<times> ('m, 'e, 'pt) ExistingClientAdd) go" where
  "ExistingClientAdd_GetNextMessageToSend al peerID p =
     (case ax_pm (ea_service p) of
        None \<Rightarrow> Panic err_nil
      | Some pm \<Rightarrow>
          (case GetNextMessageToSend (ProtoMarshal al) peerID pm of
             (r, pm') \<Rightarrow> Ret (r, p\<lparr>ea_service := (ea_service p)\<lparr>ax_pm := Some pm'\<rparr>\<rparr>)))"

definition ExistingClientAdd_HandleMessage ::
  "('m, 'e, 'pt, 'pl) alice \<Rightarrow> ('m, 'e, 'pt) ExistingClientAdd option \<Rightarrow> 'm tss_msg
     \<Rightarrow> (unit result \<times> ('m, 'e, 'pt) ExistingClientAdd option) go" where
  "ExistingClientAdd_HandleMessage al ptr msg =
     (case ptr of
        None \<Rightarrow> Panic err_nil
      | Some p \<Rightarrow>
          (case AdderGenericHandle al msg (ax_pm (ea_service p)) (ax_adder (ea_service p))
                  (ea_peerID p) of
             Panic m \<Rightarrow> Panic m
           | Ret (r, pm, e) \<Rightarrow>
               Ret (r, Some (p\<lparr>ea_service := (ea_service p)\<lparr>ax_pm := pm, ax_adder := e\<rparr>\<rparr>))))"

subsection \<open>New client\<close>

record ('m, 'e, 'pt) ClientAdd =
  ca_service :: "('m, 'e, 'pt) serviceAddNew"
  ca_peerID :: string

definition NewClientAdd ::
  "'pt curve_lib \<Rightarrow> ('m, 'e, 'pt, 'pl) alice \<Rightarrow> string \<Rightarrow> string \<Rightarrow> PubkeyStr \<Rightarrow> BKs
     \<Rightarrow> ('m, 'e, 'pt) ClientAdd result" where
  "NewClientAdd lib al peerID acceptingDevicePeerID pubkeyStr bks =
     (case NewPubkey pubkeyStr of
        Inl err \<Rightarrow> Inl err
      | Inr pubkey \<Rightarrow>
          (let service = NewServiceAddNew pubkey threshold2 rank0 bks;
               pm = AddPeer (AddPeer (NewPeerManager peerID) serverID) acceptingDevicePeerID in
           case AddNew_Init lib al pm service of
             Inl err \<Rightarrow> Inl err
           | Inr s \<Rightarrow>
               Inr \<lparr>ca_service = s\<lparr>an_pm := Some (RegisterHandleMessage pm (AddNew_Handle al))\<rparr>,
                    ca_peerID = peerID\<rparr>))"

definition ClientAdd_GetDoneChan :: "('m, 'e, 'pt) ClientAdd \<Rightarrow> bool" where
  [simp]: "ClientAdd_GetDoneChan p = AddNew_GetDoneChan (ca_service p)"

definition ClientAdd_Process ::
  "'pt curve_lib \<Rightarrow> ('m, 'e, 'pt) ClientAdd \<Rightarrow> DkgResult result go option" where
  "ClientAdd_Process lib p =
     (case AddNew_Process (ca_service p) of
        None \<Rightarrow> None
      | Some _ \<Rightarrow> Some
        (case an_result (ca_service p) of
           None \<Rightarrow> Ret (Inl (ErrNew ''could not get ClientAdd dkg results''))
         | Some r \<Rightarrow>
             PostProcessResult lib
               \<lparr>pr_PublicKey = lr_PublicKey r, pr_Share = lr_Share r, pr_Bks = lr_Bks r,
                pr_PeerID = ca_peerID p\<rparr>))"

definition ClientAdd_GetNextMessageToSendAll ::
  "('m, 'e, 'pt, 'pl) alice \<Rightarrow> ('m, 'e, 'pt) ClientAdd
     \<Rightarrow> ('m tss_msg result \<times> ('m, 'e, 'pt) ClientAdd) go" where
  "ClientAdd_GetNextMessageToSendAll al p =
     (case an_pm (ca_service p) of
        None \<Rightarrow> Panic err_nil
      | Some pm \<Rightarrow>
          (case GetNextMessageToSendAll (ProtoMarshal al) pm of
             (r, pm') \<Rightarrow> Ret (r, p\<lparr>ca_service := (ca_service p)\<lparr>an_pm := Some pm'\<rparr>\<rparr>)))"

definition ClientAdd_GetNextMessageToSend ::
  "('m, 'e, 'pt, 'pl) alice \<Rightarrow> string \<Rightarrow> ('m, 'e, 'pt) ClientAdd
     \<Rightarrow> (bytes option result \<times> ('m, 'e, 'pt) ClientAdd) go" where
  "ClientAdd_GetNextMessageToSend al peerID p =
     (case an_pm (ca_service p) of
        None \<Rightarrow> Panic err_nil
      | Some pm \<Rightarrow>
          (case GetNextMessageToSend (ProtoMarshal al) peerID pm of
             (r, pm') \<Rightarrow> Ret (r, p\<lparr>ca_service := (ca_service p)\<lparr>an_pm := Some pm'\<rparr>\<rparr>)))"

definition ClientAdd_HandleMessage ::
  "('m, 'e, 'pt, 'pl) alice \<Rightarrow> ('m, 'e, 'pt) ClientAdd option \<Rightarrow> 'm tss_msg
     \<Rightarrow> (unit result \<times> ('m, 'e, 'pt) ClientAdd option) go" where
  "ClientAdd_HandleMessage al ptr msg =
     (case ptr of
        None \<Rightarrow> Panic err_nil
      | Some p \<Rightarrow>
          (case AdderGenericHandle al msg (an_pm (ca_service p)) (an_adder (ca_service p))
                  (ca_peerID p) of
             Panic m \<Rightarrow> Panic m
           | Ret (r, pm, e) \<Rightarrow>
               Ret (r, Some (p\<lparr>ca_service := (ca_service p)\<lparr>an_pm := pm, an_adder := e\<rparr>\<rparr>))))"

subsection \<open>Lemmas\<close>

lemma decode_sent_form:
  "sent_form (ProtoMarshal al) x = Inr y \<Longrightarrow> Msg x = PProto m \<Longrightarrow> proto_ok al k m \<Longrightarrow>
     decode_payload al k y = Inr m"
  by (auto simp: sent_form_def proto_ok_def decode_payload_def split: sum.splits)

lemma proto_ok_sent_form:
  "proto_ok al k m \<Longrightarrow> \<exists>y. sent_form (ProtoMarshal al) \<lparr>PeerID = p, Msg = PProto m\<rparr> = Inr y \<and> PeerID y = p"
  by (auto simp: sent_form_def proto_ok_def split: sum.splits)

lemma GetNextMessageToSendAll_eq:
  "GetNextMessageToSendAll marshal p =
     (case pm_out p of
        [] \<Rightarrow> (Inl err_no_message, p)
      | x # xs \<Rightarrow>
          (case sent_form marshal x of
             Inl err \<Rightarrow> (Inl err, p)
           | Inr y \<Rightarrow> (Inr y, p\<lparr>pm_out := xs\<rparr>)))"
  by (auto simp: GetNextMessageToSendAll_def sent_form_def
        split: list.splits payload.splits sum.splits)

text \<open>A message for another peer is queued for it, unchanged; the engine is not touched.\<close>

lemma relay:
  "decode_payload al AddKind msg = Inr m \<Longrightarrow> PeerID msg \<noteq> me \<Longrightarrow>
     AdderGenericHandle al msg (Some pm) e me =
       Ret (Inr (), Some (MustSend pm (PeerID msg) (PProto m)), e)"
  by (simp add: AdderGenericHandle_def)

text \<open>A message for the actor itself reaches its engine, under the sender that the message names.\<close>

lemma consume:
  "decode_payload al AddKind msg = Inr m \<Longrightarrow> PeerID msg = me \<Longrightarrow>
     pm_handle pm = Some (service_handle al) \<Longrightarrow>
     AdderGenericHandle al msg (Some pm) (Some e) me =
       (case AddMessage al e (GetId al m) m of (r, e') \<Rightarrow> Ret (r, Some pm, Some e'))"
  by (simp add: AdderGenericHandle_def deliver_def HandleMessage_def service_handle_def
        split: prod.splits)

text \<open>What the constructors guarantee of the actor they return.\<close>

lemma NewServerAdd_ok:
  "NewServerAdd lib al new old pk share bks = Inr a \<Longrightarrow>
     \<exists>pm e. ax_pm (sa_service a) = Some pm \<and> pm_handle pm = Some (service_handle al) \<and>
       pm_out pm = [] \<and> pm_id pm = serverID \<and> pm_peers pm = [old \<mapsto> True] \<and>
       ax_adder (sa_service a) = Some e \<and> \<not> ax_done (sa_service a) \<and>
       ax_result (sa_service a) = None \<and> sa_originalBKs a = bks \<and>
       ax_BKs (sa_service a) = party_BKs old bks \<and> ax_share (sa_service a) = share \<and>
       NewPubkey pk = Inr (ax_pubkey (sa_service a))"
  by (auto simp: NewServerAdd_def Let_def AddExisting_Init_def NewServiceAddExisting_def
        RegisterHandleMessage_def AddPeer_def NewPeerManager_def split: sum.splits)

lemma NewServerDkg_ok:
  "NewServerDkg al c = Inr a \<Longrightarrow>
     \<exists>pm e. dk_pm (sd_service a) = Some pm \<and> pm_handle pm = Some (service_handle al) \<and>
       pm_out pm = [] \<and> pm_id pm = serverID \<and> pm_peers pm = [c \<mapsto> True] \<and>
       dk_dkg (sd_service a) = Some e \<and> \<not> dk_done (sd_service a) \<and>
       dk_result (sd_service a) = None \<and> sd_clientPeerID a = c"
  by (auto simp: NewServerDkg_def Let_def Dkg_Init_def NewServiceDkg_def
        RegisterHandleMessage_def AddPeer_def NewPeerManager_def split: sum.splits)

end
