(* ===== verification/WsLayer.thy ===== *)
theory WsLayer
  imports TssAdd
begin

text \<open>
  The websocket layer: the message types and the sending loop of \<open>utils/ws/ws.go\<close>, and
  the older \<open>Send\<close> and \<open>Receive\<close> loops of \<open>utils/tss/tssManager.go\<close> that the signing
  process still uses. A loop runs forever in the code; here one turn of it is a function,
  and a run is driven by a list of turns, each with what the outside world answers.
\<close>

subsection \<open>Message types\<close>

record MessageType =
  mt_type :: string
  mt_stage :: "32 word"

record ws_msg =
  wm_Type :: MessageType
  wm_Msg :: string

definition mtype :: "string \<Rightarrow> 32 word \<Rightarrow> MessageType" where
  "mtype t s = \<lparr>mt_type = t, mt_stage = s\<rparr>"

definition PeerIdBroadcastMessage :: MessageType where "PeerIdBroadcastMessage = mtype ''peer'' 10"
definition DeviceMessage :: MessageType where "DeviceMessage = mtype ''device'' 20"
definition PubkeyMessage :: MessageType where "PubkeyMessage = mtype ''pubkey'' 20"
definition PubkeyAckMessage :: MessageType where "PubkeyAckMessage = mtype ''pubkey-ack'' 30"
definition MetadataMessage :: MessageType where "MetadataMessage = mtype ''metadata'' 20"
definition MetadataAckMessage :: MessageType where "MetadataAckMessage = mtype ''metadata-ack'' 30"
definition TssMessage :: MessageType where "TssMessage = mtype ''tss'' 40"
definition TssDoneMessage :: MessageType where "TssDoneMessage = mtype ''tss-done'' 50"
definition EverythingStoredClientMessage :: MessageType where
  "EverythingStoredClientMessage = mtype ''stored-client'' 70"
definition ExistingDeviceDoneMessage :: MessageType where
  "ExistingDeviceDoneMessage = mtype ''existing-device-done'' 80"
definition NewDeviceDoneMessage :: MessageType where
  "NewDeviceDoneMessage = mtype ''new-device-done'' 80"
definition ErrorMessage :: MessageType where "ErrorMessage = mtype ''error'' 0"

lemmas mtype_defs =
  mtype_def PeerIdBroadcastMessage_def DeviceMessage_def PubkeyMessage_def PubkeyAckMessage_def
  MetadataMessage_def MetadataAckMessage_def TssMessage_def TssDoneMessage_def
  EverythingStoredClientMessage_def ExistingDeviceDoneMessage_def NewDeviceDoneMessage_def
  ErrorMessage_def

definition ws_message :: "MessageType \<Rightarrow> string \<Rightarrow> ws_msg" where
  "ws_message t s = \<lparr>wm_Type = t, wm_Msg = s\<rparr>"

definition unexpected_msg :: ws_msg where
  "unexpected_msg = ws_message ErrorMessage ''error: Unexpected message type''"

subsection \<open>encoding/json\<close>

text \<open>
  Marshalling and unmarshalling one Go type with \<open>encoding/json\<close>: a parameter, whose
  documented behaviour on a value is the round trip.
\<close>

record 'a codec =
  Marshal :: "'a \<Rightarrow> bytes result"
  Unmarshal :: "bytes \<Rightarrow> 'a result"

definition codec_ok :: "'a codec \<Rightarrow> 'a \<Rightarrow> bool" where
  "codec_ok c x = (case Marshal c x of Inl err \<Rightarrow> False | Inr bs \<Rightarrow> Unmarshal c bs = Inr x)"

text \<open>What is read back of a value that was written, whatever the encoding does to it.\<close>

definition read_back :: "'a codec \<Rightarrow> 'a \<Rightarrow> 'a result" where
  "read_back c x = (case Marshal c x of Inl err \<Rightarrow> Inl err | Inr bs \<Rightarrow> Unmarshal c bs)"

lemma read_back_ok: "codec_ok c x \<longleftrightarrow> read_back c x = Inr x"
  by (simp add: codec_ok_def read_back_def split: sum.split)

lemma codec_okD: "codec_ok c x \<Longrightarrow> \<exists>bs. Marshal c x = Inr bs \<and> Unmarshal c bs = Inr x"
  by (auto simp: codec_ok_def split: sum.splits)

subsection \<open>TssSend\<close>

text \<open>
  What a turn of the loop sees: whether the context or the \<open>serverDone\<close> channel is done
  (then the \<open>select\<close> never takes the default branch) and what \<open>wsjson.Write\<close> returns.
\<close>

record tick =
  tk_ctx_done :: bool
  tk_server_done :: bool
  tk_write :: "unit result"

datatype turn =
    Again "ws_msg option"        \<comment> \<open>next turn of the loop; the message written in this one\<close>
  | Stop "go_error option"       \<comment> \<open>return; the error sent to \<open>errs\<close>\<close>
  | Crash string                 \<comment> \<open>panic\<close>

definition frame :: "bytes \<Rightarrow> ws_msg" where
  "frame json = ws_message TssMessage (hex_encode json)"

definition TssSend_turn ::
  "'m tss_msg codec \<Rightarrow> ('q \<Rightarrow> ('m tss_msg result \<times> 'q) go) \<Rightarrow> tick \<Rightarrow> 'q \<Rightarrow> turn \<times> 'q" where
  "TssSend_turn cj getNext t q =
     (if tk_ctx_done t then (Stop None, q)
      else if tk_server_done t then (Stop None, q)
      else
        (case getNext q of
           Panic m \<Rightarrow> (Crash m, q)
         | Ret (Inl err, q') \<Rightarrow>
             if Contains (Error err) ''no message to be sent'' then (Again None, q')
             else (Stop (Some err), q')
         | Ret (Inr tssMsg, q') \<Rightarrow>
             if length (PeerID tssMsg) = 0 then (Again None, q')
             else
               (case Marshal cj tssMsg of
                  Inl err \<Rightarrow> (Stop (Some err), q')
                | Inr jsonEncodedMsg \<Rightarrow>
                    if Msg tssMsg \<noteq> PNil then
                      (case tk_write t of
                         Inl err \<Rightarrow> (Stop (Some err), q')
                       | Inr _ \<Rightarrow> (Again (Some (frame jsonEncodedMsg)), q'))
                    else (Again None, q'))))"

text \<open>
  A run: before each turn the library may have queued more messages (\<open>feeds\<close>). The result
  is what was written, how the loop ended (\<open>Again None\<close>: it is still running) and the
  state of the actor.
\<close>

fun TssSend_run ::
  "'m tss_msg codec \<Rightarrow> ('q \<Rightarrow> ('m tss_msg result \<times> 'q) go) \<Rightarrow> ('q \<Rightarrow> 'a \<Rightarrow> 'q)
     \<Rightarrow> ('a list \<times> tick) list \<Rightarrow> 'q \<Rightarrow> ws_msg list \<times> turn \<times> 'q" where
  "TssSend_run cj getNext feed [] q = ([], Again None, q)"
| "TssSend_run cj getNext feed ((feeds, t) # ts) q =
     (case TssSend_turn cj getNext t (foldl feed q feeds) of
        (Again w, q') \<Rightarrow>
          (case TssSend_run cj getNext feed ts q' of
             (ws, end_turn, q'') \<Rightarrow> ((case w of None \<Rightarrow> ws | Some m \<Rightarrow> m # ws), end_turn, q''))
      | (stop, q') \<Rightarrow> ([], stop, q'))"

subsection \<open>ProcessErrors\<close>

text \<open>
  A non-blocking receive from \<open>errs\<close>; a normal closure and a cancelled context are no
  error. \<open>normal\<close> is the test on \<open>websocket.CloseStatus\<close>.
\<close>

definition ProcessErrors ::
  "(go_error \<Rightarrow> bool) \<Rightarrow> bool \<Rightarrow> go_error list \<Rightarrow> go_error option \<times> go_error list" where
  "ProcessErrors normal ctx_canceled errs =
     (case errs of
        [] \<Rightarrow> (None, [])
      | processErr # rest \<Rightarrow>
          if normal processErr then (None, rest)
          else if ctx_canceled then (None, rest)
          else (Some processErr, rest))"

subsection \<open>Send and Receive\<close>

definition stringToMsg :: "('m, 'e, 'pt, 'pl) alice \<Rightarrow> string \<Rightarrow> int \<Rightarrow> 'm result" where
  "stringToMsg al input tssType =
     (case hex_decode input of
        Inl err \<Rightarrow> Inl err
      | Inr byteString \<Rightarrow>
          if tssType = 1 then ProtoUnmarshal al DkgKind byteString
          else if tssType = 2 then ProtoUnmarshal al SignKind byteString
          else Inl (ErrNew ''unrecognized tss type''))"

datatype raw_turn = RawAgain "string option" | RawStop "go_error option" | RawCrash string

text \<open>One turn of \<open>Send\<close>; only the context ends it, and a nil message is not written.\<close>

definition Send_turn ::
  "('s \<Rightarrow> (bytes option result \<times> 's) go) \<Rightarrow> bool \<Rightarrow> unit result \<Rightarrow> 's \<Rightarrow> raw_turn \<times> 's" where
  "Send_turn getNext ctx_done write s =
     (if ctx_done then (RawStop None, s)
      else
        (case getNext s of
           Panic m \<Rightarrow> (RawCrash m, s)
         | Ret (Inl err, s') \<Rightarrow> (RawStop (Some err), s')
         | Ret (Inr msg, s') \<Rightarrow>
             (case msg of
                None \<Rightarrow> (RawAgain None, s')
              | Some bs \<Rightarrow>
                  (case write of
                     Inl err \<Rightarrow> (RawStop (Some err), s')
                   | Inr _ \<Rightarrow> (RawAgain (Some (hex_encode bs)), s')))))"

text \<open>One turn of \<open>Receive\<close>: every error of the connection, canceled or not, is reported and ends it.\<close>

definition Receive_turn ::
  "('m, 'e, 'pt, 'pl) alice \<Rightarrow> int \<Rightarrow> ('s \<Rightarrow> 'm \<Rightarrow> (unit result \<times> 's) go) \<Rightarrow> bool
     \<Rightarrow> string result \<Rightarrow> 's \<Rightarrow> raw_turn \<times> 's" where
  "Receive_turn al tssType handle ctx_done read s =
     (if ctx_done then (RawStop None, s)
      else
        (case read of
           Inl err \<Rightarrow> (RawStop (Some err), s)
         | Inr v \<Rightarrow>
             (case stringToMsg al v tssType of
                Inl err \<Rightarrow> (RawStop (Some err), s)
              | Inr msg \<Rightarrow>
                  (case handle s msg of
                     Panic m \<Rightarrow> (RawCrash m, s)
                   | Ret (Inl err, s') \<Rightarrow> (RawStop (Some err), s')
                   | Ret (Inr _, s') \<Rightarrow> (RawAgain None, s')))))"

subsection \<open>Decoding on the receiving side\<close>

text \<open>
  The decoding of a TSS message that the handlers of both sides share: hexadecimal digits,
  then the JSON of a \<open>tss.Message\<close>.
\<close>

definition decode_ws_tss :: "'m tss_msg codec \<Rightarrow> ws_msg \<Rightarrow> 'm tss_msg result" where
  "decode_ws_tss cj msg =
     (case hex_decode (wm_Msg msg) of
        Inl err \<Rightarrow> Inl err
      | Inr byteString \<Rightarrow> Unmarshal cj byteString)"

lemma decode_frame: "codec_ok cj x \<Longrightarrow> \<exists>bs. Marshal cj x = Inr bs \<and> decode_ws_tss cj (frame bs) = Inr x"
  by (auto simp: codec_ok_def decode_ws_tss_def frame_def ws_message_def split: sum.splits)

subsection \<open>The sources that TssSend drains\<close>

text \<open>
  What \<open>TssSend\<close> relies on of the function it is given: the messages still to be sent, in
  order; the next one is returned and removed; when there is none, the function says so by
  the error text or by a message without peer, and keeps its state.
\<close>

definition idle_reply :: "'m tss_msg result \<Rightarrow> bool" where
  "idle_reply r =
     (case r of
        Inl err \<Rightarrow> Contains (Error err) ''no message to be sent''
      | Inr m \<Rightarrow> PeerID m = [])"

definition live :: "tick \<Rightarrow> bool" where
  "live t \<longleftrightarrow> \<not> tk_ctx_done t \<and> \<not> tk_server_done t \<and> tk_write t = Inr ()"

locale tss_source =
  fixes cj :: "'m tss_msg codec"
    and getNext :: "'q \<Rightarrow> ('m tss_msg result \<times> 'q) go"
    and feed :: "'q \<Rightarrow> 'a \<Rightarrow> 'q"
    and okay :: "'a \<Rightarrow> bool"
    and adds :: "'a \<Rightarrow> 'm tss_msg list"
    and pend :: "'q \<Rightarrow> 'm tss_msg list"
    and ready :: "'q \<Rightarrow> bool"
  assumes pend_feed: "ready q \<Longrightarrow> okay a \<Longrightarrow> pend (feed q a) = pend q @ adds a"
    and ready_feed: "ready q \<Longrightarrow> okay a \<Longrightarrow> ready (feed q a)"
    and next_idle: "ready q \<Longrightarrow> pend q = [] \<Longrightarrow> \<exists>r. getNext q = Ret (r, q) \<and> idle_reply r"
    and next_pend: "ready q \<Longrightarrow> pend q = x # xs \<Longrightarrow>
      \<exists>q'. getNext q = Ret (Inr x, q') \<and> ready q' \<and> pend q' = xs"
    and pend_form: "ready q \<Longrightarrow> x \<in> set (pend q) \<Longrightarrow>
      PeerID x \<noteq> [] \<and> Msg x \<noteq> PNil \<and> codec_ok cj x"
begin

lemma turn_live:
  assumes "ready q" and "live t"
  shows "(pend q = [] \<longrightarrow> TssSend_turn cj getNext t q = (Again None, q)) \<and>
         (\<forall>x xs. pend q = x # xs \<longrightarrow>
           (\<exists>bs q'. Marshal cj x = Inr bs \<and> TssSend_turn cj getNext t q = (Again (Some (frame bs)), q') \<and>
              ready q' \<and> pend q' = xs))"
proof (intro conjI impI allI)
  assume "pend q = []"
  with assms(1) obtain r where "getNext q = Ret (r, q)" "idle_reply r"
    using next_idle by blast
  with assms(2) show "TssSend_turn cj getNext t q = (Again None, q)"
    by (auto simp: TssSend_turn_def live_def idle_reply_def split: sum.splits)
next
  fix x xs
  assume p: "pend q = x # xs"
  with assms(1) obtain q' where q': "getNext q = Ret (Inr x, q')" "ready q'" "pend q' = xs"
    using next_pend by blast
  from p assms(1) have x: "PeerID x \<noteq> [] \<and> Msg x \<noteq> PNil \<and> codec_ok cj x"
    by (intro pend_form) auto
  then have "codec_ok cj x" by simp
  from codec_okD [OF this] obtain bs where bs: "Marshal cj x = Inr bs" by blast
  have "TssSend_turn cj getNext t q = (Again (Some (frame bs)), q')"
    using assms(2) q'(1) x bs by (simp add: TssSend_turn_def live_def)
  with bs q' show "\<exists>bs q'. Marshal cj x = Inr bs \<and>
      TssSend_turn cj getNext t q = (Again (Some (frame bs)), q') \<and> ready q' \<and> pend q' = xs"
    by blast
qed

lemma foldl_feed:
  "ready q \<Longrightarrow> \<forall>a \<in> set as. okay a \<Longrightarrow>
     ready (foldl feed q as) \<and> pend (foldl feed q as) = pend q @ concat (map adds as)"
proof (induction as arbitrary: q)
  case Nil
  then show ?case by simp
next
  case (Cons a as)
  then have "ready (feed q a)" by (simp add: ready_feed)
  with Cons.IH [of "feed q a"] Cons.prems pend_feed [of q a] show ?case by auto
qed

text \<open>
  While the connection lives, the loop never stops; what it has written, followed by what
  still waits, is what waited at the start followed by what the library queued, in order,
  each message as one frame that decodes to it; and every turn writes a message if one waits.
\<close>

lemma run_live:
  assumes "\<forall>(feeds, t) \<in> set ts. live t \<and> (\<forall>a \<in> set feeds. okay a)"
  shows "ready q \<Longrightarrow> TssSend_run cj getNext feed ts q = (ws, fin, q') \<Longrightarrow>
     fin = Again None \<and> ready q' \<and>
     (\<exists>sent. map (decode_ws_tss cj) ws = map Inr sent \<and>
        sent @ pend q' = pend q @ concat (map adds (concat (map fst ts))) \<and>
        min (length ts) (length (pend q)) \<le> length sent)"
  using assms
proof (induction ts arbitrary: q ws)
  case Nil
  then show ?case by auto
next
  case (Cons tf ts)
  obtain feeds t where tf: "tf = (feeds, t)" by (cases tf)
  let ?q1 = "foldl feed q feeds"
  from Cons.prems tf have live: "live t" and ok: "\<forall>a \<in> set feeds. okay a"
    and rest: "\<forall>(feeds, t) \<in> set ts. live t \<and> (\<forall>a \<in> set feeds. okay a)" by auto
  from foldl_feed [OF Cons.prems(1) ok]
  have r1: "ready ?q1" and p1: "pend ?q1 = pend q @ concat (map adds feeds)" by auto
  show ?case
  proof (cases "pend ?q1")
    case Nil
    with turn_live [OF r1 live] have turn: "TssSend_turn cj getNext t ?q1 = (Again None, ?q1)"
      by simp
    with Cons.prems(2) tf have run: "TssSend_run cj getNext feed ts ?q1 = (ws, fin, q')"
      by (auto split: prod.splits)
    from Cons.IH [OF r1 run rest] Nil p1 tf show ?thesis by auto
  next
    case (Cons x xs)
    with turn_live [OF r1 live] obtain bs q2
      where turn: "TssSend_turn cj getNext t ?q1 = (Again (Some (frame bs)), q2)"
        and bs: "Marshal cj x = Inr bs" and r2: "ready q2" and p2: "pend q2 = xs" by blast
    from turn Cons.prems(2) tf obtain ws' where
        run: "TssSend_run cj getNext feed ts q2 = (ws', fin, q')" and ws: "ws = frame bs # ws'"
      by (auto split: prod.splits)
    from Cons.IH [OF r2 run rest] obtain sent where
        IH: "fin = Again None" "ready q'" "map (decode_ws_tss cj) ws' = map Inr sent"
          "sent @ pend q' = pend q2 @ concat (map adds (concat (map fst ts)))" "min (length ts) (length (pend q2)) \<le> length sent"
      by blast
    have "codec_ok cj x" using pend_form [OF r1, of x] Cons by simp
    from decode_frame [OF this] bs have dec: "decode_ws_tss cj (frame bs) = Inr x" by simp
    have "(x # sent) @ pend q' = pend q @ concat (map adds (concat (map fst (tf # ts))))"
      using IH(4) p1 p2 Cons tf by simp
    moreover have "length (pend q) \<le> Suc (length xs)"
      using p1 Cons by (metis le_add1 length_Cons length_append)
    ultimately show ?thesis
      using IH ws dec p2
      by (intro conjI exI [of _ "x # sent"]) auto
  qed
qed

end

end
