(* ===== verification/TssSources.thy ===== *)
theory TssSources
  imports WsLayer
begin

text \<open>
  The five actors that \<open>TssSend\<close> drains are sources in the sense of its contract: the
  server and client of the DKG, and the server, existing client and new client of the
  multi-device process. The library's calls of \<open>MustSend\<close> are the feeding operation.
\<close>

subsection \<open>Messages on their way out\<close>

definition sendable :: "('m, 'e, 'pt, 'pl) alice \<Rightarrow> 'm tss_msg codec \<Rightarrow> string \<times> 'm \<Rightarrow> bool" where
  "sendable al cj a =
     (case a of (p, m) \<Rightarrow> p \<noteq> [] \<and>
       (case ProtoMarshal al m of
          Inl err \<Rightarrow> False
        | Inr bs \<Rightarrow> codec_ok cj \<lparr>PeerID = p, Msg = PStr (hex_encode bs)\<rparr>))"

definition wire_of :: "('m, 'e, 'pt, 'pl) alice \<Rightarrow> 'm tss_msg \<Rightarrow> 'm tss_msg" where
  "wire_of al x =
     (case sent_form (ProtoMarshal al) x of Inl err \<Rightarrow> empty_msg | Inr y \<Rightarrow> y)"

definition queued :: "string \<times> 'm \<Rightarrow> 'm tss_msg" where
  "queued a = \<lparr>PeerID = fst a, Msg = PProto (snd a)\<rparr>"

definition pm_ready ::
  "('m, 'e, 'pt, 'pl) alice \<Rightarrow> 'm tss_msg codec \<Rightarrow> ('m, 'e) PeerManager \<Rightarrow> bool" where
  "pm_ready al cj pm = (\<forall>x \<in> set (pm_out pm). \<exists>a. x = queued a \<and> sendable al cj a)"

definition pm_feed :: "('m, 'e) PeerManager \<Rightarrow> string \<times> 'm \<Rightarrow> ('m, 'e) PeerManager" where
  "pm_feed pm a = MustSend pm (fst a) (PProto (snd a))"

lemma sendable_sent:
  "sendable al cj a \<Longrightarrow>
     sent_form (ProtoMarshal al) (queued a) = Inr (wire_of al (queued a)) \<and>
     PeerID (wire_of al (queued a)) = fst a \<and> fst a \<noteq> [] \<and>
     Msg (wire_of al (queued a)) \<noteq> PNil \<and> codec_ok cj (wire_of al (queued a))"
  by (auto simp: sendable_def wire_of_def sent_form_def queued_def split: sum.splits prod.splits)

lemma pm_ready_feed: "pm_ready al cj pm \<Longrightarrow> sendable al cj a \<Longrightarrow> pm_ready al cj (pm_feed pm a)"
  by (auto simp: pm_ready_def pm_feed_def queued_def)

lemma pm_ready_sub:
  "pm_ready al cj pm \<Longrightarrow> set out \<subseteq> set (pm_out pm) \<Longrightarrow> pm_ready al cj (pm\<lparr>pm_out := out\<rparr>)"
  by (auto simp: pm_ready_def)

lemma pm_ready_wire:
  "pm_ready al cj pm \<Longrightarrow> x \<in> set (pm_out pm) \<Longrightarrow>
     sent_form (ProtoMarshal al) x = Inr (wire_of al x) \<and> PeerID (wire_of al x) = PeerID x \<and>
     PeerID x \<noteq> [] \<and> Msg (wire_of al x) \<noteq> PNil \<and> codec_ok cj (wire_of al x)"
  using sendable_sent by (fastforce simp: pm_ready_def queued_def)

subsection \<open>Draining one peer's messages\<close>

definition peer_pend :: "('m, 'e, 'pt, 'pl) alice \<Rightarrow> string \<Rightarrow> ('m, 'e) PeerManager \<Rightarrow> 'm tss_msg list" where
  "peer_pend al c pm = map (wire_of al) (waiting pm c)"

definition peer_adds :: "('m, 'e, 'pt, 'pl) alice \<Rightarrow> string \<Rightarrow> string \<times> 'm \<Rightarrow> 'm tss_msg list" where
  "peer_adds al c a = (if fst a = c then [wire_of al (queued a)] else [])"

lemma peer_pend_feed: "peer_pend al c (pm_feed pm a) = peer_pend al c pm @ peer_adds al c a"
  by (simp add: peer_pend_def peer_adds_def pm_feed_def waiting_MustSend queued_def)

lemma peer_idle:
  "c \<noteq> [] \<Longrightarrow> peer_pend al c pm = [] \<Longrightarrow>
     GetNextMessageToSendPeer (ProtoMarshal al) c pm = (Inr empty_msg, pm)"
  by (simp add: peer_pend_def GetNextMessageToSendPeer_eq)

lemma peer_next:
  assumes "c \<noteq> []" and "pm_ready al cj pm" and "peer_pend al c pm = x # xs"
  shows "\<exists>pm'. GetNextMessageToSendPeer (ProtoMarshal al) c pm = (Inr x, pm') \<and>
           pm_ready al cj pm' \<and> peer_pend al c pm' = xs"
proof -
  from assms(3) obtain w wsl where w: "waiting pm c = w # wsl" "x = wire_of al w"
      "xs = map (wire_of al) wsl"
    by (auto simp: peer_pend_def)
  then have "w \<in> set (pm_out pm)" by (metis filter_is_subset list.set_intros(1) subsetD waiting_def)
  then have "sent_form (ProtoMarshal al) w = Inr x" using pm_ready_wire [OF assms(2)] w(2) by simp
  moreover have "filter (\<lambda>el. PeerID el = c) (remove_first (\<lambda>el. PeerID el = c) (pm_out pm)) = wsl"
    using w(1) by (simp add: filter_remove_first waiting_def)
  ultimately show ?thesis
    using assms(1,2) w pm_ready_sub [OF assms(2) set_remove_first_subset]
    by (simp add: GetNextMessageToSendPeer_eq peer_pend_def waiting_def)
qed

lemma peer_form:
  "pm_ready al cj pm \<Longrightarrow> x \<in> set (peer_pend al c pm) \<Longrightarrow>
     PeerID x \<noteq> [] \<and> Msg x \<noteq> PNil \<and> codec_ok cj x"
  using pm_ready_wire by (fastforce simp: peer_pend_def waiting_def)

subsection \<open>Draining all messages\<close>

definition all_pend :: "('m, 'e, 'pt, 'pl) alice \<Rightarrow> ('m, 'e) PeerManager \<Rightarrow> 'm tss_msg list" where
  "all_pend al pm = map (wire_of al) (pm_out pm)"

definition all_adds :: "('m, 'e, 'pt, 'pl) alice \<Rightarrow> string \<times> 'm \<Rightarrow> 'm tss_msg list" where
  "all_adds al a = [wire_of al (queued a)]"

lemma all_pend_feed: "all_pend al (pm_feed pm a) = all_pend al pm @ all_adds al a"
  by (simp add: all_pend_def all_adds_def pm_feed_def queued_def)

lemma all_idle:
  "all_pend al pm = [] \<Longrightarrow> GetNextMessageToSendAll (ProtoMarshal al) pm = (Inl err_no_message, pm)"
  by (simp add: all_pend_def GetNextMessageToSendAll_eq)

lemma idle_no_message: "idle_reply (Inl err_no_message)"
  by (simp add: idle_reply_def err_no_message_def HasPrefix_def)

lemma idle_empty_msg: "idle_reply (Inr empty_msg)"
  by (simp add: idle_reply_def empty_msg_def)

lemma all_next:
  "pm_ready al cj pm \<Longrightarrow> all_pend al pm = x # xs \<Longrightarrow>
     \<exists>pm'. GetNextMessageToSendAll (ProtoMarshal al) pm = (Inr x, pm') \<and>
       pm_ready al cj pm' \<and> all_pend al pm' = xs"
  using pm_ready_wire [of al cj pm] pm_ready_sub [of al cj pm]
  by (cases "pm_out pm") (auto simp: all_pend_def GetNextMessageToSendAll_eq)

lemma all_form:
  "pm_ready al cj pm \<Longrightarrow> x \<in> set (all_pend al pm) \<Longrightarrow>
     PeerID x \<noteq> [] \<and> Msg x \<noteq> PNil \<and> codec_ok cj x"
  using pm_ready_wire by (fastforce simp: all_pend_def)

lemmas source_facts =
  pm_ready_feed peer_pend_feed all_pend_feed idle_no_message idle_empty_msg
  peer_idle all_idle

subsection \<open>The actors\<close>

definition opt_ready ::
  "('m, 'e, 'pt, 'pl) alice \<Rightarrow> 'm tss_msg codec \<Rightarrow> ('m, 'e) PeerManager option \<Rightarrow> bool" where
  "opt_ready al cj pm = (case pm of None \<Rightarrow> False | Some p \<Rightarrow> pm_ready al cj p)"

text \<open>The library queues a message on the actor's peer manager.\<close>

definition ServerDkg_emit :: "('m, 'e, 'pt) ServerDkg \<Rightarrow> string \<times> 'm \<Rightarrow> ('m, 'e, 'pt) ServerDkg" where
  "ServerDkg_emit p a =
     p\<lparr>sd_service := (sd_service p)\<lparr>dk_pm := map_option (\<lambda>pm. pm_feed pm a) (dk_pm (sd_service p))\<rparr>\<rparr>"

definition ClientDkg_emit :: "('m, 'e, 'pt) ClientDkg \<Rightarrow> string \<times> 'm \<Rightarrow> ('m, 'e, 'pt) ClientDkg" where
  "ClientDkg_emit p a =
     p\<lparr>cd_service := (cd_service p)\<lparr>dk_pm := map_option (\<lambda>pm. pm_feed pm a) (dk_pm (cd_service p))\<rparr>\<rparr>"

definition ServerAdd_emit :: "('m, 'e, 'pt) ServerAdd \<Rightarrow> string \<times> 'm \<Rightarrow> ('m, 'e, 'pt) ServerAdd" where
  "ServerAdd_emit p a =
     p\<lparr>sa_service := (sa_service p)\<lparr>ax_pm := map_option (\<lambda>pm. pm_feed pm a) (ax_pm (sa_service p))\<rparr>\<rparr>"

definition ExistingClientAdd_emit ::
  "('m, 'e, 'pt) ExistingClientAdd \<Rightarrow> string \<times> 'm \<Rightarrow> ('m, 'e, 'pt) ExistingClientAdd" where
  "ExistingClientAdd_emit p a =
     p\<lparr>ea_service := (ea_service p)\<lparr>ax_pm := map_option (\<lambda>pm. pm_feed pm a) (ax_pm (ea_service p))\<rparr>\<rparr>"

definition ClientAdd_emit :: "('m, 'e, 'pt) ClientAdd \<Rightarrow> string \<times> 'm \<Rightarrow> ('m, 'e, 'pt) ClientAdd" where
  "ClientAdd_emit p a =
     p\<lparr>ca_service := (ca_service p)\<lparr>an_pm := map_option (\<lambda>pm. pm_feed pm a) (an_pm (ca_service p))\<rparr>\<rparr>"

definition pend_of :: "(('m, 'e) PeerManager \<Rightarrow> 'm tss_msg list) \<Rightarrow> ('m, 'e) PeerManager option \<Rightarrow> 'm tss_msg list" where
  "pend_of f pm = (case pm of None \<Rightarrow> [] | Some p \<Rightarrow> f p)"

lemma opt_peer_next:
  "opt_ready al cj q \<Longrightarrow> c \<noteq> [] \<Longrightarrow> pend_of (peer_pend al c) q = x # xs \<Longrightarrow>
     \<exists>pm pm'. q = Some pm \<and> GetNextMessageToSendPeer (ProtoMarshal al) c pm = (Inr x, pm') \<and>
       opt_ready al cj (Some pm') \<and> pend_of (peer_pend al c) (Some pm') = xs"
  using peer_next [of c al cj] by (fastforce simp: opt_ready_def pend_of_def split: option.splits)

lemma opt_all_next:
  "opt_ready al cj q \<Longrightarrow> pend_of (all_pend al) q = x # xs \<Longrightarrow>
     \<exists>pm pm'. q = Some pm \<and> GetNextMessageToSendAll (ProtoMarshal al) pm = (Inr x, pm') \<and>
       opt_ready al cj (Some pm') \<and> pend_of (all_pend al) (Some pm') = xs"
  using all_next [of al cj] by (fastforce simp: opt_ready_def pend_of_def split: option.splits)

lemma server_dkg_next:
  "opt_ready al cj (dk_pm (sd_service p)) \<Longrightarrow> sd_clientPeerID p = c \<Longrightarrow> c \<noteq> [] \<Longrightarrow>
     pend_of (peer_pend al c) (dk_pm (sd_service p)) = x # xs \<Longrightarrow>
     \<exists>p'. ServerDkg_GetNextMessageToSend al p = Ret (Inr x, p') \<and> sd_clientPeerID p' = c \<and>
       opt_ready al cj (dk_pm (sd_service p')) \<and> pend_of (peer_pend al c) (dk_pm (sd_service p')) = xs"
  using opt_peer_next [of al cj "dk_pm (sd_service p)" c x xs]
  by (fastforce simp: ServerDkg_GetNextMessageToSend_def)

lemma client_dkg_next:
  "opt_ready al cj (dk_pm (cd_service p)) \<Longrightarrow>
     pend_of (peer_pend al serverID) (dk_pm (cd_service p)) = x # xs \<Longrightarrow>
     \<exists>p'. ClientDkg_GetNextMessageToSend al p = Ret (Inr x, p') \<and>
       opt_ready al cj (dk_pm (cd_service p')) \<and>
       pend_of (peer_pend al serverID) (dk_pm (cd_service p')) = xs"
  using opt_peer_next [of al cj "dk_pm (cd_service p)" serverID x xs]
  by (fastforce simp: ClientDkg_GetNextMessageToSend_def serverID_def)

lemma server_add_next:
  "opt_ready al cj (ax_pm (sa_service p)) \<Longrightarrow> c \<noteq> [] \<Longrightarrow>
     pend_of (peer_pend al c) (ax_pm (sa_service p)) = x # xs \<Longrightarrow>
     \<exists>p'. ServerAdd_GetNextMessageToSend al c p = Ret (Inr x, p') \<and>
       opt_ready al cj (ax_pm (sa_service p')) \<and> pend_of (peer_pend al c) (ax_pm (sa_service p')) = xs"
  using opt_peer_next [of al cj "ax_pm (sa_service p)" c x xs]
  by (fastforce simp: ServerAdd_GetNextMessageToSend_def)

lemma existing_add_next:
  "opt_ready al cj (ax_pm (ea_service p)) \<Longrightarrow>
     pend_of (all_pend al) (ax_pm (ea_service p)) = x # xs \<Longrightarrow>
     \<exists>p'. ExistingClientAdd_GetNextMessageToSendAll al p = Ret (Inr x, p') \<and>
       opt_ready al cj (ax_pm (ea_service p')) \<and> pend_of (all_pend al) (ax_pm (ea_service p')) = xs"
  using opt_all_next [of al cj "ax_pm (ea_service p)" x xs]
  by (fastforce simp: ExistingClientAdd_GetNextMessageToSendAll_def)

lemma client_add_next:
  "opt_ready al cj (an_pm (ca_service p)) \<Longrightarrow>
     pend_of (all_pend al) (an_pm (ca_service p)) = x # xs \<Longrightarrow>
     \<exists>p'. ClientAdd_GetNextMessageToSendAll al p = Ret (Inr x, p') \<and>
       opt_ready al cj (an_pm (ca_service p')) \<and> pend_of (all_pend al) (an_pm (ca_service p')) = xs"
  using opt_all_next [of al cj "an_pm (ca_service p)" x xs]
  by (fastforce simp: ClientAdd_GetNextMessageToSendAll_def)

lemma opt_form:
  "opt_ready al cj q \<Longrightarrow> x \<in> set (pend_of (peer_pend al c) q) \<Longrightarrow>
     PeerID x \<noteq> [] \<and> Msg x \<noteq> PNil \<and> codec_ok cj x"
  "opt_ready al cj q \<Longrightarrow> x \<in> set (pend_of (all_pend al) q) \<Longrightarrow>
     PeerID x \<noteq> [] \<and> Msg x \<noteq> PNil \<and> codec_ok cj x"
  using peer_form all_form by (fastforce simp: opt_ready_def pend_of_def split: option.splits)+

lemma opt_feed:
  "opt_ready al cj q \<Longrightarrow> sendable al cj a \<Longrightarrow> opt_ready al cj (map_option (\<lambda>pm. pm_feed pm a) q)"
  "opt_ready al cj q \<Longrightarrow>
     pend_of (peer_pend al c) (map_option (\<lambda>pm. pm_feed pm a) q) =
     pend_of (peer_pend al c) q @ peer_adds al c a"
  "opt_ready al cj q \<Longrightarrow>
     pend_of (all_pend al) (map_option (\<lambda>pm. pm_feed pm a) q) =
     pend_of (all_pend al) q @ all_adds al a"
  by (auto simp: opt_ready_def pend_of_def source_facts split: option.splits)

lemma opt_idle:
  "opt_ready al cj q \<Longrightarrow> c \<noteq> [] \<Longrightarrow> pend_of (peer_pend al c) q = [] \<Longrightarrow>
     \<exists>pm. q = Some pm \<and> GetNextMessageToSendPeer (ProtoMarshal al) c pm = (Inr empty_msg, pm)"
  "opt_ready al cj q \<Longrightarrow> pend_of (all_pend al) q = [] \<Longrightarrow>
     \<exists>pm. q = Some pm \<and> GetNextMessageToSendAll (ProtoMarshal al) pm = (Inl err_no_message, pm)"
  by (auto simp: opt_ready_def pend_of_def source_facts split: option.splits)

lemma server_dkg_idle:
  "opt_ready al cj (dk_pm (sd_service p)) \<Longrightarrow> sd_clientPeerID p = c \<Longrightarrow> c \<noteq> [] \<Longrightarrow>
     pend_of (peer_pend al c) (dk_pm (sd_service p)) = [] \<Longrightarrow>
     \<exists>r. ServerDkg_GetNextMessageToSend al p = Ret (r, p) \<and> idle_reply r"
  using opt_idle(1) [of al cj "dk_pm (sd_service p)" c]
  by (auto simp: ServerDkg_GetNextMessageToSend_def idle_empty_msg)

lemma client_dkg_idle:
  "opt_ready al cj (dk_pm (cd_service p)) \<Longrightarrow>
     pend_of (peer_pend al serverID) (dk_pm (cd_service p)) = [] \<Longrightarrow>
     \<exists>r. ClientDkg_GetNextMessageToSend al p = Ret (r, p) \<and> idle_reply r"
  using opt_idle(1) [of al cj "dk_pm (cd_service p)" serverID]
  by (auto simp: ClientDkg_GetNextMessageToSend_def idle_empty_msg serverID_def)

lemma server_add_idle:
  "opt_ready al cj (ax_pm (sa_service p)) \<Longrightarrow> c \<noteq> [] \<Longrightarrow>
     pend_of (peer_pend al c) (ax_pm (sa_service p)) = [] \<Longrightarrow>
     \<exists>r. ServerAdd_GetNextMessageToSend al c p = Ret (r, p) \<and> idle_reply r"
  using opt_idle(1) [of al cj "ax_pm (sa_service p)" c]
  by (auto simp: ServerAdd_GetNextMessageToSend_def idle_empty_msg)

lemma existing_add_idle:
  "opt_ready al cj (ax_pm (ea_service p)) \<Longrightarrow>
     pend_of (all_pend al) (ax_pm (ea_service p)) = [] \<Longrightarrow>
     \<exists>r. ExistingClientAdd_GetNextMessageToSendAll al p = Ret (r, p) \<and> idle_reply r"
  using opt_idle(2) [of al cj "ax_pm (ea_service p)"]
  by (auto simp: ExistingClientAdd_GetNextMessageToSendAll_def idle_no_message)

lemma client_add_idle:
  "opt_ready al cj (an_pm (ca_service p)) \<Longrightarrow>
     pend_of (all_pend al) (an_pm (ca_service p)) = [] \<Longrightarrow>
     \<exists>r. ClientAdd_GetNextMessageToSendAll al p = Ret (r, p) \<and> idle_reply r"
  using opt_idle(2) [of al cj "an_pm (ca_service p)"]
  by (auto simp: ClientAdd_GetNextMessageToSendAll_def idle_no_message)

interpretation server_dkg: tss_source cj "ServerDkg_GetNextMessageToSend al" ServerDkg_emit
    "sendable al cj" "peer_adds al c" "\<lambda>p. pend_of (peer_pend al c) (dk_pm (sd_service p))"
    "\<lambda>p. c \<noteq> [] \<and> sd_clientPeerID p = c \<and> opt_ready al cj (dk_pm (sd_service p))"
  for cj and al :: "('m, 'e, 'pt, 'pl) alice" and c
  by unfold_locales
     (auto simp: ServerDkg_emit_def opt_feed intro!: server_dkg_next server_dkg_idle
        dest: opt_form(1) [where al = al and cj = cj])

interpretation client_dkg: tss_source cj "ClientDkg_GetNextMessageToSend al" ClientDkg_emit
    "sendable al cj" "peer_adds al serverID"
    "\<lambda>p. pend_of (peer_pend al serverID) (dk_pm (cd_service p))"
    "\<lambda>p. opt_ready al cj (dk_pm (cd_service p))"
  for cj and al :: "('m, 'e, 'pt, 'pl) alice"
  by unfold_locales
     (auto simp: ClientDkg_emit_def opt_feed intro!: client_dkg_next client_dkg_idle
        dest: opt_form(1) [where al = al and cj = cj])

interpretation server_add: tss_source cj "ServerAdd_GetNextMessageToSend al c" ServerAdd_emit
    "sendable al cj" "peer_adds al c" "\<lambda>p. pend_of (peer_pend al c) (ax_pm (sa_service p))"
    "\<lambda>p. c \<noteq> [] \<and> opt_ready al cj (ax_pm (sa_service p))"
  for cj and al :: "('m, 'e, 'pt, 'pl) alice" and c
  by unfold_locales
     (auto simp: ServerAdd_emit_def opt_feed intro!: server_add_next server_add_idle
        dest: opt_form(1) [where al = al and cj = cj])

interpretation existing_add: tss_source cj "ExistingClientAdd_GetNextMessageToSendAll al"
    ExistingClientAdd_emit "sendable al cj" "all_adds al"
    "\<lambda>p. pend_of (all_pend al) (ax_pm (ea_service p))"
    "\<lambda>p. opt_ready al cj (ax_pm (ea_service p))"
  for cj and al :: "('m, 'e, 'pt, 'pl) alice"
  by unfold_locales
     (auto simp: ExistingClientAdd_emit_def opt_feed intro!: existing_add_next existing_add_idle
        dest: opt_form(2) [where al = al and cj = cj])

interpretation client_add: tss_source cj "ClientAdd_GetNextMessageToSendAll al"
    ClientAdd_emit "sendable al cj" "all_adds al"
    "\<lambda>p. pend_of (all_pend al) (an_pm (ca_service p))"
    "\<lambda>p. opt_ready al cj (an_pm (ca_service p))"
  for cj and al :: "('m, 'e, 'pt, 'pl) alice"
  by unfold_locales
     (auto simp: ClientAdd_emit_def opt_feed intro!: client_add_next client_add_idle
        dest: opt_form(2) [where al = al and cj = cj])

end
