(* ===== verification/Recovery.thy ===== *)
theory Recovery
  imports TssData
begin

text \<open>
  \<open>utils/tss/recovery.go\<close> and \<open>RecoverPrivateKeyWrapper\<close>: the private key is the
  combination of the shares of two peers by Birkhoff interpolation at zero, and it is only
  returned when it belongs to the public key of the wallet.
\<close>

subsection \<open>Operations\<close>

record RecoveryPeer =
  rp_share :: int
  rp_bk :: "BkParameter option"

record 'pt PrivateKey =
  sk_D :: int
  sk_Public :: 'pt

definition err_bks :: "go_error \<Rightarrow> go_error" where
  "err_bks e = ErrNew (''BKS are incorrect: '' @ Error e)"

text \<open>
  The loop over the coefficients: \<open>shares[i]\<close> panics when there are more coefficients than
  shares. \<open>big.Int.Mod\<close> is the Euclidean remainder.
\<close>

fun combine :: "int \<Rightarrow> int list \<Rightarrow> int list \<Rightarrow> int go" where
  "combine acc [] shares = Ret acc"
| "combine acc (c # cs) [] = Panic ''index out of range''"
| "combine acc (c # cs) (s # shares) = combine (acc + c * s) cs shares"

definition RecoverPrivateKey ::
  "'pt curve_lib option \<Rightarrow> 32 word \<Rightarrow> 'pt \<Rightarrow> RecoveryPeer list \<Rightarrow> 'pt PrivateKey result go" where
  "RecoverPrivateKey curve threshold pubKey peers =
     (if length peers < 2 then Ret (Inl ErrNotEnoughPeers)
      else
        (case curve of
           None \<Rightarrow> Ret (Inl ErrAbsentCurve)
         | Some lib \<Rightarrow>
             (case EnsureThreshold lib threshold (of_nat (length peers)) of
                Inl err \<Rightarrow> Ret (Inl err)
              | Inr _ \<Rightarrow>
                  (let shares = map rp_share peers; bks = map rp_bk peers; N = CurveOrder lib in
                   case CheckValid lib threshold N bks of
                     Panic m \<Rightarrow> Panic m
                   | Ret (Inl err) \<Rightarrow> Ret (Inl (err_bks err))
                   | Ret (Inr _) \<Rightarrow>
                       (case ComputeBkCoefficient lib threshold N bks of
                          Panic m \<Rightarrow> Panic m
                        | Ret (Inl err) \<Rightarrow> Ret (Inl err)
                        | Ret (Inr coefs) \<Rightarrow>
                            (case combine 0 coefs shares of
                               Panic m \<Rightarrow> Panic m
                             | Ret k \<Rightarrow>
                                 (let d = k mod N; derived = BaseMult lib d in
                                  if \<not> PointEqual lib derived pubKey
                                  then Ret (Inl ErrPubKeyMismatch)
                                  else Ret (Inr \<lparr>sk_D = d, sk_Public = derived\<rparr>))))))))"

definition RecoverPrivateKeyWrapper ::
  "'pt curve_lib \<Rightarrow> string \<Rightarrow> PubkeyStr \<Rightarrow> string \<Rightarrow> string \<Rightarrow> BKs \<Rightarrow> 'pt PrivateKey result go" where
  "RecoverPrivateKeyWrapper lib clientPeerID pubkeyStr serverShareStr clientShareStr bks =
     (case NewPubkey pubkeyStr of
        Inl err \<Rightarrow> Ret (Inl err)
      | Inr pubkey \<Rightarrow>
          (case GetECPoint lib pubkey of
             Inl err \<Rightarrow> Ret (Inl err)
           | Inr ecPoint \<Rightarrow>
               (case ConvertDKGResult lib pubkey serverShareStr bks of
                  Inl err \<Rightarrow> Ret (Inl err)
                | Inr dkgResultServer \<Rightarrow>
                    (case big_SetString 10 clientShareStr of
                       None \<Rightarrow> Ret (Inl ErrConversion)
                     | Some clientShare \<Rightarrow>
                         RecoverPrivateKey (Some lib) 2 ecPoint
                           [\<lparr>rp_share = lr_Share dkgResultServer,
                             rp_bk = fmlookup (lr_Bks dkgResultServer) serverID\<rparr>,
                            \<lparr>rp_share = clientShare,
                             rp_bk = fmlookup (lr_Bks dkgResultServer) clientPeerID\<rparr>]))))"

subsection \<open>Interpolation\<close>

text \<open>
  The value that a peer with parameter \<open>bp\<close> holds of the polynomial \<open>d + k X\<close>: its value at
  \<open>x\<close> for rank 0, its derivative for rank 1, zero above.
\<close>

definition bk_eval :: "int \<Rightarrow> int \<Rightarrow> BkParameter \<Rightarrow> int" where
  "bk_eval d k bp =
     (if bp_rank bp = 0 then d + k * bp_x bp else if bp_rank bp = 1 then k else 0)"

text \<open>
  What the documentation of the library says of Birkhoff coefficients, for polynomials of
  degree below the threshold 2: combined with them, the values give the constant term.
\<close>

definition bk_coefs_ok :: "int \<Rightarrow> BkParameter list \<Rightarrow> int list \<Rightarrow> bool" where
  "bk_coefs_ok N bks cs \<longleftrightarrow>
     length cs = length bks \<and>
     (\<forall>d k. (\<Sum>(c, bp) \<leftarrow> zip cs bks. c * bk_eval d k bp) mod N = d mod N)"

lemma combine_ok:
  "length cs = length ss \<Longrightarrow> combine a cs ss = Ret (a + (\<Sum>(c, s) \<leftarrow> zip cs ss. c * s))"
  by (induction cs ss arbitrary: a rule: list_induct2) auto

lemma sum_mod_cong:
  "length cs = length xs \<Longrightarrow> length xs = length ys \<Longrightarrow>
   (\<And>i. i < length xs \<Longrightarrow> xs ! i mod N = ys ! i mod (N::int)) \<Longrightarrow>
     (\<Sum>(c, x) \<leftarrow> zip cs xs. c * x) mod N = (\<Sum>(c, y) \<leftarrow> zip cs ys. c * y) mod N"
proof (induction cs xs ys rule: list_induct3)
  case Nil
  then show ?case by simp
next
  case (Cons c cs x xs y ys)
  have "x mod N = y mod N" using Cons.prems [of 0] by simp
  then have cxy: "(c * x) mod N = (c * y) mod N" by (metis mod_mult_right_eq)
  have "(\<Sum>(c, x) \<leftarrow> zip cs xs. c * x) mod N = (\<Sum>(c, y) \<leftarrow> zip cs ys. c * y) mod N"
    using Cons.prems [of "Suc _"] by (intro Cons.IH) force
  with cxy show ?case by simp (metis mod_add_cong)
qed

lemma combine_interpolates:
  assumes "bk_coefs_ok N bks cs" and "length ss = length bks"
    and "\<And>i. i < length bks \<Longrightarrow> ss ! i mod N = bk_eval d k (bks ! i) mod N"
  shows "\<exists>v. combine 0 cs ss = Ret v \<and> v mod N = d mod N"
proof -
  have len: "length cs = length bks" using assms(1) by (simp add: bk_coefs_ok_def)
  have "(\<Sum>(c, s) \<leftarrow> zip cs ss. c * s) mod N =
      (\<Sum>(c, y) \<leftarrow> zip cs (map (bk_eval d k) bks). c * y) mod N"
    using assms len by (intro sum_mod_cong) simp_all
  also have "(\<Sum>(c, y) \<leftarrow> zip cs (map (bk_eval d k) bks). c * y) =
      (\<Sum>(c, bp) \<leftarrow> zip cs bks. c * bk_eval d k bp)"
    by (simp add: zip_map2 comp_def case_prod_unfold)
  also have "\<dots> mod N = d mod N" using assms(1) by (simp add: bk_coefs_ok_def)
  finally show ?thesis using len assms(2) by (simp add: combine_ok)
qed

lemma RecoverPrivateKey_sound:
  "RecoverPrivateKey (Some lib) t pubKey peers = Ret (Inr key) \<Longrightarrow>
     sk_Public key = BaseMult lib (sk_D key) \<and> PointEqual lib (sk_Public key) pubKey \<and>
     sk_D key mod CurveOrder lib = sk_D key"
  by (auto simp: RecoverPrivateKey_def Let_def split: sum.splits go.splits if_splits)

lemma RecoverPrivateKey_interpolates:
  assumes "2 \<le> length peers" and "map rp_bk peers = map Some bks"
    and "EnsureThreshold lib t (of_nat (length peers)) = Inr ()"
    and "CheckValid lib t (CurveOrder lib) (map Some bks) = Ret (Inr ())"
    and "ComputeBkCoefficient lib t (CurveOrder lib) (map Some bks) = Ret (Inr cs)"
    and "bk_coefs_ok (CurveOrder lib) bks cs"
    and "\<And>i. i < length bks \<Longrightarrow>
           rp_share (peers ! i) mod CurveOrder lib = bk_eval d k (bks ! i) mod CurveOrder lib"
    and "PointEqual lib (BaseMult lib (d mod CurveOrder lib)) pubKey"
  shows "RecoverPrivateKey (Some lib) t pubKey peers =
           Ret (Inr \<lparr>sk_D = d mod CurveOrder lib,
                     sk_Public = BaseMult lib (d mod CurveOrder lib)\<rparr>)"
proof -
  have len: "length peers = length bks" using assms(2) by (metis length_map)
  then have "\<exists>v. combine 0 cs (map rp_share peers) = Ret v \<and> v mod CurveOrder lib = d mod CurveOrder lib"
    using assms(6,7) by (intro combine_interpolates [where bks = bks and k = k]) simp_all
  with assms(1-5,8) show ?thesis
    by (auto simp: RecoverPrivateKey_def Let_def)
qed

end
