(* ===== verification/Samples.thy ===== *)
theory Samples
  imports TssSources Recovery
begin

text \<open>
  Concrete instances of the library parameters, for the properties that have hypotheses: a
  group of seven elements in the role of the curve, an engine that records the messages it is
  given, protobuf messages that are their own encoding, and a text encoding in the role of
  JSON. They satisfy the documented behaviour that the hypotheses name.
\<close>

subsection \<open>A small curve\<close>

definition toy_inverse :: "int \<Rightarrow> int" where
  "toy_inverse x = x ^ 5 mod 7"

definition toy_coefs :: "BkParameter option list \<Rightarrow> int list result go" where
  "toy_coefs bks =
     (case bks of
        [Some a, Some b] \<Rightarrow>
          Ret (Inr [bp_x b * toy_inverse (bp_x b - bp_x a) mod 7,
                    bp_x a * toy_inverse (bp_x a - bp_x b) mod 7])
      | _ \<Rightarrow> Ret (Inl (ErrLib ''invalid birkhoff parameters'')))"

text \<open>Points are exponents; the coordinates of \<open>P\<close> are \<open>P\<close> and \<open>P + 1\<close>.\<close>

definition toy_lib :: "int curve_lib" where
  "toy_lib =
     \<lparr>NewECPoint = (\<lambda>x y. if y = x + 1 \<and> 0 \<le> x \<and> x < 7 then Inr x else Inl (ErrLib ''invalid point'')),
      GetX = (\<lambda>P. P),
      GetY = (\<lambda>P. P + 1),
      BaseMult = (\<lambda>d. d mod 7),
      PointEqual = (=),
      CurveOrder = 7,
      IsOnCurve = (\<lambda>x y. y = x + 1 \<and> 0 \<le> x \<and> x < 7),
      KeccakSum = (\<lambda>bs. take 32 (bs @ replicate 32 (char_of (0::nat)))),
      BytesToAddress = (\<lambda>bs. bs),
      AddressHex = (\<lambda>bs. ''0x'' @ hex_encode bs),
      RecoverCompact = (\<lambda>sig msg.
        Inr (char_of (4::nat) # be_bytes 32 (if take 1 sig = [char_of (28::nat)] then 5 else 2)
             @ be_bytes 32 (if take 1 sig = [char_of (28::nat)] then 6 else 3))),
      EcdsaVerify = (\<lambda>k msg r s. ec_X k = Some 5 \<and> r \<noteq> None \<and> s \<noteq> None),
      EnsureThreshold = (\<lambda>t n. if t \<le> n then Inr () else Inl (ErrLib ''threshold'')),
      CheckValid = (\<lambda>t N bks.
        if None \<in> set bks then Panic ''invalid memory address or nil pointer dereference''
        else Ret (Inr ())),
      ComputeBkCoefficient = (\<lambda>t N bks. toy_coefs bks)\<rparr>"

subsection \<open>A recording engine\<close>

type_synonym toy_alice_t = "(string, string list, int, unit) alice"

definition toy_alice :: toy_alice_t where
  "toy_alice =
     \<lparr>ProtoMarshal = Inr, ProtoUnmarshal = (\<lambda>k bs. Inr bs), GetId = (\<lambda>m. take 1 m),
      AddMessage = (\<lambda>e sender m. (Inr (), e @ [sender @ m])),
      NewDKG = (\<lambda>v t r. Inr []),
      NewPaillier = (\<lambda>n. Inr ()),
      NewSigner = (\<lambda>v P pl s bks m. Inr []),
      NewOldAddShare = (\<lambda>v P t s bks c. Inr []),
      NewNewAddShare = (\<lambda>v P t r. [])\<rparr>"

subsection \<open>A text encoding\<close>

text \<open>Fields are written in hexadecimal, each closed by a comma.\<close>

definition sep :: char where
  "sep = CHR '',''"

definition join2 :: "string \<Rightarrow> string \<Rightarrow> bytes" where
  "join2 a b = hex_encode a @ [sep] @ hex_encode b"

definition split2 :: "bytes \<Rightarrow> (string \<times> string) result" where
  "split2 bs =
     (case split_at sep bs of
        [a, b] \<Rightarrow>
          (case hex_decode a of
             Inl e \<Rightarrow> Inl e
           | Inr x \<Rightarrow> (case hex_decode b of Inl e \<Rightarrow> Inl e | Inr y \<Rightarrow> Inr (x, y)))
      | _ \<Rightarrow> Inl (ErrLib ''unexpected end of JSON input''))"

definition toy_msg_codec :: "string tss_msg codec" where
  "toy_msg_codec =
     \<lparr>Marshal = (\<lambda>m. case Msg m of
         PStr s \<Rightarrow> Inr (join2 (PeerID m) s)
       | _ \<Rightarrow> Inl (ErrLib ''json: unsupported value'')),
      Unmarshal = (\<lambda>bs. case split2 bs of
         Inl e \<Rightarrow> Inl e
       | Inr (p, s) \<Rightarrow> Inr \<lparr>PeerID = p, Msg = PStr s\<rparr>)\<rparr>"

subsection \<open>They behave as documented\<close>

lemma split_at_no_sep: "d \<notin> set s \<Longrightarrow> split_at d s = [s]"
  by (induction s) auto

lemma split_at_one: "d \<notin> set a \<Longrightarrow> split_at d (a @ [d] @ b) = a # split_at d b"
  by (induction a) auto

lemma hex_digit_not_sep: "n < 16 \<Longrightarrow> hex_digit n \<noteq> sep"
  by (drule hex_digit_all [of "\<lambda>(k, d). d \<noteq> sep", rotated])
     (simp_all add: upt_rec hex_digit_def sep_def)

lemma sep_not_in_hex: "sep \<notin> set (hex_encode s)"
proof (induction s)
  case Nil
  show ?case by simp
next
  case (Cons c cs)
  have "(of_char c :: nat) div 16 < 16"
    using of_char_less_256 [of c] by (simp add: less_mult_imp_div_less)
  with Cons hex_digit_not_sep show ?case
    by (metis hex_encode.simps(2) mod_less_divisor set_ConsD zero_less_numeral)
qed

lemma split2_join2 [simp]: "split2 (join2 a b) = Inr (a, b)"
  by (simp add: split2_def join2_def split_at_one [simplified] split_at_no_sep sep_not_in_hex)

lemma toy_msg_codec_ok: "codec_ok toy_msg_codec \<lparr>PeerID = p, Msg = PStr s\<rparr>"
  by (simp add: codec_ok_def toy_msg_codec_def)

lemma toy_proto_ok: "proto_ok toy_alice k m"
  by (simp add: proto_ok_def toy_alice_def)

lemma toy_sendable: "p \<noteq> [] \<Longrightarrow> sendable toy_alice toy_msg_codec (p, m)"
  by (simp add: sendable_def toy_alice_def toy_msg_codec_ok)

end
