(* ===== verification/QueueProperties.thy ===== *)
theory QueueProperties
  imports Samples
begin

text \<open>
  The properties of the two forms of the outgoing queue of a peer manager, each with an
  instance at concrete values.
\<close>

subsection \<open>Peer queues\<close>

text \<open>C12: under any interleaving of sends and receives the queue of a peer with a non-empty
  identifier is a FIFO that loses, duplicates and reorders nothing: what was delivered to the
  peer, followed by what still waits for it, is what waited before followed by what was sent to
  it, each message in its wire form.\<close>

theorem outbox_fifo:
  assumes "p \<noteq> []" and "run_outbox MustSend (GetNextMessageToSendPeer marshal) ops q = (log, q')"
  shows "map Inr (delivered p log) @ map (sent_form marshal) (waiting q' p) =
           map (sent_form marshal) (waiting q p @ pushed p ops)"
  using assms by (rule pm_outbox.run_conserves)

definition queue_ops :: "string outbox_op list" where
  "queue_ops =
     [Push ''a'' (PProto ''x''), Push ''b'' (PProto ''y''), Push ''a'' (PProto ''z''), Pop ''a'']"

theorem outbox_fifo_witness:
  "map Inr (delivered ''a'' (fst (run_outbox MustSend (GetNextMessageToSendPeer Inr) queue_ops
       (NewPeerManager ''s'' :: (string, nat) PeerManager)))) @
     map (sent_form Inr) (waiting (snd (run_outbox MustSend (GetNextMessageToSendPeer Inr) queue_ops
       (NewPeerManager ''s'' :: (string, nat) PeerManager))) ''a'') =
   [Inr \<lparr>PeerID = ''a'', Msg = PStr (hex_encode ''x'')\<rparr>,
    Inr \<lparr>PeerID = ''a'', Msg = PStr (hex_encode ''z'')\<rparr>]"
proof -
  let ?q = "NewPeerManager ''s'' :: (string, nat) PeerManager"
  have "waiting ?q ''a'' = []" by (simp add: waiting_def NewPeerManager_def)
  moreover have "pushed ''a'' queue_ops =
      [\<lparr>PeerID = ''a'', Msg = PProto ''x''\<rparr>, \<lparr>PeerID = ''a'', Msg = PProto ''z''\<rparr>]"
    by (simp add: queue_ops_def)
  ultimately show ?thesis
    using outbox_fifo [of "''a''" Inr queue_ops ?q, OF _ surjective_pairing]
    by (simp add: sent_form_def)
qed

text \<open>Asking for the next message of the peer whose identifier is the empty string returns
  the last of its waiting messages and removes all of them: every earlier one is lost.\<close>

theorem empty_id_keeps_only_last:
  assumes "\<And>el. el \<in> set (pm_out p) \<Longrightarrow> PeerID el = [] \<Longrightarrow> sent_form marshal el = Inr (f el)"
  shows "GetNextMessageToSendPeer marshal [] p =
           (Inr (last (empty_msg # map f (waiting p []))),
            p\<lparr>pm_out := filter (\<lambda>el. PeerID el \<noteq> []) (pm_out p)\<rparr>)"
  using next_peer_loop_empty_id [of "pm_out p" marshal f empty_msg "[]"] assms
  by (simp add: GetNextMessageToSendPeer_def waiting_def empty_msg_def)

theorem empty_id_keeps_only_last_witness:
  "fst (GetNextMessageToSendPeer Inr []
     (MustSend (MustSend (NewPeerManager ''s'' :: (string, nat) PeerManager) [] (PProto ''x''))
        [] (PProto ''y''))) = Inr \<lparr>PeerID = [], Msg = PStr (hex_encode ''y'')\<rparr>"
  by (subst empty_id_keeps_only_last
        [where f = "\<lambda>el. \<lparr>PeerID = [], Msg = PStr (hex_encode (case Msg el of PProto m \<Rightarrow> m))\<rparr>"])
     (auto simp: sent_form_def waiting_def NewPeerManager_def)

text \<open>The bytes of a waiting message, and whether there are none.\<close>

definition raw_of :: "('m \<Rightarrow> bytes result) \<Rightarrow> 'm tss_msg \<Rightarrow> bytes result" where
  "raw_of marshal el =
     (case Msg el of PProto m \<Rightarrow> marshal m | _ \<Rightarrow> Inl (ErrNew ''invalid proto message''))"

lemma next_raw_loop_eq:
  "(\<And>el. el \<in> set els \<Longrightarrow> PeerID el = q \<Longrightarrow> raw_of marshal el = Inr (g el)) \<Longrightarrow>
   nxt = None \<or> nxt = Some [] \<Longrightarrow>
   \<exists>out. next_raw_loop marshal q nxt acc els =
       Inr (case dropWhile (\<lambda>el. g el = []) (filter (\<lambda>el. PeerID el = q) els) of
              [] \<Rightarrow> if filter (\<lambda>el. PeerID el = q) els = [] then nxt else Some []
            | el # _ \<Rightarrow> Some (g el), out) \<and>
     filter (\<lambda>el. PeerID el = q) out =
       filter (\<lambda>el. PeerID el = q) acc @
       tl (dropWhile (\<lambda>el. g el = []) (filter (\<lambda>el. PeerID el = q) els))"
proof (induction els arbitrary: nxt acc)
  case Nil
  then show ?case by simp
next
  case (Cons el els)
  show ?case
  proof (cases "PeerID el = q")
    case True
    then obtain m where m: "Msg el = PProto m" "marshal m = Inr (g el)"
      using Cons.prems(1) [of el] by (auto simp: raw_of_def split: payload.splits)
    show ?thesis
    proof (cases "g el = []")
      case empty: True
      have "\<exists>out. next_raw_loop marshal q (Some []) acc els =
          Inr (case dropWhile (\<lambda>el. g el = []) (filter (\<lambda>el. PeerID el = q) els) of
                 [] \<Rightarrow> if filter (\<lambda>el. PeerID el = q) els = [] then Some [] else Some []
               | el # _ \<Rightarrow> Some (g el), out) \<and>
          filter (\<lambda>el. PeerID el = q) out =
            filter (\<lambda>el. PeerID el = q) acc @
            tl (dropWhile (\<lambda>el. g el = []) (filter (\<lambda>el. PeerID el = q) els))"
        using Cons.prems by (intro Cons.IH) auto
      with True m empty Cons.prems(2) show ?thesis by (simp cong: list.case_cong)
    next
      case False
      with True m Cons.prems(2) show ?thesis by (auto simp: next_raw_loop_taken)
    qed
  next
    case False
    have "\<exists>out. next_raw_loop marshal q nxt (acc @ [el]) els =
        Inr (case dropWhile (\<lambda>el. g el = []) (filter (\<lambda>el. PeerID el = q) els) of
               [] \<Rightarrow> if filter (\<lambda>el. PeerID el = q) els = [] then nxt else Some []
             | el # _ \<Rightarrow> Some (g el), out) \<and>
        filter (\<lambda>el. PeerID el = q) out =
          filter (\<lambda>el. PeerID el = q) (acc @ [el]) @
          tl (dropWhile (\<lambda>el. g el = []) (filter (\<lambda>el. PeerID el = q) els))"
      using Cons.prems by (intro Cons.IH) auto
    with False show ?thesis by (simp cong: list.case_cong split del: if_split)
  qed
qed

text \<open>The raw variant that signing uses returns the first waiting message that marshals to
  some bytes and removes it together with the ones before it, which marshal to none; when all
  do, it removes them all and returns an empty slice.\<close>

theorem raw_queue_next:
  assumes "\<And>el. el \<in> set (waiting p q) \<Longrightarrow> raw_of marshal el = Inr (g el)"
  shows "\<exists>p'. GetNextMessageToSend marshal q p =
           (Inr (case dropWhile (\<lambda>el. g el = []) (waiting p q) of
                   [] \<Rightarrow> if waiting p q = [] then None else Some []
                 | el # _ \<Rightarrow> Some (g el)), p') \<and>
           waiting p' q = tl (dropWhile (\<lambda>el. g el = []) (waiting p q))"
proof -
  obtain out where out: "next_raw_loop marshal q None [] (pm_out p) =
       Inr (case dropWhile (\<lambda>el. g el = []) (waiting p q) of
              [] \<Rightarrow> if waiting p q = [] then None else Some []
            | el # _ \<Rightarrow> Some (g el), out)"
      "filter (\<lambda>el. PeerID el = q) out = tl (dropWhile (\<lambda>el. g el = []) (waiting p q))"
    using next_raw_loop_eq [of "pm_out p" q marshal g None "[]"] assms
    by (auto simp: waiting_def)
  then show ?thesis by (simp add: GetNextMessageToSend_def waiting_def)
qed

theorem raw_queue_next_witness:
  "fst (GetNextMessageToSend Inr ''a''
     (MustSend (MustSend (NewPeerManager ''s'' :: (string, nat) PeerManager) ''a'' (PProto []))
        ''a'' (PProto ''y''))) = Inr (Some ''y'')"
proof -
  let ?p = "MustSend (MustSend (NewPeerManager ''s'' :: (string, nat) PeerManager) ''a'' (PProto []))
        ''a'' (PProto ''y'')"
  have w: "waiting ?p ''a'' =
      [\<lparr>PeerID = ''a'', Msg = PProto []\<rparr>, \<lparr>PeerID = ''a'', Msg = PProto ''y''\<rparr>]"
    by (simp add: waiting_def NewPeerManager_def)
  have "\<exists>p'. GetNextMessageToSend Inr ''a'' ?p =
           (Inr (case dropWhile (\<lambda>el. (case Msg el of PProto m \<Rightarrow> m) = []) (waiting ?p ''a'') of
                   [] \<Rightarrow> if waiting ?p ''a'' = [] then None else Some []
                 | el # _ \<Rightarrow> Some (case Msg el of PProto m \<Rightarrow> m)), p') \<and>
           waiting p' ''a'' =
             tl (dropWhile (\<lambda>el. (case Msg el of PProto m \<Rightarrow> m) = []) (waiting ?p ''a''))"
    by (rule raw_queue_next) (auto simp: w raw_of_def)
  then show ?thesis by (auto simp: w)
qed

end
