(* ===== verification/Auth.thy ===== *)
theory Auth
  imports GoStd
begin

text \<open>
  The authentication providers of \<open>server/auth_providers.go\<close>: a bearer token is exchanged
  for a user identifier by Supabase or by a webhook of the operator. The remote service is a
  parameter (\<open>http_do\<close>: the answer to a request, or the error of building or sending it), as
  are JSON and \<open>uuid.Parse\<close>.
\<close>

subsection \<open>Requests to other services\<close>

record web_request =
  wq_method :: string
  wq_url :: string
  wq_header :: "(string \<times> string) list"
  wq_body :: bytes

text \<open>\<open>wr_body\<close> is what reading the body to its end gives.\<close>

record web_reply =
  wr_status :: int
  wr_body :: "bytes result"

type_synonym web = "web_request \<Rightarrow> web_reply result"

record auth_lib =
  http_do :: web
  user_json :: "bytes \<Rightarrow> string result"
  token_json :: "string \<Rightarrow> bytes result"
  uuid_parse :: "string \<Rightarrow> unit result"

record AuthConfig =
  ac_AuthType :: string
  ac_AuthServerUrl :: string
  ac_SupabaseUrl :: string
  ac_SupabaseApiKey :: string

subsection \<open>Supabase\<close>

definition supabase_request :: "string \<Rightarrow> string \<Rightarrow> string \<Rightarrow> web_request" where
  "supabase_request supabaseUrl supabaseApiKey jwt =
     \<lparr>wq_method = ''GET'', wq_url = TrimSuffix supabaseUrl ''/'' @ ''/auth/v1/user'',
      wq_header = [(''Authorization'', ''Bearer '' @ jwt), (''apikey'', supabaseApiKey)],
      wq_body = []\<rparr>"

definition Supabase :: "auth_lib \<Rightarrow> string \<Rightarrow> string \<Rightarrow> string \<Rightarrow> string result" where
  "Supabase al supabaseUrl supabaseApiKey jwt =
     (if length jwt = 0 then Inl ErrBadRequest
      else
        (case http_do al (supabase_request supabaseUrl supabaseApiKey jwt) of
           Inl err \<Rightarrow> Inl err
         | Inr resp \<Rightarrow>
             if wr_status resp \<noteq> 200 then
               (if wr_status resp = 400 then Inl ErrBadRequest
                else if wr_status resp = 401 \<or> wr_status resp = 403 then Inl ErrUnauthorized
                else if wr_status resp = 404 then Inl ErrNotFound
                else Inl (ErrNew ''unknown error from Supabase''))
             else
               (case wr_body resp of
                  Inl err \<Rightarrow> Inl err
                | Inr body \<Rightarrow>
                    (case user_json al body of
                       Inl err \<Rightarrow> Inl ErrBadRequest
                     | Inr user_ID \<Rightarrow>
                         if user_ID = [] then Inl ErrBadRequest
                         else
                           (case uuid_parse al user_ID of
                              Inl err \<Rightarrow> Inl ErrBadRequest
                            | Inr _ \<Rightarrow> Inr user_ID)))))"

subsection \<open>Custom authentication\<close>

definition custom_request :: "string \<Rightarrow> bytes \<Rightarrow> web_request" where
  "custom_request authServerUrl jsonReq =
     \<lparr>wq_method = ''POST'', wq_url = authServerUrl,
      wq_header = [(''Content-Type'', ''application/json'')], wq_body = jsonReq\<rparr>"

definition CustomAuth :: "auth_lib \<Rightarrow> string \<Rightarrow> string \<Rightarrow> string result" where
  "CustomAuth al authServerUrl token =
     (if length token = 0 then Inl ErrBadRequest
      else
        (case token_json al token of
           Inl err \<Rightarrow> Inl err
         | Inr jsonReq \<Rightarrow>
             (case http_do al (custom_request authServerUrl jsonReq) of
                Inl err \<Rightarrow> Inl err
              | Inr resp \<Rightarrow>
                  if wr_status resp \<noteq> 200 then
                    (if wr_status resp = 400 then Inl ErrBadRequest
                     else if wr_status resp = 401 then Inl ErrUnauthorized
                     else if wr_status resp = 404 then Inl ErrNotFound
                     else Inl (ErrNew ''unknown error from custom auth''))
                  else
                    (case wr_body resp of
                       Inl err \<Rightarrow> Inl err
                     | Inr body \<Rightarrow> Inr body))))"

subsection \<open>Dispatch\<close>

definition authProviders :: "auth_lib \<Rightarrow> AuthConfig \<Rightarrow> string \<Rightarrow> string result" where
  "authProviders al authConfig bearerToken =
     (if ac_AuthType authConfig = ''supabase'' then
        (if length (ac_SupabaseApiKey authConfig) = 0 \<or> length (ac_SupabaseUrl authConfig) = 0
         then Inl (ErrNew ''missing Supabase config'')
         else Supabase al (ac_SupabaseUrl authConfig) (ac_SupabaseApiKey authConfig) bearerToken)
      else if ac_AuthType authConfig = ''custom'' then
        (if length (ac_AuthServerUrl authConfig) = 0
         then Inl (ErrNew ''missing custom auth url'')
         else CustomAuth al (ac_AuthServerUrl authConfig) bearerToken)
      else Inl (ErrNew ''wrong auth type''))"

text \<open>A user identifier is only ever the answer 200 of the configured provider to this token.\<close>

lemma Supabase_Inr:
  "Supabase al u k jwt = Inr uid \<longleftrightarrow>
     jwt \<noteq> [] \<and> uid \<noteq> [] \<and>
     (\<exists>resp body v. http_do al (supabase_request u k jwt) = Inr resp \<and> wr_status resp = 200 \<and>
        wr_body resp = Inr body \<and> user_json al body = Inr uid \<and> uuid_parse al uid = Inr v)"
  by (auto simp: Supabase_def split: sum.splits if_splits)

lemma CustomAuth_Inr:
  "CustomAuth al u token = Inr uid \<longleftrightarrow>
     token \<noteq> [] \<and>
     (\<exists>js resp. token_json al token = Inr js \<and> http_do al (custom_request u js) = Inr resp \<and>
        wr_status resp = 200 \<and> wr_body resp = Inr uid)"
  by (auto simp: CustomAuth_def split: sum.splits if_splits)

end
