(* ===== verification/ServerHttp.thy ===== *)
theory ServerHttp
  imports Auth
begin

text \<open>
  The HTTP side of the server: the middlewares and plain handlers of \<open>server/handlers.go\<close>, the
  routes and start-up checks of \<open>server/main.go\<close>. A handler takes the request, the values of
  its context and the server state, and gives a response and the new state. The third-party
  packages are parameters: \<open>go-cache\<close> (the record \<open>cache_lib\<close> over a cache of type \<open>'c\<close>) and
  the random identifiers of \<open>google/uuid\<close>.
\<close>

subsection \<open>Requests, responses, contexts\<close>

text \<open>
  \<open>rq_header\<close> lists the entries of the header map in the order in which a \<open>range\<close> visits
  them; the names are distinct and in the canonical form of \<open>net/http\<close>.
\<close>

record request =
  rq_method :: string
  rq_scheme :: string
  rq_path :: string
  rq_query :: "string \<rightharpoonup> string list"
  rq_header :: "(string \<times> string list) list"
  rq_form :: "(string \<rightharpoonup> string) result"
  rq_body :: bytes

type_synonym ctx = "string \<rightharpoonup> string"

record response =
  rs_status :: nat
  rs_body :: bytes
  rs_header :: "string \<rightharpoonup> string"

text \<open>\<open>http.Error\<close> ends the text with a new line; a plain \<open>Write\<close> has status 200.\<close>

definition http_Error :: "string \<Rightarrow> nat \<Rightarrow> response" where
  "http_Error msg code =
     \<lparr>rs_status = code, rs_body = msg @ [char_of (10::nat)],
      rs_header = [''Content-Type'' \<mapsto> ''text/plain; charset=utf-8'']\<rparr>"

definition write_ok :: "bytes \<Rightarrow> response" where
  "write_ok bs = \<lparr>rs_status = 200, rs_body = bs, rs_header = Map.empty\<rparr>"

definition StatusBadRequest :: nat where "StatusBadRequest = 400"
definition StatusUnauthorized :: nat where "StatusUnauthorized = 401"
definition StatusNotFound :: nat where "StatusNotFound = 404"
definition StatusMethodNotAllowed :: nat where "StatusMethodNotAllowed = 405"
definition StatusConflict :: nat where "StatusConflict = 409"
definition StatusInternalServerError :: nat where "StatusInternalServerError = 500"

type_synonym 's handler = "request \<Rightarrow> ctx \<Rightarrow> 's \<Rightarrow> response \<times> 's"

text \<open>\<open>Header.Get\<close>: the first value, or the empty string.\<close>

definition header_Get :: "request \<Rightarrow> string \<Rightarrow> string" where
  "header_Get r name =
     (case map_of (rq_header r) name of Some (v # vs) \<Rightarrow> v | _ \<Rightarrow> [])"

definition query_Get :: "request \<Rightarrow> string \<Rightarrow> string" where
  "query_Get r name = (case rq_query r name of Some (v # vs) \<Rightarrow> v | _ \<Rightarrow> [])"

subsection \<open>Configuration and server state\<close>

record Config =
  cf_DevMode :: bool
  cf_Port :: int
  cf_DbConnectionUrl :: string
  cf_ClientOrigin :: string
  cf_AuthType :: string
  cf_AuthServerUrl :: string
  cf_SupabaseUrl :: string
  cf_SupabaseApiKey :: string

record tokenParameters =
  tp_userId :: string
  tp_metadata :: string

text \<open>What the server keeps in its cache: token parameters, device names, and channels.\<close>

datatype cache_value =
    CvToken tokenParameters
  | CvString string
  | CvChanString nat
  | CvChanAdder nat
  | CvChanUnit nat

record 'c cache_lib =
  Set :: "string \<Rightarrow> cache_value \<Rightarrow> 'c \<Rightarrow> 'c"
  Get :: "string \<Rightarrow> 'c \<Rightarrow> cache_value option"
  Delete :: "string \<Rightarrow> 'c \<Rightarrow> 'c"

text \<open>Documented behaviour of the cache, for entries that have not expired.\<close>

definition cache_ok :: "'c cache_lib \<Rightarrow> bool" where
  "cache_ok cl \<longleftrightarrow>
     (\<forall>k v c. Get cl k (Set cl k v c) = Some v) \<and>
     (\<forall>k k' v c. k' \<noteq> k \<longrightarrow> Get cl k' (Set cl k v c) = Get cl k' c) \<and>
     (\<forall>k c. Get cl k (Delete cl k c) = None) \<and>
     (\<forall>k k' c. k' \<noteq> k \<longrightarrow> Get cl k' (Delete cl k c) = Get cl k' c)"

subsection \<open>Bearer token\<close>

definition getBearerTokenFromHeader :: "string \<Rightarrow> string" where
  "getBearerTokenFromHeader header =
     replace_first (replace_first header ''Bearer'' []) '' '' []"

subsection \<open>Middlewares\<close>

definition headerPrefix :: string where
  "headerPrefix = ''M-''"

fun header_loop :: "(string \<times> string list) list \<Rightarrow> ctx \<Rightarrow> ctx" where
  "header_loop [] c = c"
| "header_loop ((name, values) # hs) c =
     (if HasPrefix name headerPrefix \<and> values \<noteq> []
      then header_loop hs (c(ToLower (TrimPrefix name headerPrefix) \<mapsto> hd values))
      else header_loop hs c)"

definition headerMiddleware :: "'s handler \<Rightarrow> 's handler" where
  "headerMiddleware next = (\<lambda>r c s. next r (header_loop (rq_header r) c) s)"

definition corsMiddleware :: "Config \<Rightarrow> 's handler \<Rightarrow> 's handler" where
  "corsMiddleware cfg next = (\<lambda>r c s.
     let cors = [''Access-Control-Allow-Origin'' \<mapsto> cf_ClientOrigin cfg,
                 ''Access-Control-Allow-Methods'' \<mapsto> ''GET, POST, OPTIONS'',
                 ''Access-Control-Allow-Headers'' \<mapsto> ''Content-Type, Authorization, M-METADATA''] in
     if rq_method r = ''OPTIONS'' then (\<lparr>rs_status = 204, rs_body = [], rs_header = cors\<rparr>, s)
     else (case next r c s of (resp, s') \<Rightarrow> (resp\<lparr>rs_header := cors ++ rs_header resp\<rparr>, s')))"

definition getAuthConfig :: "Config \<Rightarrow> AuthConfig result" where
  "getAuthConfig cfg =
     Inr \<lparr>ac_AuthType = cf_AuthType cfg, ac_AuthServerUrl = cf_AuthServerUrl cfg,
          ac_SupabaseUrl = cf_SupabaseUrl cfg, ac_SupabaseApiKey = cf_SupabaseApiKey cfg\<rparr>"

definition identityMiddleware ::
  "auth_lib \<Rightarrow> Config \<Rightarrow> AuthConfig result \<Rightarrow> 's handler \<Rightarrow> 's handler" where
  "identityMiddleware al cfg authCfg next = (\<lambda>r c s.
     if \<not> cf_DevMode cfg \<and> rq_scheme r \<noteq> ''https''
     then (http_Error ''Secure connection required'' StatusUnauthorized, s)
     else
       (let authHeader = header_Get r ''Authorization'' in
        if authHeader = [] \<or> getBearerTokenFromHeader authHeader = []
        then (http_Error ''Authorization header required'' StatusUnauthorized, s)
        else
          (case authCfg of
             Inl err \<Rightarrow> (http_Error ''Problem getting auth config'' StatusBadRequest, s)
           | Inr authConfig \<Rightarrow>
               (case authProviders al authConfig (getBearerTokenFromHeader authHeader) of
                  Inl err \<Rightarrow> (http_Error ''Invalid auth token'' StatusUnauthorized, s)
                | Inr userId \<Rightarrow> next r (c(''userId'' \<mapsto> userId)) s))))"

text \<open>The cache is a component of the state, reached by \<open>get\<close>.\<close>

definition authMiddleware ::
  "'c cache_lib \<Rightarrow> Config \<Rightarrow> ('s \<Rightarrow> 'c) \<Rightarrow> 's handler \<Rightarrow> 's handler" where
  "authMiddleware cl cfg get_cache next = (\<lambda>r c s.
     if \<not> cf_DevMode cfg \<and> rq_scheme r \<noteq> ''wss''
     then (http_Error ''Secure connection required'' StatusUnauthorized, s)
     else
       (case rq_query r ''token'' of
          Some (token # _) \<Rightarrow>
            (case Get cl token (get_cache s) of
               None \<Rightarrow> (http_Error ''The access token does not exist'' StatusUnauthorized, s)
             | Some v \<Rightarrow>
                 (case v of
                    CvToken tp \<Rightarrow>
                      next r (c(''userId'' \<mapsto> tp_userId tp, ''metadata'' \<mapsto> tp_metadata tp,
                                ''token'' \<mapsto> token)) s
                  | _ \<Rightarrow> (http_Error ''Issue during authorization'' StatusBadRequest, s)))
        | _ \<Rightarrow> (http_Error ''You need to provide an access token'' StatusUnauthorized, s)))"

subsection \<open>Handlers\<close>

definition ServeWasm :: "Config \<Rightarrow> bytes \<Rightarrow> 's handler" where
  "ServeWasm cfg wasm = (\<lambda>r c s.
     (\<lparr>rs_status = 200, rs_body = wasm,
       rs_header = [''Content-Type'' \<mapsto> ''application/wasm'',
                    ''Access-Control-Allow-Origin'' \<mapsto> cf_ClientOrigin cfg]\<rparr>, s))"

definition IdentifyHandler :: "'s handler" where
  "IdentifyHandler = (\<lambda>r c s.
     (case c ''userId'' of
        None \<Rightarrow> (http_Error ''Authorization info not found'' StatusUnauthorized, s)
      | Some userId \<Rightarrow> (write_ok userId, s)))"

text \<open>The access token is the string of a fresh random UUID.\<close>

definition AuthorizeHandler ::
  "'c cache_lib \<Rightarrow> (('c \<Rightarrow> 'c) \<Rightarrow> 's \<Rightarrow> 's) \<Rightarrow> string \<Rightarrow> 's handler" where
  "AuthorizeHandler cl upd_cache accessToken = (\<lambda>r c s.
     (case c ''userId'' of
        None \<Rightarrow> (http_Error ''Authorization info not found'' StatusUnauthorized, s)
      | Some userId \<Rightarrow>
          (case c ''metadata'' of
             None \<Rightarrow> (http_Error ''Authorization info not found'' StatusUnauthorized, s)
           | Some metadata \<Rightarrow>
               (write_ok accessToken,
                upd_cache
                  (Set cl accessToken (CvToken \<lparr>tp_userId = userId, tp_metadata = metadata\<rparr>)) s))))"

text \<open>The debug proxy sends the method and the body to a fixed address.\<close>

definition rpc_url :: string where
  "rpc_url = ''https://eth-sepolia.g.alchemy.com/v2/6dMGxuEv2875AnJoXy2dy-5swIeK7WGG''"

definition RpcHandler :: "web \<Rightarrow> 's handler" where
  "RpcHandler send = (\<lambda>r c s.
     (case send \<lparr>wq_method = rq_method r, wq_url = rpc_url, wq_header = [], wq_body = rq_body r\<rparr> of
        Inl err \<Rightarrow> (http_Error ''Internal Server Error'' StatusInternalServerError, s)
      | Inr resp \<Rightarrow>
          (case wr_body resp of
             Inl err \<Rightarrow> (http_Error ''Internal Server Error'' StatusInternalServerError, s)
           | Inr bodyBytes \<Rightarrow> (write_ok bodyBytes, s))))"

subsection \<open>Routes\<close>

datatype endpoint =
  EpRpc | EpWasm | EpIdentify | EpAuthorize | EpDkg | EpSign | EpExport | EpRegister | EpAccept
  | EpAdded nat

datatype guard = Open_route | Identity_route | Token_route

record route =
  rt_method :: "string option"
  rt_pattern :: string
  rt_guard :: guard
  rt_endpoint :: endpoint

definition a_route :: "string option \<Rightarrow> string \<Rightarrow> guard \<Rightarrow> endpoint \<Rightarrow> route" where
  "a_route m p g e = \<lparr>rt_method = m, rt_pattern = p, rt_guard = g, rt_endpoint = e\<rparr>"

text \<open>The table that \<open>NewServer\<close> registers on its router.\<close>

definition NewServer_routes :: "route list" where
  "NewServer_routes =
     [a_route None ''/rpc'' Open_route EpRpc,
      a_route (Some ''GET'') ''/meemaw.wasm'' Open_route EpWasm,
      a_route (Some ''GET'') ''/identify'' Identity_route EpIdentify,
      a_route (Some ''GET'') ''/authorize'' Identity_route EpAuthorize,
      a_route (Some ''GET'') ''/dkg'' Token_route EpDkg,
      a_route (Some ''GET'') ''/sign'' Token_route EpSign,
      a_route (Some ''POST'') ''/export'' Token_route EpExport,
      a_route (Some ''GET'') ''/register'' Token_route EpRegister,
      a_route (Some ''GET'') ''/accept'' Token_route EpAccept]"

definition AddRoute :: "string \<Rightarrow> string \<Rightarrow> nat \<Rightarrow> route list \<Rightarrow> unit result \<times> route list" where
  "AddRoute method pattern h rts =
     (if ToLower method = ''get'' then (Inr (), rts @ [a_route (Some ''GET'') pattern Token_route (EpAdded h)])
      else if ToLower method = ''post'' then (Inr (), rts @ [a_route (Some ''POST'') pattern Token_route (EpAdded h)])
      else (Inl (ErrNew ''method not recognized''), rts))"

text \<open>
  Routing by exact path: no route gives 404, a route for other methods only 405, and a later
  registration of a method and pattern replaces an earlier one.
\<close>

definition serve_routes ::
  "auth_lib \<Rightarrow> 'c cache_lib \<Rightarrow> Config \<Rightarrow> ('s \<Rightarrow> 'c) \<Rightarrow> (endpoint \<Rightarrow> 's handler) \<Rightarrow> route list \<Rightarrow> 's handler" where
  "serve_routes al cl cfg get_cache h rts = (\<lambda>r c s.
     (let here = filter (\<lambda>rt. rt_pattern rt = rq_path r) rts;
          able = filter (\<lambda>rt. rt_method rt = None \<or> rt_method rt = Some (rq_method r)) here in
      if here = [] then (http_Error ''404 page not found'' StatusNotFound, s)
      else if able = []
      then (\<lparr>rs_status = StatusMethodNotAllowed, rs_body = [], rs_header = Map.empty\<rparr>, s)
      else
        (case rt_guard (last able) of
           Open_route \<Rightarrow> h (rt_endpoint (last able)) r c s
         | Identity_route \<Rightarrow>
             identityMiddleware al cfg (getAuthConfig cfg) (h (rt_endpoint (last able))) r c s
         | Token_route \<Rightarrow> authMiddleware cl cfg get_cache (h (rt_endpoint (last able))) r c s)))"

definition ServeHTTP ::
  "auth_lib \<Rightarrow> 'c cache_lib \<Rightarrow> Config \<Rightarrow> ('s \<Rightarrow> 'c) \<Rightarrow> (endpoint \<Rightarrow> 's handler) \<Rightarrow> route list
     \<Rightarrow> request \<Rightarrow> 's \<Rightarrow> response \<times> 's" where
  "ServeHTTP al cl cfg get_cache h rts r s =
     corsMiddleware cfg (headerMiddleware (serve_routes al cl cfg get_cache h rts)) r Map.empty s"

text \<open>\<open>Start\<close>: outside dev mode it ends the program unless the three addresses mention https.\<close>

datatype started = Fatal string | Listening string

definition Start :: "bool \<Rightarrow> Config \<Rightarrow> started" where
  "Start darwin cfg =
     (if \<not> cf_DevMode cfg \<and>
         (\<not> Contains (cf_AuthServerUrl cfg) ''https'' \<or> \<not> Contains (cf_SupabaseUrl cfg) ''https''
          \<or> \<not> Contains (cf_ClientOrigin cfg) ''https'')
      then Fatal ''Server not in dev mode and not all targets are https''
      else Listening ((if darwin then ''localhost:'' else '':'') @ big_String (cf_Port cfg)))"

subsection \<open>Lemmas\<close>

lemma replace_first_prefix: "old \<noteq> [] \<Longrightarrow> replace_first (old @ s) old new = new @ s"
  by (cases old) (auto simp: HasPrefix_def)

lemma getBearer_Bearer [simp]: "getBearerTokenFromHeader (''Bearer '' @ token) = token"
proof -
  have "replace_first (''Bearer'' @ ('' '' @ token)) ''Bearer'' [] = [] @ ('' '' @ token)"
    by (rule replace_first_prefix) simp
  moreover have "replace_first ('' '' @ token) '' '' [] = [] @ token"
    by (rule replace_first_prefix) simp
  ultimately show ?thesis by (simp add: getBearerTokenFromHeader_def)
qed

lemma lower_char_not_upper:
  "\<not> (65 \<le> (of_char (lower_char c) :: nat) \<and> (of_char (lower_char c) :: nat) \<le> 90)"
  by (auto simp: lower_char_def of_char_of take_bit_nat_eq_self)

lemma header_loop_upper:
  assumes "\<exists>c \<in> set k. 65 \<le> (of_char c :: nat) \<and> (of_char c :: nat) \<le> 90"
  shows "header_loop hs c k = c k"
proof -
  have "k \<noteq> ToLower s" for s
    using assms lower_char_not_upper by (auto simp: ToLower_def)
  then show ?thesis
    by (induction hs c rule: header_loop.induct) auto
qed

lemma header_loop_other:
  "\<forall>(name, vs) \<in> set hs. HasPrefix name headerPrefix \<and> vs \<noteq> [] \<longrightarrow>
       ToLower (TrimPrefix name headerPrefix) \<noteq> k \<Longrightarrow> header_loop hs c k = c k"
  by (induction hs c rule: header_loop.induct) auto

lemma header_loop_append: "header_loop (xs @ ys) c = header_loop ys (header_loop xs c)"
  by (induction xs arbitrary: c) auto

lemma cache_okD:
  assumes "cache_ok cl"
  shows "Get cl k (Set cl k v c) = Some v"
    and "k' \<noteq> k \<Longrightarrow> Get cl k' (Set cl k v c) = Get cl k' c"
    and "Get cl k (Delete cl k c) = None"
    and "k' \<noteq> k \<Longrightarrow> Get cl k' (Delete cl k c) = Get cl k' c"
  using assms by (auto simp: cache_ok_def)

end
