(* ===== verification/Database.thy ===== *)
theory Database
  imports Prelude GoStd
begin

text \<open>
  The database: the tables of \<open>server/sqlc/schema.sql\<close> and the queries of
  \<open>server/database/query.sql.go\<close>. A table is the list of its rows in insertion order, with
  the next value of its \<open>BIGSERIAL\<close> key. The schema declares no unique index besides the
  keys, so \<open>ON CONFLICT DO NOTHING\<close> never applies. A query that fails in the driver (lost
  connection, cancelled context) changes nothing: \<open>run_query\<close>.
\<close>

subsection \<open>Tables\<close>

record User =
  us_ID :: nat
  us_ForeignKey :: string

record Wallet =
  wa_ID :: nat
  wa_UserID :: nat
  wa_PublicAddress :: string
  wa_EncryptedDkgResults :: bytes
  wa_Nonce :: bytes

record Device =
  dv_ID :: nat
  dv_UserID :: nat
  dv_WalletID :: nat
  dv_PeerID :: string
  dv_UserAgent :: string

record db =
  db_users :: "User list"
  db_wallets :: "Wallet list"
  db_devices :: "Device list"
  db_next_user :: nat
  db_next_wallet :: nat
  db_next_device :: nat

definition empty_db :: db where
  "empty_db =
     \<lparr>db_users = [], db_wallets = [], db_devices = [],
      db_next_user = 1, db_next_wallet = 1, db_next_device = 1\<rparr>"

text \<open>\<open>REFERENCES\<close> clauses that do not hold.\<close>

definition err_references :: go_error where
  "err_references = ErrLib ''insert or update on table violates foreign key constraint''"

text \<open>
  \<open>QueryRowContext\<close> and \<open>Scan\<close> keep one row of the answer; without \<open>ORDER BY\<close> the server
  may answer in any order, so which one it is is an argument.
\<close>

definition one_row :: "nat \<Rightarrow> 'r list \<Rightarrow> 'r result" where
  "one_row pick rows = (if rows = [] then Inl ErrNoRows else Inr (rows ! (pick mod length rows)))"

definition run_query :: "go_error option \<Rightarrow> (db \<Rightarrow> 'r result \<times> db) \<Rightarrow> db \<Rightarrow> 'r result \<times> db" where
  "run_query fault query d = (case fault of Some err \<Rightarrow> (Inl err, d) | None \<Rightarrow> query d)"

subsection \<open>Inserts\<close>

definition insert_user :: "string \<Rightarrow> db \<Rightarrow> User \<times> db" where
  "insert_user foreignKey d =
     (let u = \<lparr>us_ID = db_next_user d, us_ForeignKey = foreignKey\<rparr> in
      (u, d\<lparr>db_users := db_users d @ [u], db_next_user := Suc (db_next_user d)\<rparr>))"

definition insert_wallet :: "nat \<Rightarrow> string \<Rightarrow> bytes \<Rightarrow> bytes \<Rightarrow> db \<Rightarrow> Wallet \<times> db" where
  "insert_wallet userId publicAddress encrypted nonce d =
     (let w = \<lparr>wa_ID = db_next_wallet d, wa_UserID = userId, wa_PublicAddress = publicAddress,
               wa_EncryptedDkgResults = encrypted, wa_Nonce = nonce\<rparr> in
      (w, d\<lparr>db_wallets := db_wallets d @ [w], db_next_wallet := Suc (db_next_wallet d)\<rparr>))"

definition insert_device :: "nat \<Rightarrow> nat \<Rightarrow> string \<Rightarrow> string \<Rightarrow> db \<Rightarrow> Device \<times> db" where
  "insert_device userId walletId userAgent peerId d =
     (let v = \<lparr>dv_ID = db_next_device d, dv_UserID = userId, dv_WalletID = walletId,
               dv_PeerID = peerId, dv_UserAgent = userAgent\<rparr> in
      (v, d\<lparr>db_devices := db_devices d @ [v], db_next_device := Suc (db_next_device d)\<rparr>))"

definition AddUser :: "string \<Rightarrow> db \<Rightarrow> User result \<times> db" where
  "AddUser foreignKey d = (case insert_user foreignKey d of (u, d') \<Rightarrow> (Inr u, d'))"

definition AddWallet :: "nat \<Rightarrow> string \<Rightarrow> bytes \<Rightarrow> bytes \<Rightarrow> db \<Rightarrow> Wallet result \<times> db" where
  "AddWallet userId publicAddress encrypted nonce d =
     (if userId \<in> set (map us_ID (db_users d)) then
        (case insert_wallet userId publicAddress encrypted nonce d of (w, d') \<Rightarrow> (Inr w, d'))
      else (Inl err_references, d))"

definition AddDevice :: "nat \<Rightarrow> nat \<Rightarrow> string \<Rightarrow> string \<Rightarrow> db \<Rightarrow> Device result \<times> db" where
  "AddDevice userId walletId userAgent peerId d =
     (if userId \<in> set (map us_ID (db_users d)) \<and> walletId \<in> set (map wa_ID (db_wallets d)) then
        (case insert_device userId walletId userAgent peerId d of (v, d') \<Rightarrow> (Inr v, d'))
      else (Inl err_references, d))"

text \<open>The \<open>Dkg\<close> query: one user, one wallet of that user, one device of that wallet.\<close>

definition Dkg ::
  "string \<Rightarrow> string \<Rightarrow> string \<Rightarrow> string \<Rightarrow> bytes \<Rightarrow> bytes \<Rightarrow> db \<Rightarrow> Device result \<times> db" where
  "Dkg userAgent peerId foreignKey publicAddress encrypted nonce d =
     (case insert_user foreignKey d of
        (u, d1) \<Rightarrow>
          (case insert_wallet (us_ID u) publicAddress encrypted nonce d1 of
             (w, d2) \<Rightarrow>
               (case insert_device (us_ID u) (wa_ID w) userAgent peerId d2 of
                  (v, d3) \<Rightarrow> (Inr v, d3))))"

text \<open>
  The \<open>AddPeer\<close> query: it updates every wallet of every user with the foreign key and adds
  one device per updated wallet.
\<close>

definition user_ids :: "string \<Rightarrow> db \<Rightarrow> nat list" where
  "user_ids foreignKey d = map us_ID (filter (\<lambda>u. us_ForeignKey u = foreignKey) (db_users d))"

definition update_wallet :: "nat list \<Rightarrow> bytes \<Rightarrow> bytes \<Rightarrow> Wallet \<Rightarrow> Wallet" where
  "update_wallet ids encrypted nonce w =
     (if wa_UserID w \<in> set ids then w\<lparr>wa_EncryptedDkgResults := encrypted, wa_Nonce := nonce\<rparr> else w)"

fun insert_devices :: "Wallet list \<Rightarrow> string \<Rightarrow> string \<Rightarrow> db \<Rightarrow> Device list \<times> db" where
  "insert_devices [] userAgent peerId d = ([], d)"
| "insert_devices (w # ws) userAgent peerId d =
     (case insert_device (wa_UserID w) (wa_ID w) userAgent peerId d of
        (v, d1) \<Rightarrow> (case insert_devices ws userAgent peerId d1 of (vs, d2) \<Rightarrow> (v # vs, d2)))"

definition AddPeerQuery ::
  "nat \<Rightarrow> string \<Rightarrow> string \<Rightarrow> string \<Rightarrow> bytes \<Rightarrow> bytes \<Rightarrow> db \<Rightarrow> Device result \<times> db" where
  "AddPeerQuery pick userAgent peerId foreignKey encrypted nonce d =
     (let ids = user_ids foreignKey d;
          d1 = d\<lparr>db_wallets := map (update_wallet ids encrypted nonce) (db_wallets d)\<rparr>;
          updated = filter (\<lambda>w. wa_UserID w \<in> set ids) (db_wallets d1) in
      case insert_devices updated userAgent peerId d1 of
        (vs, d2) \<Rightarrow> (one_row pick vs, d2))"

subsection \<open>Selects\<close>

definition GetFirstUser :: "nat \<Rightarrow> db \<Rightarrow> User result" where
  "GetFirstUser pick d = one_row pick (db_users d)"

definition GetUserByForeignKey :: "nat \<Rightarrow> string \<Rightarrow> db \<Rightarrow> User result" where
  "GetUserByForeignKey pick foreignKey d =
     one_row pick (filter (\<lambda>u. us_ForeignKey u = foreignKey) (db_users d))"

definition GetUserByAddress :: "nat \<Rightarrow> string \<Rightarrow> db \<Rightarrow> User result" where
  "GetUserByAddress pick publicAddress d =
     one_row pick
       (concat (map (\<lambda>w. filter (\<lambda>u. us_ID u = wa_UserID w) (db_users d))
          (filter (\<lambda>w. wa_PublicAddress w = publicAddress) (db_wallets d))))"

definition GetUserDevices :: "nat \<Rightarrow> db \<Rightarrow> Device list" where
  "GetUserDevices userId d = filter (\<lambda>v. dv_UserID v = userId) (db_devices d)"

definition GetUserWallets :: "nat \<Rightarrow> db \<Rightarrow> Wallet list" where
  "GetUserWallets userId d = filter (\<lambda>w. wa_UserID w = userId) (db_wallets d)"

definition GetWalletByAddress :: "nat \<Rightarrow> string \<Rightarrow> db \<Rightarrow> Wallet result" where
  "GetWalletByAddress pick publicAddress d =
     one_row pick (filter (\<lambda>w. wa_PublicAddress w = publicAddress) (db_wallets d))"

text \<open>
  The row of \<open>GetUserSigningParameters\<close>. A \<open>LEFT JOIN\<close> gives a row of \<open>NULL\<close> for a user
  without wallet; a \<open>NULL\<close> scanned into a byte slice is the nil slice.
\<close>

record signing_row =
  sp_ID :: "nat option"
  sp_UserID :: "nat option"
  sp_PublicAddress :: "string option"
  sp_EncryptedDkgResults :: bytes
  sp_Nonce :: bytes

definition null_row :: signing_row where
  "null_row =
     \<lparr>sp_ID = None, sp_UserID = None, sp_PublicAddress = None,
      sp_EncryptedDkgResults = [], sp_Nonce = []\<rparr>"

definition wallet_row :: "Wallet \<Rightarrow> signing_row" where
  "wallet_row w =
     \<lparr>sp_ID = Some (wa_ID w), sp_UserID = Some (wa_UserID w),
      sp_PublicAddress = Some (wa_PublicAddress w),
      sp_EncryptedDkgResults = wa_EncryptedDkgResults w, sp_Nonce = wa_Nonce w\<rparr>"

definition signing_rows :: "string \<Rightarrow> db \<Rightarrow> signing_row list" where
  "signing_rows foreignKey d =
     concat (map (\<lambda>i. case GetUserWallets i d of [] \<Rightarrow> [null_row] | ws \<Rightarrow> map wallet_row ws)
       (user_ids foreignKey d))"

definition GetUserSigningParameters :: "nat \<Rightarrow> string \<Rightarrow> db \<Rightarrow> signing_row result" where
  "GetUserSigningParameters pick foreignKey d = one_row pick (signing_rows foreignKey d)"

definition Status :: "db \<Rightarrow> nat result" where
  "Status d = Inr 1"

subsection \<open>Loading a schema\<close>

text \<open>
  \<open>LoadSchema\<close> of \<open>server/schema.go\<close>: the statements of the embedded schema or of a file
  are executed in order until one fails. The driver's \<open>Exec\<close> is an argument.
\<close>

fun exec_all :: "(string \<Rightarrow> 'd \<Rightarrow> unit result \<times> 'd) \<Rightarrow> string list \<Rightarrow> 'd \<Rightarrow> unit result \<times> 'd" where
  "exec_all exec [] d = (Inr (), d)"
| "exec_all exec (q # qs) d =
     (case exec q d of
        (Inl err, d') \<Rightarrow> (Inl err, d')
      | (Inr _, d') \<Rightarrow> exec_all exec qs d')"

definition LoadSchema ::
  "(string \<Rightarrow> 'd \<Rightarrow> unit result \<times> 'd) \<Rightarrow> (string \<Rightarrow> string result) \<Rightarrow> string \<Rightarrow> string \<Rightarrow> 'd
     \<Rightarrow> unit result \<times> 'd" where
  "LoadSchema exec readFile schema path d =
     (if path = [] then exec_all exec (split_at (CHR '';'') schema) d
      else
        (case readFile path of
           Inl err \<Rightarrow> (Inl err, d)
         | Inr schemaFile \<Rightarrow> exec_all exec (split_at (CHR '';'') schemaFile) d))"

subsection \<open>Integrity\<close>

text \<open>
  What the keys and the \<open>REFERENCES\<close> clauses of the schema say of the tables: keys are
  unique and below the sequence, a wallet has a user, a device has a user and a wallet.
\<close>

definition db_ok :: "db \<Rightarrow> bool" where
  "db_ok d \<longleftrightarrow>
     distinct (map us_ID (db_users d)) \<and> (\<forall>u \<in> set (db_users d). us_ID u < db_next_user d) \<and>
     distinct (map wa_ID (db_wallets d)) \<and> (\<forall>w \<in> set (db_wallets d). wa_ID w < db_next_wallet d) \<and>
     distinct (map dv_ID (db_devices d)) \<and> (\<forall>v \<in> set (db_devices d). dv_ID v < db_next_device d) \<and>
     (\<forall>w \<in> set (db_wallets d). wa_UserID w \<in> set (map us_ID (db_users d))) \<and>
     (\<forall>v \<in> set (db_devices d). dv_UserID v \<in> set (map us_ID (db_users d)) \<and>
        dv_WalletID v \<in> set (map wa_ID (db_wallets d)))"

lemmas insert_defs = insert_user_def insert_wallet_def insert_device_def

lemma db_ok_empty [simp]: "db_ok empty_db"
  by (simp add: db_ok_def empty_db_def)

lemma insert_user_ok: "db_ok d \<Longrightarrow> db_ok (snd (insert_user k d))"
  unfolding db_ok_def insert_defs Let_def by force

lemma insert_wallet_ok:
  "db_ok d \<Longrightarrow> u \<in> set (map us_ID (db_users d)) \<Longrightarrow> db_ok (snd (insert_wallet u a e n d))"
  unfolding db_ok_def insert_defs Let_def by force

lemma insert_device_ok:
  "db_ok d \<Longrightarrow> u \<in> set (map us_ID (db_users d)) \<Longrightarrow> w \<in> set (map wa_ID (db_wallets d)) \<Longrightarrow>
     db_ok (snd (insert_device u w ua p d))"
  unfolding db_ok_def insert_defs Let_def by force

lemma update_wallet_simps [simp]:
  "wa_ID (update_wallet ids e n w) = wa_ID w"
  "wa_UserID (update_wallet ids e n w) = wa_UserID w"
  "wa_PublicAddress (update_wallet ids e n w) = wa_PublicAddress w"
  by (simp_all add: update_wallet_def)

lemma insert_devices_frame:
  "insert_devices ws ua p d = (vs, d') \<Longrightarrow>
     db_users d' = db_users d \<and> db_wallets d' = db_wallets d \<and> db_devices d' = db_devices d @ vs \<and>
     map dv_WalletID vs = map wa_ID ws \<and> map dv_UserID vs = map wa_UserID ws \<and>
     (\<forall>v \<in> set vs. dv_PeerID v = p \<and> dv_UserAgent v = ua)"
  by (induction ws arbitrary: d vs d') (force simp: insert_device_def Let_def split: prod.splits)+

lemma insert_devices_ok:
  "db_ok d \<Longrightarrow> set ws \<subseteq> set (db_wallets d) \<Longrightarrow> db_ok (snd (insert_devices ws ua p d))"
proof (induction ws arbitrary: d)
  case Nil
  then show ?case by simp
next
  case (Cons w ws)
  let ?d1 = "snd (insert_device (wa_UserID w) (wa_ID w) ua p d)"
  have "w \<in> set (db_wallets d)" using Cons.prems(2) by simp
  then have "wa_UserID w \<in> set (map us_ID (db_users d))" "wa_ID w \<in> set (map wa_ID (db_wallets d))"
    using Cons.prems(1) by (auto simp: db_ok_def)
  then have "db_ok ?d1" using Cons.prems(1) by (intro insert_device_ok)
  moreover have "set ws \<subseteq> set (db_wallets ?d1)"
    using Cons.prems(2) by (simp add: insert_device_def Let_def)
  ultimately have "db_ok (snd (insert_devices ws ua p ?d1))" by (rule Cons.IH)
  then show ?case by (simp add: case_prod_beta)
qed

lemma update_ok:
  "db_ok d \<Longrightarrow> db_ok (d\<lparr>db_wallets := map (update_wallet ids e n) (db_wallets d)\<rparr>)"
  by (simp add: db_ok_def comp_def)

text \<open>Every statement that changes the tables keeps them sound.\<close>

lemma AddUser_ok: "db_ok d \<Longrightarrow> db_ok (snd (AddUser k d))"
  using insert_user_ok [of d k] by (simp add: AddUser_def case_prod_beta)

lemma AddWallet_ok: "db_ok d \<Longrightarrow> db_ok (snd (AddWallet u a e n d))"
  using insert_wallet_ok [of d u a e n] by (simp add: AddWallet_def case_prod_beta)

lemma AddDevice_ok: "db_ok d \<Longrightarrow> db_ok (snd (AddDevice u w ua p d))"
  using insert_device_ok [of d u w ua p] by (simp add: AddDevice_def case_prod_beta)

lemma Dkg_query_ok: "db_ok d \<Longrightarrow> db_ok (snd (Dkg ua p k a e n d))"
proof -
  assume ok: "db_ok d"
  obtain u d1 where 1: "insert_user k d = (u, d1)" by (cases "insert_user k d")
  obtain w d2 where 2: "insert_wallet (us_ID u) a e n d1 = (w, d2)"
    by (cases "insert_wallet (us_ID u) a e n d1")
  have "db_ok d1" using insert_user_ok [OF ok, of k] 1 by simp
  moreover have "us_ID u \<in> set (map us_ID (db_users d1))"
    using 1 by (auto simp: insert_user_def Let_def)
  ultimately have d2: "db_ok d2" using insert_wallet_ok [of d1 "us_ID u" a e n] 2 by simp
  have "us_ID u \<in> set (map us_ID (db_users d2))" "wa_ID w \<in> set (map wa_ID (db_wallets d2))"
    using 1 2 by (auto simp: insert_user_def insert_wallet_def Let_def)
  with d2 have "db_ok (snd (insert_device (us_ID u) (wa_ID w) ua p d2))" by (rule insert_device_ok)
  then show ?thesis using 1 2 by (simp add: Dkg_def case_prod_beta)
qed

lemma AddPeerQuery_ok: "db_ok d \<Longrightarrow> db_ok (snd (AddPeerQuery pick ua p k e n d))"
  unfolding AddPeerQuery_def Let_def case_prod_beta
  by (simp add: insert_devices_ok update_ok)

lemma run_query_ok: "db_ok d \<Longrightarrow> (\<And>d. db_ok d \<Longrightarrow> db_ok (snd (q d))) \<Longrightarrow> db_ok (snd (run_query f q d))"
  by (simp add: run_query_def split: option.splits)

end
