(* ===== verification/Vault.thy ===== *)
theory Vault
  imports Database WsLayer
begin

text \<open>
  The vault of \<open>server/vault/wallet.go\<close>: the server's half of a wallet is stored encrypted
  with a key that only the client keeps (the metadata). AES-GCM, the random source and
  \<open>encoding/json\<close> are parameters. The last part states what the server relies on of a vault
  (the Go interface \<open>Vault\<close> of \<open>server/main.go\<close>) and shows that this one provides it.
\<close>

subsection \<open>AES-GCM and random bytes\<close>

record aead =
  Seal :: "bytes \<Rightarrow> bytes \<Rightarrow> bytes \<Rightarrow> bytes"
  Open :: "bytes \<Rightarrow> bytes \<Rightarrow> bytes \<Rightarrow> bytes result"

definition aead_ok :: "aead \<Rightarrow> bool" where
  "aead_ok ae \<longleftrightarrow> (\<forall>key nonce text. Open ae key nonce (Seal ae key nonce text) = Inr text)"

type_synonym random = "nat \<Rightarrow> bytes result"

text \<open>\<open>io.ReadFull\<close> fills the slice or fails.\<close>

definition random_ok :: "random \<Rightarrow> bool" where
  "random_ok rnd \<longleftrightarrow> (\<forall>n bs. rnd n = Inr bs \<longrightarrow> length bs = n)"

definition generateRandomBytes :: "random \<Rightarrow> nat \<Rightarrow> bytes result" where
  "generateRandomBytes rnd n = rnd n"

definition NonceSize :: nat where
  "NonceSize = 12"

text \<open>\<open>aes.NewCipher\<close> accepts keys of 16, 24 and 32 bytes.\<close>

definition NewCipher :: "bytes \<Rightarrow> unit result" where
  "NewCipher key =
     (if length key = 16 \<or> length key = 24 \<or> length key = 32 then Inr ()
      else Inl (ErrLib (''crypto/aes: invalid key size '' @ nat_digits 10 (length key))))"

definition encryptAES :: "aead \<Rightarrow> random \<Rightarrow> bytes \<Rightarrow> bytes \<Rightarrow> (bytes \<times> bytes) result" where
  "encryptAES ae rnd plaintext key =
     (case NewCipher key of
        Inl err \<Rightarrow> Inl err
      | Inr _ \<Rightarrow>
          (case generateRandomBytes rnd NonceSize of
             Inl err \<Rightarrow> Inl err
           | Inr nonce \<Rightarrow> Inr (nonce, Seal ae key nonce plaintext)))"

text \<open>\<open>Open\<close> panics on a nonce of another length.\<close>

definition decryptAES :: "aead \<Rightarrow> bytes \<Rightarrow> bytes \<Rightarrow> bytes \<Rightarrow> bytes result go" where
  "decryptAES ae nonce ciphertext key =
     (case NewCipher key of
        Inl err \<Rightarrow> Ret (Inl err)
      | Inr _ \<Rightarrow>
          if length nonce \<noteq> NonceSize
          then Panic ''crypto/cipher: incorrect nonce length given to GCM''
          else Ret (Open ae key nonce ciphertext))"

lemma decrypt_encrypt:
  assumes "aead_ok ae" and "random_ok rnd" and "encryptAES ae rnd text key = Inr (nonce, ct)"
  shows "decryptAES ae nonce ct key = Ret (Inr text)"
  using assms
  by (auto simp: encryptAES_def decryptAES_def aead_ok_def random_ok_def generateRandomBytes_def
        split: sum.splits)

subsection \<open>Operations\<close>

definition WalletExists :: "go_error option \<Rightarrow> nat \<Rightarrow> string \<Rightarrow> db \<Rightarrow> go_error option" where
  "WalletExists fault pick foreignKey d =
     (case fault of
        Some err \<Rightarrow> Some err
      | None \<Rightarrow> (case GetUserByForeignKey pick foreignKey d of Inl err \<Rightarrow> Some err | Inr _ \<Rightarrow> None))"

text \<open>The random numbers of a call (key and nonce) and a failure of its query.\<close>

record draw =
  dw_key :: random
  dw_nonce :: random
  dw_fault :: "go_error option"

definition draw_ok :: "draw \<Rightarrow> bool" where
  "draw_ok r \<longleftrightarrow> random_ok (dw_key r) \<and> random_ok (dw_nonce r)"

definition StoreWallet ::
  "DkgResult codec \<Rightarrow> aead \<Rightarrow> draw \<Rightarrow> string \<Rightarrow> string \<Rightarrow> string \<Rightarrow> DkgResult \<Rightarrow> db
     \<Rightarrow> string result \<times> db" where
  "StoreWallet cj ae r foreignKey peerID userAgent dkgResult d =
     (case Marshal cj dkgResult of
        Inl err \<Rightarrow> (Inl err, d)
      | Inr jsonDkgResult \<Rightarrow>
          (case dw_key r 32 of
             Inl err \<Rightarrow> (Inl err, d)
           | Inr clientKey \<Rightarrow>
               (case encryptAES ae (dw_nonce r) jsonDkgResult clientKey of
                  Inl err \<Rightarrow> (Inl err, d)
                | Inr (nonce, encrypted) \<Rightarrow>
                    (case run_query (dw_fault r)
                            (Dkg userAgent peerID foreignKey (dr_Address dkgResult) encrypted nonce) d of
                       (Inl err, d') \<Rightarrow> (Inl err, d')
                     | (Inr _, d') \<Rightarrow> (Inr (hex_encode clientKey), d')))))"

definition err_no_metadata :: go_error where
  "err_no_metadata = ErrNew ''could not find customer identifier''"

text \<open>\<open>metadata\<close> is the string under the context key \<open>metadata\<close>, if there is one.\<close>

definition VaultAddPeer ::
  "DkgResult codec \<Rightarrow> aead \<Rightarrow> draw \<Rightarrow> nat \<Rightarrow> string option \<Rightarrow> string \<Rightarrow> string \<Rightarrow> string \<Rightarrow> DkgResult
     \<Rightarrow> db \<Rightarrow> unit result \<times> db" where
  "VaultAddPeer cj ae r pick metadata foreignKey peerID userAgent updated d =
     (case metadata of
        None \<Rightarrow> (Inl err_no_metadata, d)
      | Some clientKeyStr \<Rightarrow>
          (case hex_decode clientKeyStr of
             Inl err \<Rightarrow> (Inl err, d)
           | Inr clientKey \<Rightarrow>
               (case Marshal cj updated of
                  Inl err \<Rightarrow> (Inl err, d)
                | Inr jsonDkgResult \<Rightarrow>
                    (case encryptAES ae (dw_nonce r) jsonDkgResult clientKey of
                       Inl err \<Rightarrow> (Inl err, d)
                     | Inr (nonce, encrypted) \<Rightarrow>
                         (case run_query (dw_fault r)
                                 (AddPeerQuery pick userAgent peerID foreignKey encrypted nonce) d of
                            (Inl err, d') \<Rightarrow> (Inl err, d')
                          | (Inr _, d') \<Rightarrow> (Inr (), d'))))))"

definition RetrieveWallet ::
  "DkgResult codec \<Rightarrow> aead \<Rightarrow> go_error option \<Rightarrow> nat \<Rightarrow> string option \<Rightarrow> string \<Rightarrow> db
     \<Rightarrow> DkgResult result go" where
  "RetrieveWallet cj ae fault pick metadata foreignKey d =
     (case (case fault of Some err \<Rightarrow> Inl err | None \<Rightarrow> GetUserSigningParameters pick foreignKey d) of
        Inl err \<Rightarrow> Ret (Inl ErrNotFound)
      | Inr res \<Rightarrow>
          (case metadata of
             None \<Rightarrow> Ret (Inl err_no_metadata)
           | Some clientKeyStr \<Rightarrow>
               (case hex_decode clientKeyStr of
                  Inl err \<Rightarrow> Ret (Inl err)
                | Inr clientKey \<Rightarrow>
                    (case decryptAES ae (sp_Nonce res) (sp_EncryptedDkgResults res) clientKey of
                       Panic m \<Rightarrow> Panic m
                     | Ret (Inl err) \<Rightarrow> Ret (Inl err)
                     | Ret (Inr jsonDkgResults) \<Rightarrow>
                         (case Unmarshal cj jsonDkgResults of
                            Inl err \<Rightarrow> Ret (Inl err)
                          | Inr dkgResult \<Rightarrow> Ret (Inr dkgResult))))))"

subsection \<open>The tables between operations\<close>

definition known :: "db \<Rightarrow> string \<Rightarrow> bool" where
  "known d k \<longleftrightarrow> k \<in> set (map us_ForeignKey (db_users d))"

text \<open>One user per foreign key, one wallet per user.\<close>

definition vault_ok :: "db \<Rightarrow> bool" where
  "vault_ok d \<longleftrightarrow> db_ok d \<and> distinct (map us_ForeignKey (db_users d)) \<and>
     (\<forall>u \<in> set (db_users d). \<exists>w. GetUserWallets (us_ID u) d = [w])"

lemma one_row_single [simp]: "one_row pick [x] = Inr x"
  by (simp add: one_row_def)

lemma filter_key:
  "distinct (map f xs) \<Longrightarrow> x \<in> set xs \<Longrightarrow> filter (\<lambda>y. f y = f x) xs = [x]"
proof (induction xs)
  case Nil
  then show ?case by simp
next
  case (Cons y ys)
  show ?case
  proof (cases "x = y")
    case True
    with Cons.prems(1) have "\<forall>z \<in> set ys. f z \<noteq> f x" by (auto simp: image_iff)
    with True show ?thesis by (simp add: filter_empty_conv)
  next
    case False
    with Cons show ?thesis by auto
  qed
qed

lemma WalletExists_iff: "WalletExists None pick k d = None \<longleftrightarrow> known d k"
  by (auto simp: WalletExists_def GetUserByForeignKey_def one_row_def known_def filter_empty_conv)

lemma user_ids_known:
  "vault_ok d \<Longrightarrow> known d k \<Longrightarrow>
     \<exists>i w. user_ids k d = [i] \<and> i < db_next_user d \<and> i \<in> set (map us_ID (db_users d)) \<and> GetUserWallets i d = [w]"
proof -
  assume ok: "vault_ok d" and "known d k"
  then obtain u where u: "u \<in> set (db_users d)" "us_ForeignKey u = k" by (auto simp: known_def)
  then have "user_ids k d = [us_ID u]"
    using ok filter_key [of us_ForeignKey "db_users d" u] by (simp add: vault_ok_def user_ids_def)
  moreover obtain w where "GetUserWallets (us_ID u) d = [w]" using ok u by (auto simp: vault_ok_def)
  moreover have "us_ID u < db_next_user d" using ok u by (simp add: vault_ok_def db_ok_def)
  ultimately show ?thesis using u by auto
qed

lemma user_ids_unknown: "\<not> known d k \<Longrightarrow> user_ids k d = []"
  by (simp add: known_def user_ids_def filter_empty_conv image_iff) metis

lemma signing_rows_known:
  "user_ids k d = [i] \<Longrightarrow> GetUserWallets i d = [w] \<Longrightarrow>
     GetUserSigningParameters pick k d = Inr (wallet_row w)"
  by (simp add: GetUserSigningParameters_def signing_rows_def)

text \<open>What the \<open>Dkg\<close> query does to the rows of its own and of other foreign keys.\<close>

lemma Dkg_query:
  assumes "vault_ok d" and "\<not> known d k" and "Dkg ua p k a e n d = (r, d')"
  shows "(\<exists>v. r = Inr v) \<and> vault_ok d' \<and> known d' k \<and>
         GetUserSigningParameters pick k d' =
           Inr \<lparr>sp_ID = Some (db_next_wallet d), sp_UserID = Some (db_next_user d),
                sp_PublicAddress = Some a, sp_EncryptedDkgResults = e, sp_Nonce = n\<rparr>"
proof -
  let ?u = "\<lparr>us_ID = db_next_user d, us_ForeignKey = k\<rparr>"
  let ?w = "\<lparr>wa_ID = db_next_wallet d, wa_UserID = db_next_user d, wa_PublicAddress = a,
             wa_EncryptedDkgResults = e, wa_Nonce = n\<rparr>"
  have d': "db_users d' = db_users d @ [?u]" "db_wallets d' = db_wallets d @ [?w]"
    and r: "\<exists>v. r = Inr v"
    using assms(3) by (auto simp: Dkg_def insert_defs Let_def)
  have fresh: "\<forall>w \<in> set (db_wallets d). wa_UserID w \<noteq> db_next_user d"
    using assms(1) by (fastforce simp: vault_ok_def db_ok_def)
  then have own: "GetUserWallets (db_next_user d) d' = [?w]"
    using d' by (simp add: GetUserWallets_def filter_empty_conv)
  have others: "GetUserWallets (us_ID u) d' = GetUserWallets (us_ID u) d" if "u \<in> set (db_users d)" for u
    using d' assms(1) that by (auto simp: GetUserWallets_def vault_ok_def db_ok_def)
  have "db_ok d'" using Dkg_query_ok [of d ua p k a e n] assms(1,3) by (simp add: vault_ok_def)
  moreover have "distinct (map us_ForeignKey (db_users d'))"
    using assms(1,2) d' by (simp add: vault_ok_def known_def)
  moreover have "\<forall>u \<in> set (db_users d'). \<exists>w. GetUserWallets (us_ID u) d' = [w]"
    using assms(1) d' own others by (auto simp: vault_ok_def)
  ultimately have ok: "vault_ok d'" by (simp add: vault_ok_def)
  have "user_ids k d' = [db_next_user d]"
    using user_ids_unknown [OF assms(2)] d' by (simp add: user_ids_def)
  from signing_rows_known [OF this own, of pick] ok r d' show ?thesis
    by (simp add: known_def wallet_row_def)
qed

lemma Dkg_query_frame:
  assumes "db_ok d" and "Dkg ua p k a e n d = (r, d')" and "k' \<noteq> k"
  shows "signing_rows k' d' = signing_rows k' d \<and> known d' k' = known d k'"
proof -
  have d': "db_users d' = db_users d @ [\<lparr>us_ID = db_next_user d, us_ForeignKey = k\<rparr>]"
      "db_wallets d' = db_wallets d @ [\<lparr>wa_ID = db_next_wallet d, wa_UserID = db_next_user d,
          wa_PublicAddress = a, wa_EncryptedDkgResults = e, wa_Nonce = n\<rparr>]"
    using assms(2) by (auto simp: Dkg_def insert_defs Let_def)
  then have ids: "user_ids k' d' = user_ids k' d" using assms(3) by (simp add: user_ids_def)
  have "GetUserWallets i d' = GetUserWallets i d" if "i \<in> set (user_ids k' d)" for i
    using that assms(1) d' by (fastforce simp: user_ids_def GetUserWallets_def db_ok_def)
  then have "signing_rows k' d' = signing_rows k' d"
    unfolding signing_rows_def ids by (metis (no_types, lifting) map_eq_conv)
  then show ?thesis using d' assms(3) by (simp add: known_def)
qed

lemma AddPeerQuery_shape:
  assumes "AddPeerQuery pick ua p k e n d = (r, d')"
  shows "db_users d' = db_users d \<and>
         db_wallets d' = map (update_wallet (user_ids k d) e n) (db_wallets d)"
  using assms insert_devices_frame [OF surjective_pairing]
  by (auto simp: AddPeerQuery_def Let_def case_prod_beta)

lemma GetUserWallets_update:
  "db_wallets d' = map (update_wallet ids e n) (db_wallets d) \<Longrightarrow>
     GetUserWallets i d' = map (update_wallet ids e n) (GetUserWallets i d)"
  by (simp add: GetUserWallets_def filter_map comp_def)

lemma update_wallet_other: "i \<notin> set ids \<Longrightarrow> map (update_wallet ids e n) (GetUserWallets i d) = GetUserWallets i d"
  by (rule map_idI) (auto simp: GetUserWallets_def update_wallet_def)

lemma AddPeer_query:
  assumes "vault_ok d" and "known d k" and "AddPeerQuery pick' ua p k e n d = (r, d')"
  shows "(\<exists>v. r = Inr v) \<and> vault_ok d' \<and> known d' k \<and>
         (\<exists>row. GetUserSigningParameters pick k d' = Inr row \<and>
            sp_EncryptedDkgResults row = e \<and> sp_Nonce row = n)"
proof -
  obtain i w where i: "user_ids k d = [i]" "GetUserWallets i d = [w]"
    using user_ids_known [OF assms(1,2)] by blast
  note shape = AddPeerQuery_shape [OF assms(3)]
  have "filter (\<lambda>w. wa_UserID w \<in> set [i]) (map (update_wallet [i] e n) (db_wallets d)) =
      [update_wallet [i] e n w]"
    using i(2) by (simp add: filter_map comp_def GetUserWallets_def)
  then have r: "\<exists>v. r = Inr v"
    using assms(3) i(1) by (auto simp: AddPeerQuery_def Let_def case_prod_beta insert_device_def)
  have ids: "user_ids k d' = [i]" using shape i by (simp add: user_ids_def)
  have "wa_UserID w = i" using i(2) by (auto simp: GetUserWallets_def filter_eq_Cons_iff)
  then have "GetUserWallets i d' = [w\<lparr>wa_EncryptedDkgResults := e, wa_Nonce := n\<rparr>]"
    using GetUserWallets_update [of d' "user_ids k d" e n d i] shape i
    by (simp add: update_wallet_def)
  from signing_rows_known [OF ids this, of pick] have
    row: "\<exists>row. GetUserSigningParameters pick k d' = Inr row \<and>
            sp_EncryptedDkgResults row = e \<and> sp_Nonce row = n"
    by (simp add: wallet_row_def)
  have "\<exists>w. GetUserWallets (us_ID u) d' = [w]" if u: "u \<in> set (db_users d)" for u
  proof -
    obtain w where "GetUserWallets (us_ID u) d = [w]" using assms(1) u by (auto simp: vault_ok_def)
    then show ?thesis using GetUserWallets_update [of d' "user_ids k d" e n d] shape by simp
  qed
  then have "vault_ok d'"
    using assms(1,3) AddPeerQuery_ok [of d pick' ua p k e n] shape by (auto simp: vault_ok_def)
  then show ?thesis using r row shape assms(2) by (simp add: known_def)
qed

lemma AddPeer_query_frame:
  assumes "db_ok d" and "AddPeerQuery pick ua p k e n d = (r, d')" and "k' \<noteq> k"
  shows "signing_rows k' d' = signing_rows k' d \<and> known d' k' = known d k'"
proof -
  note shape = AddPeerQuery_shape [OF assms(2)]
  then have ids: "user_ids k' d' = user_ids k' d" by (simp add: user_ids_def)
  have "i \<notin> set (user_ids k d)" if "i \<in> set (user_ids k' d)" for i
    using that assms(1,3)
    by (auto simp: user_ids_def db_ok_def distinct_map dest: inj_onD)
  then have "GetUserWallets i d' = GetUserWallets i d" if "i \<in> set (user_ids k' d)" for i
    using that GetUserWallets_update [of d' "user_ids k d" e n d i] shape
    by (simp add: update_wallet_other)
  then have "signing_rows k' d' = signing_rows k' d"
    unfolding signing_rows_def ids by (metis (no_types, lifting) map_eq_conv)
  then show ?thesis using shape by (simp add: known_def)
qed

subsection \<open>The interface Vault\<close>

text \<open>
  What the handlers rely on. A wallet is stored for a user that has none; a device is added
  for a user that has one; after either, the wallet is retrieved with the key that was
  returned or used, whatever row the database picks; other users see no change; a failure
  changes nothing.
\<close>

datatype ('r, 'w) vault_op =
    Store 'r string string string 'w
  | NewPeer 'r nat string string string string 'w

text \<open>
  The specification of a history: per user, the key and the wallet that the last successful
  operation left. The handlers store only for an unknown user and add a device only for a
  known one.
\<close>

fun vault_step ::
  "('s \<Rightarrow> string \<Rightarrow> bool) \<Rightarrow> ('r \<Rightarrow> string \<Rightarrow> string \<Rightarrow> string \<Rightarrow> 'w \<Rightarrow> 's \<Rightarrow> string result \<times> 's)
     \<Rightarrow> ('r \<Rightarrow> nat \<Rightarrow> string option \<Rightarrow> string \<Rightarrow> string \<Rightarrow> string \<Rightarrow> 'w \<Rightarrow> 's \<Rightarrow> unit result \<times> 's)
     \<Rightarrow> ('r, 'w) vault_op \<Rightarrow> 's \<times> (string \<rightharpoonup> string \<times> 'w) \<Rightarrow> 's \<times> (string \<rightharpoonup> string \<times> 'w)" where
  "vault_step knows store add_peer (Store r k p ua w) (s, m) =
     (if knows s k then (s, m)
      else (case store r k p ua w s of
              (Inl err, s') \<Rightarrow> (s', m)
            | (Inr key, s') \<Rightarrow> (s', m(k \<mapsto> (key, w)))))"
| "vault_step knows store add_peer (NewPeer r i key k p ua w) (s, m) =
     (if \<not> knows s k then (s, m)
      else (case add_peer r i (Some key) k p ua w s of
              (Inl err, s') \<Rightarrow> (s', m)
            | (Inr _, s') \<Rightarrow> (s', m(k \<mapsto> (key, w)))))"

fun vault_op_ok :: "('r \<Rightarrow> bool) \<Rightarrow> ('w \<Rightarrow> bool) \<Rightarrow> ('r, 'w) vault_op \<Rightarrow> bool" where
  "vault_op_ok fair fits (Store r k p ua w) = (fair r \<and> fits w)"
| "vault_op_ok fair fits (NewPeer r i key k p ua w) = (fair r \<and> fits w)"

locale wallet_store =
  fixes knows :: "'s \<Rightarrow> string \<Rightarrow> bool"
    and store :: "'r \<Rightarrow> string \<Rightarrow> string \<Rightarrow> string \<Rightarrow> 'w \<Rightarrow> 's \<Rightarrow> string result \<times> 's"
    and add_peer :: "'r \<Rightarrow> nat \<Rightarrow> string option \<Rightarrow> string \<Rightarrow> string \<Rightarrow> string \<Rightarrow> 'w \<Rightarrow> 's \<Rightarrow> unit result \<times> 's"
    and retrieve :: "nat \<Rightarrow> string option \<Rightarrow> string \<Rightarrow> 's \<Rightarrow> 'w result go"
    and ready :: "'s \<Rightarrow> bool"
    and fair :: "'r \<Rightarrow> bool"
    and fits :: "'w \<Rightarrow> bool"
  assumes store_new:
      "ready s \<Longrightarrow> fair r \<Longrightarrow> fits w \<Longrightarrow> \<not> knows s k \<Longrightarrow> store r k p ua w s = (Inr key, s') \<Longrightarrow>
         ready s' \<and> knows s' k \<and> retrieve pick (Some key) k s' = Ret (Inr w)"
    and store_fail: "store r k p ua w s = (Inl err, s') \<Longrightarrow> s' = s"
    and store_frame:
      "ready s \<Longrightarrow> store r k p ua w s = (res, s') \<Longrightarrow> k' \<noteq> k \<Longrightarrow>
         knows s' k' = knows s k' \<and> retrieve pick m k' s' = retrieve pick m k' s"
    and peer_new:
      "ready s \<Longrightarrow> fair r \<Longrightarrow> fits w \<Longrightarrow> knows s k \<Longrightarrow> add_peer r i (Some key) k p ua w s = (Inr u, s') \<Longrightarrow>
         ready s' \<and> knows s' k \<and> retrieve pick (Some key) k s' = Ret (Inr w)"
    and peer_fail:
      "ready s \<Longrightarrow> knows s k \<Longrightarrow> add_peer r i m k p ua w s = (Inl err, s') \<Longrightarrow> s' = s"
    and peer_frame:
      "ready s \<Longrightarrow> add_peer r i m k p ua w s = (added, s') \<Longrightarrow> k' \<noteq> k \<Longrightarrow>
         knows s' k' = knows s k' \<and> retrieve pick m' k' s' = retrieve pick m' k' s"
begin

definition refines :: "'s \<Rightarrow> (string \<rightharpoonup> string \<times> 'w) \<Rightarrow> bool" where
  "refines s m \<longleftrightarrow> ready s \<and> (\<forall>k. knows s k \<longleftrightarrow> m k \<noteq> None) \<and>
     (\<forall>k key w pick. m k = Some (key, w) \<longrightarrow> retrieve pick (Some key) k s = Ret (Inr w))"

lemma step_refines: "vault_op_ok fair fits op \<Longrightarrow> refines s m \<Longrightarrow>
     case_prod refines (vault_step knows store add_peer op (s, m))"
proof (cases op)
  case (Store r k p ua w)
  assume ok: "vault_op_ok fair fits op" and R: "refines s m"
  show ?thesis
  proof (cases "knows s k")
    case True
    with R Store show ?thesis by simp
  next
    case False
    obtain res s' where st: "store r k p ua w s = (res, s')" by (cases "store r k p ua w s")
    show ?thesis
    proof (cases res)
      case (Inl err)
      with st have "s' = s" using store_fail by blast
      with R Store False st Inl show ?thesis by simp
    next
      case (Inr key)
      with st ok R Store False store_new [of s r w k p ua key s'] store_frame [OF _ st]
      show ?thesis by (auto simp: refines_def)
    qed
  qed
next
  case (NewPeer r i key k p ua w)
  assume ok: "vault_op_ok fair fits op" and R: "refines s m"
  show ?thesis
  proof (cases "knows s k")
    case False
    with R NewPeer show ?thesis by simp
  next
    case True
    obtain res s' where st: "add_peer r i (Some key) k p ua w s = (res, s')"
      by (cases "add_peer r i (Some key) k p ua w s")
    show ?thesis
    proof (cases res)
      case (Inl err)
      with st True R have "s' = s" using peer_fail by (auto simp: refines_def)
      with R NewPeer True st Inl show ?thesis by simp
    next
      case (Inr u)
      with st ok R NewPeer True peer_new [of s r w k i key p ua u s'] peer_frame [OF _ st]
      show ?thesis by (auto simp: refines_def)
    qed
  qed
qed

lemma history_refines:
  "\<forall>op \<in> set ops. vault_op_ok fair fits op \<Longrightarrow> refines s m \<Longrightarrow>
     case_prod refines (fold (vault_step knows store add_peer) ops (s, m))"
proof (induction ops arbitrary: s m)
  case Nil
  then show ?case by simp
next
  case (Cons op ops)
  obtain s' m' where st: "vault_step knows store add_peer op (s, m) = (s', m')"
    by (cases "vault_step knows store add_peer op (s, m)")
  with step_refines [of op s m] Cons.prems have "refines s' m'" by simp
  with Cons st show ?case by simp
qed

end

text \<open>The vault of the program provides the interface, with JSON and AES-GCM as documented.\<close>

definition db_knows :: "db \<Rightarrow> string \<Rightarrow> bool" where
  "db_knows d k = (WalletExists None 0 k d = None)"

definition wallet_fits :: "DkgResult codec \<Rightarrow> aead \<Rightarrow> DkgResult \<Rightarrow> bool" where
  "wallet_fits cj ae w = (codec_ok cj w \<and> aead_ok ae)"

lemma db_knows_iff: "db_knows d k \<longleftrightarrow> known d k"
  by (simp add: db_knows_def WalletExists_iff)

lemma StoreWallet_Inr:
  "StoreWallet cj ae r k p ua w d = (Inr key, d') \<Longrightarrow>
     \<exists>js ck nonce ct v. Marshal cj w = Inr js \<and> dw_key r 32 = Inr ck \<and> key = hex_encode ck \<and>
       encryptAES ae (dw_nonce r) js ck = Inr (nonce, ct) \<and>
       Dkg ua p k (dr_Address w) ct nonce d = (Inr v, d')"
  by (auto simp: StoreWallet_def run_query_def split: sum.splits prod.splits option.splits)

lemma StoreWallet_cases:
  "StoreWallet cj ae r k p ua w d = (res, d') \<Longrightarrow>
     d' = d \<or> (\<exists>ct nonce v. Dkg ua p k (dr_Address w) ct nonce d = (v, d'))"
  by (auto simp: StoreWallet_def run_query_def split: sum.splits prod.splits option.splits)

lemma StoreWallet_Inl: "StoreWallet cj ae r k p ua w d = (Inl err, d') \<Longrightarrow> d' = d"
  by (auto simp: StoreWallet_def run_query_def Dkg_def case_prod_beta
      split: sum.splits prod.splits option.splits)

lemma VaultAddPeer_Inr:
  "VaultAddPeer cj ae r i (Some key) k p ua w d = (Inr u, d') \<Longrightarrow>
     \<exists>js ck nonce ct v. Marshal cj w = Inr js \<and> hex_decode key = Inr ck \<and>
       encryptAES ae (dw_nonce r) js ck = Inr (nonce, ct) \<and>
       AddPeerQuery i ua p k ct nonce d = (Inr v, d')"
  by (auto simp: VaultAddPeer_def run_query_def split: sum.splits prod.splits option.splits)

lemma VaultAddPeer_cases:
  "VaultAddPeer cj ae r i m k p ua w d = (res, d') \<Longrightarrow>
     d' = d \<or> (\<exists>ct nonce v. AddPeerQuery i ua p k ct nonce d = (v, d') \<and> is_err res = is_err v)"
  by (auto simp: VaultAddPeer_def run_query_def split: sum.splits prod.splits option.splits) (metis is_err_simps)+

lemma RetrieveWallet_reads:
  assumes "GetUserSigningParameters pick k d = Inr row" and "hex_decode key = Inr ck"
    and "encryptAES ae rnd js ck = Inr (sp_Nonce row, sp_EncryptedDkgResults row)"
    and "Marshal cj w = Inr js" and "aead_ok ae" and "random_ok rnd"
  shows "RetrieveWallet cj ae None pick (Some key) k d = Ret (read_back cj w)"
  using assms decrypt_encrypt [OF assms(5,6,3)]
  by (simp add: RetrieveWallet_def read_back_def split: sum.split)

lemma RetrieveWallet_row:
  assumes "GetUserSigningParameters pick k d = Inr row" and "hex_decode key = Inr ck"
    and "encryptAES ae rnd js ck = Inr (sp_Nonce row, sp_EncryptedDkgResults row)"
    and "Marshal cj w = Inr js" and "wallet_fits cj ae w" and "random_ok rnd"
  shows "RetrieveWallet cj ae None pick (Some key) k d = Ret (Inr w)"
  using RetrieveWallet_reads [OF assms(1-4) _ assms(6)] assms(5) by (simp add: wallet_fits_def read_back_ok)

text \<open>What a store puts into the vault, and what the vault reads of it.\<close>

lemma StoreWallet_reads:
  assumes "vault_ok d" and "draw_ok r" and "aead_ok ae" and "\<not> known d k"
    and "StoreWallet cj ae r k p ua w d = (Inr key, d')"
  shows "vault_ok d' \<and> known d' k \<and> RetrieveWallet cj ae None pick (Some key) k d' = Ret (read_back cj w)"
proof -
  from StoreWallet_Inr [OF assms(5)] obtain js ck nonce ct v where
    *: "Marshal cj w = Inr js" "key = hex_encode ck"
      "encryptAES ae (dw_nonce r) js ck = Inr (nonce, ct)"
      "Dkg ua p k (dr_Address w) ct nonce d = (Inr v, d')" by blast
  from Dkg_query [OF assms(1,4) *(4), of pick] show ?thesis
    using * assms(2,3) by (auto simp: draw_ok_def intro!: RetrieveWallet_reads)
qed

lemma VaultAddPeer_reads:
  assumes "vault_ok d" and "draw_ok r" and "aead_ok ae" and "known d k"
    and "VaultAddPeer cj ae r i (Some key) k p ua w d = (Inr u, d')"
  shows "vault_ok d' \<and> known d' k \<and> RetrieveWallet cj ae None pick (Some key) k d' = Ret (read_back cj w)"
proof -
  from VaultAddPeer_Inr [OF assms(5)] obtain js ck nonce ct v where
    *: "Marshal cj w = Inr js" "hex_decode key = Inr ck"
      "encryptAES ae (dw_nonce r) js ck = Inr (nonce, ct)"
      "AddPeerQuery i ua p k ct nonce d = (Inr v, d')" by blast
  from AddPeer_query [OF assms(1,4) *(4), of pick] show ?thesis
    using * assms(2,3) by (auto simp: draw_ok_def intro!: RetrieveWallet_reads)
qed

lemma RetrieveWallet_cong:
  "signing_rows k d' = signing_rows k d \<Longrightarrow>
     RetrieveWallet cj ae f pick m k d' = RetrieveWallet cj ae f pick m k d"
  by (simp add: RetrieveWallet_def GetUserSigningParameters_def split: option.splits)

interpretation vault_store: wallet_store db_knows "StoreWallet cj ae" "VaultAddPeer cj ae"
    "RetrieveWallet cj ae None" vault_ok draw_ok "wallet_fits cj ae"
  for cj and ae
proof unfold_locales
  fix s s' r w k p ua key pick
  assume ok: "vault_ok s" "draw_ok r" "wallet_fits cj ae w" "\<not> db_knows s k"
    and st: "StoreWallet cj ae r k p ua w s = (Inr key, s')"
  show "vault_ok s' \<and> db_knows s' k \<and> RetrieveWallet cj ae None pick (Some key) k s' = Ret (Inr w)"
    using StoreWallet_reads [OF ok(1,2) _ _ st, of pick] ok(3,4)
    by (simp add: wallet_fits_def read_back_ok db_knows_iff)
next
  fix s s' r w k p ua key pick i and u :: unit
  assume ok: "vault_ok s" "draw_ok r" "wallet_fits cj ae w" "db_knows s k"
    and st: "VaultAddPeer cj ae r i (Some key) k p ua w s = (Inr u, s')"
  show "vault_ok s' \<and> db_knows s' k \<and> RetrieveWallet cj ae None pick (Some key) k s' = Ret (Inr w)"
    using VaultAddPeer_reads [OF ok(1,2) _ _ st, of pick] ok(3,4)
    by (simp add: wallet_fits_def read_back_ok db_knows_iff)
next
  fix s s' r w k p ua err
  assume "StoreWallet cj ae r k p ua w s = (Inl err, s')"
  then show "s' = s" by (rule StoreWallet_Inl)
next
  fix s s' r w k p ua res k' pick m
  assume "vault_ok s" "StoreWallet cj ae r k p ua w s = (res, s')" "k' \<noteq> k"
  then show "db_knows s' k' = db_knows s k' \<and>
      RetrieveWallet cj ae None pick m k' s' = RetrieveWallet cj ae None pick m k' s"
    using StoreWallet_cases [of cj ae r k p ua w s res s'] Dkg_query_frame [of s _ _ k _ _ _ _ s' k']
    by (metis RetrieveWallet_cong db_knows_iff vault_ok_def)
next
  fix s s' r w k p ua err i m
  assume a: "vault_ok s" "db_knows s k" "VaultAddPeer cj ae r i m k p ua w s = (Inl err, s')"
  from VaultAddPeer_cases [OF a(3)] AddPeer_query [OF a(1)] a(2)
  show "s' = s" by (fastforce simp: db_knows_iff)
next
  fix s s' r w k p ua res k' pick m i m'
  assume "vault_ok s" "VaultAddPeer cj ae r i m k p ua w s = (res, s')" "k' \<noteq> k"
  then show "db_knows s' k' = db_knows s k' \<and>
      RetrieveWallet cj ae None pick m' k' s' = RetrieveWallet cj ae None pick m' k' s"
    using VaultAddPeer_cases [of cj ae r i m k p ua w s res s']
      AddPeer_query_frame [of s i ua p k _ _ _ s' k']
    by (metis RetrieveWallet_cong db_knows_iff vault_ok_def)
qed

end
