(* ===== verification/HandlerCommon.thy ===== *)
theory HandlerCommon
  imports TssSources ServerHttp Vault
begin

text \<open>
  What the websocket handlers of the server and the loops of the client share: the parameters
  they run with, the reading of the origin, the decoding of a TSS message into a pointer, the
  context of a connection, and the bounded channel of errors.
\<close>

subsection \<open>Parameters\<close>

text \<open>
  \<open>en_parse_url\<close> gives host and path of a URL (\<open>net/url\<close>); \<open>en_accept\<close> is
  \<open>websocket.Accept\<close> with the origin pattern, which on failure has already written a response;
  \<open>en_normal\<close> says of a read error whether its close status is a normal closure or going away,
  \<open>en_closed\<close> whether it is a normal closure.
\<close>

record ('m, 'e, 'pt, 'pl) env =
  en_al :: "('m, 'e, 'pt, 'pl) alice"
  en_lib :: "'pt curve_lib"
  en_msg :: "'m tss_msg codec"
  en_wallet :: "DkgResult codec"
  en_aead :: aead
  en_parse_url :: "string \<Rightarrow> (string \<times> string) result"
  en_accept :: "string \<Rightarrow> request \<Rightarrow> response + unit"
  en_normal :: "go_error \<Rightarrow> bool"
  en_closed :: "go_error \<Rightarrow> bool"

text \<open>Every websocket handler derives the origin pattern from the configuration.\<close>

definition ws_origin :: "('m, 'e, 'pt, 'pl) env \<Rightarrow> Config \<Rightarrow> string result" where
  "ws_origin E cfg =
     (if cf_ClientOrigin cfg \<noteq> ''*'' then
        (case en_parse_url E (cf_ClientOrigin cfg) of
           Inl err \<Rightarrow> Inl err
         | Inr (host, path) \<Rightarrow> Inr (host @ path))
      else Inr ''*'')"

text \<open>\<open>http.Error\<close> after the header was written: only the text is added to the body.\<close>

definition late_Error :: "string \<Rightarrow> response \<Rightarrow> response" where
  "late_Error msg resp = resp\<lparr>rs_body := rs_body resp @ msg @ [char_of (10::nat)]\<rparr>"

definition ws_open :: "('m, 'e, 'pt, 'pl) env \<Rightarrow> Config \<Rightarrow> request \<Rightarrow> response + unit" where
  "ws_open E cfg r =
     (case ws_origin E cfg of
        Inl err \<Rightarrow> Inl (http_Error ''Internal Server Error'' StatusInternalServerError)
      | Inr origin \<Rightarrow>
          (case en_accept E origin r of
             Inl resp \<Rightarrow> Inl (late_Error ''Internal Server Error'' resp)
           | Inr _ \<Rightarrow> Inr ()))"

subsection \<open>Decoding into a pointer\<close>

text \<open>
  The loops decode with \<open>tssMsg := &tss.Message{}\<close> and \<open>json.Unmarshal(bs, &tssMsg)\<close>: the JSON
  text \<open>null\<close> sets the pointer itself to nil (\<open>None\<close>).
\<close>

definition json_space :: "char \<Rightarrow> bool" where
  "json_space c = ((of_char c :: nat) \<in> {32, 9, 10, 13})"

definition json_null :: "bytes \<Rightarrow> bool" where
  "json_null bs = (rev (dropWhile json_space (rev (dropWhile json_space bs))) = ''null'')"

definition decode_ws_ptr :: "'m tss_msg codec \<Rightarrow> ws_msg \<Rightarrow> 'm tss_msg option result" where
  "decode_ws_ptr cj msg =
     (case hex_decode (wm_Msg msg) of
        Inl err \<Rightarrow> Inl err
      | Inr byteString \<Rightarrow>
          if json_null byteString then Inr None
          else (case Unmarshal cj byteString of Inl err \<Rightarrow> Inl err | Inr m \<Rightarrow> Inr (Some m)))"

text \<open>
  Decoding and handling of one TSS message. The result is the error that the loop reports, if
  any, and the actor's new state. A nil message panics: \<open>HandleMessage\<close> reads its fields.
\<close>

definition handle_ws_tss ::
  "'m tss_msg codec \<Rightarrow> ('a \<Rightarrow> 'm tss_msg \<Rightarrow> (unit result \<times> 'a) go) \<Rightarrow> ws_msg \<Rightarrow> 'a
     \<Rightarrow> (unit result \<times> 'a) go" where
  "handle_ws_tss cj handle msg a =
     (case decode_ws_ptr cj msg of
        Inl err \<Rightarrow> Ret (Inl err, a)
      | Inr None \<Rightarrow> Panic err_nil
      | Inr (Some tssMsg) \<Rightarrow> handle a tssMsg)"

subsection \<open>Contexts, reads and errors\<close>

text \<open>The context of a connection: cancelled by its owner, or past its deadline of one minute.\<close>

datatype ctx_state = Ctx_live | Ctx_canceled | Ctx_timeout

definition cancel_ctx :: "ctx_state \<Rightarrow> ctx_state" where
  "cancel_ctx c = (if c = Ctx_live then Ctx_canceled else c)"

text \<open>What a read from the connection gives, with the result of the write that may answer it.\<close>

datatype read_event = ReadErr go_error | ReadMsg ws_msg "unit result"

text \<open>The channel \<open>errs\<close> of a handler has room for two errors.\<close>

definition errs_cap :: nat where
  "errs_cap = 2"

text \<open>What the read loop makes of an error: it returns, and reports it unless it is expected.\<close>

definition read_failure :: "(go_error \<Rightarrow> bool) \<Rightarrow> ctx_state \<Rightarrow> go_error \<Rightarrow> go_error option" where
  "read_failure normal c err =
     (if c = Ctx_canceled then None else if normal err then None else Some err)"

datatype sender_pc = Sender_off | Sender_on | Sender_gone

end
