(* ===== verification/ClientCalls.thy ===== *)
theory ClientCalls
  imports HandlerCommon Recovery
begin

text \<open>
  The calls of \<open>client/client.go\<close> that are plain requests (\<open>Identify\<close>, \<open>Export\<close> and the access
  token every other call starts with), the checks that \<open>Dkg\<close> makes before its websocket, and
  \<open>Sign\<close>: what it does before the websocket and its three goroutines.
\<close>

subsection \<open>Parameters\<close>

text \<open>
  \<open>net/url\<close>, \<open>net/http\<close> and the dialing side of the websocket package. A parsed URL has its
  scheme and the parts the client does not touch. A failed dial gives an error and, when the
  server answered, the status of its response.
\<close>

record 'u url =
  ur_Scheme :: string
  ur_rest :: 'u

record 'u client_lib =
  cl_http :: web
  cl_Parse :: "string \<Rightarrow> 'u url result"
  cl_String :: "'u url \<Rightarrow> string"
  cl_form :: "(string \<times> string) list \<Rightarrow> bytes"
  cl_dial :: "string \<Rightarrow> (int option \<times> go_error) + unit"

subsection \<open>Addresses\<close>

definition urlToHttp :: "'u client_lib \<Rightarrow> string \<Rightarrow> string result" where
  "urlToHttp L u =
     (case cl_Parse L u of
        Inl err \<Rightarrow> Inl err
      | Inr parsedURL \<Rightarrow>
          (let s = ur_Scheme parsedURL;
               p = (if s = ''https'' \<or> s = ''wss'' then parsedURL\<lparr>ur_Scheme := ''https''\<rparr>
                    else if s = ''http'' \<or> s = ''ws'' then parsedURL\<lparr>ur_Scheme := ''http''\<rparr>
                    else parsedURL) in
           Inr (TrimSuffix (cl_String L p) ''/'')))"

definition urlToWs :: "'u client_lib \<Rightarrow> string \<Rightarrow> string result" where
  "urlToWs L u =
     (case cl_Parse L u of
        Inl err \<Rightarrow> Inl err
      | Inr parsedURL \<Rightarrow>
          (let s = ur_Scheme parsedURL;
               p = (if s = ''https'' \<or> s = ''wss'' then parsedURL\<lparr>ur_Scheme := ''wss''\<rparr>
                    else if s = ''http'' \<or> s = ''ws'' then parsedURL\<lparr>ur_Scheme := ''ws''\<rparr>
                    else parsedURL) in
           Inr (TrimSuffix (cl_String L p) ''/'')))"

subsection \<open>Identity and access tokens\<close>

definition auth_request :: "string \<Rightarrow> string \<Rightarrow> string \<Rightarrow> web_request" where
  "auth_request addr authData metadata =
     \<lparr>wq_method = ''GET'', wq_url = addr,
      wq_header = [(''Authorization'', ''Bearer '' @ authData), (''M-METADATA'', metadata)],
      wq_body = []\<rparr>"

text \<open>
  \<open>fmt.Errorf(endpoint, " status not 200")\<close> takes the endpoint as the format: the text after
  it is reported as an extra argument.
\<close>

definition getAuthDataFromServer ::
  "'u client_lib \<Rightarrow> string \<Rightarrow> string \<Rightarrow> string \<Rightarrow> string \<Rightarrow> string result" where
  "getAuthDataFromServer L host authData metadata endpoint =
     (case urlToHttp L host of
        Inl err \<Rightarrow> Inl err
      | Inr h \<Rightarrow>
          (case cl_http L (auth_request (h @ endpoint) authData metadata) of
             Inl err \<Rightarrow> Inl err
           | Inr resp \<Rightarrow>
               if wr_status resp \<noteq> 200
               then Inl (ErrNew (endpoint @ ''%!(EXTRA string= status not 200)''))
               else wr_body resp))"

definition Identify :: "'u client_lib \<Rightarrow> string \<Rightarrow> string \<Rightarrow> string result" where
  "Identify L host authData = getAuthDataFromServer L host authData [] ''/identify''"

definition getAccessToken :: "'u client_lib \<Rightarrow> string \<Rightarrow> string \<Rightarrow> string \<Rightarrow> string result" where
  "getAccessToken L host metadata authData = getAuthDataFromServer L host authData metadata ''/authorize''"

subsection \<open>Answers of the server\<close>

text \<open>\<open>Dkg\<close> first asks without an upgrade: 426 says that a websocket would be accepted.\<close>

definition probe_answer :: "int \<Rightarrow> unit result" where
  "probe_answer status =
     (if status = 401 then Inl ErrUnauthorized
      else if status = 400 then Inl ErrBadRequest
      else if status = 404 then Inl ErrNotFound
      else if status = 409 then Inl ErrConflict
      else if status = 426 then Inr ()
      else Inl (ErrNew ''Dkg - unknown behavior''))"

text \<open>A failed dial.\<close>

definition dial_error :: "int option \<Rightarrow> go_error \<Rightarrow> go_error" where
  "dial_error resp err =
     (case resp of
        None \<Rightarrow> err
      | Some status \<Rightarrow>
          if status = 401 then ErrUnauthorized
          else if status = 400 then ErrBadRequest
          else if status = 404 then ErrNotFound
          else if status = 409 then ErrConflict
          else err)"

subsection \<open>Dkg before its loop\<close>

text \<open>
  \<open>peer\<close> is the fresh identifier; a test binary uses a fixed one. \<open>write\<close> is the result of
  sending the identifier. The result is the actor to run and the message sent.
\<close>

definition client_peerID :: "bool \<Rightarrow> string \<Rightarrow> string" where
  "client_peerID test_binary uuid = (if test_binary then ''client'' else uuid)"

definition http_Get :: "'u client_lib \<Rightarrow> string \<Rightarrow> web_reply result" where
  "http_Get L u = cl_http L \<lparr>wq_method = ''GET'', wq_url = u, wq_header = [], wq_body = []\<rparr>"

definition Dkg_entry ::
  "('m, 'e, 'pt, 'pl) env \<Rightarrow> 'u client_lib \<Rightarrow> bool \<Rightarrow> string \<Rightarrow> unit result \<Rightarrow> string \<Rightarrow> string
     \<Rightarrow> (('m, 'e, 'pt) ClientDkg \<times> ws_msg) result" where
  "Dkg_entry E L test_binary uuid write host authData =
     (case getAccessToken L host [] authData of
        Inl err \<Rightarrow> Inl err
      | Inr token \<Rightarrow>
          (let path = ''/dkg?token='' @ token in
           case urlToHttp L host of
             Inl err \<Rightarrow> Inl err
           | Inr hostHttp \<Rightarrow>
               (case http_Get L (hostHttp @ path) of
                  Inl err \<Rightarrow> Inl err
                | Inr resp \<Rightarrow>
                    (case probe_answer (wr_status resp) of
                       Inl err \<Rightarrow> Inl err
                     | Inr _ \<Rightarrow>
                         (case urlToWs L host of
                            Inl err \<Rightarrow> Inl err
                          | Inr h \<Rightarrow>
                              (let peerID = client_peerID test_binary uuid in
                               case NewClientDkg (en_al E) peerID of
                                 Inl err \<Rightarrow> Inl err
                               | Inr dkg \<Rightarrow>
                                   (case cl_dial L (h @ path) of
                                      Inl (resp, err) \<Rightarrow> Inl err
                                    | Inr _ \<Rightarrow>
                                        (case write of
                                           Inl err \<Rightarrow> Inl err
                                         | Inr _ \<Rightarrow>
                                             Inr (dkg, ws_message PeerIdBroadcastMessage peerID)))))))))"

subsection \<open>Export\<close>

definition export_request :: "'u client_lib \<Rightarrow> string \<Rightarrow> DkgResult \<Rightarrow> web_request" where
  "export_request L addr w =
     \<lparr>wq_method = ''POST'', wq_url = addr,
      wq_header = [(''Content-Type'', ''application/x-www-form-urlencoded'')],
      wq_body = cl_form L [(''share'', dr_Share w), (''clientPeerID'', dr_PeerID w)]\<rparr>"

definition Export ::
  "('m, 'e, 'pt, 'pl) env \<Rightarrow> 'u client_lib \<Rightarrow> string \<Rightarrow> string \<Rightarrow> string \<Rightarrow> string \<Rightarrow> string result" where
  "Export E L host dkgResultStr metadata authData =
     (case getAccessToken L host metadata authData of
        Inl err \<Rightarrow> Inl ErrUnauthorized
      | Inr token \<Rightarrow>
          (case urlToHttp L host of
             Inl err \<Rightarrow> Inl ErrBadRequest
           | Inr h \<Rightarrow>
               (case Unmarshal (en_wallet E) dkgResultStr of
                  Inl err \<Rightarrow> Inl ErrBadRequest
                | Inr dkgResult \<Rightarrow>
                    (case cl_http L (export_request L (h @ ''/export?token='' @ token) dkgResult) of
                       Inl err \<Rightarrow> Inl ErrBadRequest
                     | Inr resp \<Rightarrow>
                         (case wr_body resp of Inl err \<Rightarrow> Inl ErrBadRequest | Inr body \<Rightarrow> Inr body)))))"

subsection \<open>Sign before its goroutines\<close>

definition sign_path :: "string \<Rightarrow> string \<Rightarrow> string \<Rightarrow> string" where
  "sign_path message token peer =
     ''/sign?msg='' @ hex_encode message @ ''&token='' @ token @ ''&peer='' @ peer"

definition Sign_entry ::
  "('m, 'e, 'pt, 'pl) env \<Rightarrow> 'u client_lib \<Rightarrow> string \<Rightarrow> bytes \<Rightarrow> string \<Rightarrow> string \<Rightarrow> string
     \<Rightarrow> ('m, 'e) ClientSigner result" where
  "Sign_entry E L host message dkgResultStr metadata authData =
     (case getAccessToken L host metadata authData of
        Inl err \<Rightarrow> Inl ErrUnauthorized
      | Inr token \<Rightarrow>
          (case Unmarshal (en_wallet E) dkgResultStr of
             Inl err \<Rightarrow> Inl ErrBadRequest
           | Inr dkgResult \<Rightarrow>
               (case urlToWs L host of
                  Inl err \<Rightarrow> Inl ErrBadRequest
                | Inr h \<Rightarrow>
                    (case cl_dial L (h @ sign_path message token (dr_PeerID dkgResult)) of
                       Inl (resp, err) \<Rightarrow> Inl (dial_error resp err)
                     | Inr _ \<Rightarrow>
                         (case NewClientSigner (en_lib E) (en_al E) (dr_PeerID dkgResult)
                                 (dr_Pubkey dkgResult) (dr_Share dkgResult) (dr_BKs dkgResult) message of
                            Inl err \<Rightarrow> Inl ErrBadRequest
                          | Inr signer \<Rightarrow> Inr signer)))))"

subsection \<open>The goroutines of Sign\<close>

datatype csign_main = GM_process | GM_errs Signature | GM_returned "Signature result"

record ('m, 'e) csign_state =
  cg_main :: csign_main
  cg_send :: sender_pc
  cg_recv :: sender_pc
  cg_signer :: "('m, 'e) ClientSigner"
  cg_errs :: "go_error list"
  cg_ctx :: ctx_state
  cg_out :: "string list"
  cg_crashed :: bool

definition csign_init :: "('m, 'e) ClientSigner \<Rightarrow> ('m, 'e) csign_state" where
  "csign_init signer =
     \<lparr>cg_main = GM_process, cg_send = Sender_on, cg_recv = Sender_on, cg_signer = signer,
      cg_errs = [], cg_ctx = Ctx_live, cg_out = [], cg_crashed = False\<rparr>"

definition csign_send ::
  "('m, 'e, 'pt, 'pl) env \<Rightarrow> unit result \<Rightarrow> ('m, 'e) csign_state \<Rightarrow> ('m, 'e) csign_state option" where
  "csign_send E write st =
     (if cg_send st \<noteq> Sender_on then None
      else
        (case Send_turn (ClientSigner_GetNextMessageToSend (en_al E)) (cg_ctx st \<noteq> Ctx_live) write
                (cg_signer st) of
           (RawAgain w, s) \<Rightarrow>
             Some (st\<lparr>cg_signer := s,
                      cg_out := cg_out st @ (case w of None \<Rightarrow> [] | Some x \<Rightarrow> [x])\<rparr>)
         | (RawStop None, s) \<Rightarrow> Some (st\<lparr>cg_signer := s, cg_send := Sender_gone\<rparr>)
         | (RawStop (Some err), s) \<Rightarrow>
             (case chan_send errs_cap (cg_errs st) err of
                None \<Rightarrow> None
              | Some q \<Rightarrow> Some (st\<lparr>cg_signer := s, cg_errs := q, cg_send := Sender_gone\<rparr>))
         | (RawCrash m, s) \<Rightarrow> Some (st\<lparr>cg_crashed := True\<rparr>)))"

definition csign_recv ::
  "('m, 'e, 'pt, 'pl) env \<Rightarrow> string result \<Rightarrow> ('m, 'e) csign_state \<Rightarrow> ('m, 'e) csign_state option" where
  "csign_recv E read st =
     (if cg_recv st \<noteq> Sender_on then None
      else
        (case Receive_turn (en_al E) Signer_DkgOrSign ClientSigner_HandleMessage
                (cg_ctx st \<noteq> Ctx_live) read (cg_signer st) of
           (RawAgain w, s) \<Rightarrow> Some (st\<lparr>cg_signer := s\<rparr>)
         | (RawStop None, s) \<Rightarrow> Some (st\<lparr>cg_signer := s, cg_recv := Sender_gone\<rparr>)
         | (RawStop (Some err), s) \<Rightarrow>
             (case chan_send errs_cap (cg_errs st) err of
                None \<Rightarrow> None
              | Some q \<Rightarrow> Some (st\<lparr>cg_signer := s, cg_errs := q, cg_recv := Sender_gone\<rparr>))
         | (RawCrash m, s) \<Rightarrow> Some (st\<lparr>cg_crashed := True\<rparr>)))"

text \<open>Returning runs the deferred \<open>cancel\<close>.\<close>

definition csign_return :: "Signature result \<Rightarrow> ('m, 'e) csign_state \<Rightarrow> ('m, 'e) csign_state" where
  "csign_return r st = st\<lparr>cg_main := GM_returned r, cg_ctx := cancel_ctx (cg_ctx st)\<rparr>"

definition csign_process ::
  "('m, 'e, 'pt, 'pl) env \<Rightarrow> ('m, 'e) csign_state \<Rightarrow> ('m, 'e) csign_state option" where
  "csign_process E st =
     (case ClientSigner_Process (en_lib E) (cg_signer st) of
        None \<Rightarrow> None
      | Some (Panic m, s) \<Rightarrow> Some (st\<lparr>cg_signer := s, cg_crashed := True\<rparr>)
      | Some (Ret (Inl err), s) \<Rightarrow> Some (csign_return (Inl ErrTssProcessFailed) (st\<lparr>cg_signer := s\<rparr>))
      | Some (Ret (Inr sig), s) \<Rightarrow> Some (st\<lparr>cg_signer := s, cg_main := GM_errs sig\<rparr>))"

text \<open>Then the main goroutine waits for an error, which the closing of the connection causes.\<close>

definition csign_wait :: "Signature \<Rightarrow> ('m, 'e) csign_state \<Rightarrow> ('m, 'e) csign_state option" where
  "csign_wait signature st =
     (case chan_recv (cg_errs st) of
        None \<Rightarrow> None
      | Some (processErr, q) \<Rightarrow>
          Some (csign_return (if cg_ctx st = Ctx_canceled then Inl processErr else Inr signature)
                  (st\<lparr>cg_errs := q\<rparr>)))"

definition csign_main_step ::
  "('m, 'e, 'pt, 'pl) env \<Rightarrow> ('m, 'e) csign_state \<Rightarrow> ('m, 'e) csign_state option" where
  "csign_main_step E st =
     (case cg_main st of
        GM_process \<Rightarrow> csign_process E st
      | GM_errs signature \<Rightarrow> csign_wait signature st
      | GM_returned r \<Rightarrow> None)"

definition csign_emit :: "string \<Rightarrow> 'm \<Rightarrow> ('m, 'e) csign_state \<Rightarrow> ('m, 'e) csign_state option" where
  "csign_emit peer m st =
     (let sv = cs_service (cg_signer st) in
      Some (st\<lparr>cg_signer := (cg_signer st)\<lparr>cs_service :=
                 sv\<lparr>ss_pm := map_option (\<lambda>pm. pm_feed pm (peer, m)) (ss_pm sv)\<rparr>\<rparr>\<rparr>))"

definition csign_report_state ::
  "sign_result result \<Rightarrow> MainState \<Rightarrow> ('m, 'e) csign_state \<Rightarrow> ('m, 'e) csign_state option" where
  "csign_report_state g s st =
     (case Signer_OnStateChanged g s (cs_service (cg_signer st)) of
        Panic m \<Rightarrow> Some (st\<lparr>cg_crashed := True\<rparr>)
      | Ret sv \<Rightarrow> Some (st\<lparr>cg_signer := (cg_signer st)\<lparr>cs_service := sv\<rparr>\<rparr>))"

definition csign_timeout :: "('m, 'e) csign_state \<Rightarrow> ('m, 'e) csign_state option" where
  "csign_timeout st = (if cg_ctx st = Ctx_live then Some (st\<lparr>cg_ctx := Ctx_timeout\<rparr>) else None)"

datatype 'm csign_event =
    Cg_send "unit result"
  | Cg_recv "string result"
  | Cg_main
  | Cg_emit string 'm
  | Cg_state "sign_result result" MainState
  | Cg_timeout

fun csign_step ::
  "('m, 'e, 'pt, 'pl) env \<Rightarrow> 'm csign_event \<Rightarrow> ('m, 'e) csign_state \<Rightarrow> ('m, 'e) csign_state option" where
  "csign_step E ev st =
     (if cg_crashed st then None
      else
        (case ev of
           Cg_send w \<Rightarrow> csign_send E w st
         | Cg_recv rd \<Rightarrow> csign_recv E rd st
         | Cg_main \<Rightarrow> csign_main_step E st
         | Cg_emit p m \<Rightarrow> csign_emit p m st
         | Cg_state g s \<Rightarrow> csign_report_state g s st
         | Cg_timeout \<Rightarrow> csign_timeout st))"

inductive csign_reach ::
  "('m, 'e, 'pt, 'pl) env \<Rightarrow> ('m, 'e) ClientSigner \<Rightarrow> ('m, 'e) csign_state \<Rightarrow> bool"
  for E signer where
  csign_reach_init: "csign_reach E signer (csign_init signer)"
| csign_reach_step:
    "csign_reach E signer st \<Longrightarrow> csign_step E ev st = Some st' \<Longrightarrow> csign_reach E signer st'"

end
