(* ===== verification/SignExport.thy ===== *)
theory SignExport
  imports HandlerCommon Recovery
begin

text \<open>
  \<open>SignHandler\<close> of \<open>server/tss_sign.go\<close> and \<open>ExportHandler\<close> of \<open>server/tss_recover.go\<close>. The
  state of the server is its cache and its database. Exporting is a plain request; signing
  checks the request, opens a websocket and runs three goroutines: \<open>Send\<close>, \<open>Receive\<close> and the
  main one, which waits for the library.
\<close>

record 'c server =
  sr_cache :: 'c
  sr_db :: db

text \<open>
  \<open>errors.Is(err, &types.ErrNotFound{})\<close> compares two pointers to variables of size zero,
  which Go leaves unspecified: \<open>zero_eq\<close> says whether they are equal.
\<close>

definition is_not_found :: "bool \<Rightarrow> go_error \<Rightarrow> bool" where
  "is_not_found zero_eq err = (err = ErrNotFound \<and> zero_eq)"

definition retrieve_reply :: "bool \<Rightarrow> go_error \<Rightarrow> response" where
  "retrieve_reply zero_eq err =
     (if is_not_found zero_eq err then http_Error ''Wallet does not exist.'' StatusNotFound
      else http_Error ''Internal Server Error'' StatusInternalServerError)"

definition tss_reply :: "go_error \<Rightarrow> response" where
  "tss_reply err =
     (if Contains (Error err) ''invalid point'' then http_Error ''Bad Request'' StatusBadRequest
      else http_Error ''Internal Server Error'' StatusInternalServerError)"

subsection \<open>Export\<close>

text \<open>\<open>big.Int.Bytes\<close>: the shortest big-endian form of the absolute value.\<close>

definition big_Bytes :: "int \<Rightarrow> bytes" where
  "big_Bytes i = be_bytes (byte_len (nat \<bar>i\<bar>)) (nat \<bar>i\<bar>)"

definition form_Value :: "(string \<rightharpoonup> string) \<Rightarrow> string \<Rightarrow> string" where
  "form_Value f k = (case f k of None \<Rightarrow> [] | Some v \<Rightarrow> v)"

definition ExportHandler ::
  "('m, 'e, 'pt, 'pl) env \<Rightarrow> 'c cache_lib \<Rightarrow> bool \<Rightarrow> go_error option \<Rightarrow> nat \<Rightarrow> request \<Rightarrow> ctx
     \<Rightarrow> 'c server \<Rightarrow> (response \<times> 'c server) go" where
  "ExportHandler E cl zero_eq fault pick r c s =
     (if rq_method r \<noteq> ''POST''
      then Ret (http_Error ''Invalid request method'' StatusMethodNotAllowed, s)
      else
        (case (c ''userId'', c ''token'') of
           (Some userId, Some token) \<Rightarrow>
             (case rq_form r of
                Inl err \<Rightarrow> Ret (http_Error ''Unable to parse form'' StatusBadRequest, s)
              | Inr form \<Rightarrow>
                  (let clientShareStr = form_Value form ''share'';
                       clientPeerID = form_Value form ''clientPeerID'' in
                   if length clientShareStr = 0 \<or> length clientPeerID = 0
                   then Ret (http_Error ''Missing information'' StatusBadRequest, s)
                   else
                     (case RetrieveWallet (en_wallet E) (en_aead E) fault pick (c ''metadata'') userId (sr_db s) of
                        Panic m \<Rightarrow> Panic m
                      | Ret (Inl err) \<Rightarrow> Ret (retrieve_reply zero_eq err, s)
                      | Ret (Inr w) \<Rightarrow>
                          (case RecoverPrivateKeyWrapper (en_lib E) clientPeerID (dr_Pubkey w)
                                  (dr_Share w) clientShareStr (dr_BKs w) of
                             Panic m \<Rightarrow> Panic m
                           | Ret (Inl err) \<Rightarrow> Ret (tss_reply err, s)
                           | Ret (Inr privateKey) \<Rightarrow>
                               Ret (write_ok (hex_encode (big_Bytes (sk_D privateKey))),
                                    s\<lparr>sr_cache := Delete cl token (sr_cache s)\<rparr>)))))
         | _ \<Rightarrow> Ret (http_Error ''Authorization info not found'' StatusUnauthorized, s)))"

subsection \<open>Before the websocket of signing\<close>

definition SignHandler_entry ::
  "('m, 'e, 'pt, 'pl) env \<Rightarrow> Config \<Rightarrow> bool \<Rightarrow> go_error option \<Rightarrow> nat \<Rightarrow> request \<Rightarrow> ctx \<Rightarrow> 'c server
     \<Rightarrow> (response + string \<times> ('m, 'e) ServerSigner) go" where
  "SignHandler_entry E cfg zero_eq fault pick r c s =
     (case (c ''userId'', c ''token'') of
        (Some userId, Some token) \<Rightarrow>
          (let msg = query_Get r ''msg''; clientPeerID = query_Get r ''peer'' in
           if length msg = 0 then Ret (Inl (http_Error ''No message to be signed'' StatusBadRequest))
           else
             (case hex_decode msg of
                Inl err \<Rightarrow> Ret (Inl (http_Error ''Internal Server Error'' StatusInternalServerError))
              | Inr message \<Rightarrow>
                  (case RetrieveWallet (en_wallet E) (en_aead E) fault pick (c ''metadata'') userId (sr_db s) of
                     Panic m \<Rightarrow> Panic m
                   | Ret (Inl err) \<Rightarrow> Ret (Inl (retrieve_reply zero_eq err))
                   | Ret (Inr w) \<Rightarrow>
                       (case NewServerSigner (en_lib E) (en_al E) clientPeerID (dr_Pubkey w)
                               (dr_Share w) (dr_BKs w) message of
                          Inl err \<Rightarrow> Ret (Inl (tss_reply err))
                        | Inr signer \<Rightarrow>
                            (case ws_open E cfg r of
                               Inl resp \<Rightarrow> Ret (Inl resp)
                             | Inr _ \<Rightarrow> Ret (Inr (token, signer)))))))
      | _ \<Rightarrow> Ret (Inl (http_Error ''Authorization info not found'' StatusUnauthorized)))"

subsection \<open>The goroutines of signing\<close>

datatype sign_main = SM_process | SM_close | SM_delete | SM_done | SM_failed

record ('m, 'e, 'c) sign_state =
  sn_main :: sign_main
  sn_send :: sender_pc
  sn_recv :: sender_pc
  sn_signer :: "('m, 'e) ServerSigner"
  sn_errs :: "go_error list"
  sn_ctx :: ctx_state
  sn_out :: "string list"
  sn_normal :: bool
  sn_server :: "'c server"
  sn_sig :: "Signature option"
  sn_crashed :: bool

definition sign_init :: "('m, 'e) ServerSigner \<Rightarrow> 'c server \<Rightarrow> ('m, 'e, 'c) sign_state" where
  "sign_init signer s =
     \<lparr>sn_main = SM_process, sn_send = Sender_on, sn_recv = Sender_on, sn_signer = signer,
      sn_errs = [], sn_ctx = Ctx_live, sn_out = [], sn_normal = False, sn_server = s,
      sn_sig = None, sn_crashed = False\<rparr>"

definition sign_send ::
  "('m, 'e, 'pt, 'pl) env \<Rightarrow> unit result \<Rightarrow> ('m, 'e, 'c) sign_state \<Rightarrow> ('m, 'e, 'c) sign_state option" where
  "sign_send E write st =
     (if sn_send st \<noteq> Sender_on then None
      else
        (case Send_turn (ServerSigner_GetNextMessageToSend (en_al E)) (sn_ctx st \<noteq> Ctx_live) write
                (sn_signer st) of
           (RawAgain w, s) \<Rightarrow>
             Some (st\<lparr>sn_signer := s,
                      sn_out := sn_out st @ (case w of None \<Rightarrow> [] | Some x \<Rightarrow> [x])\<rparr>)
         | (RawStop None, s) \<Rightarrow> Some (st\<lparr>sn_signer := s, sn_send := Sender_gone\<rparr>)
         | (RawStop (Some err), s) \<Rightarrow>
             (case chan_send errs_cap (sn_errs st) err of
                None \<Rightarrow> None
              | Some q \<Rightarrow> Some (st\<lparr>sn_signer := s, sn_errs := q, sn_send := Sender_gone\<rparr>))
         | (RawCrash m, s) \<Rightarrow> Some (st\<lparr>sn_crashed := True\<rparr>)))"

definition sign_recv ::
  "('m, 'e, 'pt, 'pl) env \<Rightarrow> string result \<Rightarrow> ('m, 'e, 'c) sign_state \<Rightarrow> ('m, 'e, 'c) sign_state option" where
  "sign_recv E read st =
     (if sn_recv st \<noteq> Sender_on then None
      else
        (case Receive_turn (en_al E) Signer_DkgOrSign ServerSigner_HandleMessage (sn_ctx st \<noteq> Ctx_live) read
                (sn_signer st) of
           (RawAgain w, s) \<Rightarrow> Some (st\<lparr>sn_signer := s\<rparr>)
         | (RawStop None, s) \<Rightarrow> Some (st\<lparr>sn_signer := s, sn_recv := Sender_gone\<rparr>)
         | (RawStop (Some err), s) \<Rightarrow>
             (case chan_send errs_cap (sn_errs st) err of
                None \<Rightarrow> None
              | Some q \<Rightarrow> Some (st\<lparr>sn_signer := s, sn_errs := q, sn_recv := Sender_gone\<rparr>))
         | (RawCrash m, s) \<Rightarrow> Some (st\<lparr>sn_crashed := True\<rparr>)))"

text \<open>
  The main goroutine never reads \<open>errs\<close>. A panic of it is recovered by \<open>net/http\<close>, which
  runs the deferred calls.
\<close>

definition sign_process ::
  "('m, 'e, 'pt, 'pl) env \<Rightarrow> ('m, 'e, 'c) sign_state \<Rightarrow> ('m, 'e, 'c) sign_state option" where
  "sign_process E st =
     (case ServerSigner_Process (en_lib E) (sn_signer st) of
        None \<Rightarrow> None
      | Some (Panic m, s) \<Rightarrow>
          Some (st\<lparr>sn_signer := s, sn_main := SM_failed, sn_ctx := cancel_ctx (sn_ctx st)\<rparr>)
      | Some (Ret (Inl err), s) \<Rightarrow>
          Some (st\<lparr>sn_signer := s, sn_main := SM_failed, sn_ctx := cancel_ctx (sn_ctx st)\<rparr>)
      | Some (Ret (Inr sig), s) \<Rightarrow>
          Some (st\<lparr>sn_signer := s, sn_sig := Some sig, sn_main := SM_close\<rparr>))"

definition sign_main_step ::
  "('m, 'e, 'pt, 'pl) env \<Rightarrow> 'c cache_lib \<Rightarrow> string \<Rightarrow> ('m, 'e, 'c) sign_state
     \<Rightarrow> ('m, 'e, 'c) sign_state option" where
  "sign_main_step E cl token st =
     (case sn_main st of
        SM_process \<Rightarrow> sign_process E st
      | SM_close \<Rightarrow> Some (st\<lparr>sn_normal := True, sn_main := SM_delete\<rparr>)
      | SM_delete \<Rightarrow>
          Some (st\<lparr>sn_server := (sn_server st)\<lparr>sr_cache := Delete cl token (sr_cache (sn_server st))\<rparr>,
                   sn_main := SM_done, sn_ctx := cancel_ctx (sn_ctx st)\<rparr>)
      | SM_done \<Rightarrow> None
      | SM_failed \<Rightarrow> None)"

definition sign_emit :: "string \<Rightarrow> 'm \<Rightarrow> ('m, 'e, 'c) sign_state \<Rightarrow> ('m, 'e, 'c) sign_state option" where
  "sign_emit peer m st =
     (let sv = sv_service (sn_signer st) in
      Some (st\<lparr>sn_signer := (sn_signer st)\<lparr>sv_service :=
                 sv\<lparr>ss_pm := map_option (\<lambda>pm. pm_feed pm (peer, m)) (ss_pm sv)\<rparr>\<rparr>\<rparr>))"

definition sign_report_state ::
  "sign_result result \<Rightarrow> MainState \<Rightarrow> ('m, 'e, 'c) sign_state \<Rightarrow> ('m, 'e, 'c) sign_state option" where
  "sign_report_state g s st =
     (case Signer_OnStateChanged g s (sv_service (sn_signer st)) of
        Panic m \<Rightarrow> Some (st\<lparr>sn_crashed := True\<rparr>)
      | Ret sv \<Rightarrow> Some (st\<lparr>sn_signer := (sn_signer st)\<lparr>sv_service := sv\<rparr>\<rparr>))"

definition sign_timeout :: "('m, 'e, 'c) sign_state \<Rightarrow> ('m, 'e, 'c) sign_state option" where
  "sign_timeout st = (if sn_ctx st = Ctx_live then Some (st\<lparr>sn_ctx := Ctx_timeout\<rparr>) else None)"

datatype 'm sign_event =
    Sg_send "unit result"
  | Sg_recv "string result"
  | Sg_main
  | Sg_emit string 'm
  | Sg_state "sign_result result" MainState
  | Sg_timeout

fun sign_step ::
  "('m, 'e, 'pt, 'pl) env \<Rightarrow> 'c cache_lib \<Rightarrow> string \<Rightarrow> 'm sign_event \<Rightarrow> ('m, 'e, 'c) sign_state
     \<Rightarrow> ('m, 'e, 'c) sign_state option" where
  "sign_step E cl token ev st =
     (if sn_crashed st then None
      else
        (case ev of
           Sg_send w \<Rightarrow> sign_send E w st
         | Sg_recv rd \<Rightarrow> sign_recv E rd st
         | Sg_main \<Rightarrow> sign_main_step E cl token st
         | Sg_emit p m \<Rightarrow> sign_emit p m st
         | Sg_state g s \<Rightarrow> sign_report_state g s st
         | Sg_timeout \<Rightarrow> sign_timeout st))"

inductive sign_reach ::
  "('m, 'e, 'pt, 'pl) env \<Rightarrow> 'c cache_lib \<Rightarrow> string \<Rightarrow> ('m, 'e, 'c) sign_state \<Rightarrow> ('m, 'e, 'c) sign_state \<Rightarrow> bool"
  for E cl token st0 where
  sign_reach_init: "sign_reach E cl token st0 st0"
| sign_reach_step:
    "sign_reach E cl token st0 st \<Longrightarrow> sign_step E cl token ev st = Some st' \<Longrightarrow>
     sign_reach E cl token st0 st'"

subsection \<open>Invariants of signing\<close>

text \<open>The service keeps the key and the message it was built with.\<close>

definition signs_for :: "Pubkey \<Rightarrow> bytes \<Rightarrow> ('m, 'e) ServerSigner \<Rightarrow> bool" where
  "signs_for k message s \<longleftrightarrow> ss_pubkey (sv_service s) = k \<and> ss_message (sv_service s) = message"

text \<open>The signature is one that post-processing returned for that key and message.\<close>

definition good_signature :: "'pt curve_lib \<Rightarrow> Pubkey \<Rightarrow> bytes \<Rightarrow> Signature \<Rightarrow> bool" where
  "good_signature lib k message sig \<longleftrightarrow>
     (\<exists>r. fst (SignerPostProcess lib k message r) = Ret (Inr sig))"

definition sign_ok ::
  "'pt curve_lib \<Rightarrow> 'c cache_lib \<Rightarrow> string \<Rightarrow> Pubkey \<Rightarrow> bytes \<Rightarrow> 'c server \<Rightarrow> ('m, 'e, 'c) sign_state \<Rightarrow> bool" where
  "sign_ok lib cl token k message s0 st \<longleftrightarrow>
     signs_for k message (sn_signer st) \<and>
     (case sn_sig st of None \<Rightarrow> sn_main st \<in> {SM_process, SM_failed}
                      | Some sig \<Rightarrow> good_signature lib k message sig) \<and>
     (sn_normal st \<longrightarrow> sn_main st \<in> {SM_delete, SM_done}) \<and>
     sn_server st =
       (if sn_main st = SM_done then s0\<lparr>sr_cache := Delete cl token (sr_cache s0)\<rparr> else s0)"

lemma next_signs_for:
  "ServerSigner_GetNextMessageToSend al s = Ret (r, s') \<Longrightarrow> signs_for k m s' = signs_for k m s"
  by (auto simp: ServerSigner_GetNextMessageToSend_def Signer_GetNext_def signs_for_def
      split: go.split_asm option.split_asm prod.split_asm)

lemma handle_signs_for:
  "ServerSigner_HandleMessage s msg = Ret (r, s') \<Longrightarrow> signs_for k m s' = signs_for k m s"
  by (auto simp: ServerSigner_HandleMessage_def Signer_Handle_def signs_for_def
      split: go.split_asm prod.split_asm)

lemma Send_signs_for:
  "Send_turn (ServerSigner_GetNextMessageToSend al) c w s = (t, s') \<Longrightarrow> signs_for k m s' = signs_for k m s"
  by (auto simp: Send_turn_def next_signs_for split: if_split_asm go.split_asm sum.split_asm option.split_asm)

lemma Receive_signs_for:
  "Receive_turn al n ServerSigner_HandleMessage c rd s = (t, s') \<Longrightarrow> signs_for k m s' = signs_for k m s"
  by (auto simp: Receive_turn_def handle_signs_for split: if_split_asm go.split_asm sum.split_asm)

lemma Process_signs_for:
  "ServerSigner_Process lib s = Some (res, s') \<Longrightarrow> signs_for k m s \<Longrightarrow>
     signs_for k m s' \<and> (\<forall>sig. res = Ret (Inr sig) \<longrightarrow> good_signature lib k m sig)"
  by (auto simp: ServerSigner_Process_def Signer_Process_def signs_for_def good_signature_def
      split: if_split_asm option.split_asm prod.split_asm) (metis fst_conv)

lemma change_signs_for:
  "Signer_OnStateChanged g s sv = Ret sv' \<Longrightarrow> ss_pubkey sv' = ss_pubkey sv \<and> ss_message sv' = ss_message sv"
  by (auto simp: Signer_OnStateChanged_def Signer_close_def split: if_split_asm sum.split_asm)

definition sign_side :: "('m, 'e, 'c) sign_state \<Rightarrow> ('m, 'e) ServerSigner \<Rightarrow> ('m, 'e, 'c) sign_state \<Rightarrow> bool" where
  "sign_side st s st' \<longleftrightarrow>
     (sn_signer st' = s \<or> sn_signer st' = sn_signer st) \<and> sn_sig st' = sn_sig st \<and>
     sn_main st' = sn_main st \<and> sn_normal st' = sn_normal st \<and> sn_server st' = sn_server st"

lemma sign_side_ok:
  "sign_side st s st' \<Longrightarrow> signs_for k m s = signs_for k m (sn_signer st) \<Longrightarrow>
     sign_ok lib cl token k m s0 st \<Longrightarrow> sign_ok lib cl token k m s0 st'"
  by (simp add: sign_side_def sign_ok_def) metis

lemma sign_send_side:
  assumes "sign_send E w st = Some st'"
    and "Send_turn (ServerSigner_GetNextMessageToSend (en_al E)) (sn_ctx st \<noteq> Ctx_live) w
           (sn_signer st) = (t, s)"
  shows "sign_side st s st'"
proof (cases t)
  case (RawStop e)
  with assms show ?thesis
    by (cases e) (simp_all add: sign_send_def sign_side_def split: if_split_asm option.split_asm, auto)
qed (use assms in \<open>simp_all add: sign_send_def sign_side_def split: if_split_asm, auto\<close>)

lemma sign_recv_side:
  assumes "sign_recv E rd st = Some st'"
    and "Receive_turn (en_al E) Signer_DkgOrSign ServerSigner_HandleMessage (sn_ctx st \<noteq> Ctx_live) rd
           (sn_signer st) = (t, s)"
  shows "sign_side st s st'"
proof (cases t)
  case (RawStop e)
  with assms show ?thesis
    by (cases e) (simp_all add: sign_recv_def sign_side_def split: if_split_asm option.split_asm, auto)
qed (use assms in \<open>simp_all add: sign_recv_def sign_side_def split: if_split_asm, auto\<close>)

lemma sign_step_ok:
  assumes "sign_step E cl token ev st = Some st'" and I: "sign_ok (en_lib E) cl token k m s0 st"
  shows "sign_ok (en_lib E) cl token k m s0 st'"
proof (cases ev)
  case (Sg_send w)
  obtain t s where t: "Send_turn (ServerSigner_GetNextMessageToSend (en_al E)) (sn_ctx st \<noteq> Ctx_live) w
      (sn_signer st) = (t, s)" by (metis surj_pair)
  from assms(1) Sg_send have "sign_send E w st = Some st'" by (simp split: if_split_asm)
  from sign_side_ok [OF sign_send_side [OF this t] Send_signs_for [OF t] I] show ?thesis .
next
  case (Sg_recv rd)
  obtain t s where t: "Receive_turn (en_al E) Signer_DkgOrSign ServerSigner_HandleMessage
      (sn_ctx st \<noteq> Ctx_live) rd (sn_signer st) = (t, s)" by (metis surj_pair)
  from assms(1) Sg_recv have "sign_recv E rd st = Some st'" by (simp split: if_split_asm)
  from sign_side_ok [OF sign_recv_side [OF this t] Receive_signs_for [OF t] I] show ?thesis .
next
  case Sg_main
  show ?thesis
  proof (cases "sn_main st")
    case SM_process
    with assms(1) Sg_main have "sign_process E st = Some st'"
      by (simp add: sign_main_step_def split: if_split_asm)
    then obtain res s where p: "ServerSigner_Process (en_lib E) (sn_signer st) = Some (res, s)"
      by (auto simp: sign_process_def split: option.split_asm)
    have "signs_for k m (sn_signer st)" using I by (simp add: sign_ok_def)
    from Process_signs_for [OF p this]
    have q: "signs_for k m s" "\<forall>sig. res = Ret (Inr sig) \<longrightarrow> good_signature (en_lib E) k m sig" by auto
    from \<open>sign_process E st = Some st'\<close> p q I SM_process show ?thesis
      by (auto simp: sign_process_def sign_ok_def split: go.split_asm sum.split_asm option.splits)
  next
    case SM_close
    with assms(1) Sg_main I show ?thesis
      by (auto simp: sign_main_step_def sign_ok_def split: if_split_asm option.splits)
  next
    case SM_delete
    with assms(1) Sg_main I show ?thesis
      by (auto simp: sign_main_step_def sign_ok_def split: if_split_asm option.splits)
  qed (use assms(1) Sg_main in \<open>auto simp: sign_main_step_def split: if_split_asm\<close>)
next
  case (Sg_emit p x)
  with assms(1) have "sign_side st (sn_signer st') st' \<and> signs_for k m (sn_signer st') = signs_for k m (sn_signer st)"
    by (auto simp: sign_emit_def sign_side_def signs_for_def Let_def split: if_split_asm)
  with sign_side_ok I show ?thesis by blast
next
  case (Sg_state g s)
  with assms(1) have "sign_side st (sn_signer st') st' \<and> signs_for k m (sn_signer st') = signs_for k m (sn_signer st)"
    by (auto simp: sign_report_state_def sign_side_def signs_for_def dest: change_signs_for
        split: if_split_asm go.split_asm)
  with sign_side_ok I show ?thesis by blast
next
  case Sg_timeout
  with assms(1) have "sign_side st (sn_signer st) st'"
    by (auto simp: sign_timeout_def sign_side_def split: if_split_asm)
  with sign_side_ok I show ?thesis by blast
qed

lemma sign_reach_ok:
  "sign_reach E cl token st0 st \<Longrightarrow> sign_ok (en_lib E) cl token k m s0 st0 \<Longrightarrow>
     sign_ok (en_lib E) cl token k m s0 st"
  by (induction rule: sign_reach.induct) (auto intro: sign_step_ok simp del: sign_step.simps)

lemma NewServerSigner_signs:
  "NewServerSigner lib al c pk share bks message = Inr s \<Longrightarrow>
     \<exists>k. NewPubkey pk = Inr k \<and> signs_for k message s"
  by (auto simp: NewServerSigner_def Let_def Signer_Init_def NewServiceSigner_def signs_for_def
      split: sum.split_asm)

end
