(* ===== verification/ClientSign.thy ===== *)
theory ClientSign
  imports ClientCalls SignExport
begin

text \<open>
  Invariants of the client's signing process: the signer keeps its key and message, the
  context is live or timed out until the call returns, and what is returned is a signature
  that post-processing accepted, or that the process failed.
\<close>

definition csigns_for :: "Pubkey \<Rightarrow> bytes \<Rightarrow> ('m, 'e) ClientSigner \<Rightarrow> bool" where
  "csigns_for k message s \<longleftrightarrow> ss_pubkey (cs_service s) = k \<and> ss_message (cs_service s) = message"

definition csign_ok :: "'pt curve_lib \<Rightarrow> Pubkey \<Rightarrow> bytes \<Rightarrow> ('m, 'e) csign_state \<Rightarrow> bool" where
  "csign_ok lib k message st \<longleftrightarrow>
     csigns_for k message (cg_signer st) \<and>
     (case cg_main st of
        GM_process \<Rightarrow> cg_ctx st \<noteq> Ctx_canceled
      | GM_errs sig \<Rightarrow> cg_ctx st \<noteq> Ctx_canceled \<and> good_signature lib k message sig
      | GM_returned (Inl err) \<Rightarrow> err = ErrTssProcessFailed
      | GM_returned (Inr sig) \<Rightarrow> good_signature lib k message sig)"

lemma cnext_signs_for:
  "ClientSigner_GetNextMessageToSend al s = Ret (r, s') \<Longrightarrow> csigns_for k m s' = csigns_for k m s"
  by (auto simp: ClientSigner_GetNextMessageToSend_def Signer_GetNext_def csigns_for_def
      split: go.split_asm option.split_asm prod.split_asm)

lemma chandle_signs_for:
  "ClientSigner_HandleMessage s msg = Ret (r, s') \<Longrightarrow> csigns_for k m s' = csigns_for k m s"
  by (auto simp: ClientSigner_HandleMessage_def Signer_Handle_def csigns_for_def
      split: go.split_asm prod.split_asm)

lemma cSend_signs_for:
  "Send_turn (ClientSigner_GetNextMessageToSend al) c w s = (t, s') \<Longrightarrow> csigns_for k m s' = csigns_for k m s"
  by (auto simp: Send_turn_def cnext_signs_for split: if_split_asm go.split_asm sum.split_asm option.split_asm)

lemma cReceive_signs_for:
  "Receive_turn al n ClientSigner_HandleMessage c rd s = (t, s') \<Longrightarrow> csigns_for k m s' = csigns_for k m s"
  by (auto simp: Receive_turn_def chandle_signs_for split: if_split_asm go.split_asm sum.split_asm)

lemma cProcess_signs_for:
  "ClientSigner_Process lib s = Some (res, s') \<Longrightarrow> csigns_for k m s \<Longrightarrow>
     csigns_for k m s' \<and> (\<forall>sig. res = Ret (Inr sig) \<longrightarrow> good_signature lib k m sig)"
  by (auto simp: ClientSigner_Process_def Signer_Process_def csigns_for_def good_signature_def
      split: if_split_asm option.split_asm prod.split_asm) (metis fst_conv)

text \<open>Steps that change the signer but not what the main goroutine knows.\<close>

definition csign_side :: "('m, 'e) csign_state \<Rightarrow> ('m, 'e) csign_state \<Rightarrow> bool" where
  "csign_side st st' \<longleftrightarrow>
     (\<forall>k m. csigns_for k m (cg_signer st') = csigns_for k m (cg_signer st)) \<and>
     cg_main st' = cg_main st \<and> (cg_ctx st' = cg_ctx st \<or> cg_ctx st' = Ctx_timeout)"

lemma csign_side_ok: "csign_side st st' \<Longrightarrow> csign_ok lib k m st \<Longrightarrow> csign_ok lib k m st'"
  by (cases "cg_main st") (auto simp: csign_side_def csign_ok_def)

lemma csign_sideI:
  "(\<And>k m. csigns_for k m s = csigns_for k m (cg_signer st)) \<Longrightarrow>
     cg_signer st' = s \<or> cg_signer st' = cg_signer st \<Longrightarrow> cg_main st' = cg_main st \<Longrightarrow>
     cg_ctx st' = cg_ctx st \<Longrightarrow> csign_side st st'"
  by (auto simp: csign_side_def)

lemma csign_send_side:
  assumes "csign_send E w st = Some st'"
  shows "csign_side st st'"
proof -
  obtain t s where t: "Send_turn (ClientSigner_GetNextMessageToSend (en_al E)) (cg_ctx st \<noteq> Ctx_live) w
      (cg_signer st) = (t, s)" by (metis surj_pair)
  show ?thesis
  proof (rule csign_sideI [where s = s])
    show "cg_signer st' = s \<or> cg_signer st' = cg_signer st" "cg_main st' = cg_main st" "cg_ctx st' = cg_ctx st"
      using assms t
      by (auto simp: csign_send_def split: if_split_asm raw_turn.split_asm option.split_asm)
  qed (use cSend_signs_for [OF t] in simp_all)
qed

lemma csign_recv_side:
  assumes "csign_recv E rd st = Some st'"
  shows "csign_side st st'"
proof -
  obtain t s where t: "Receive_turn (en_al E) Signer_DkgOrSign ClientSigner_HandleMessage
      (cg_ctx st \<noteq> Ctx_live) rd (cg_signer st) = (t, s)" by (metis surj_pair)
  show ?thesis
  proof (rule csign_sideI [where s = s])
    show "cg_signer st' = s \<or> cg_signer st' = cg_signer st" "cg_main st' = cg_main st" "cg_ctx st' = cg_ctx st"
      using assms t
      by (auto simp: csign_recv_def split: if_split_asm raw_turn.split_asm option.split_asm)
  qed (use cReceive_signs_for [OF t] in simp_all)
qed

lemma csign_process_cases:
  assumes "csign_process E st = Some st'"
  obtains (panic) s m where "ClientSigner_Process (en_lib E) (cg_signer st) = Some (Panic m, s)"
      "st' = st\<lparr>cg_signer := s, cg_crashed := True\<rparr>"
  | (fail) s err where "ClientSigner_Process (en_lib E) (cg_signer st) = Some (Ret (Inl err), s)"
      "st' = csign_return (Inl ErrTssProcessFailed) (st\<lparr>cg_signer := s\<rparr>)"
  | (sig) s sig where "ClientSigner_Process (en_lib E) (cg_signer st) = Some (Ret (Inr sig), s)"
      "st' = st\<lparr>cg_signer := s, cg_main := GM_errs sig\<rparr>"
  using assms
  by (auto simp: csign_process_def split: option.split_asm prod.split_asm go.split_asm sum.split_asm)

lemma csign_main_ok:
  assumes "csign_main_step E st = Some st'" and I: "csign_ok (en_lib E) k m st"
  shows "csign_ok (en_lib E) k m st'"
proof (cases "cg_main st")
  case GM_process
  have k: "csigns_for k m (cg_signer st)" using I by (simp add: csign_ok_def)
  from assms(1) GM_process have "csign_process E st = Some st'" by (simp add: csign_main_step_def)
  then show ?thesis
  proof (cases rule: csign_process_cases)
    case (panic s e)
    from cProcess_signs_for [OF panic(1) k] panic(2) I GM_process show ?thesis by (simp add: csign_ok_def)
  next
    case (fail s e)
    from cProcess_signs_for [OF fail(1) k] fail(2) show ?thesis by (simp add: csign_ok_def csign_return_def)
  next
    case (sig s x)
    from cProcess_signs_for [OF sig(1) k] sig(2) I GM_process show ?thesis by (simp add: csign_ok_def)
  qed
next
  case (GM_errs sig)
  with assms show ?thesis
    by (auto simp: csign_main_step_def csign_wait_def csign_ok_def csign_return_def csigns_for_def
        split: option.split_asm)
next
  case (GM_returned r)
  with assms show ?thesis by (simp add: csign_main_step_def)
qed

lemma csign_step_ok:
  assumes "csign_step E ev st = Some st'" and I: "csign_ok (en_lib E) k m st"
  shows "csign_ok (en_lib E) k m st'"
proof (cases ev)
  case (Cg_send w)
  with assms(1) have "csign_send E w st = Some st'" by (simp split: if_split_asm)
  from csign_side_ok [OF csign_send_side [OF this] I] show ?thesis .
next
  case (Cg_recv rd)
  with assms(1) have "csign_recv E rd st = Some st'" by (simp split: if_split_asm)
  from csign_side_ok [OF csign_recv_side [OF this] I] show ?thesis .
next
  case Cg_main
  with assms(1) have "csign_main_step E st = Some st'" by (simp split: if_split_asm)
  from csign_main_ok [OF this I] show ?thesis .
next
  case (Cg_emit p x)
  with assms(1) have "csign_side st st'"
    by (auto simp: csign_emit_def csign_side_def csigns_for_def Let_def split: if_split_asm)
  with csign_side_ok I show ?thesis by blast
next
  case (Cg_state g s)
  with assms(1) have "csign_side st st'"
    by (auto simp: csign_report_state_def csign_side_def csigns_for_def dest: change_signs_for
        split: if_split_asm go.split_asm)
  with csign_side_ok I show ?thesis by blast
next
  case Cg_timeout
  with assms(1) have "csign_side st st'"
    by (auto simp: csign_timeout_def csign_side_def split: if_split_asm)
  with csign_side_ok I show ?thesis by blast
qed

lemma csign_reach_ok:
  assumes "csigns_for k m signer"
  shows "csign_reach E signer st \<Longrightarrow> csign_ok (en_lib E) k m st"
proof (induction rule: csign_reach.induct)
  case csign_reach_init
  from assms show ?case by (simp add: csign_ok_def csign_init_def)
next
  case (csign_reach_step st ev st')
  then show ?case by (blast intro: csign_step_ok)
qed

lemma NewClientSigner_signs:
  "NewClientSigner lib al c pk share bks message = Inr s \<Longrightarrow>
     \<exists>k. NewPubkey pk = Inr k \<and> csigns_for k message s"
  by (auto simp: NewClientSigner_def Let_def Signer_Init_def NewServiceSigner_def csigns_for_def
      split: sum.split_asm)

end
