(* ===== verification/SignatureProperties.thy ===== *)
theory SignatureProperties
  imports Samples ClientSign
begin

text \<open>
  Properties of signatures: the form of an Ethereum signature, its low-S value and its recovery
  identifier, and how the search for that identifier can go wrong.
\<close>

subsection \<open>The Ethereum signature\<close>

lemma SignerPostProcess_Inr:
  assumes "fst (SignerPostProcess lib pubkey msg res) = Ret (Inr sig)"
  obtains bs where
    "GenerateSignature lib (Some (sr_R res)) (Some (ToLowS (CurveOrder lib) (sr_S res))) pubkey msg = Ret (Inr bs)"
    "sig = \<lparr>sg_R = sr_R res, sg_S = ToLowS (CurveOrder lib) (sr_S res), sg_Signature = bs\<rparr>"
  using assms
  by (cases "GenerateSignature lib (Some (sr_R res)) (Some (ToLowS (CurveOrder lib) (sr_S res))) pubkey msg")
    (auto simp: SignerPostProcess_def secp256k1SignatureToLowS_def split: sum.split_asm)

lemma GenerateSignature_verifies:
  "GenerateSignature lib r s pubkey msg = Ret (Inr bs) \<Longrightarrow> EcdsaVerify lib (GetECDSA pubkey) msg r s"
  by (auto simp: GenerateSignature_def Let_def split: if_split_asm go.split_asm option.split_asm)

lemma good_signature_verifies:
  "good_signature lib k message sig \<Longrightarrow>
     EcdsaVerify lib (GetECDSA k) message (Some (sg_R sig)) (Some (sg_S sig))"
  unfolding good_signature_def
  by (elim exE SignerPostProcess_Inr) (auto dest: GenerateSignature_verifies)

lemma fits_bytes: "byte_len n \<le> k \<Longrightarrow> n < 256 ^ k"
  using byte_len_bound [of n] power_increasing [of "byte_len n" k "256 :: nat"] by linarith

text \<open>C13: an accepted signature has 65 bytes: \<open>r\<close> and \<open>s\<close> as big-endian numbers of 32 bytes each and
  a recovery identifier. Its \<open>r\<close> is that of the process, its \<open>s\<close> that of the process or its
  complement to the group order, and never above half of the order; it verifies under the wallet's
  key; the identifier is 1 only if 1 recovers the key's address and 0 does not, else it is 0.\<close>

theorem signature_layout:
  assumes "SignerPostProcess lib pubkey msg res = (Ret (Inr sig), res')"
  shows "sg_R sig = sr_R res \<and>
         sg_S sig = (if CurveOrder lib div 2 < sr_S res then CurveOrder lib - sr_S res else sr_S res) \<and>
         sg_S sig \<le> CurveOrder lib div 2 \<and>
         EcdsaVerify lib (GetECDSA pubkey) msg (Some (sg_R sig)) (Some (sg_S sig)) \<and>
         length (sg_Signature sig) = 65 \<and>
         be_val (take 32 (sg_Signature sig)) = nat \<bar>sg_R sig\<bar> \<and>
         be_val (take 32 (drop 32 (sg_Signature sig))) = nat \<bar>sg_S sig\<bar> \<and>
         (\<exists>v::nat. last (sg_Signature sig) = char_of v \<and>
            (v = 0 \<or> v = 1 \<and> matches lib pubkey msg (sg_R sig) (sg_S sig) 1 \<and>
                      \<not> matches lib pubkey msg (sg_R sig) (sg_S sig) 0))"
proof -
  let ?r = "sr_R res" and ?s = "ToLowS (CurveOrder lib) (sr_S res)"
  from assms obtain bs where g: "GenerateSignature lib (Some ?r) (Some ?s) pubkey msg = Ret (Inr bs)"
      and sig: "sig = \<lparr>sg_R = ?r, sg_S = ?s, sg_Signature = bs\<rparr>"
    by (auto intro: SignerPostProcess_Inr [of lib pubkey msg res sig])
  from g GenerateSignature_sizes [OF g]
  obtain arr where arr: "recover_loop lib pubkey msg [0, 1]
        (char_of (0::nat) # sig_body ?r ?s @ [char_of (0::nat)]) None = Ret (arr, None)"
      and ver: "EcdsaVerify lib (GetECDSA pubkey) msg (Some ?r) (Some ?s)" and bs: "bs = drop 1 arr"
    by (auto simp: GenerateSignature_sized split: go.split_asm option.split_asm if_split_asm)
  from recover_two_ok [OF arr] obtain h v where v: "arr = h # sig_body ?r ?s @ [char_of v]"
      "v = 0 \<or> v = (1::nat)" "matches lib pubkey msg ?r ?s 0 \<longrightarrow> v = 0"
      "v = 1 \<longrightarrow> matches lib pubkey msg ?r ?s 1" by blast
  have low: "?s = (if CurveOrder lib div 2 < sr_S res then CurveOrder lib - sr_S res else sr_S res)"
      "?s \<le> CurveOrder lib div 2"
    by (auto simp: ToLowS_def IsLowS_def)
  have bytes: "bs = be_bytes 32 (nat \<bar>?r\<bar>) @ be_bytes 32 (nat \<bar>?s\<bar>) @ [char_of v]"
    using v(1) bs by (simp add: sig_body_def)
  have fits: "nat \<bar>?r\<bar> < 256 ^ 32" "nat \<bar>?s\<bar> < 256 ^ 32"
    using GenerateSignature_sizes [OF g] fits_bytes by blast+
  have "length bs = 65" "be_val (take 32 bs) = nat \<bar>?r\<bar>" "be_val (take 32 (drop 32 bs)) = nat \<bar>?s\<bar>" "last bs = char_of v"
    using be_val_bytes [OF fits(1)] be_val_bytes [OF fits(2)] by (simp_all add: bytes del: be_bytes.simps)
  with v(2-4) low ver show ?thesis unfolding sig by auto
qed

text \<open>The small curve with its recovery function replaced, and the key it checks signatures for.\<close>

definition toy_recover :: "(bytes \<Rightarrow> bytes \<Rightarrow> bytes result) \<Rightarrow> int curve_lib" where
  "toy_recover f = toy_lib\<lparr>RecoverCompact := f\<rparr>"

definition toy_key :: Pubkey where
  "toy_key = \<lparr>pk_X = 5, pk_Y = 6\<rparr>"

definition toy_point :: "nat \<Rightarrow> bytes" where
  "toy_point x = char_of (4::nat) # be_bytes 32 x @ be_bytes 32 (x + 1)"

definition toy_sign_result :: sign_result where
  "toy_sign_result = \<lparr>sr_R = 3, sr_S = 6\<rparr>"

lemma toy_recover_id: "toy_recover (RecoverCompact toy_lib) = toy_lib"
  by (simp add: toy_recover_def)

lemma toy_low: "ToLowS (CurveOrder (toy_recover f)) (sr_S toy_sign_result) = 1" "sr_R toy_sign_result = 3"
  by (simp_all add: toy_sign_result_def toy_recover_def toy_lib_def ToLowS_def IsLowS_def)

lemma toy_sizes: "byte_len (nat \<bar>3\<bar>) \<le> 32" "byte_len (nat \<bar>1\<bar>) \<le> 32"
  by (simp_all add: byte_len.simps)

lemma toy_address:
  "GetAddress (toy_recover f) toy_key = Ret (drop 12 (be_bytes 32 5))"
  "pubKeyAddr (toy_recover f) (toy_point x) = Ret (drop 12 (be_bytes 32 x))"
  by (simp_all add: toy_key_def toy_recover_def GetAddress_def GetECDSA_def PubkeyToAddress_def
      FromECDSAPub_def ec_Marshal_def toy_lib_def FillBytes_def slice_from_1_def Keccak256_def
      pubKeyAddr_def toy_point_def)

lemma toy_distinct: "drop 12 (be_bytes 32 2) \<noteq> drop 12 (be_bytes 32 5)"
proof -
  have "be_bytes 32 n = replicate 31 (char_of (0::nat)) @ [char_of n]" if "n < 256" for n
    using be_bytes_pad [of n 1 31] that by simp
  then show ?thesis by simp
qed

lemma toy_verifies: "EcdsaVerify (toy_recover f) (GetECDSA toy_key) m (Some r) (Some s)"
  by (simp add: toy_recover_def toy_lib_def GetECDSA_def toy_key_def)

lemma toy_signature:
  "SignerPostProcess toy_lib toy_key ''m'' toy_sign_result =
     (Ret (Inr \<lparr>sg_R = 3, sg_S = 1,
                 sg_Signature = be_bytes 32 3 @ be_bytes 32 1 @ [char_of (1::nat)]\<rparr>),
      \<lparr>sr_R = 3, sr_S = 1\<rparr>)"
proof -
  let ?f = "RecoverCompact toy_lib"
  have "recovered (toy_recover ?f) ''m'' 3 1 0 = Inr (toy_point 2)"
      "recovered (toy_recover ?f) ''m'' 3 1 1 = Inr (toy_point 5)"
    by (simp_all add: toy_recover_def recovered_def toy_lib_def toy_point_def)
  then have "GenerateSignature (toy_recover ?f) (Some 3) (Some 1) toy_key ''m'' =
      Ret (Inr (sig_body 3 1 @ [char_of (1::nat)]))"
    using toy_sizes toy_address [of ?f] toy_distinct toy_verifies [of ?f]
    by (simp add: GenerateSignature_sized recover_step)
  with toy_low(1) [of ?f] toy_low(2) show ?thesis
    by (simp add: SignerPostProcess_def sig_body_def secp256k1SignatureToLowS_def toy_recover_id
        toy_sign_result_def)
qed

theorem signature_layout_witness:
  "\<exists>v::nat. last (be_bytes 32 3 @ be_bytes 32 1 @ [char_of (1::nat)]) = char_of v \<and>
     (1::int) \<le> CurveOrder toy_lib div 2 \<and> length (be_bytes 32 3 @ be_bytes 32 1 @ [char_of (1::nat)]) = 65"
  using signature_layout [OF toy_signature] by (auto simp del: be_bytes.simps)

text \<open>C37: the identifiers are tried in order and an error of the first attempt is never
  cleared: the signature is refused although the second identifier recovers the key.\<close>

theorem first_recovery_error_refuses:
  assumes "recovered lib msg (sr_R res) (ToLowS (CurveOrder lib) (sr_S res)) 0 = Inl err"
    and "matches lib pubkey msg (sr_R res) (ToLowS (CurveOrder lib) (sr_S res)) 1"
    and "sr_R res \<noteq> 0" and "ToLowS (CurveOrder lib) (sr_S res) \<noteq> 0"
    and "byte_len (nat \<bar>sr_R res\<bar>) \<le> 32" and "byte_len (nat \<bar>ToLowS (CurveOrder lib) (sr_S res)\<bar>) \<le> 32"
  shows "fst (SignerPostProcess lib pubkey msg res) = Ret (Inl err)"
  using assms
  by (auto simp: SignerPostProcess_def secp256k1SignatureToLowS_def GenerateSignature_sized recover_step
      matches_def split: sum.splits go.splits)


theorem first_recovery_error_refuses_witness:
  "fst (SignerPostProcess
     (toy_recover (\<lambda>sig msg. if take 1 sig = [char_of (28::nat)] then Inr (toy_point 5)
                              else Inl (ErrLib ''calculated Rx is larger than curve P'')))
     toy_key ''m'' toy_sign_result) = Ret (Inl (ErrLib ''calculated Rx is larger than curve P''))"
  using toy_sizes toy_address
  by (intro first_recovery_error_refuses)
    (simp_all only: toy_low, simp_all add: recovered_def matches_def toy_recover_def)

text \<open>When both identifiers recover some key but neither that of the wallet, the search
  ends without a match and without an error: a signature that verifies is returned all the
  same, with identifier 0.\<close>

theorem unmatched_identifier_is_zero:
  assumes "recovered lib msg (sr_R res) (ToLowS (CurveOrder lib) (sr_S res)) 0 = Inr pub0"
    and "recovered lib msg (sr_R res) (ToLowS (CurveOrder lib) (sr_S res)) 1 = Inr pub1"
    and "pubKeyAddr lib pub0 = Ret a0" and "pubKeyAddr lib pub1 = Ret a1"
    and "GetAddress lib pubkey = Ret a" and "a0 \<noteq> a" and "a1 \<noteq> a"
    and "sr_R res \<noteq> 0" and "ToLowS (CurveOrder lib) (sr_S res) \<noteq> 0"
    and "byte_len (nat \<bar>sr_R res\<bar>) \<le> 32" and "byte_len (nat \<bar>ToLowS (CurveOrder lib) (sr_S res)\<bar>) \<le> 32"
    and "EcdsaVerify lib (GetECDSA pubkey) msg (Some (sr_R res)) (Some (ToLowS (CurveOrder lib) (sr_S res)))"
  shows "fst (SignerPostProcess lib pubkey msg res) =
           Ret (Inr \<lparr>sg_R = sr_R res, sg_S = ToLowS (CurveOrder lib) (sr_S res),
                     sg_Signature = sig_body (sr_R res) (ToLowS (CurveOrder lib) (sr_S res)) @ [char_of (0::nat)]\<rparr>)"
  using assms
  by (simp add: SignerPostProcess_def secp256k1SignatureToLowS_def GenerateSignature_sized recover_step)

theorem unmatched_identifier_is_zero_witness:
  "fst (SignerPostProcess (toy_recover (\<lambda>sig msg. Inr (toy_point 2))) toy_key ''m'' toy_sign_result) =
     Ret (Inr \<lparr>sg_R = 3, sg_S = 1, sg_Signature = sig_body 3 1 @ [char_of (0::nat)]\<rparr>)"
proof -
  let ?L = "toy_recover (\<lambda>sig msg. Inr (toy_point 2))"
  have "recovered ?L ''m'' 3 1 v = Inr (toy_point 2)" for v
    by (simp add: recovered_def toy_recover_def)
  then show ?thesis
    using toy_sizes toy_distinct toy_verifies toy_address(1)
    by (subst unmatched_identifier_is_zero [OF _ _ toy_address(2) toy_address(2)])
      (simp_all add: toy_low)
qed

end
