(* ===== verification/HandlerSamples.thy ===== *)
theory HandlerSamples
  imports Samples HandlerCommon
begin

text \<open>
  Concrete parameters for the handlers: the small curve and engine of \<open>Samples\<close>, an encoding
  of every wallet, an authenticated encryption that prefixes the key, draws of zero
  bytes, a websocket that is always accepted, and a cache that is a function.
\<close>

subsection \<open>A wallet\<close>

definition toy_bks :: BKs where
  "toy_bks = fmap_of_list [(serverID, \<lparr>bk_X = ''1'', bk_Rank = 0\<rparr>), (''c'', \<lparr>bk_X = ''2'', bk_Rank = 0\<rparr>)]"

text \<open>Shares of the line \<open>5 + 3 x\<close> over the integers modulo 7: 1 at the server, 4 at the client.\<close>

definition toy_wallet :: DkgResult where
  "toy_wallet =
     \<lparr>dr_Pubkey = \<lparr>ps_X = ''5'', ps_Y = ''6''\<rparr>, dr_BKs = toy_bks, dr_Share = ''1'',
      dr_Address = ''0xa'', dr_PeerID = ''c''\<rparr>"

text \<open>Wallets are countable, so there is an encoding that reads every wallet back.\<close>

instance PubkeyStr_ext :: (countable) countable
  by (rule countable_classI [of "\<lambda>k. to_nat (ps_X k, ps_Y k, PubkeyStr.more k)"]) simp

instance BK_ext :: (countable) countable
  by (rule countable_classI [of "\<lambda>b. to_nat (bk_X b, bk_Rank b, BK.more b)"]) simp

instance DkgResult_ext :: (countable) countable
  by (rule countable_classI
        [of "\<lambda>w. to_nat (dr_Pubkey w, dr_BKs w, dr_Share w, dr_Address w, dr_PeerID w, DkgResult.more w)"]) simp

definition toy_text :: "DkgResult \<Rightarrow> string" where
  "toy_text w = replicate (to_nat w) (CHR ''w'')"

definition toy_wallet_codec :: "DkgResult codec" where
  "toy_wallet_codec = \<lparr>Marshal = (\<lambda>w. Inr (toy_text w)), Unmarshal = (\<lambda>bs. Inr (from_nat (length bs)))\<rparr>"

lemma toy_codec_simps [simp]:
  "Marshal toy_wallet_codec w = Inr (toy_text w)" "Unmarshal toy_wallet_codec (toy_text w) = Inr w"
  by (simp_all add: toy_wallet_codec_def toy_text_def)

lemma toy_wallet_codec_ok: "codec_ok toy_wallet_codec w"
  by (simp add: codec_ok_def)

subsection \<open>Encryption and randomness\<close>

definition toy_aead :: aead where
  "toy_aead =
     \<lparr>Seal = (\<lambda>key nonce text. key @ text),
      Open = (\<lambda>key nonce ct. if take (length key) ct = key then Inr (drop (length key) ct)
                              else Inl (ErrLib ''cipher: message authentication failed''))\<rparr>"

lemma toy_aead_ok: "aead_ok toy_aead"
  by (simp add: aead_ok_def toy_aead_def)

lemma toy_read_back [simp]: "read_back toy_wallet_codec w = Inr w"
  using toy_wallet_codec_ok [of w] by (simp add: read_back_ok)

lemma toy_fits [simp]: "wallet_fits toy_wallet_codec toy_aead w"
  by (simp add: wallet_fits_def toy_wallet_codec_ok toy_aead_ok)

definition toy_draw :: draw where
  "toy_draw =
     \<lparr>dw_key = (\<lambda>n. Inr (replicate n (CHR ''k''))), dw_nonce = (\<lambda>n. Inr (replicate n (CHR ''n''))),
      dw_fault = None\<rparr>"

lemma toy_draw_ok: "draw_ok toy_draw"
  by (auto simp: draw_ok_def random_ok_def toy_draw_def)

definition toy_metadata :: string where
  "toy_metadata = hex_encode (replicate 32 (CHR ''k''))"

subsection \<open>Environment\<close>

type_synonym toy_env_t = "(string, string list, int, unit) env"

definition toy_env :: toy_env_t where
  "toy_env =
     \<lparr>en_al = toy_alice, en_lib = toy_lib, en_msg = toy_msg_codec, en_wallet = toy_wallet_codec,
      en_aead = toy_aead, en_parse_url = (\<lambda>u. Inr (u, [])), en_accept = (\<lambda>origin r. Inr ()),
      en_normal = (\<lambda>err. err = ErrLib ''closed''), en_closed = (\<lambda>err. err = ErrLib ''closed'')\<rparr>"

lemma toy_env_simps [simp]:
  "en_al toy_env = toy_alice" "en_lib toy_env = toy_lib" "en_msg toy_env = toy_msg_codec"
  "en_wallet toy_env = toy_wallet_codec" "en_aead toy_env = toy_aead"
  "en_accept toy_env origin r = Inr ()" "en_normal toy_env err = (err = ErrLib ''closed'')"
  "en_closed toy_env err = (err = ErrLib ''closed'')"
  by (simp_all add: toy_env_def)

definition toy_config :: Config where
  "toy_config =
     \<lparr>cf_DevMode = True, cf_Port = 9421, cf_DbConnectionUrl = [], cf_ClientOrigin = ''*'',
      cf_AuthType = ''custom'', cf_AuthServerUrl = ''http://auth'', cf_SupabaseUrl = [],
      cf_SupabaseApiKey = []\<rparr>"

lemma toy_ws_open: "ws_open toy_env toy_config r = Inr ()"
  by (simp add: ws_open_def ws_origin_def toy_config_def)

subsection \<open>A cache\<close>

definition toy_cache :: "(string \<Rightarrow> cache_value option) cache_lib" where
  "toy_cache =
     \<lparr>Set = (\<lambda>k v c. c(k := Some v)), Get = (\<lambda>k c. c k), Delete = (\<lambda>k c. c(k := None))\<rparr>"

lemma toy_cache_ok: "cache_ok toy_cache"
  by (simp add: cache_ok_def toy_cache_def)

lemma toy_cache_simps [simp]:
  "Set toy_cache k v c = c(k := Some v)" "Get toy_cache k c = c k" "Delete toy_cache k c = c(k := None)"
  by (simp_all add: toy_cache_def)

subsection \<open>A database with that wallet\<close>

definition toy_db :: db where
  "toy_db = snd (StoreWallet toy_wallet_codec toy_aead toy_draw ''u'' ''c'' ''ua'' toy_wallet empty_db)"

lemma toy_store:
  "StoreWallet toy_wallet_codec toy_aead toy_draw ''u'' ''c'' ''ua'' toy_wallet empty_db = (Inr toy_metadata, toy_db)"
  by (auto simp: toy_db_def StoreWallet_def toy_draw_def encryptAES_def NewCipher_def
      generateRandomBytes_def run_query_def Dkg_def insert_defs Let_def toy_metadata_def case_prod_beta
      split: sum.split prod.split)

lemma empty_db_ok: "vault_ok empty_db" "\<not> known empty_db k"
  by (simp_all add: vault_ok_def known_def empty_db_def db_ok_def)

lemma toy_db_known: "vault_ok toy_db" "known toy_db ''u''"
proof -
  obtain ct nonce v where "Dkg ''ua'' ''c'' ''u'' (dr_Address toy_wallet) ct nonce empty_db = (Inr v, toy_db)"
    using StoreWallet_Inr [OF toy_store] by blast
  from Dkg_query [OF empty_db_ok this] show "vault_ok toy_db" "known toy_db ''u''" by auto
qed

lemma toy_retrieve:
  "RetrieveWallet toy_wallet_codec toy_aead None pick (Some toy_metadata) ''u'' toy_db = Ret (Inr toy_wallet)"
  using vault_store.store_new [OF empty_db_ok(1) toy_draw_ok toy_fits _ toy_store]
  by (simp add: db_knows_iff empty_db_ok)

end
