(* ===== verification/KeyProperties.thy ===== *)
theory KeyProperties
  imports HandlerSamples SignatureProperties
begin

text \<open>
  Properties of the private key and of the signing processes: what recovery from two shares
  returns, what exporting writes, and what the two sides of a signing process end with.
\<close>

subsection \<open>Recovering the private key\<close>

lemmas status_defs =
  StatusBadRequest_def StatusUnauthorized_def StatusNotFound_def StatusMethodNotAllowed_def
  StatusConflict_def StatusInternalServerError_def

lemma RecoverPrivateKeyWrapper_Inr:
  "RecoverPrivateKeyWrapper lib c pk s1 s2 bks = Ret (Inr key) \<Longrightarrow>
     \<exists>k P. NewPubkey pk = Inr k \<and> GetECPoint lib k = Inr P \<and> sk_Public key = BaseMult lib (sk_D key) \<and>
       PointEqual lib (sk_Public key) P \<and> sk_D key mod CurveOrder lib = sk_D key"
  by (auto simp: RecoverPrivateKeyWrapper_def dest: RecoverPrivateKey_sound
      split: sum.split_asm option.split_asm)

text \<open>C7: two peers whose stored shares are the values of a line at their Birkhoff parameters
  recover its constant term, provided that its public point is the wallet's.\<close>

theorem two_shares_recover_key:
  assumes key: "NewPubkey pk = Inr k" "GetECPoint lib k = Inr P"
    and shares: "big_SetString 10 server_share = Some s1" "big_SetString 10 client_share = Some s2"
    and parse: "fmpred (\<lambda>peer bk. bk_param bk \<noteq> None) bks"
    and bks: "Option.bind (fmlookup bks serverID) bk_param = Some p1" "Option.bind (fmlookup bks c) bk_param = Some p2"
    and line: "s1 mod CurveOrder lib = bk_eval d slope p1 mod CurveOrder lib"
      "s2 mod CurveOrder lib = bk_eval d slope p2 mod CurveOrder lib"
    and library: "EnsureThreshold lib 2 2 = Inr ()"
      "CheckValid lib 2 (CurveOrder lib) [Some p1, Some p2] = Ret (Inr ())"
      "ComputeBkCoefficient lib 2 (CurveOrder lib) [Some p1, Some p2] = Ret (Inr cs)"
      "bk_coefs_ok (CurveOrder lib) [p1, p2] cs"
    and public: "PointEqual lib (BaseMult lib (d mod CurveOrder lib)) P"
  shows "RecoverPrivateKeyWrapper lib c pk server_share client_share bks =
           Ret (Inr \<lparr>sk_D = d mod CurveOrder lib, sk_Public = BaseMult lib (d mod CurveOrder lib)\<rparr>)"
proof -
  obtain r where r: "ConvertDKGResult lib k server_share bks = Inr r" "lr_Share r = s1"
    using key(2) shares(1) parse by (simp add: ConvertDKGResult_def)
  let ?peers = "[\<lparr>rp_share = s1, rp_bk = fmlookup (lr_Bks r) serverID\<rparr>,
                 \<lparr>rp_share = s2, rp_bk = fmlookup (lr_Bks r) c\<rparr>]"
  have "RecoverPrivateKey (Some lib) 2 P ?peers =
      Ret (Inr \<lparr>sk_D = d mod CurveOrder lib, sk_Public = BaseMult lib (d mod CurveOrder lib)\<rparr>)"
    using bks line library public ConvertDKGResult_lookup [OF r(1)]
    by (intro RecoverPrivateKey_interpolates [where bks = "[p1, p2]" and cs = cs and k = slope])
      (auto simp: less_Suc_eq)
  with key shares r show ?thesis by (simp add: RecoverPrivateKeyWrapper_def)
qed

lemma toy_bks_lookup:
  "fmlookup toy_bks serverID = Some \<lparr>bk_X = ''1'', bk_Rank = 0\<rparr>"
  "fmlookup toy_bks ''c'' = Some \<lparr>bk_X = ''2'', bk_Rank = 0\<rparr>"
  by (simp_all add: toy_bks_def fmlookup_of_list serverID_def)

lemma toy_numbers:
  "big_SetString 10 ''1'' = Some 1" "big_SetString 10 ''2'' = Some 2" "big_SetString 10 ''4'' = Some 4"
  "big_SetString 10 ''5'' = Some 5" "big_SetString 10 ''6'' = Some 6"
  by code_simp+

lemma toy_bks_parse: "fmpred (\<lambda>peer bk. bk_param bk \<noteq> None) toy_bks"
  by (auto simp: fmpred_iff toy_bks_def fmlookup_of_list bk_param_def toy_numbers split: if_splits)

lemma toy_coefficients: "bk_coefs_ok 7 [\<lparr>bp_x = 1, bp_rank = 0\<rparr>, \<lparr>bp_x = 2, bp_rank = 0\<rparr>] [2, 6]"
proof -
  have "(2 * (d + k) + 6 * (d + k * 2)) mod 7 = d mod 7" for d k :: int
  proof -
    have "2 * (d + k) + 6 * (d + k * 2) = d + 7 * (d + 2 * k)" by simp
    then show ?thesis by (metis mod_mult_self2)
  qed
  then show ?thesis by (simp add: bk_coefs_ok_def bk_eval_def)
qed

lemma toy_recovery:
  "NewPubkey (dr_Pubkey toy_wallet) = Inr \<lparr>pk_X = 5, pk_Y = 6\<rparr>"
  "GetECPoint toy_lib \<lparr>pk_X = 5, pk_Y = 6\<rparr> = Inr 5"
  "ComputeBkCoefficient toy_lib t n [Some \<lparr>bp_x = 1, bp_rank = 0\<rparr>, Some \<lparr>bp_x = 2, bp_rank = 0\<rparr>] = Ret (Inr [2, 6])"
  by (simp_all add: NewPubkey_def toy_wallet_def toy_numbers GetECPoint_def toy_lib_def toy_coefs_def
      toy_inverse_def)

lemma toy_lib_simps:
  "CurveOrder toy_lib = 7" "EnsureThreshold toy_lib 2 2 = Inr ()" "PointEqual toy_lib x y \<longleftrightarrow> x = y"
  "CheckValid toy_lib t n [Some a, Some b] = Ret (Inr ())" "BaseMult toy_lib d = d mod 7"
  by (simp_all add: toy_lib_def)

theorem two_shares_recover_key_witness:
  "RecoverPrivateKeyWrapper toy_lib ''c'' (dr_Pubkey toy_wallet) ''1'' ''4'' toy_bks =
     Ret (Inr \<lparr>sk_D = 5 mod CurveOrder toy_lib, sk_Public = BaseMult toy_lib (5 mod CurveOrder toy_lib)\<rparr>)"
proof (rule two_shares_recover_key [where k = "\<lparr>pk_X = 5, pk_Y = 6\<rparr>" and P = 5 and ?s1.0 = 1 and ?s2.0 = 4])
  show "ComputeBkCoefficient toy_lib 2 (CurveOrder toy_lib)
      [Some \<lparr>bp_x = 1, bp_rank = 0\<rparr>, Some \<lparr>bp_x = 2, bp_rank = 0\<rparr>] = Ret (Inr [2, 6])"
    by (rule toy_recovery)
  show "1 mod CurveOrder toy_lib = bk_eval 5 3 \<lparr>bp_x = 1, bp_rank = 0\<rparr> mod CurveOrder toy_lib"
    "4 mod CurveOrder toy_lib = bk_eval 5 3 \<lparr>bp_x = 2, bp_rank = 0\<rparr> mod CurveOrder toy_lib"
    by (simp_all add: toy_lib_def bk_eval_def)
qed (use toy_coefficients toy_bks_parse in \<open>simp_all add: toy_recovery toy_numbers toy_bks_lookup
      bk_param_def toy_lib_simps\<close>)

subsection \<open>Export\<close>

definition refused :: "response \<Rightarrow> bool" where
  "refused resp \<longleftrightarrow> (\<exists>msg code. resp = http_Error msg code \<and> code \<noteq> 200)"

lemma refused_Error: "code \<noteq> 200 \<Longrightarrow> refused (http_Error msg code)"
  by (auto simp: refused_def)

lemma refused_intros [simp]:
  "refused (http_Error msg StatusBadRequest)" "refused (http_Error msg StatusUnauthorized)"
  "refused (http_Error msg StatusNotFound)" "refused (http_Error msg StatusMethodNotAllowed)"
  "refused (http_Error msg StatusInternalServerError)"
  "refused (retrieve_reply z err)" "refused (tss_reply err)"
  by (simp_all add: retrieve_reply_def tss_reply_def status_defs refused_Error)

lemma refused_status: "refused resp \<Longrightarrow> rs_status resp \<noteq> 200"
  by (auto simp: refused_def http_Error_def)

lemma ExportHandler_cases:
  assumes "ExportHandler E cl z fault pick r ctx s = Ret (resp, s')" and "\<not> (refused resp \<and> s' = s)"
  shows "\<exists>userId token w key clientPeerID share.
     ctx ''userId'' = Some userId \<and> ctx ''token'' = Some token \<and>
     RetrieveWallet (en_wallet E) (en_aead E) fault pick (ctx ''metadata'') userId (sr_db s) = Ret (Inr w) \<and>
     RecoverPrivateKeyWrapper (en_lib E) clientPeerID (dr_Pubkey w) (dr_Share w) share (dr_BKs w) = Ret (Inr key) \<and>
     resp = write_ok (hex_encode (big_Bytes (sk_D key))) \<and> s' = s\<lparr>sr_cache := Delete cl token (sr_cache s)\<rparr>"
proof (cases "rq_method r = ''POST''")
  case True
  then obtain userId token form where c: "ctx ''userId'' = Some userId" "ctx ''token'' = Some token" "rq_form r = Inr form"
    using assms by (cases "ctx ''userId''"; cases "ctx ''token''"; cases "rq_form r")
      (auto simp: ExportHandler_def)
  then obtain w where w: "RetrieveWallet (en_wallet E) (en_aead E) fault pick (ctx ''metadata'') userId (sr_db s) = Ret (Inr w)"
    using True assms by (cases "RetrieveWallet (en_wallet E) (en_aead E) fault pick (ctx ''metadata'') userId (sr_db s)")
      (auto simp: ExportHandler_def Let_def split: if_split_asm sum.split_asm)
  let ?rec = "RecoverPrivateKeyWrapper (en_lib E) (form_Value form ''clientPeerID'') (dr_Pubkey w) (dr_Share w)
      (form_Value form ''share'') (dr_BKs w)"
  obtain key where "?rec = Ret (Inr key)"
    using True c w assms by (cases ?rec) (auto simp: ExportHandler_def Let_def split: if_split_asm sum.split_asm)
  with True c w assms show ?thesis by (auto simp: ExportHandler_def Let_def split: if_split_asm)
qed (use assms in \<open>auto simp: ExportHandler_def\<close>)

text \<open>C6: when exporting succeeds, what the response holds is the hexadecimal form of a scalar
  below the group order whose public point is that of the wallet the user's metadata opened,
  and the access token cannot be used again; a refused export leaves the server as it was.\<close>

theorem export_writes_wallet_key:
  assumes "cache_ok cl" and "ExportHandler E cl zero_eq fault pick r ctx s = Ret (resp, s')"
  shows "(\<exists>userId token w k P key.
            ctx ''userId'' = Some userId \<and> ctx ''token'' = Some token \<and>
            RetrieveWallet (en_wallet E) (en_aead E) fault pick (ctx ''metadata'') userId (sr_db s) = Ret (Inr w) \<and>
            NewPubkey (dr_Pubkey w) = Inr k \<and> GetECPoint (en_lib E) k = Inr P \<and>
            PointEqual (en_lib E) (BaseMult (en_lib E) key) P \<and> key mod CurveOrder (en_lib E) = key \<and>
            resp = write_ok (hex_encode (big_Bytes key)) \<and>
            Get cl token (sr_cache s') = None \<and> sr_db s' = sr_db s) \<or>
         rs_status resp \<noteq> 200 \<and> s' = s"
proof (cases "refused resp \<and> s' = s")
  case True
  then show ?thesis by (simp add: refused_status)
next
  case False
  from ExportHandler_cases [OF assms(2) False] obtain userId token w key clientPeerID share where
      c: "ctx ''userId'' = Some userId" "ctx ''token'' = Some token"
      "RetrieveWallet (en_wallet E) (en_aead E) fault pick (ctx ''metadata'') userId (sr_db s) = Ret (Inr w)"
    and rec: "RecoverPrivateKeyWrapper (en_lib E) clientPeerID (dr_Pubkey w) (dr_Share w) share (dr_BKs w) = Ret (Inr key)"
    and out: "resp = write_ok (hex_encode (big_Bytes (sk_D key)))"
      "s' = s\<lparr>sr_cache := Delete cl token (sr_cache s)\<rparr>" by blast
  from RecoverPrivateKeyWrapper_Inr [OF rec] obtain k P where
      "NewPubkey (dr_Pubkey w) = Inr k" "GetECPoint (en_lib E) k = Inr P"
      "PointEqual (en_lib E) (BaseMult (en_lib E) (sk_D key)) P" "sk_D key mod CurveOrder (en_lib E) = sk_D key"
    by metis
  moreover have "Get cl token (sr_cache s') = None \<and> sr_db s' = sr_db s"
    using out(2) cache_okD(3) [OF assms(1)] by simp
  ultimately show ?thesis using c out(1) by blast
qed

definition toy_ctx :: ctx where
  "toy_ctx = [''userId'' \<mapsto> ''u'', ''token'' \<mapsto> ''t'', ''metadata'' \<mapsto> toy_metadata]"

definition toy_request :: "string \<Rightarrow> request" where
  "toy_request path =
     \<lparr>rq_method = ''POST'', rq_scheme = ''wss'', rq_path = path,
      rq_query = [''msg'' \<mapsto> [''6d''], ''peer'' \<mapsto> [''c'']], rq_header = [],
      rq_form = Inr [''share'' \<mapsto> ''4'', ''clientPeerID'' \<mapsto> ''c''], rq_body = []\<rparr>"

definition toy_server :: "(string \<Rightarrow> cache_value option) server" where
  "toy_server =
     \<lparr>sr_cache = [''t'' \<mapsto> CvToken \<lparr>tp_userId = ''u'', tp_metadata = toy_metadata\<rparr>], sr_db = toy_db\<rparr>"

lemma toy_recovers:
  "RecoverPrivateKeyWrapper toy_lib ''c'' (dr_Pubkey toy_wallet) ''1'' ''4'' toy_bks =
     Ret (Inr \<lparr>sk_D = 5, sk_Public = 5\<rparr>)"
proof -
  have "ConvertDKGResult toy_lib \<lparr>pk_X = 5, pk_Y = 6\<rparr> ''1'' toy_bks =
      Inr \<lparr>lr_PublicKey = 5, lr_Share = 1, lr_Bks = fmmap (\<lambda>bk. the (bk_param bk)) toy_bks\<rparr>"
    using toy_bks_parse by (simp add: ConvertDKGResult_def toy_recovery toy_numbers)
  then show ?thesis
    by (simp add: RecoverPrivateKeyWrapper_def toy_recovery toy_numbers RecoverPrivateKey_def toy_bks_lookup
        bk_param_def toy_lib_simps)
qed

lemma toy_export:
  "ExportHandler toy_env toy_cache z None pick (toy_request ''/export'') toy_ctx toy_server =
     Ret (write_ok (hex_encode (big_Bytes 5)), toy_server\<lparr>sr_cache := Map.empty\<rparr>)"
  using toy_recovers
  by (auto simp: ExportHandler_def toy_ctx_def toy_request_def toy_server_def toy_retrieve form_Value_def
      toy_lib_simps toy_wallet_def)

theorem export_writes_wallet_key_witness:
  "Get toy_cache ''t'' (sr_cache (toy_server\<lparr>sr_cache := Map.empty\<rparr>)) = None"
  using export_writes_wallet_key [OF toy_cache_ok toy_export] by (auto simp: write_ok_def)

subsection \<open>Signing\<close>

lemma SignHandler_entry_cases:
  assumes "SignHandler_entry E cfg zero_eq fault pick r c s = Ret (Inr (token, signer))"
  shows "\<exists>userId message w k. c ''userId'' = Some userId \<and> c ''token'' = Some token \<and>
     hex_decode (query_Get r ''msg'') = Inr message \<and>
     RetrieveWallet (en_wallet E) (en_aead E) fault pick (c ''metadata'') userId (sr_db s) = Ret (Inr w) \<and>
     NewPubkey (dr_Pubkey w) = Inr k \<and> signs_for k message signer"
proof -
  obtain userId where u: "c ''userId'' = Some userId" "c ''token'' = Some token"
    using assms by (auto simp: SignHandler_entry_def Let_def
        split: option.split_asm if_split_asm sum.split_asm go.split_asm)
  obtain message where m: "hex_decode (query_Get r ''msg'') = Inr message"
    using assms u by (auto simp: SignHandler_entry_def Let_def split: if_split_asm sum.split_asm)
  obtain w where w: "RetrieveWallet (en_wallet E) (en_aead E) fault pick (c ''metadata'') userId (sr_db s) = Ret (Inr w)"
    using assms u m by (auto simp: SignHandler_entry_def Let_def split: if_split_asm sum.split_asm go.split_asm)
  have "NewServerSigner (en_lib E) (en_al E) (query_Get r ''peer'') (dr_Pubkey w) (dr_Share w) (dr_BKs w) message
      = Inr signer"
    using assms u m w by (auto simp: SignHandler_entry_def Let_def split: if_split_asm sum.split_asm)
  from NewServerSigner_signs [OF this] u m w show ?thesis by blast
qed

text \<open>C9: whatever its goroutines do, a signing handler closes the connection normally only
  with a signature that verifies for the requested message under the key of the wallet that
  the metadata opened; it never changes the database, and it deletes the access token when it
  has closed normally and at no other time.\<close>

theorem sign_handler_outcome:
  assumes "SignHandler_entry E cfg zero_eq fault pick r c s = Ret (Inr (token, signer))"
    and "sign_reach E cl token (sign_init signer s) st"
  shows "\<exists>userId message w k. c ''userId'' = Some userId \<and> c ''token'' = Some token \<and>
     hex_decode (query_Get r ''msg'') = Inr message \<and>
     RetrieveWallet (en_wallet E) (en_aead E) fault pick (c ''metadata'') userId (sr_db s) = Ret (Inr w) \<and>
     NewPubkey (dr_Pubkey w) = Inr k \<and>
     (sn_normal st \<or> sn_main st = SM_done \<longrightarrow>
        (\<exists>sig. sn_sig st = Some sig \<and>
               EcdsaVerify (en_lib E) (GetECDSA k) message (Some (sg_R sig)) (Some (sg_S sig)))) \<and>
     sr_db (sn_server st) = sr_db s \<and>
     sr_cache (sn_server st) = (if sn_main st = SM_done then Delete cl token (sr_cache s) else sr_cache s)"
proof -
  from SignHandler_entry_cases [OF assms(1)] obtain userId message w k where
      e: "c ''userId'' = Some userId" "c ''token'' = Some token"
        "hex_decode (query_Get r ''msg'') = Inr message"
        "RetrieveWallet (en_wallet E) (en_aead E) fault pick (c ''metadata'') userId (sr_db s) = Ret (Inr w)"
        "NewPubkey (dr_Pubkey w) = Inr k"
      and k: "signs_for k message signer" by blast
  have "sign_ok (en_lib E) cl token k message s (sign_init signer s)"
    using k by (simp add: sign_ok_def sign_init_def)
  from sign_reach_ok [OF assms(2) this] have ok: "sign_ok (en_lib E) cl token k message s st" .
  then have "sn_normal st \<or> sn_main st = SM_done \<longrightarrow>
        (\<exists>sig. sn_sig st = Some sig \<and> good_signature (en_lib E) k message sig)"
    by (auto simp: sign_ok_def split: option.split_asm)
  moreover have "sr_db (sn_server st) = sr_db s \<and>
     sr_cache (sn_server st) = (if sn_main st = SM_done then Delete cl token (sr_cache s) else sr_cache s)"
    using ok by (simp add: sign_ok_def)
  ultimately show ?thesis using e good_signature_verifies by metis
qed

text \<open>A run to the end: the engine reports a result and the main goroutine takes its three steps.\<close>

definition toy_service :: "(string, string list) serviceSigner" where
  "toy_service =
     \<lparr>ss_pm = Some (RegisterHandleMessage (AddPeer (NewPeerManager serverID) ''c'') (service_handle toy_alice)),
      ss_signer = Some [], ss_pubkey = toy_key, ss_share = ''1'', ss_BKs = party_BKs ''c'' toy_bks,
      ss_message = ''m'', ss_done = False, ss_result = None, ss_err = None\<rparr>"

definition toy_signer :: "(string, string list) ServerSigner" where
  "toy_signer = \<lparr>sv_service = toy_service, sv_clientPeerID = ''c''\<rparr>"

lemma toy_convert:
  "\<exists>r. ConvertDKGResult toy_lib toy_key ''1'' (party_BKs ''c'' toy_bks) = Inr r"
proof -
  have "fmpred (\<lambda>peer bk. bk_param bk \<noteq> None) (party_BKs ''c'' toy_bks)"
    using toy_bks_parse by (auto simp: fmpred_iff fmlookup_party_BKs)
  then show ?thesis by (simp add: ConvertDKGResult_def toy_key_def toy_recovery toy_numbers)
qed

lemma toy_sign_entry:
  "SignHandler_entry toy_env toy_config z None pick (toy_request ''/sign'') toy_ctx toy_server =
     Ret (Inr (''t'', toy_signer))"
proof -
  have "NewPubkey (dr_Pubkey toy_wallet) = Inr toy_key" by (simp add: toy_recovery toy_key_def)
  then have "NewServerSigner toy_lib toy_alice ''c'' (dr_Pubkey toy_wallet) (dr_Share toy_wallet)
      (dr_BKs toy_wallet) ''m'' = Inr toy_signer"
    using toy_convert
    by (auto simp: NewServerSigner_def Let_def Signer_Init_def NewServiceSigner_def toy_wallet_def
        toy_alice_def toy_signer_def toy_service_def)
  moreover have "hex_decode ''6d'' = Inr ''m''" by code_simp
  ultimately show ?thesis
    by (simp add: SignHandler_entry_def toy_ctx_def toy_request_def query_Get_def toy_server_def toy_retrieve
        toy_ws_open)
qed

definition toy_sign_events :: "string sign_event list" where
  "toy_sign_events = [Sg_state (Inr toy_sign_result) StateDone, Sg_main, Sg_main, Sg_main]"

lemma toy_sign_run:
  "\<exists>st. sign_reach toy_env toy_cache ''t'' (sign_init toy_signer toy_server) st \<and>
        sn_normal st \<and> sn_main st = SM_done"
proof -
  obtain st where st: "steps (sign_step toy_env toy_cache ''t'') toy_sign_events (sign_init toy_signer toy_server) = Some st"
      "sn_normal st" "sn_main st = SM_done"
    by (simp add: toy_sign_events_def sign_init_def sign_report_state_def toy_signer_def toy_service_def
        Signer_OnStateChanged_def Signer_close_def sign_main_step_def sign_process_def
        ServerSigner_Process_def Signer_Process_def toy_signature)
  let ?reach = "sign_reach toy_env toy_cache ''t'' (sign_init toy_signer toy_server)"
  from steps_invariant [where P = ?reach, OF st(1) sign_reach_init] st(2,3) show ?thesis
    by (blast intro: sign_reach_step)
qed

theorem sign_handler_outcome_witness:
  "\<exists>st sig. sign_reach toy_env toy_cache ''t'' (sign_init toy_signer toy_server) st \<and> sn_normal st \<and>
     sn_sig st = Some sig \<and> sr_cache (sn_server st) ''t'' = None"
proof -
  obtain st where st: "sign_reach toy_env toy_cache ''t'' (sign_init toy_signer toy_server) st"
    "sn_normal st" "sn_main st = SM_done" using toy_sign_run by blast
  from sign_handler_outcome [OF toy_sign_entry st(1)] st(2,3) have
    "\<exists>sig. sn_sig st = Some sig" "sr_cache (sn_server st) = Delete toy_cache ''t'' (sr_cache toy_server)" by auto
  with st show ?thesis by auto
qed

text \<open>C10: what \<open>Sign\<close> of the client returns. Before its goroutines run it fails with
  \<open>ErrUnauthorized\<close> when there is no access token; with an access token it fails with
  \<open>ErrBadRequest\<close>, or because dialing the address with that token and the peer of the wallet failed:
  with \<open>ErrUnauthorized\<close>, \<open>ErrNotFound\<close> or \<open>ErrConflict\<close> for the statuses 401, 404 and 409 (a status
  of 400 is again \<open>ErrBadRequest\<close>), else with the dialer's own error. Once they run, it returns
  either a signature that verifies for the message under the key of the wallet it was given, or
  \<open>ErrTssProcessFailed\<close>.\<close>

theorem client_sign_outcome:
  "(\<forall>err. Sign_entry E L host message dkgResultStr metadata authData = Inl err \<longrightarrow>
      (case getAccessToken L host metadata authData of
         Inl e \<Rightarrow> err = ErrUnauthorized
       | Inr token \<Rightarrow> err = ErrBadRequest \<or>
           (\<exists>w h resp e. Unmarshal (en_wallet E) dkgResultStr = Inr w \<and> urlToWs L host = Inr h \<and>
              cl_dial L (h @ sign_path message token (dr_PeerID w)) = Inl (resp, e) \<and>
              (resp = Some 401 \<and> err = ErrUnauthorized \<or> resp = Some 404 \<and> err = ErrNotFound \<or>
               resp = Some 409 \<and> err = ErrConflict \<or> resp \<notin> Some ` {400, 401, 404, 409} \<and> err = e)))) \<and>
   (\<forall>signer st res. Sign_entry E L host message dkgResultStr metadata authData = Inr signer \<longrightarrow>
      csign_reach E signer st \<longrightarrow> cg_main st = GM_returned res \<longrightarrow>
      (\<exists>w k. Unmarshal (en_wallet E) dkgResultStr = Inr w \<and> NewPubkey (dr_Pubkey w) = Inr k \<and>
         (case res of
            Inl err \<Rightarrow> err = ErrTssProcessFailed
          | Inr sig \<Rightarrow> EcdsaVerify (en_lib E) (GetECDSA k) message (Some (sg_R sig)) (Some (sg_S sig)))))"
proof (intro conjI allI impI)
  fix err
  assume "Sign_entry E L host message dkgResultStr metadata authData = Inl err"
  then show "case getAccessToken L host metadata authData of
         Inl e \<Rightarrow> err = ErrUnauthorized
       | Inr token \<Rightarrow> err = ErrBadRequest \<or>
           (\<exists>w h resp e. Unmarshal (en_wallet E) dkgResultStr = Inr w \<and> urlToWs L host = Inr h \<and>
              cl_dial L (h @ sign_path message token (dr_PeerID w)) = Inl (resp, e) \<and>
              (resp = Some 401 \<and> err = ErrUnauthorized \<or> resp = Some 404 \<and> err = ErrNotFound \<or>
               resp = Some 409 \<and> err = ErrConflict \<or> resp \<notin> Some ` {400, 401, 404, 409} \<and> err = e))"
    by (auto simp: Sign_entry_def dial_error_def split: sum.splits option.split_asm if_split_asm)
next
  fix signer st res
  assume entry: "Sign_entry E L host message dkgResultStr metadata authData = Inr signer"
    and run: "csign_reach E signer st" and ret: "cg_main st = GM_returned res"
  from entry obtain w where w: "Unmarshal (en_wallet E) dkgResultStr = Inr w"
      "NewClientSigner (en_lib E) (en_al E) (dr_PeerID w) (dr_Pubkey w) (dr_Share w) (dr_BKs w) message = Inr signer"
    by (auto simp: Sign_entry_def split: sum.split_asm)
  from NewClientSigner_signs [OF w(2)] obtain k where
      k: "NewPubkey (dr_Pubkey w) = Inr k" "csigns_for k message signer" by blast
  from csign_reach_ok [OF k(2) run] ret good_signature_verifies
  have "case res of Inl err \<Rightarrow> err = ErrTssProcessFailed
      | Inr sig \<Rightarrow> EcdsaVerify (en_lib E) (GetECDSA k) message (Some (sg_R sig)) (Some (sg_S sig))"
    by (auto simp: csign_ok_def split: sum.splits)
  with w(1) k(1) show "\<exists>w k. Unmarshal (en_wallet E) dkgResultStr = Inr w \<and> NewPubkey (dr_Pubkey w) = Inr k \<and>
         (case res of
            Inl err \<Rightarrow> err = ErrTssProcessFailed
          | Inr sig \<Rightarrow> EcdsaVerify (en_lib E) (GetECDSA k) message (Some (sg_R sig)) (Some (sg_S sig)))" by blast
qed

definition toy_client_lib :: "string client_lib" where
  "toy_client_lib =
     \<lparr>cl_http = (\<lambda>r. Inr \<lparr>wr_status = 200, wr_body = Inr ''t''\<rparr>),
      cl_Parse = (\<lambda>u. Inr \<lparr>ur_Scheme = ''http'', ur_rest = u\<rparr>),
      cl_String = (\<lambda>u. ur_Scheme u @ ''://'' @ ur_rest u),
      cl_form = (\<lambda>kv. concat (map snd kv)), cl_dial = (\<lambda>u. Inr ())\<rparr>"

definition toy_csigner :: "(string, string list) ClientSigner" where
  "toy_csigner = \<lparr>cs_service = toy_service\<lparr>ss_share := dr_Share toy_wallet,
     ss_pm := Some (RegisterHandleMessage (AddPeer (NewPeerManager ''c'') serverID) (service_handle toy_alice))\<rparr>\<rparr>"

lemma toy_csign_entry:
  "Sign_entry toy_env toy_client_lib ''h'' ''m'' (toy_text toy_wallet) toy_metadata ''a'' = Inr toy_csigner"
proof -
  have "NewPubkey (dr_Pubkey toy_wallet) = Inr toy_key" by (simp add: toy_recovery toy_key_def)
  then have "NewClientSigner toy_lib toy_alice ''c'' (dr_Pubkey toy_wallet) (dr_Share toy_wallet)
      (dr_BKs toy_wallet) ''m'' = Inr toy_csigner"
    using toy_convert
    by (auto simp: NewClientSigner_def Let_def Signer_Init_def NewServiceSigner_def toy_wallet_def
        toy_alice_def toy_csigner_def toy_service_def)
  moreover have "dr_PeerID toy_wallet = ''c''" by (simp add: toy_wallet_def)
  ultimately show ?thesis
    by (simp add: Sign_entry_def getAccessToken_def getAuthDataFromServer_def urlToHttp_def urlToWs_def
        toy_client_lib_def)
qed

lemma toy_csign_run:
  "\<exists>st sig. csign_reach toy_env toy_csigner st \<and> cg_main st = GM_returned (Inr sig)"
proof -
  let ?s0 = "csign_init toy_csigner"
  obtain s1 where s1: "csign_step toy_env (Cg_state (Inr toy_sign_result) StateDone) ?s0 = Some s1"
    and f1: "cg_signer s1 = toy_csigner\<lparr>cs_service := (cs_service toy_csigner)
        \<lparr>ss_result := Some toy_sign_result, ss_done := True\<rparr>\<rparr>"
      "cg_main s1 = GM_process" "\<not> cg_crashed s1" "cg_ctx s1 = Ctx_live" "cg_recv s1 = Sender_on" "cg_errs s1 = []"
    by (simp add: csign_init_def csign_report_state_def toy_csigner_def toy_service_def
        Signer_OnStateChanged_def Signer_close_def)
  obtain s2 sig where s2: "csign_step toy_env Cg_main s1 = Some s2"
    and f2: "cg_main s2 = GM_errs sig" "\<not> cg_crashed s2" "cg_ctx s2 = Ctx_live" "cg_recv s2 = Sender_on" "cg_errs s2 = []"
    using f1 by (simp add: csign_main_step_def csign_process_def ClientSigner_Process_def Signer_Process_def
        toy_csigner_def toy_service_def toy_signature)
  obtain s3 where s3: "csign_step toy_env (Cg_recv (Inl (ErrLib ''closed''))) s2 = Some s3"
    and f3: "cg_main s3 = GM_errs sig" "\<not> cg_crashed s3" "cg_ctx s3 = Ctx_live" "cg_errs s3 = [ErrLib ''closed'']"
    using f2 by (simp add: csign_recv_def Receive_turn_def errs_cap_def chan_send_def)
  obtain s4 where s4: "csign_step toy_env Cg_main s3 = Some s4" "cg_main s4 = GM_returned (Inr sig)"
    using f3 by (simp add: csign_main_step_def csign_wait_def csign_return_def chan_recv_def)
  from csign_reach_step [OF csign_reach_step [OF csign_reach_step [OF csign_reach_step
        [OF csign_reach_init s1] s2] s3] s4(1)] s4(2)
  show ?thesis by blast
qed

theorem client_sign_outcome_witness:
  "\<exists>st sig k. csign_reach toy_env toy_csigner st \<and> cg_main st = GM_returned (Inr sig) \<and>
     EcdsaVerify toy_lib (GetECDSA k) ''m'' (Some (sg_R sig)) (Some (sg_S sig))"
proof -
  obtain st sig where st: "csign_reach toy_env toy_csigner st" "cg_main st = GM_returned (Inr sig)"
    using toy_csign_run by blast
  from client_sign_outcome [of toy_env toy_client_lib "''h''" "''m''" "toy_text toy_wallet" toy_metadata "''a''"] toy_csign_entry st
  show ?thesis by fastforce
qed

end
