(* ===== verification/VaultProperties.thy ===== *)
theory VaultProperties
  imports HandlerSamples
begin

text \<open>
  Properties of the database and of the vault: the tables stay sound, every history of stores
  and device additions keeps for each user the wallet and the key of the last one, and what
  happens when two stores for one user both pass the check of the handler.
\<close>

text \<open>C21: every statement that changes the tables keeps keys unique and below their
  sequences and every reference valid, also when it fails.\<close>

theorem queries_keep_integrity:
  assumes "db_ok d"
  shows "db_ok (snd (AddUser k d)) \<and> db_ok (snd (AddWallet u a e n d)) \<and> db_ok (snd (AddDevice u w ua p d)) \<and>
         db_ok (snd (Dkg ua p k a e n d)) \<and> db_ok (snd (AddPeerQuery pick ua p k e n d)) \<and>
         db_ok (snd (run_query fault (Dkg ua p k a e n) d))"
  using assms
  by (simp add: AddUser_ok AddWallet_ok AddDevice_ok Dkg_query_ok AddPeerQuery_ok run_query_ok)

theorem queries_keep_integrity_witness: "db_ok (snd (Dkg ''ua'' ''p'' ''k'' ''a'' ''e'' ''n'' empty_db))"
  using queries_keep_integrity [OF db_ok_empty] by blast

text \<open>C11: after any history of wallets stored for new users and devices added for known ones,
  failures included, a user is known exactly when an operation for it succeeded, and the
  wallet of the last success is what the vault returns for the metadata of that success,
  whichever row the database answers with.\<close>

theorem vault_history:
  assumes "\<forall>op \<in> set ops. vault_op_ok draw_ok (wallet_fits cj ae) op"
    and "fold (vault_step db_knows (StoreWallet cj ae) (VaultAddPeer cj ae)) ops (empty_db, Map.empty) = (d, m)"
  shows "vault_ok d \<and> (\<forall>k. WalletExists None pick k d = None \<longleftrightarrow> m k \<noteq> None) \<and>
         (\<forall>k key w. m k = Some (key, w) \<longrightarrow>
            RetrieveWallet cj ae None pick (Some key) k d = Ret (Inr w))"
proof -
  have "vault_store.refines cj ae empty_db Map.empty"
    by (simp add: vault_store.refines_def db_knows_iff empty_db_ok)
  from vault_store.history_refines [OF assms(1) this] assms(2)
  have "vault_store.refines cj ae d m" by simp
  then show ?thesis by (simp add: vault_store.refines_def db_knows_iff WalletExists_iff)
qed

lemma toy_history:
  "fold (vault_step db_knows (StoreWallet toy_wallet_codec toy_aead) (VaultAddPeer toy_wallet_codec toy_aead))
     [Store toy_draw ''u'' ''c'' ''ua'' toy_wallet] (empty_db, Map.empty) =
   (toy_db, [''u'' \<mapsto> (toy_metadata, toy_wallet)])"
  by (simp add: db_knows_iff empty_db_ok toy_store)

theorem vault_history_witness:
  "RetrieveWallet toy_wallet_codec toy_aead None 3 (Some toy_metadata) ''u'' toy_db = Ret (Inr toy_wallet)"
proof -
  have "\<forall>op \<in> set [Store toy_draw ''u'' ''c'' ''ua'' toy_wallet].
      vault_op_ok draw_ok (wallet_fits toy_wallet_codec toy_aead) op"
    by (simp add: toy_draw_ok)
  from vault_history [OF this toy_history] show ?thesis by simp
qed

lemma Dkg_rows:
  assumes "db_ok d" and "Dkg ua p k a e n d = (r, d')"
  shows "signing_rows k d' = signing_rows k d @
     [\<lparr>sp_ID = Some (db_next_wallet d), sp_UserID = Some (db_next_user d),
       sp_PublicAddress = Some a, sp_EncryptedDkgResults = e, sp_Nonce = n\<rparr>]"
proof -
  let ?w = "\<lparr>wa_ID = db_next_wallet d, wa_UserID = db_next_user d, wa_PublicAddress = a,
             wa_EncryptedDkgResults = e, wa_Nonce = n\<rparr>"
  have d': "db_users d' = db_users d @ [\<lparr>us_ID = db_next_user d, us_ForeignKey = k\<rparr>]"
      "db_wallets d' = db_wallets d @ [?w]"
    using assms(2) by (auto simp: Dkg_def insert_defs Let_def)
  have own: "GetUserWallets (db_next_user d) d' = [?w]"
    using d' assms(1) by (fastforce simp: GetUserWallets_def filter_empty_conv db_ok_def)
  have "GetUserWallets i d' = GetUserWallets i d" if "i \<in> set (user_ids k d)" for i
    using that assms(1) d' by (fastforce simp: user_ids_def GetUserWallets_def db_ok_def)
  then have old: "map (\<lambda>i. case GetUserWallets i d' of [] \<Rightarrow> [null_row] | ws \<Rightarrow> map wallet_row ws) (user_ids k d) =
      map (\<lambda>i. case GetUserWallets i d of [] \<Rightarrow> [null_row] | ws \<Rightarrow> map wallet_row ws) (user_ids k d)" by simp
  have ids: "user_ids k d' = user_ids k d @ [db_next_user d]" using d' by (simp add: user_ids_def)
  show ?thesis
    unfolding signing_rows_def ids map_append concat_append old using own by (simp add: wallet_row_def)
qed

text \<open>C33: a second wallet stored for a known user does not replace or refuse anything: there
  are then two rows for that user, and which wallet a retrieval opens, and whether the
  metadata fits it, depends on the row that the database answers with.\<close>

theorem second_store_ambiguous:
  assumes "vault_ok d" and "known d k" and "draw_ok r" and "wallet_fits cj ae w'"
    and "RetrieveWallet cj ae None 0 (Some key) k d = Ret (Inr w)"
    and "StoreWallet cj ae r k p ua w' d = (Inr key', d')"
  shows "RetrieveWallet cj ae None 0 (Some key) k d' = Ret (Inr w) \<and>
         RetrieveWallet cj ae None 1 (Some key') k d' = Ret (Inr w') \<and>
         length (filter (\<lambda>u. us_ForeignKey u = k) (db_users d')) = 2 \<and> \<not> vault_ok d'"
proof -
  from StoreWallet_Inr [OF assms(6)] obtain js ck nonce ct v where
    st: "Marshal cj w' = Inr js" "key' = hex_encode ck"
      "encryptAES ae (dw_nonce r) js ck = Inr (nonce, ct)"
      "Dkg ua p k (dr_Address w') ct nonce d = (Inr v, d')" by blast
  have "db_ok d" using assms(1) by (simp add: vault_ok_def)
  note rows = Dkg_rows [OF this st(4)]
  from user_ids_known [OF assms(1,2)] obtain i x where x: "user_ids k d = [i]" "GetUserWallets i d = [x]"
    by blast
  then have one: "signing_rows k d = [wallet_row x]" by (simp add: signing_rows_def)
  have first: "GetUserSigningParameters 0 k d' = GetUserSigningParameters 0 k d"
    using rows one by (simp add: GetUserSigningParameters_def one_row_def)
  have second: "\<exists>row. GetUserSigningParameters 1 k d' = Inr row \<and>
      sp_EncryptedDkgResults row = ct \<and> sp_Nonce row = nonce"
    using rows one by (simp add: GetUserSigningParameters_def one_row_def)
  have "RetrieveWallet cj ae None 0 (Some key) k d' = Ret (Inr w)"
    using assms(5) first by (simp add: RetrieveWallet_def)
  moreover have "RetrieveWallet cj ae None 1 (Some key') k d' = Ret (Inr w')"
    using second st(1-3) assms(3,4) by (auto simp: draw_ok_def intro!: RetrieveWallet_row)
  moreover have "map us_ID (filter (\<lambda>u. us_ForeignKey u = k) (db_users d')) = [i, db_next_user d]"
    using x(1) st(4) by (auto simp: user_ids_def Dkg_def insert_defs Let_def)
  then have two: "length (filter (\<lambda>u. us_ForeignKey u = k) (db_users d')) = 2"
    by (metis length_map length_Cons list.size(3) numeral_2_eq_2)
  moreover have "\<not> vault_ok d'"
  proof
    assume "vault_ok d'"
    then have "distinct (map us_ForeignKey (filter (\<lambda>u. us_ForeignKey u = k) (db_users d')))"
      by (simp add: vault_ok_def distinct_map_filter)
    moreover have "map us_ForeignKey (filter (\<lambda>u. us_ForeignKey u = k) (db_users d')) =
        replicate (length (filter (\<lambda>u. us_ForeignKey u = k) (db_users d'))) k"
      by (rule replicate_eqI) auto
    ultimately show False using two by (simp add: numeral_2_eq_2)
  qed
  ultimately show ?thesis by blast
qed

lemma toy_store_again:
  "fst (StoreWallet toy_wallet_codec toy_aead toy_draw ''u'' ''c2'' ''ua'' toy_wallet toy_db) = Inr toy_metadata"
  by (auto simp: StoreWallet_def toy_draw_def encryptAES_def NewCipher_def
      generateRandomBytes_def run_query_def Dkg_def insert_defs Let_def toy_metadata_def case_prod_beta
      split: sum.split prod.split)

theorem second_store_ambiguous_witness:
  "\<exists>d. StoreWallet toy_wallet_codec toy_aead toy_draw ''u'' ''c2'' ''ua'' toy_wallet toy_db = (Inr toy_metadata, d) \<and>
       \<not> vault_ok d"
proof -
  obtain d where d: "StoreWallet toy_wallet_codec toy_aead toy_draw ''u'' ''c2'' ''ua'' toy_wallet toy_db
      = (Inr toy_metadata, d)" using toy_store_again by (metis fst_conv surj_pair)
  have "wallet_fits toy_wallet_codec toy_aead toy_wallet"
    by (simp add: wallet_fits_def toy_wallet_codec_ok toy_aead_ok)
  from second_store_ambiguous [OF toy_db_known toy_draw_ok this toy_retrieve d] d show ?thesis by blast
qed

text \<open>C34: adding a device rewrites every wallet of the user: also where two had been stored,
  any row now opens with the given metadata and holds the given wallet.\<close>

theorem add_peer_rewrites_all:
  assumes "draw_ok r" and "wallet_fits cj ae w"
    and "\<forall>i \<in> set (user_ids k d). GetUserWallets i d \<noteq> []"
    and "VaultAddPeer cj ae r i (Some key) k p ua w d = (Inr (), d')"
  shows "RetrieveWallet cj ae None pick (Some key) k d' = Ret (Inr w)"
proof -
  from VaultAddPeer_Inr [OF assms(4)] obtain js ck nonce ct v where
    ap: "Marshal cj w = Inr js" "hex_decode key = Inr ck"
      "encryptAES ae (dw_nonce r) js ck = Inr (nonce, ct)"
      "AddPeerQuery i ua p k ct nonce d = (Inr v, d')" by blast
  note shape = AddPeerQuery_shape [OF ap(4)]
  have ids: "user_ids k d' = user_ids k d" using shape by (simp add: user_ids_def)
  have wallets: "GetUserWallets j d' = map (update_wallet (user_ids k d) ct nonce) (GetUserWallets j d)" for j
    using shape by (intro GetUserWallets_update) simp
  have good: "sp_EncryptedDkgResults row = ct \<and> sp_Nonce row = nonce" if row: "row \<in> set (signing_rows k d')" for row
  proof -
    from row ids obtain j where j: "j \<in> set (user_ids k d)"
      "row \<in> set (case GetUserWallets j d' of [] \<Rightarrow> [null_row] | ws \<Rightarrow> map wallet_row ws)"
      by (auto simp: signing_rows_def)
    with assms(3) wallets have "row \<in> wallet_row ` set (GetUserWallets j d')"
      by (cases "GetUserWallets j d'") auto
    with wallets j(1) show ?thesis by (auto simp: GetUserWallets_def update_wallet_def wallet_row_def)
  qed
  have "user_ids k d \<noteq> []"
    using ap(4) by (auto simp: AddPeerQuery_def Let_def one_row_def split: if_split_asm)
  then obtain j where "j \<in> set (user_ids k d)" by (cases "user_ids k d") auto
  with assms(3) wallets ids have "signing_rows k d' \<noteq> []"
    by (auto simp: signing_rows_def split: list.split)
  then have "GetUserSigningParameters pick k d' = Inr (signing_rows k d' ! (pick mod length (signing_rows k d')))"
      "signing_rows k d' ! (pick mod length (signing_rows k d')) \<in> set (signing_rows k d')"
    by (simp_all add: GetUserSigningParameters_def one_row_def)
  with good ap(1-3) assms(1,2) show ?thesis
    by (auto simp: draw_ok_def intro!: RetrieveWallet_row)
qed

theorem add_peer_rewrites_all_witness:
  "\<exists>d. VaultAddPeer toy_wallet_codec toy_aead toy_draw 0 (Some toy_metadata) ''u'' ''n'' ''ua'' toy_wallet toy_db = (Inr (), d) \<and>
       RetrieveWallet toy_wallet_codec toy_aead None 5 (Some toy_metadata) ''u'' d = Ret (Inr toy_wallet)"
proof -
  obtain i w where i: "user_ids ''u'' toy_db = [i]" "GetUserWallets i toy_db = [w]"
    using user_ids_known [OF toy_db_known] by blast
  have "vault_ok toy_db" "known toy_db ''u''" by (rule toy_db_known)+
  then obtain v d where q: "AddPeerQuery 0 ''ua'' ''n'' ''u'' (replicate 32 (CHR ''k'') @ toy_text toy_wallet) (replicate 12 (CHR ''n'')) toy_db
      = (Inr v, d)" by (metis AddPeer_query surj_pair)
  then have add: "VaultAddPeer toy_wallet_codec toy_aead toy_draw 0 (Some toy_metadata) ''u'' ''n'' ''ua'' toy_wallet toy_db
      = (Inr (), d)"
    by (simp add: VaultAddPeer_def toy_metadata_def toy_draw_def encryptAES_def NewCipher_def
        generateRandomBytes_def NonceSize_def toy_aead_def run_query_def)
  have "wallet_fits toy_wallet_codec toy_aead toy_wallet"
    by (simp add: wallet_fits_def toy_wallet_codec_ok toy_aead_ok)
  from add_peer_rewrites_all [OF toy_draw_ok this _ add] i add show ?thesis by auto
qed

end
