(* ===== verification/HttpProperties.thy ===== *)
theory HttpProperties
  imports KeyProperties
begin

text \<open>
  Properties of the HTTP side: what lets a request reach a handler, the way of an access token
  from \<open>/authorize\<close> to the guarded routes, the answers of the authentication providers, and
  what the server does outside dev mode.
\<close>

subsection \<open>Serving\<close>

definition with_cors :: "Config \<Rightarrow> response \<times> 's \<Rightarrow> response \<times> 's" where
  "with_cors cfg rs =
     ((fst rs)\<lparr>rs_header := [''Access-Control-Allow-Origin'' \<mapsto> cf_ClientOrigin cfg,
         ''Access-Control-Allow-Methods'' \<mapsto> ''GET, POST, OPTIONS'',
         ''Access-Control-Allow-Headers'' \<mapsto> ''Content-Type, Authorization, M-METADATA''] ++ rs_header (fst rs)\<rparr>,
      snd rs)"

lemma with_cors_simps [simp]:
  "snd (with_cors cfg rs) = snd rs" "rs_status (fst (with_cors cfg rs)) = rs_status (fst rs)"
  "rs_body (fst (with_cors cfg rs)) = rs_body (fst rs)"
  by (simp_all add: with_cors_def)

lemma ServeHTTP_routes:
  "rq_method r \<noteq> ''OPTIONS'' \<Longrightarrow>
     ServeHTTP al cl cfg getc h rts r s =
       with_cors cfg (serve_routes al cl cfg getc h rts r (header_loop (rq_header r) Map.empty) s)"
  by (simp add: ServeHTTP_def corsMiddleware_def headerMiddleware_def with_cors_def Let_def case_prod_beta)

text \<open>A response that stops a request before its handler.\<close>

definition stopped :: "response \<times> 's \<Rightarrow> 's \<Rightarrow> bool" where
  "stopped rs s \<longleftrightarrow> rs_status (fst rs) \<noteq> 200 \<and> snd rs = s"

lemma stopped_Error [simp]: "stopped (http_Error msg code, s) s \<longleftrightarrow> code \<noteq> 200"
  by (simp add: stopped_def http_Error_def)

lemma identity_cases:
  "stopped (identityMiddleware al cfg (Inr ac) next r c s) s \<or>
   (\<exists>uid. authProviders al ac (getBearerTokenFromHeader (header_Get r ''Authorization'')) = Inr uid \<and>
      (cf_DevMode cfg \<or> rq_scheme r = ''https'') \<and>
      identityMiddleware al cfg (Inr ac) next r c s = next r (c(''userId'' \<mapsto> uid)) s)"
  by (cases "authProviders al ac (getBearerTokenFromHeader (header_Get r ''Authorization''))")
    (auto simp: identityMiddleware_def Let_def status_defs)

lemma auth_cases:
  "stopped (authMiddleware cl cfg getc next r c s) s \<or>
   (\<exists>token rest tp. rq_query r ''token'' = Some (token # rest) \<and> Get cl token (getc s) = Some (CvToken tp) \<and>
      (cf_DevMode cfg \<or> rq_scheme r = ''wss'') \<and>
      authMiddleware cl cfg getc next r c s =
        next r (c(''userId'' \<mapsto> tp_userId tp, ''metadata'' \<mapsto> tp_metadata tp, ''token'' \<mapsto> token)) s)"
  by (auto simp: authMiddleware_def status_defs split: option.split list.split cache_value.split)

text \<open>What has been checked before a handler of a route runs with a context.\<close>

definition checked ::
  "auth_lib \<Rightarrow> 'c cache_lib \<Rightarrow> Config \<Rightarrow> 'c \<Rightarrow> request \<Rightarrow> guard \<Rightarrow> ctx \<Rightarrow> bool" where
  "checked al cl cfg cache r g c \<longleftrightarrow>
     (case g of
        Open_route \<Rightarrow> c = header_loop (rq_header r) Map.empty
      | Identity_route \<Rightarrow>
          (\<exists>uid ac. getAuthConfig cfg = Inr ac \<and> c ''userId'' = Some uid \<and>
             authProviders al ac (getBearerTokenFromHeader (header_Get r ''Authorization'')) = Inr uid)
      | Token_route \<Rightarrow>
          (\<exists>token rest tp. rq_query r ''token'' = Some (token # rest) \<and> Get cl token cache = Some (CvToken tp) \<and>
             c ''token'' = Some token \<and> c ''userId'' = Some (tp_userId tp) \<and>
             c ''metadata'' = Some (tp_metadata tp)))"

lemma serve_route:
  assumes "filter (\<lambda>rt. rt_pattern rt = rq_path r) rts = here" "here \<noteq> []"
    and "filter (\<lambda>rt. rt_method rt = None \<or> rt_method rt = Some (rq_method r)) here = able" "able \<noteq> []"
  shows "serve_routes al cl cfg getc h rts r c s =
     (case rt_guard (last able) of
        Open_route \<Rightarrow> h (rt_endpoint (last able)) r c s
      | Identity_route \<Rightarrow> identityMiddleware al cfg (getAuthConfig cfg) (h (rt_endpoint (last able))) r c s
      | Token_route \<Rightarrow> authMiddleware cl cfg getc (h (rt_endpoint (last able))) r c s)"
  using assms(2,4) unfolding serve_routes_def Let_def assms(1) assms(3) by simp

lemma dispatch_checked:
  assumes "run = (case g of
        Open_route \<Rightarrow> h r (header_loop (rq_header r) Map.empty) s
      | Identity_route \<Rightarrow> identityMiddleware al cfg (getAuthConfig cfg) h r (header_loop (rq_header r) Map.empty) s
      | Token_route \<Rightarrow> authMiddleware cl cfg getc h r (header_loop (rq_header r) Map.empty) s)"
  shows "stopped run s \<or> (\<exists>c. checked al cl cfg (getc s) r g c \<and> run = h r c s)"
proof (cases g)
  case Open_route
  with assms show ?thesis by (auto simp: checked_def)
next
  case Identity_route
  obtain ac where ac: "getAuthConfig cfg = Inr ac" by (simp add: getAuthConfig_def)
  from identity_cases [of al cfg ac h r "header_loop (rq_header r) Map.empty" s] show ?thesis
  proof
    assume "stopped (identityMiddleware al cfg (Inr ac) h r (header_loop (rq_header r) Map.empty) s) s"
    with assms Identity_route ac show ?thesis by simp
  next
    assume "\<exists>uid. authProviders al ac (getBearerTokenFromHeader (header_Get r ''Authorization'')) = Inr uid \<and>
      (cf_DevMode cfg \<or> rq_scheme r = ''https'') \<and>
      identityMiddleware al cfg (Inr ac) h r (header_loop (rq_header r) Map.empty) s =
        h r ((header_loop (rq_header r) Map.empty)(''userId'' \<mapsto> uid)) s"
    then obtain uid where "authProviders al ac (getBearerTokenFromHeader (header_Get r ''Authorization'')) = Inr uid"
        "run = h r ((header_loop (rq_header r) Map.empty)(''userId'' \<mapsto> uid)) s"
      using assms Identity_route ac by auto
    with ac Identity_route show ?thesis
      by (intro disjI2 exI [of _ "(header_loop (rq_header r) Map.empty)(''userId'' \<mapsto> uid)"])
        (simp add: checked_def)
  qed
next
  case Token_route
  from auth_cases [of cl cfg getc h r "header_loop (rq_header r) Map.empty" s] show ?thesis
  proof
    assume "stopped (authMiddleware cl cfg getc h r (header_loop (rq_header r) Map.empty) s) s"
    with assms Token_route show ?thesis by simp
  next
    assume "\<exists>token rest tp. rq_query r ''token'' = Some (token # rest) \<and> Get cl token (getc s) = Some (CvToken tp) \<and>
      (cf_DevMode cfg \<or> rq_scheme r = ''wss'') \<and>
      authMiddleware cl cfg getc h r (header_loop (rq_header r) Map.empty) s =
        h r ((header_loop (rq_header r) Map.empty)
          (''userId'' \<mapsto> tp_userId tp, ''metadata'' \<mapsto> tp_metadata tp, ''token'' \<mapsto> token)) s"
    then obtain token rest tp where "rq_query r ''token'' = Some (token # rest)" "Get cl token (getc s) = Some (CvToken tp)"
        "run = h r ((header_loop (rq_header r) Map.empty)
          (''userId'' \<mapsto> tp_userId tp, ''metadata'' \<mapsto> tp_metadata tp, ''token'' \<mapsto> token)) s"
      using assms Token_route by auto
    with Token_route show ?thesis
      by (intro disjI2 exI [of _ "(header_loop (rq_header r) Map.empty)
          (''userId'' \<mapsto> tp_userId tp, ''metadata'' \<mapsto> tp_metadata tp, ''token'' \<mapsto> token)"])
        (simp add: checked_def)
  qed
qed

definition toy_get :: "string \<Rightarrow> (string \<rightharpoonup> string list) \<Rightarrow> request" where
  "toy_get path query =
     \<lparr>rq_method = ''GET'', rq_scheme = [], rq_path = path, rq_query = query, rq_header = [],
      rq_form = Inr Map.empty, rq_body = []\<rparr>"

definition toy_auth :: auth_lib where
  "toy_auth =
     \<lparr>http_do = (\<lambda>r. Inr \<lparr>wr_status = 200, wr_body = Inr ''u''\<rparr>), user_json = Inr, token_json = Inr,
      uuid_parse = (\<lambda>s. Inr ())\<rparr>"

definition toy_handlers :: "endpoint \<Rightarrow> (string \<Rightarrow> cache_value option) server handler" where
  "toy_handlers ep =
     (if ep = EpAuthorize then AuthorizeHandler toy_cache (\<lambda>f s. s\<lparr>sr_cache := f (sr_cache s)\<rparr>) ''t''
      else IdentifyHandler)"

text \<open>C8: no request reaches the handler of a guarded route, whatever table of routes has been
  registered, unless the authentication provider accepted its bearer token, or its access token
  is in the cache; and the user, metadata and token the handler sees are those that were
  checked: no \<open>M-\<close> header can replace them. Every other request is answered without a change
  of state.\<close>

theorem guarded_dispatch:
  assumes "rq_method r \<noteq> ''OPTIONS''"
  shows "stopped (ServeHTTP al cl cfg getc h rts r s) s \<or>
     (\<exists>rt \<in> set rts. \<exists>c. rt_pattern rt = rq_path r \<and> checked al cl cfg (getc s) r (rt_guard rt) c \<and>
        ServeHTTP al cl cfg getc h rts r s = with_cors cfg (h (rt_endpoint rt) r c s))"
proof -
  let ?c = "header_loop (rq_header r) Map.empty" and ?run = "serve_routes al cl cfg getc h rts r"
  define here where "here = filter (\<lambda>rt. rt_pattern rt = rq_path r) rts"
  define able where "able = filter (\<lambda>rt. rt_method rt = None \<or> rt_method rt = Some (rq_method r)) here"
  have "stopped (?run ?c s) s \<or> (\<exists>rt \<in> set rts. \<exists>c. rt_pattern rt = rq_path r \<and>
      checked al cl cfg (getc s) r (rt_guard rt) c \<and> ?run ?c s = h (rt_endpoint rt) r c s)"
  proof (cases "able = []")
    case True
    then show ?thesis
      unfolding serve_routes_def Let_def here_def [symmetric] able_def [symmetric]
      by (simp add: stopped_def status_defs http_Error_def)
  next
    case False
    then have "here \<noteq> []" by (auto simp: able_def)
    note serve = serve_route [OF here_def [symmetric] this able_def [symmetric] False, of al cl cfg getc h ?c s]
    have "stopped (?run ?c s) s \<or> (\<exists>c. checked al cl cfg (getc s) r (rt_guard (last able)) c \<and>
        ?run ?c s = h (rt_endpoint (last able)) r c s)"
      using dispatch_checked [OF serve] .
    moreover have "last able \<in> set rts" "rt_pattern (last able) = rq_path r"
      using last_in_set [OF False] unfolding able_def here_def by auto
    ultimately show ?thesis by blast
  qed
  then show ?thesis
  proof (elim disjE bexE exE conjE)
    assume "stopped (?run ?c s) s"
    then show ?thesis unfolding ServeHTTP_routes [OF assms] by (simp add: stopped_def)
  next
    fix rt c
    assume "rt \<in> set rts" "rt_pattern rt = rq_path r" "checked al cl cfg (getc s) r (rt_guard rt) c"
      "?run ?c s = h (rt_endpoint rt) r c s"
    then show ?thesis unfolding ServeHTTP_routes [OF assms] by metis
  qed
qed

theorem guarded_dispatch_witness:
  "stopped (ServeHTTP toy_auth toy_cache toy_config sr_cache toy_handlers NewServer_routes
     (toy_get ''/dkg'' Map.empty) toy_server) toy_server"
proof -
  let ?r = "toy_get ''/dkg'' Map.empty"
  have guard: "rt_guard rt = Token_route" if "rt \<in> set NewServer_routes" "rt_pattern rt = ''/dkg''" for rt
    using that by (auto simp: NewServer_routes_def a_route_def)
  have "rq_method ?r \<noteq> ''OPTIONS''" by (simp add: toy_get_def)
  from guarded_dispatch [OF this, of toy_auth toy_cache toy_config sr_cache toy_handlers NewServer_routes toy_server]
  show ?thesis
  proof (elim disjE bexE exE conjE)
    fix rt c
    assume "rt \<in> set NewServer_routes" "rt_pattern rt = rq_path ?r"
      "checked toy_auth toy_cache toy_config (sr_cache toy_server) ?r (rt_guard rt) c"
    with guard [of rt] show ?thesis by (simp add: checked_def toy_get_def)
  qed (simp_all add: toy_get_def)
qed

subsection \<open>From authorization to a guarded route\<close>

text \<open>The canonical form in which \<open>net/http\<close> keeps the names of headers.\<close>

definition upper_char :: "char \<Rightarrow> char" where
  "upper_char ch =
     (if 97 \<le> (of_char ch :: nat) \<and> (of_char ch :: nat) \<le> 122
      then char_of ((of_char ch :: nat) - 32) else ch)"

fun canonical :: "bool \<Rightarrow> string \<Rightarrow> string" where
  "canonical start [] = []"
| "canonical start (ch # cs) =
     (if start then upper_char ch else lower_char ch) # canonical (ch = CHR ''-'') cs"

text \<open>What a server receives of a request of \<open>net/http\<close>: the headers that the caller set are there,
  under their canonical names; the transport adds headers of its own (\<open>User-Agent\<close>,
  \<open>Accept-Encoding\<close>), none of which begins with \<open>M-\<close>.\<close>

definition received :: "web_request \<Rightarrow> string \<Rightarrow> request \<Rightarrow> bool" where
  "received w path r \<longleftrightarrow>
     rq_method r = wq_method w \<and> rq_path r = path \<and> distinct (map fst (rq_header r)) \<and>
     (\<forall>(name, v) \<in> set (wq_header w). map_of (rq_header r) (canonical True name) = Some [v]) \<and>
     (\<forall>(name, vs) \<in> set (rq_header r). HasPrefix name headerPrefix \<longrightarrow>
        name \<in> (canonical True \<circ> fst) ` set (wq_header w))"

lemma canonical_names: "canonical True ''Authorization'' = ''Authorization''" "canonical True ''M-METADATA'' = ''M-Metadata''"
  by code_simp+

lemma metadata_names:
  "\<not> HasPrefix ''Authorization'' headerPrefix" "HasPrefix ''M-Metadata'' headerPrefix"
  "ToLower (TrimPrefix ''M-Metadata'' headerPrefix) = ''metadata''"
  by code_simp+

lemma metadata_header:
  assumes "\<forall>(name, vs) \<in> set hs. HasPrefix name headerPrefix \<longrightarrow> name = ''M-Metadata'' \<and> vs = [m]"
  shows "header_loop hs c = (if ''M-Metadata'' \<in> fst ` set hs then c(''metadata'' \<mapsto> m) else c)"
  using assms
proof (induction hs arbitrary: c)
  case (Cons h hs)
  then have "header_loop hs c = (if ''M-Metadata'' \<in> fst ` set hs then c(''metadata'' \<mapsto> m) else c)" for c by simp
  with Cons.prems show ?case by (cases h) (auto simp: metadata_names fun_eq_iff)
qed simp

definition token_routes :: "(string \<times> string \<times> endpoint) set" where
  "token_routes =
     {(''GET'', ''/dkg'', EpDkg), (''GET'', ''/sign'', EpSign), (''POST'', ''/export'', EpExport),
      (''GET'', ''/register'', EpRegister), (''GET'', ''/accept'', EpAccept)}"

definition able_routes :: "string \<Rightarrow> string \<Rightarrow> route list" where
  "able_routes m p = filter (\<lambda>rt. rt_method rt = None \<or> rt_method rt = Some m)
     (filter (\<lambda>rt. rt_pattern rt = p) NewServer_routes)"

lemma serve_able:
  assumes "able_routes (rq_method r) (rq_path r) = [a_route m p g ep]"
  shows "serve_routes al cl cfg getc h NewServer_routes r c s =
     (case g of
        Open_route \<Rightarrow> h ep r c s
      | Identity_route \<Rightarrow> identityMiddleware al cfg (getAuthConfig cfg) (h ep) r c s
      | Token_route \<Rightarrow> authMiddleware cl cfg getc (h ep) r c s)"
proof -
  have "filter (\<lambda>rt. rt_pattern rt = rq_path r) NewServer_routes \<noteq> []"
    using assms unfolding able_routes_def by (metis filter.simps(1) list.distinct(1))
  from serve_route [OF refl this assms [unfolded able_routes_def], of al cl cfg getc h c s]
  show ?thesis by (cases g) (simp_all add: a_route_def)
qed

lemma able_token:
  "able_routes ''GET'' ''/dkg'' = [a_route (Some ''GET'') ''/dkg'' Token_route EpDkg]"
  "able_routes ''GET'' ''/sign'' = [a_route (Some ''GET'') ''/sign'' Token_route EpSign]"
  "able_routes ''POST'' ''/export'' = [a_route (Some ''POST'') ''/export'' Token_route EpExport]"
  "able_routes ''GET'' ''/register'' = [a_route (Some ''GET'') ''/register'' Token_route EpRegister]"
  "able_routes ''GET'' ''/accept'' = [a_route (Some ''GET'') ''/accept'' Token_route EpAccept]"
  by code_simp+

lemma able_identity:
  "able_routes ''GET'' ''/authorize'' = [a_route (Some ''GET'') ''/authorize'' Identity_route EpAuthorize]"
  "able_routes ''GET'' ''/identify'' = [a_route (Some ''GET'') ''/identify'' Identity_route EpIdentify]"
  by code_simp+

lemma serve_token_route:
  assumes "(rq_method r, rq_path r, ep) \<in> token_routes"
  shows "serve_routes al cl cfg getc h NewServer_routes r c s = authMiddleware cl cfg getc (h ep) r c s"
proof -
  have "able_routes (rq_method r) (rq_path r) = [a_route (Some (rq_method r)) (rq_path r) Token_route ep]"
    using assms able_token unfolding token_routes_def by (elim insertE emptyE) (simp_all only: prod.inject)
  from serve_able [OF this, of al cl cfg getc h c s] show ?thesis by simp
qed

text \<open>C20: in dev mode, the request that the client's \<open>getAccessToken\<close> sends, as the server receives it
  with whatever other headers the transport adds, is answered with a token, and a later request with
  that token, on any guarded route, runs its handler with the identity that the provider gave for the
  client's credentials and with the metadata the client sent.\<close>

theorem access_token_round_trip:
  assumes "cache_ok cl" and "cf_DevMode cfg" and "authData \<noteq> []"
    and "\<forall>f s. getc (updc f s) = f (getc s)" and "h EpAuthorize = AuthorizeHandler cl updc token"
    and "received (auth_request addr authData metadata) ''/authorize'' r1"
    and "getAuthConfig cfg = Inr ac" and "authProviders al ac authData = Inr uid"
    and "(rq_method r2, rq_path r2, ep) \<in> token_routes" and "rq_query r2 ''token'' = Some (token # rest)"
  shows "\<exists>resp s1. ServeHTTP al cl cfg getc h NewServer_routes r1 s = (resp, s1) \<and>
     rs_status resp = 200 \<and> rs_body resp = token \<and>
     ServeHTTP al cl cfg getc h NewServer_routes r2 s1 =
       with_cors cfg (h ep r2 ((header_loop (rq_header r2) Map.empty)
          (''userId'' \<mapsto> uid, ''metadata'' \<mapsto> metadata, ''token'' \<mapsto> token)) s1)"
proof -
  from assms(6) have r1: "rq_method r1 = ''GET''" "rq_path r1 = ''/authorize''" "distinct (map fst (rq_header r1))"
      "map_of (rq_header r1) ''Authorization'' = Some [''Bearer '' @ authData]"
      "map_of (rq_header r1) ''M-Metadata'' = Some [metadata]"
      "\<forall>(name, vs) \<in> set (rq_header r1). HasPrefix name headerPrefix \<longrightarrow> name \<in> {''Authorization'', ''M-Metadata''}"
    by (simp_all add: received_def auth_request_def canonical_names del: canonical.simps)
  let ?tp = "\<lparr>tp_userId = uid, tp_metadata = metadata\<rparr>"
  define s1 where "s1 = updc (Set cl token (CvToken ?tp)) s"
  have bearer: "getBearerTokenFromHeader (header_Get r1 ''Authorization'') = authData"
      "header_Get r1 ''Authorization'' \<noteq> []"
    using r1(4) getBearer_Bearer [of authData] by (simp_all add: header_Get_def)
  have only: "\<forall>(name, vs) \<in> set (rq_header r1). HasPrefix name headerPrefix \<longrightarrow> name = ''M-Metadata'' \<and> vs = [metadata]"
  proof (clarify, intro conjI)
    fix name vs
    assume h: "(name, vs) \<in> set (rq_header r1)" "HasPrefix name headerPrefix"
    with r1(6) metadata_names(1) show name: "name = ''M-Metadata''" by blast
    from h(1) r1(3) have "map_of (rq_header r1) name = Some vs" by simp
    with name r1(5) show "vs = [metadata]" by simp
  qed
  have "''M-Metadata'' \<in> fst ` set (rq_header r1)"
    using r1(5) by (force dest: map_of_SomeD)
  with metadata_header [OF only] have ctx: "header_loop (rq_header r1) Map.empty = [''metadata'' \<mapsto> metadata]" by simp
  have "serve_routes al cl cfg getc h NewServer_routes r1 [''metadata'' \<mapsto> metadata] s = (write_ok token, s1)"
    using serve_able [of r1, unfolded r1(1,2), OF able_identity(1), of al cl cfg getc h] assms(2,3,5,7,8) bearer
    by (simp add: identityMiddleware_def AuthorizeHandler_def s1_def)
  with ctx have one: "ServeHTTP al cl cfg getc h NewServer_routes r1 s = with_cors cfg (write_ok token, s1)"
    using ServeHTTP_routes [of r1 al cl cfg getc h NewServer_routes s] r1(1) by simp
  have "Get cl token (getc s1) = Some (CvToken ?tp)"
    using assms(4) cache_okD(1) [OF assms(1)] by (simp add: s1_def)
  then have "serve_routes al cl cfg getc h NewServer_routes r2 c s1 =
      h ep r2 (c(''userId'' \<mapsto> uid, ''metadata'' \<mapsto> metadata, ''token'' \<mapsto> token)) s1" for c
    using serve_token_route [OF assms(9), of al cl cfg getc h c s1] assms(2,10) by (simp add: authMiddleware_def)
  moreover have "rq_method r2 \<noteq> ''OPTIONS''" using assms(9) by (auto simp: token_routes_def)
  ultimately have two: "ServeHTTP al cl cfg getc h NewServer_routes r2 s1 =
      with_cors cfg (h ep r2 ((header_loop (rq_header r2) Map.empty)
          (''userId'' \<mapsto> uid, ''metadata'' \<mapsto> metadata, ''token'' \<mapsto> token)) s1)"
    by (simp add: ServeHTTP_routes)
  from one two show ?thesis
    by (intro exI [of _ "fst (with_cors cfg (write_ok token, s1))"] exI [of _ s1])
      (simp add: prod_eq_iff write_ok_def)
qed

definition toy_authorize :: request where
  "toy_authorize =
     \<lparr>rq_method = ''GET'', rq_scheme = [], rq_path = ''/authorize'', rq_query = Map.empty,
      rq_header = [(''User-Agent'', [''Go-http-client/1.1'']), (''Accept-Encoding'', [''gzip'']),
        (''M-Metadata'', [''m'']), (''Authorization'', [''Bearer '' @ ''jwt''])],
      rq_form = Inr Map.empty, rq_body = []\<rparr>"

lemma toy_received: "received (auth_request ''http'' ''jwt'' ''m'') ''/authorize'' toy_authorize"
proof -
  have "\<not> HasPrefix ''User-Agent'' headerPrefix" "\<not> HasPrefix ''Accept-Encoding'' headerPrefix" by code_simp+
  then show ?thesis
    by (simp add: received_def auth_request_def toy_authorize_def canonical_names metadata_names
        del: canonical.simps)
qed

theorem access_token_round_trip_witness:
  "\<exists>s1. ServeHTTP toy_auth toy_cache toy_config sr_cache toy_handlers NewServer_routes
            (toy_get ''/dkg'' [''token'' \<mapsto> [''t'']]) s1 =
          with_cors toy_config (write_ok ''u'', s1)"
proof -
  note toy_received
  moreover have "authProviders toy_auth \<lparr>ac_AuthType = ''custom'', ac_AuthServerUrl = ''http://auth'',
      ac_SupabaseUrl = [], ac_SupabaseApiKey = []\<rparr> ''jwt'' = Inr ''u''"
    by (simp add: authProviders_def CustomAuth_def toy_auth_def)
  moreover have "toy_handlers EpAuthorize = AuthorizeHandler toy_cache (\<lambda>f s. s\<lparr>sr_cache := f (sr_cache s)\<rparr>) ''t''"
    by (simp add: toy_handlers_def)
  ultimately obtain resp s1 where
    "ServeHTTP toy_auth toy_cache toy_config sr_cache toy_handlers NewServer_routes
            (toy_get ''/dkg'' [''token'' \<mapsto> [''t'']]) s1 =
       with_cors toy_config (toy_handlers EpDkg (toy_get ''/dkg'' [''token'' \<mapsto> [''t'']])
         ((header_loop (rq_header (toy_get ''/dkg'' [''token'' \<mapsto> [''t'']])) Map.empty)
           (''userId'' \<mapsto> ''u'', ''metadata'' \<mapsto> ''m'', ''token'' \<mapsto> ''t'')) s1)"
    using access_token_round_trip [OF toy_cache_ok, of toy_config "''jwt''" sr_cache
        "\<lambda>f s. s\<lparr>sr_cache := f (sr_cache s)\<rparr>" toy_handlers "''t''" "''http''" "''m''" toy_authorize
        "\<lparr>ac_AuthType = ''custom'', ac_AuthServerUrl = ''http://auth'', ac_SupabaseUrl = [], ac_SupabaseApiKey = []\<rparr>"
        toy_auth "''u''" "toy_get ''/dkg'' [''token'' \<mapsto> [''t'']]" EpDkg "[]" toy_server]
    by (auto simp: toy_config_def getAuthConfig_def toy_get_def token_routes_def)
  then show ?thesis
    by (auto simp: toy_handlers_def IdentifyHandler_def)
qed

subsection \<open>Outside dev mode\<close>

text \<open>C32: outside dev mode a request in origin form, the form that every HTTP client sends to a
  server, has no scheme, and is refused on every route but \<open>/rpc\<close> and \<open>/meemaw.wasm\<close>, with a
  valid token or without; on \<open>/export\<close> even \<open>https\<close> is refused.\<close>

theorem prod_refuses_origin_form:
  assumes "\<not> cf_DevMode cfg" and "rq_scheme r \<noteq> ''https'' \<and> rq_scheme r \<noteq> ''wss'' \<or> rq_path r = ''/export'' \<and> rq_scheme r = ''https''"
    and "(rq_method r, rq_path r, ep) \<in> token_routes \<or> (rq_method r, rq_path r) = (''GET'', ''/authorize'') \<or>
         (rq_method r, rq_path r) = (''GET'', ''/identify'')"
  shows "ServeHTTP al cl cfg getc h NewServer_routes r s =
           with_cors cfg (http_Error ''Secure connection required'' StatusUnauthorized, s)"
proof -
  have "rq_method r \<noteq> ''OPTIONS''" using assms(3) by (auto simp: token_routes_def)
  moreover have "serve_routes al cl cfg getc h NewServer_routes r c s =
      (http_Error ''Secure connection required'' StatusUnauthorized, s)" for c
  proof (cases "(rq_method r, rq_path r, ep) \<in> token_routes")
    case True
    with serve_token_route [OF True, of al cl cfg getc h c s] assms(1,2) show ?thesis
      by (auto simp: authMiddleware_def)
  next
    case False
    with assms(3) obtain e where e: "able_routes (rq_method r) (rq_path r) = [a_route (Some ''GET'') (rq_path r) Identity_route e]"
      "rq_path r \<noteq> ''/export''" using able_identity by auto
    from serve_able [OF e(1), of al cl cfg getc h c s] assms(1,2) e(2) show ?thesis
      by (auto simp: identityMiddleware_def)
  qed
  ultimately show ?thesis by (simp add: ServeHTTP_routes)
qed

theorem prod_refuses_origin_form_witness:
  "rs_status (fst (ServeHTTP toy_auth toy_cache (toy_config\<lparr>cf_DevMode := False\<rparr>) sr_cache toy_handlers
      NewServer_routes (toy_get ''/dkg'' [''token'' \<mapsto> [''t'']]) toy_server)) = 401"
proof -
  have "(rq_method (toy_get ''/dkg'' [''token'' \<mapsto> [''t'']]), rq_path (toy_get ''/dkg'' [''token'' \<mapsto> [''t'']]), EpDkg)
      \<in> token_routes"
    by (simp add: toy_get_def token_routes_def)
  from prod_refuses_origin_form [of "toy_config\<lparr>cf_DevMode := False\<rparr>", OF _ _ disjI1 [OF this],
      of toy_auth toy_cache sr_cache toy_handlers toy_server]
  show ?thesis by (simp add: toy_get_def http_Error_def status_defs)
qed


text \<open>\<open>Start\<close> listens exactly in dev mode or when the custom provider, Supabase and the
  client all have https addresses, whichever of the two providers is configured.\<close>

theorem start_requires_all:
  "(\<exists>addr. Start darwin cfg = Listening addr) \<longleftrightarrow>
     cf_DevMode cfg \<or> Contains (cf_AuthServerUrl cfg) ''https'' \<and> Contains (cf_SupabaseUrl cfg) ''https'' \<and>
       Contains (cf_ClientOrigin cfg) ''https''"
  by (simp add: Start_def)

end
