(* ===== verification/DkgHandler.thy ===== *)
theory DkgHandler
  imports HandlerCommon
begin

text \<open>
  \<open>DkgHandler\<close> of \<open>server/tss_dkg.go\<close>: the checks before the websocket is opened, and then three
  goroutines that share the handler's variables. The main one waits for the start, runs the
  DKG, stores the wallet and sends the metadata; the reader serves the client's messages; the
  sender is \<open>TssSend\<close>. A step of one goroutine, of the TSS library or of the clock is an
  event; a step that the code cannot take, because it blocks, is \<open>None\<close>.
\<close>

subsection \<open>Before the websocket\<close>

definition DkgHandler_entry ::
  "('m, 'e, 'pt, 'pl) env \<Rightarrow> Config \<Rightarrow> go_error option \<Rightarrow> nat \<Rightarrow> request \<Rightarrow> ctx \<Rightarrow> db
     \<Rightarrow> response + string" where
  "DkgHandler_entry E cfg fault pick r c d =
     (case c ''userId'' of
        None \<Rightarrow> Inl (http_Error ''Authorization info not found'' StatusUnauthorized)
      | Some userId \<Rightarrow>
          (case WalletExists fault pick userId d of
             None \<Rightarrow> Inl (http_Error ''Conflict'' StatusConflict)
           | Some err \<Rightarrow>
               if err \<noteq> ErrNoRows then Inl (http_Error ''Conflict'' StatusConflict)
               else
                 (case ws_open E cfg r of
                    Inl resp \<Rightarrow> Inl resp
                  | Inr _ \<Rightarrow> Inr userId)))"

subsection \<open>State\<close>

datatype dkg_reader = DR_read | DR_offer | DR_stage | DR_gone

datatype dkg_main =
    DM_wait
  | DM_process
  | DM_check DkgResult
  | DM_stage DkgResult
  | DM_store DkgResult
  | DM_send string
  | DM_ack
  | DM_closed
  | DM_failed

record ('m, 'e, 'pt) dkg_state =
  hd_reader :: dkg_reader
  hd_main :: dkg_main
  hd_sender :: sender_pc
  hd_dkg :: "('m, 'e, 'pt) ServerDkg option"
  hd_peer :: string
  hd_stage :: "32 word"
  hd_errs :: "go_error list"
  hd_serverDone :: bool
  hd_ctx :: ctx_state
  hd_out :: "ws_msg list"
  hd_db :: db
  hd_crashed :: bool

definition dkg_init :: "db \<Rightarrow> ('m, 'e, 'pt) dkg_state" where
  "dkg_init d =
     \<lparr>hd_reader = DR_read, hd_main = DM_wait, hd_sender = Sender_off, hd_dkg = None, hd_peer = [],
      hd_stage = 0, hd_errs = [], hd_serverDone = False, hd_ctx = Ctx_live, hd_out = [],
      hd_db = d, hd_crashed = False\<rparr>"

definition dkg_crash :: "('m, 'e, 'pt) dkg_state \<Rightarrow> ('m, 'e, 'pt) dkg_state" where
  "dkg_crash st = st\<lparr>hd_crashed := True\<rparr>"

subsection \<open>The reader\<close>

text \<open>\<open>errs <- err; return\<close>\<close>

definition dkg_report ::
  "go_error \<Rightarrow> ('m, 'e, 'pt) dkg_state \<Rightarrow> ('m, 'e, 'pt) dkg_state option" where
  "dkg_report err st =
     (case chan_send errs_cap (hd_errs st) err of
        None \<Rightarrow> None
      | Some q \<Rightarrow> Some (st\<lparr>hd_errs := q, hd_reader := DR_gone\<rparr>))"

definition dkg_read_err ::
  "('m, 'e, 'pt, 'pl) env \<Rightarrow> go_error \<Rightarrow> ('m, 'e, 'pt) dkg_state \<Rightarrow> ('m, 'e, 'pt) dkg_state option" where
  "dkg_read_err E err st =
     (case read_failure (en_normal E) (hd_ctx st) err of
        None \<Rightarrow> Some (st\<lparr>hd_reader := DR_gone\<rparr>)
      | Some e \<Rightarrow> dkg_report e st)"

definition dkg_on_peer ::
  "('m, 'e, 'pt, 'pl) env \<Rightarrow> ws_msg \<Rightarrow> ('m, 'e, 'pt) dkg_state \<Rightarrow> ('m, 'e, 'pt) dkg_state option" where
  "dkg_on_peer E msg st =
     (if hd_stage st > mt_stage (wm_Type msg) then Some st
      else
        (case NewServerDkg (en_al E) (wm_Msg msg) of
           Inl err \<Rightarrow> dkg_report err (st\<lparr>hd_peer := wm_Msg msg, hd_dkg := None\<rparr>)
         | Inr dkg \<Rightarrow>
             Some (st\<lparr>hd_peer := wm_Msg msg, hd_dkg := Some dkg, hd_reader := DR_offer\<rparr>)))"

definition dkg_on_tss ::
  "('m, 'e, 'pt, 'pl) env \<Rightarrow> ws_msg \<Rightarrow> ('m, 'e, 'pt) dkg_state \<Rightarrow> ('m, 'e, 'pt) dkg_state option" where
  "dkg_on_tss E msg st =
     (if hd_stage st > mt_stage (wm_Type msg) then Some st
      else
        (case handle_ws_tss (en_msg E) (ServerDkg_HandleMessage (en_al E)) msg (hd_dkg st) of
           Panic m \<Rightarrow> Some (dkg_crash st)
         | Ret (Inl err, dkg) \<Rightarrow> dkg_report err (st\<lparr>hd_dkg := dkg\<rparr>)
         | Ret (Inr _, dkg) \<Rightarrow> Some (st\<lparr>hd_dkg := dkg\<rparr>)))"

text \<open>\<open>close(serverDone)\<close> panics when the channel is closed already.\<close>

definition dkg_on_ack :: "('m, 'e, 'pt) dkg_state \<Rightarrow> ('m, 'e, 'pt) dkg_state option" where
  "dkg_on_ack st =
     (if hd_serverDone st then Some (dkg_crash st) else Some (st\<lparr>hd_serverDone := True\<rparr>))"

definition dkg_on_other ::
  "unit result \<Rightarrow> ('m, 'e, 'pt) dkg_state \<Rightarrow> ('m, 'e, 'pt) dkg_state option" where
  "dkg_on_other write st =
     (case write of
        Inl err \<Rightarrow> dkg_report err st
      | Inr _ \<Rightarrow> Some (st\<lparr>hd_out := hd_out st @ [unexpected_msg]\<rparr>))"

definition dkg_read ::
  "('m, 'e, 'pt, 'pl) env \<Rightarrow> read_event \<Rightarrow> ('m, 'e, 'pt) dkg_state \<Rightarrow> ('m, 'e, 'pt) dkg_state option" where
  "dkg_read E ev st =
     (if hd_reader st \<noteq> DR_read then None
      else
        (case ev of
           ReadErr err \<Rightarrow> dkg_read_err E err st
         | ReadMsg msg write \<Rightarrow>
             if wm_Type msg = PeerIdBroadcastMessage then dkg_on_peer E msg st
             else if wm_Type msg = TssMessage then dkg_on_tss E msg st
             else if wm_Type msg = MetadataAckMessage then dkg_on_ack st
             else dkg_on_other write st))"

subsection \<open>The main goroutine\<close>

text \<open>The rendezvous on \<open>startTss\<close>: the sender is started, the reader goes on.\<close>

definition dkg_start :: "('m, 'e, 'pt) dkg_state \<Rightarrow> ('m, 'e, 'pt) dkg_state option" where
  "dkg_start st =
     (if hd_main st = DM_wait \<and> hd_reader st = DR_offer
      then Some (st\<lparr>hd_main := DM_process, hd_reader := DR_stage, hd_sender := Sender_on\<rparr>)
      else None)"

definition dkg_set_stage :: "('m, 'e, 'pt) dkg_state \<Rightarrow> ('m, 'e, 'pt) dkg_state option" where
  "dkg_set_stage st =
     (if hd_reader st = DR_stage then Some (st\<lparr>hd_stage := 30, hd_reader := DR_read\<rparr>) else None)"

text \<open>Returning runs the deferred \<open>cancel\<close> and closes the connection.\<close>

definition dkg_return :: "dkg_main \<Rightarrow> ('m, 'e, 'pt) dkg_state \<Rightarrow> ('m, 'e, 'pt) dkg_state" where
  "dkg_return pc st = st\<lparr>hd_main := pc, hd_ctx := cancel_ctx (hd_ctx st)\<rparr>"

text \<open>A panic of the handler's own goroutine is recovered by \<open>net/http\<close>: the handler ends.\<close>

definition dkg_process ::
  "('m, 'e, 'pt, 'pl) env \<Rightarrow> ('m, 'e, 'pt) dkg_state \<Rightarrow> ('m, 'e, 'pt) dkg_state option" where
  "dkg_process E st =
     (case hd_dkg st of
        None \<Rightarrow> Some (dkg_return DM_failed st)
      | Some dkg \<Rightarrow>
          (case ServerDkg_Process (en_lib E) dkg of
             None \<Rightarrow> None
           | Some (Panic m) \<Rightarrow> Some (dkg_return DM_failed st)
           | Some (Ret (Inl err)) \<Rightarrow> Some (dkg_return DM_failed st)
           | Some (Ret (Inr r)) \<Rightarrow> Some (st\<lparr>hd_main := DM_check r\<rparr>)))"

definition dkg_check ::
  "('m, 'e, 'pt, 'pl) env \<Rightarrow> DkgResult \<Rightarrow> ('m, 'e, 'pt) dkg_state \<Rightarrow> ('m, 'e, 'pt) dkg_state option" where
  "dkg_check E r st =
     (case ProcessErrors (en_closed E) (hd_ctx st = Ctx_canceled) (hd_errs st) of
        (Some err, q) \<Rightarrow> Some (dkg_return DM_failed (st\<lparr>hd_errs := q\<rparr>))
      | (None, q) \<Rightarrow> Some (st\<lparr>hd_errs := q, hd_main := DM_stage r\<rparr>))"

definition dkg_store ::
  "('m, 'e, 'pt, 'pl) env \<Rightarrow> string \<Rightarrow> string \<Rightarrow> draw \<Rightarrow> DkgResult \<Rightarrow> ('m, 'e, 'pt) dkg_state
     \<Rightarrow> ('m, 'e, 'pt) dkg_state option" where
  "dkg_store E userId userAgent rnd r st =
     (case StoreWallet (en_wallet E) (en_aead E) rnd userId (hd_peer st) userAgent r (hd_db st) of
        (Inl err, d) \<Rightarrow> Some (dkg_return DM_failed (st\<lparr>hd_db := d\<rparr>))
      | (Inr metadata, d) \<Rightarrow> Some (st\<lparr>hd_db := d, hd_main := DM_send metadata\<rparr>))"

definition dkg_send_metadata ::
  "string \<Rightarrow> unit result \<Rightarrow> ('m, 'e, 'pt) dkg_state \<Rightarrow> ('m, 'e, 'pt) dkg_state option" where
  "dkg_send_metadata metadata write st =
     (case write of
        Inl err \<Rightarrow> Some (dkg_return DM_failed st)
      | Inr _ \<Rightarrow>
          Some (st\<lparr>hd_out := hd_out st @ [ws_message MetadataMessage metadata], hd_main := DM_ack\<rparr>))"

definition dkg_main_step ::
  "('m, 'e, 'pt, 'pl) env \<Rightarrow> string \<Rightarrow> string \<Rightarrow> draw \<Rightarrow> unit result \<Rightarrow> ('m, 'e, 'pt) dkg_state
     \<Rightarrow> ('m, 'e, 'pt) dkg_state option" where
  "dkg_main_step E userId userAgent rnd write st =
     (case hd_main st of
        DM_wait \<Rightarrow> None
      | DM_process \<Rightarrow> dkg_process E st
      | DM_check r \<Rightarrow> dkg_check E r st
      | DM_stage r \<Rightarrow> Some (st\<lparr>hd_stage := 40, hd_main := DM_store r\<rparr>)
      | DM_store r \<Rightarrow> dkg_store E userId userAgent rnd r st
      | DM_send metadata \<Rightarrow> dkg_send_metadata metadata write st
      | DM_ack \<Rightarrow> if hd_serverDone st then Some (dkg_return DM_closed st) else None
      | DM_closed \<Rightarrow> None
      | DM_failed \<Rightarrow> None)"

subsection \<open>Sender, library, clock\<close>

definition dkg_send_step ::
  "('m, 'e, 'pt, 'pl) env \<Rightarrow> unit result \<Rightarrow> ('m, 'e, 'pt) dkg_state \<Rightarrow> ('m, 'e, 'pt) dkg_state option" where
  "dkg_send_step E write st =
     (if hd_sender st \<noteq> Sender_on then None
      else
        (case hd_dkg st of
           None \<Rightarrow> Some (dkg_crash st)
         | Some dkg \<Rightarrow>
             (case TssSend_turn (en_msg E) (ServerDkg_GetNextMessageToSend (en_al E))
                     \<lparr>tk_ctx_done = (hd_ctx st \<noteq> Ctx_live), tk_server_done = hd_serverDone st,
                      tk_write = write\<rparr> dkg of
                (Again w, dkg') \<Rightarrow>
                  Some (st\<lparr>hd_dkg := Some dkg',
                           hd_out := hd_out st @ (case w of None \<Rightarrow> [] | Some m \<Rightarrow> [m])\<rparr>)
              | (Stop None, dkg') \<Rightarrow> Some (st\<lparr>hd_dkg := Some dkg', hd_sender := Sender_gone\<rparr>)
              | (Stop (Some err), dkg') \<Rightarrow>
                  (case chan_send errs_cap (hd_errs st) err of
                     None \<Rightarrow> None
                   | Some q \<Rightarrow>
                       Some (st\<lparr>hd_dkg := Some dkg', hd_errs := q, hd_sender := Sender_gone\<rparr>))
              | (Crash m, dkg') \<Rightarrow> Some (dkg_crash st))))"

text \<open>
  Once \<open>Process\<close> has started it, the library queues messages and reports its state; a report
  is \<open>OnStateChanged\<close> with the result the library would return.
\<close>

definition dkg_emit ::
  "string \<Rightarrow> 'm \<Rightarrow> ('m, 'e, 'pt) dkg_state \<Rightarrow> ('m, 'e, 'pt) dkg_state option" where
  "dkg_emit peer m st =
     (case hd_dkg st of
        None \<Rightarrow> None
      | Some dkg \<Rightarrow>
          if hd_main st = DM_wait then None
          else Some (st\<lparr>hd_dkg := Some (ServerDkg_emit dkg (peer, m))\<rparr>))"

definition dkg_report_state ::
  "'pt lib_result result \<Rightarrow> MainState \<Rightarrow> ('m, 'e, 'pt) dkg_state \<Rightarrow> ('m, 'e, 'pt) dkg_state option" where
  "dkg_report_state g s st =
     (case hd_dkg st of
        None \<Rightarrow> None
      | Some dkg \<Rightarrow>
          if hd_main st = DM_wait then None
          else
            (case Dkg_OnStateChanged g s (sd_service dkg) of
               Panic m \<Rightarrow> Some (dkg_crash st)
             | Ret service \<Rightarrow> Some (st\<lparr>hd_dkg := Some (dkg\<lparr>sd_service := service\<rparr>)\<rparr>)))"

definition dkg_timeout :: "('m, 'e, 'pt) dkg_state \<Rightarrow> ('m, 'e, 'pt) dkg_state option" where
  "dkg_timeout st = (if hd_ctx st = Ctx_live then Some (st\<lparr>hd_ctx := Ctx_timeout\<rparr>) else None)"

subsection \<open>Runs\<close>

datatype ('m, 'pt) dkg_event =
    De_read read_event
  | De_start
  | De_stage
  | De_main draw "unit result"
  | De_send "unit result"
  | De_emit string 'm
  | De_state "'pt lib_result result" MainState
  | De_timeout

fun dkg_step ::
  "('m, 'e, 'pt, 'pl) env \<Rightarrow> string \<Rightarrow> string \<Rightarrow> ('m, 'pt) dkg_event \<Rightarrow> ('m, 'e, 'pt) dkg_state
     \<Rightarrow> ('m, 'e, 'pt) dkg_state option" where
  "dkg_step E userId userAgent ev st =
     (if hd_crashed st then None
      else
        (case ev of
           De_read re \<Rightarrow> dkg_read E re st
         | De_start \<Rightarrow> dkg_start st
         | De_stage \<Rightarrow> dkg_set_stage st
         | De_main rnd write \<Rightarrow> dkg_main_step E userId userAgent rnd write st
         | De_send write \<Rightarrow> dkg_send_step E write st
         | De_emit peer m \<Rightarrow> dkg_emit peer m st
         | De_state g s \<Rightarrow> dkg_report_state g s st
         | De_timeout \<Rightarrow> dkg_timeout st))"

text \<open>The states that some order of events reaches; the random draws are fair.\<close>

fun dkg_event_fair :: "('m, 'pt) dkg_event \<Rightarrow> bool" where
  "dkg_event_fair (De_main rnd write) = draw_ok rnd"
| "dkg_event_fair _ = True"

inductive dkg_reach ::
  "('m, 'e, 'pt, 'pl) env \<Rightarrow> string \<Rightarrow> string \<Rightarrow> db \<Rightarrow> ('m, 'e, 'pt) dkg_state \<Rightarrow> bool"
  for E userId userAgent d where
  dkg_reach_init: "dkg_reach E userId userAgent d (dkg_init d)"
| dkg_reach_step:
    "dkg_reach E userId userAgent d st \<Longrightarrow> dkg_event_fair ev \<Longrightarrow>
     dkg_step E userId userAgent ev st = Some st' \<Longrightarrow> dkg_reach E userId userAgent d st'"

subsection \<open>Wired actors\<close>

text \<open>An actor whose constructor succeeded has its peer manager, handler and engine, and keeps them.\<close>

definition dkg_wired :: "('m, 'e, 'pt) ServerDkg \<Rightarrow> bool" where
  "dkg_wired a \<longleftrightarrow>
     (\<exists>pm. dk_pm (sd_service a) = Some pm \<and> pm_handle pm \<noteq> None) \<and> dk_dkg (sd_service a) \<noteq> None"

lemma wired_new: "NewServerDkg al c = Inr a \<Longrightarrow> dkg_wired a"
  using NewServerDkg_ok [of al c a] by (auto simp: dkg_wired_def)

lemma wired_emit: "dkg_wired a \<Longrightarrow> dkg_wired (ServerDkg_emit a x)"
  by (auto simp: dkg_wired_def ServerDkg_emit_def pm_feed_def)

lemma pm_handle_next [simp]:
  "pm_handle (snd (GetNextMessageToSendPeer marshal c pm)) = pm_handle pm"
  by (simp add: GetNextMessageToSendPeer_def split: sum.splits prod.splits)

lemma wired_next:
  "dkg_wired a \<Longrightarrow> \<exists>r a'. ServerDkg_GetNextMessageToSend al a = Ret (r, a') \<and> dkg_wired a'"
  by (auto simp: dkg_wired_def ServerDkg_GetNextMessageToSend_def case_prod_beta pm_handle_next)

lemma wired_change:
  "dkg_wired a \<Longrightarrow> Dkg_OnStateChanged g s (sd_service a) = Ret sv \<Longrightarrow> dkg_wired (a\<lparr>sd_service := sv\<rparr>)"
  by (auto simp: dkg_wired_def Dkg_OnStateChanged_def Dkg_close_def split: if_splits sum.splits)

lemma change_panics:
  "Dkg_OnStateChanged g s p = Panic m \<Longrightarrow> dk_done p \<and> final_state s"
  by (auto simp: Dkg_OnStateChanged_def Dkg_close_def final_state_def split: if_splits sum.splits)

lemma wired_handle:
  "dkg_wired a \<Longrightarrow>
     \<exists>r a'. ServerDkg_HandleMessage al (Some a) m = Ret (r, Some a') \<and> dkg_wired a'"
  by (auto simp: dkg_wired_def ServerDkg_HandleMessage_def deliver_def HandleMessage_def
      split: sum.splits prod.splits)

lemma nil_handle:
  "ServerDkg_HandleMessage al None m =
     (case decode_payload al DkgKind m of Inl err \<Rightarrow> Ret (Inl err, None) | Inr x \<Rightarrow> Panic err_nil)"
  by (simp add: ServerDkg_HandleMessage_def split: sum.splits)

lemma turn_wired:
  assumes "dkg_wired a" and "TssSend_turn cj (ServerDkg_GetNextMessageToSend al) t a = (u, a')"
  shows "dkg_wired a' \<and> (\<forall>m. u \<noteq> Crash m)"
proof -
  obtain r b where "ServerDkg_GetNextMessageToSend al a = Ret (r, b)" "dkg_wired b"
    using wired_next [OF assms(1)] by blast
  with assms show ?thesis by (auto simp: TssSend_turn_def split: if_splits sum.splits)
qed

lemma turn_frame:
  "TssSend_turn cj getNext t q = (Again (Some w), q') \<Longrightarrow> \<exists>bs. w = frame bs"
  by (auto simp: TssSend_turn_def split: if_splits sum.splits go.splits)

subsection \<open>Invariants\<close>

text \<open>
  At most one error was reported by the reader and one by the sender. Before the start no
  sender runs; a reader that serves messages after it has moved the stage past the
  identifier message; there is an actor once the start is offered, and it stays wired.
\<close>

definition dkg_ok :: "('m, 'e, 'pt) dkg_state \<Rightarrow> bool" where
  "dkg_ok st \<longleftrightarrow>
     length (hd_errs st)
       \<le> (if hd_reader st = DR_gone then 1 else 0) + (if hd_sender st = Sender_gone then 1 else 0) \<and>
     (hd_main st = DM_wait \<longrightarrow> hd_sender st = Sender_off \<and> hd_stage st = 0 \<and> hd_reader st \<noteq> DR_stage) \<and>
     (hd_main st \<noteq> DM_wait \<and> hd_reader st = DR_read \<longrightarrow> hd_stage st > 10) \<and>
     (hd_reader st = DR_offer \<longrightarrow> hd_main st = DM_wait) \<and>
     (hd_dkg st = None \<longrightarrow> hd_main st = DM_wait \<and> hd_reader st \<in> {DR_read, DR_gone}) \<and>
     (\<forall>a. hd_dkg st = Some a \<longrightarrow> dkg_wired a)"

text \<open>To preserve a property, every step of every goroutine has to.\<close>

lemma dkg_step_cases:
  assumes "dkg_step E u ua ev st = Some st'"
  obtains (read_err) err where "hd_reader st = DR_read" "dkg_read_err E err st = Some st'"
  | (peer) msg where "hd_reader st = DR_read" "dkg_on_peer E msg st = Some st'"
      "wm_Type msg = PeerIdBroadcastMessage"
  | (tss) msg where "hd_reader st = DR_read" "dkg_on_tss E msg st = Some st'"
      "\<exists>w. ev = De_read (ReadMsg msg w) \<and> wm_Type msg = TssMessage"
  | (ack) msg where "hd_reader st = DR_read" "dkg_on_ack st = Some st'"
      "\<exists>w. ev = De_read (ReadMsg msg w) \<and> wm_Type msg = MetadataAckMessage"
  | (other) w where "hd_reader st = DR_read" "dkg_on_other w st = Some st'"
  | (start) "dkg_start st = Some st'" "ev = De_start"
  | (stage) "dkg_set_stage st = Some st'"
  | (main) rnd w where "dkg_main_step E u ua rnd w st = Some st'" "ev = De_main rnd w"
  | (send) w where "dkg_send_step E w st = Some st'"
  | (emit) p m where "dkg_emit p m st = Some st'"
  | (state) g s where "dkg_report_state g s st = Some st'" "ev = De_state g s"
  | (timeout) "dkg_timeout st = Some st'"
  using assms
  by (cases ev) (auto simp: dkg_read_def split: if_splits read_event.splits)

lemma dkg_ok_init: "dkg_ok (dkg_init d)"
  by (simp add: dkg_ok_def dkg_init_def)

lemma peer_stage: "mt_stage PeerIdBroadcastMessage = 10"
  by (simp add: mtype_defs)

lemma dkg_send_frame:
  assumes "dkg_send_step E w st = Some st'" and "hd_dkg st = Some a" and "dkg_wired a"
  shows "hd_sender st = Sender_on \<and> hd_main st' = hd_main st \<and> hd_reader st' = hd_reader st \<and>
         hd_stage st' = hd_stage st \<and> hd_crashed st' = hd_crashed st \<and> hd_db st' = hd_db st \<and>
         hd_serverDone st' = hd_serverDone st \<and>
         (\<exists>b. hd_dkg st' = Some b \<and> dkg_wired b) \<and>
         (hd_sender st' = Sender_on \<and> hd_errs st' = hd_errs st \<or>
          hd_sender st' = Sender_gone \<and> length (hd_errs st') \<le> Suc (length (hd_errs st))) \<and>
         (\<exists>sent. hd_out st' = hd_out st @ sent \<and> (\<forall>m \<in> set sent. wm_Type m = TssMessage))"
proof -
  obtain u b where turn: "TssSend_turn (en_msg E) (ServerDkg_GetNextMessageToSend (en_al E))
      \<lparr>tk_ctx_done = (hd_ctx st \<noteq> Ctx_live), tk_server_done = hd_serverDone st, tk_write = w\<rparr> a = (u, b)"
    by (metis surj_pair)
  have b: "dkg_wired b" "\<forall>m. u \<noteq> Crash m" using turn_wired [OF assms(3) turn] by auto
  have on: "hd_sender st = Sender_on" using assms(1) by (auto simp: dkg_send_step_def split: if_splits)
  show ?thesis
  proof (cases u)
    case (Again x)
    with assms(1,2) turn on have "st' = st\<lparr>hd_dkg := Some b,
        hd_out := hd_out st @ (case x of None \<Rightarrow> [] | Some m \<Rightarrow> [m])\<rparr>"
      by (simp add: dkg_send_step_def)
    moreover have "\<forall>m \<in> set (case x of None \<Rightarrow> [] | Some m \<Rightarrow> [m]). wm_Type m = TssMessage"
      using turn_frame turn Again by (cases x) (fastforce simp: frame_def ws_message_def)+
    ultimately show ?thesis using on b by simp
  next
    case (Stop e)
    show ?thesis
    proof (cases e)
      case None
      with assms(1,2) turn on Stop have "st' = st\<lparr>hd_dkg := Some b, hd_sender := Sender_gone\<rparr>"
        by (simp add: dkg_send_step_def)
      with on b show ?thesis by simp
    next
      case (Some err)
      with assms(1,2) turn on Stop have "st' = st\<lparr>hd_dkg := Some b, hd_errs := hd_errs st @ [err],
          hd_sender := Sender_gone\<rparr>"
        by (simp add: dkg_send_step_def split: option.split_asm)
      with on b show ?thesis by simp
    qed
  next
    case (Crash m)
    with b show ?thesis by simp
  qed
qed

lemma dkg_ok_send:
  assumes "dkg_send_step E w st = Some st'" and I: "dkg_ok st"
  shows "dkg_ok st'"
proof (cases "hd_dkg st")
  case None
  with assms show ?thesis by (auto simp: dkg_ok_def dkg_send_step_def split: if_splits)
next
  case (Some a)
  with I have "dkg_wired a" by (simp add: dkg_ok_def)
  note frame = dkg_send_frame [OF assms(1) Some this]
  then have "length (hd_errs st') \<le> (if hd_reader st' = DR_gone then 1 else 0)
      + (if hd_sender st' = Sender_gone then 1 else 0)"
    using I by (auto simp: dkg_ok_def split: if_split_asm)
  with frame I Some show ?thesis by (simp add: dkg_ok_def) auto
qed

lemma handle_ws_wired:
  assumes "dkg_wired a"
  shows "handle_ws_tss cj (ServerDkg_HandleMessage al) msg (Some a) = Panic err_nil \<and>
           decode_ws_ptr cj msg = Inr None \<or>
         (\<exists>r a'. handle_ws_tss cj (ServerDkg_HandleMessage al) msg (Some a) = Ret (r, Some a') \<and> dkg_wired a')"
proof (cases "decode_ws_ptr cj msg")
  case (Inl err)
  with assms show ?thesis by (simp add: handle_ws_tss_def)
next
  case (Inr m)
  with wired_handle [OF assms] show ?thesis by (cases m) (auto simp: handle_ws_tss_def)
qed

text \<open>What the main goroutine leaves alone.\<close>

lemma dkg_process_cases:
  assumes "dkg_process E st = Some st'"
  obtains "st' = dkg_return DM_failed st"
  | a r where "st' = st\<lparr>hd_main := DM_check r\<rparr>" "hd_dkg st = Some a"
      "ServerDkg_Process (en_lib E) a = Some (Ret (Inr r))"
  using assms
  by (auto simp: dkg_process_def split: option.split_asm go.split_asm sum.split_asm)

lemma dkg_check_cases:
  assumes "dkg_check E r st = Some st'"
  obtains q where "length q \<le> length (hd_errs st)" "st' = dkg_return DM_failed (st\<lparr>hd_errs := q\<rparr>)"
  | q where "length q \<le> length (hd_errs st)" "st' = st\<lparr>hd_errs := q, hd_main := DM_stage r\<rparr>"
proof -
  obtain e q where pe: "ProcessErrors (en_closed E) (hd_ctx st = Ctx_canceled) (hd_errs st) = (e, q)"
    by (metis surj_pair)
  then have "length q \<le> length (hd_errs st)"
    by (auto simp: ProcessErrors_def split: list.split_asm if_split_asm)
  with assms pe that show thesis by (cases e) (auto simp: dkg_check_def)
qed

lemma dkg_store_cases:
  assumes "dkg_store E u ua rnd r st = Some st'"
  obtains "st' = dkg_return DM_failed st"
  | md d where "StoreWallet (en_wallet E) (en_aead E) rnd u (hd_peer st) ua r (hd_db st) = (Inr md, d)"
      "st' = st\<lparr>hd_db := d, hd_main := DM_send md\<rparr>"
  using assms StoreWallet_Inl [of "en_wallet E" "en_aead E" rnd u "hd_peer st" ua r "hd_db st"]
  by (auto simp: dkg_store_def split: prod.split_asm sum.split_asm)

lemma dkg_send_metadata_cases:
  assumes "dkg_send_metadata md w st = Some st'"
  obtains "st' = dkg_return DM_failed st"
  | "st' = st\<lparr>hd_out := hd_out st @ [ws_message MetadataMessage md], hd_main := DM_ack\<rparr>"
  using assms by (auto simp: dkg_send_metadata_def split: sum.split_asm)

lemma dkg_return_simps [simp]:
  "hd_main (dkg_return pc st) = pc" "hd_reader (dkg_return pc st) = hd_reader st"
  "hd_sender (dkg_return pc st) = hd_sender st" "hd_dkg (dkg_return pc st) = hd_dkg st"
  "hd_errs (dkg_return pc st) = hd_errs st" "hd_stage (dkg_return pc st) = hd_stage st"
  "hd_out (dkg_return pc st) = hd_out st" "hd_db (dkg_return pc st) = hd_db st"
  "hd_crashed (dkg_return pc st) = hd_crashed st" "hd_serverDone (dkg_return pc st) = hd_serverDone st"
  by (simp_all add: dkg_return_def)

lemma dkg_crash_simps [simp]:
  "hd_main (dkg_crash st) = hd_main st" "hd_reader (dkg_crash st) = hd_reader st"
  "hd_sender (dkg_crash st) = hd_sender st" "hd_dkg (dkg_crash st) = hd_dkg st"
  "hd_errs (dkg_crash st) = hd_errs st" "hd_stage (dkg_crash st) = hd_stage st"
  "hd_out (dkg_crash st) = hd_out st" "hd_db (dkg_crash st) = hd_db st"
  "hd_crashed (dkg_crash st)" "hd_serverDone (dkg_crash st) = hd_serverDone st"
  by (simp_all add: dkg_crash_def)

lemma dkg_main_frame:
  assumes "dkg_main_step E u ua rnd w st = Some st'"
  shows "hd_main st \<noteq> DM_wait \<and> hd_main st' \<noteq> DM_wait \<and>
     hd_reader st' = hd_reader st \<and> hd_sender st' = hd_sender st \<and> hd_dkg st' = hd_dkg st \<and>
     length (hd_errs st') \<le> length (hd_errs st) \<and> (hd_stage st' = hd_stage st \<or> hd_stage st' = 40)"
proof (cases "hd_main st")
  case DM_process
  with assms have "dkg_process E st = Some st'" by (simp add: dkg_main_step_def)
  then show ?thesis by (cases rule: dkg_process_cases) (simp_all add: DM_process)
next
  case (DM_check r)
  with assms have "dkg_check E r st = Some st'" by (simp add: dkg_main_step_def)
  then show ?thesis by (cases rule: dkg_check_cases) (simp_all add: DM_check)
next
  case (DM_store r)
  with assms have "dkg_store E u ua rnd r st = Some st'" by (simp add: dkg_main_step_def)
  then show ?thesis by (cases rule: dkg_store_cases) (simp_all add: DM_store)
next
  case (DM_send md)
  with assms have "dkg_send_metadata md w st = Some st'" by (simp add: dkg_main_step_def)
  then show ?thesis by (cases rule: dkg_send_metadata_cases) (simp_all add: DM_send)
qed (use assms in \<open>auto simp: dkg_main_step_def split: if_splits\<close>)

text \<open>Closure of the invariant under the kinds of update that the steps make.\<close>

lemma dkg_ok_irrelevant [simp]:
  "dkg_ok (st\<lparr>hd_out := x\<rparr>) = dkg_ok st" "dkg_ok (st\<lparr>hd_peer := p\<rparr>) = dkg_ok st"
  "dkg_ok (st\<lparr>hd_serverDone := b\<rparr>) = dkg_ok st" "dkg_ok (st\<lparr>hd_ctx := c\<rparr>) = dkg_ok st"
  "dkg_ok (dkg_crash st) = dkg_ok st"
  by (simp_all add: dkg_ok_def dkg_crash_def)

lemma dkg_ok_actor: "dkg_ok st \<Longrightarrow> hd_dkg st \<noteq> None \<Longrightarrow> dkg_wired a \<Longrightarrow> dkg_ok (st\<lparr>hd_dkg := Some a\<rparr>)"
  by (simp add: dkg_ok_def)

lemma dkg_ok_gone: "dkg_ok st \<Longrightarrow> hd_reader st = DR_read \<Longrightarrow> dkg_ok (st\<lparr>hd_reader := DR_gone\<rparr>)"
  unfolding dkg_ok_def by force

lemma dkg_ok_report:
  "dkg_ok st \<Longrightarrow> hd_reader st = DR_read \<Longrightarrow> dkg_report err st = Some st' \<Longrightarrow> dkg_ok st'"
  using dkg_ok_gone [of st]
  by (simp add: dkg_ok_def dkg_report_def split: option.split_asm) force

lemma dkg_ok_peer:
  assumes "dkg_ok st" and "hd_reader st = DR_read" and "wm_Type msg = PeerIdBroadcastMessage"
    and "dkg_on_peer E msg st = Some st'"
  shows "dkg_ok st'"
proof (cases "hd_stage st > 10")
  case True
  with assms show ?thesis by (simp add: dkg_on_peer_def peer_stage)
next
  case False
  with assms(1,2) have w: "hd_main st = DM_wait" by (auto simp: dkg_ok_def)
  show ?thesis
  proof (cases "NewServerDkg (en_al E) (wm_Msg msg)")
    case (Inl err)
    have "dkg_ok (st\<lparr>hd_peer := wm_Msg msg, hd_dkg := None\<rparr>)"
      using assms(1,2) w by (auto simp: dkg_ok_def)
    from dkg_ok_report [OF this] Inl False assms show ?thesis by (simp add: dkg_on_peer_def peer_stage)
  next
    case (Inr a)
    with False assms w wired_new [OF Inr] show ?thesis
      by (auto simp: dkg_on_peer_def peer_stage dkg_ok_def)
  qed
qed

lemma dkg_ok_tss:
  assumes "dkg_ok st" and "hd_reader st = DR_read" and "dkg_on_tss E msg st = Some st'"
  shows "dkg_ok st'"
proof (cases "hd_stage st > mt_stage (wm_Type msg)")
  case True
  with assms show ?thesis by (simp add: dkg_on_tss_def)
next
  case stage: False
  let ?h = "handle_ws_tss (en_msg E) (ServerDkg_HandleMessage (en_al E)) msg (hd_dkg st)"
  have keep: "dkg_ok (st\<lparr>hd_dkg := p\<rparr>)" if "?h = Ret (r, p)" for r p
  proof (cases "hd_dkg st")
    case None
    with that have "p = None"
      by (auto simp: handle_ws_tss_def nil_handle split: sum.split_asm option.split_asm)
    with None have "st\<lparr>hd_dkg := p\<rparr> = st" by simp
    with assms(1) show ?thesis by simp
  next
    case (Some a)
    with assms(1) have "dkg_wired a" by (simp add: dkg_ok_def)
    with that Some handle_ws_wired [of a "en_msg E" "en_al E" msg] have "\<exists>b. p = Some b \<and> dkg_wired b"
      by auto
    with Some dkg_ok_actor [OF assms(1)] show ?thesis by auto
  qed
  show ?thesis
  proof (cases ?h)
    case (Panic m)
    with stage assms show ?thesis by (auto simp: dkg_on_tss_def)
  next
    case (Ret rp)
    obtain r p where rp: "rp = (r, p)" by (cases rp)
    show ?thesis
    proof (cases r)
      case (Inl err)
      with stage assms Ret rp have "dkg_report err (st\<lparr>hd_dkg := p\<rparr>) = Some st'"
        by (simp add: dkg_on_tss_def)
      with keep Ret rp assms(2) show ?thesis using dkg_ok_report by fastforce
    next
      case (Inr v)
      with stage assms Ret rp keep show ?thesis by (auto simp: dkg_on_tss_def)
    qed
  qed
qed

lemma dkg_ok_main:
  assumes "dkg_ok st" and "dkg_main_step E u ua rnd w st = Some st'"
  shows "dkg_ok st'"
  using assms(1) dkg_main_frame [OF assms(2)]
  unfolding dkg_ok_def by (elim conjE) (intro conjI impI; force)

lemma dkg_ok_step:
  assumes "dkg_step E u ua ev st = Some st'" and I: "dkg_ok st"
  shows "dkg_ok st'"
  using assms(1)
proof (cases rule: dkg_step_cases)
  case (read_err err)
  then show ?thesis
    using dkg_ok_report [OF I] dkg_ok_gone [OF I]
    by (auto simp: dkg_read_err_def split: option.split_asm)
next
  case (peer msg)
  then show ?thesis using dkg_ok_peer [OF I] by blast
next
  case (tss msg)
  then show ?thesis using dkg_ok_tss [OF I] by blast
next
  case (ack msg)
  with I show ?thesis by (auto simp: dkg_on_ack_def split: if_split_asm)
next
  case (other w)
  with I dkg_ok_report [OF I] show ?thesis by (auto simp: dkg_on_other_def split: sum.split_asm)
next
  case start
  with I show ?thesis by (auto simp: dkg_start_def dkg_ok_def split: if_split_asm)
next
  case stage
  with I show ?thesis by (auto simp: dkg_set_stage_def dkg_ok_def split: if_split_asm)
next
  case (main rnd w)
  then show ?thesis using dkg_ok_main [OF I] by blast
next
  case (send w)
  then show ?thesis using I by (blast intro: dkg_ok_send)
next
  case (emit p m)
  with I dkg_ok_actor [OF I] show ?thesis
    by (auto simp: dkg_emit_def dkg_ok_def wired_emit split: option.split_asm if_split_asm)
next
  case (state g s)
  then obtain a where a: "hd_dkg st = Some a" by (auto simp: dkg_report_state_def split: option.split_asm)
  with I have "dkg_wired a" by (simp add: dkg_ok_def)
  with a state I wired_change [of a g s] dkg_ok_actor [OF I] show ?thesis
    by (auto simp: dkg_report_state_def split: if_split_asm go.split_asm)
next
  case timeout
  with I show ?thesis by (auto simp: dkg_timeout_def split: if_split_asm)
qed

lemma dkg_reach_ok: "dkg_reach E u ua d st \<Longrightarrow> dkg_ok st"
  by (induction rule: dkg_reach.induct) (auto intro: dkg_ok_init dkg_ok_step)

subsection \<open>The wallet and the metadata\<close>

text \<open>The wallet that the server makes of a result \<open>g\<close> of the library for the client \<open>peer\<close>.\<close>

definition dkg_wallet :: "'pt curve_lib \<Rightarrow> 'pt lib_result \<Rightarrow> string \<Rightarrow> DkgResult \<Rightarrow> bool" where
  "dkg_wallet lib g peer r \<longleftrightarrow>
     (let pk = \<lparr>pk_X = GetX lib (lr_PublicKey g), pk_Y = GetY lib (lr_PublicKey g)\<rparr> in
      \<exists>addr. GetAddress lib pk = Ret addr \<and>
        r = \<lparr>dr_Pubkey = GetStr pk, dr_BKs = fmmap bk_text (lr_Bks g), dr_Share = big_String (lr_Share g),
             dr_Address = AddressHex lib addr, dr_PeerID = peer\<rparr>)"

lemma process_dkg_wallet:
  "ServerDkg_Process lib a = Some (Ret (Inr r)) \<Longrightarrow>
     \<exists>g. dk_done (sd_service a) \<and> dk_result (sd_service a) = Some g \<and> dkg_wallet lib g (sd_clientPeerID a) r"
  by (auto simp: ServerDkg_Process_def PostProcessResult_def dkg_wallet_def Let_def
      split: if_split_asm option.split_asm go.split_asm)

text \<open>In a state of the handler: made of the result that the library has reported to its actor.\<close>

definition dkg_made :: "('m, 'e, 'pt, 'pl) env \<Rightarrow> ('m, 'e, 'pt) dkg_state \<Rightarrow> DkgResult \<Rightarrow> bool" where
  "dkg_made E st r \<longleftrightarrow>
     (\<exists>a g. hd_dkg st = Some a \<and> dk_done (sd_service a) \<and> dk_result (sd_service a) = Some g \<and>
        dkg_wallet (en_lib E) g (sd_clientPeerID a) r)"

text \<open>What an actor that is done keeps.\<close>

definition kept_result :: "('m, 'e, 'pt) ServerDkg \<Rightarrow> ('m, 'e, 'pt) ServerDkg \<Rightarrow> bool" where
  "kept_result a b \<longleftrightarrow> sd_clientPeerID b = sd_clientPeerID a \<and>
     (dk_done (sd_service a) \<longrightarrow> dk_done (sd_service b) \<and> dk_result (sd_service b) = dk_result (sd_service a))"

lemma kept_next: "ServerDkg_GetNextMessageToSend al a = Ret (r, b) \<Longrightarrow> kept_result a b"
  by (auto simp: ServerDkg_GetNextMessageToSend_def kept_result_def split: option.split_asm prod.split_asm)

lemma kept_turn: "TssSend_turn cj (ServerDkg_GetNextMessageToSend al) t a = (u, b) \<Longrightarrow> kept_result a b"
  by (auto simp: TssSend_turn_def dest: kept_next split: if_split_asm go.split_asm sum.split_asm)
    (simp_all add: kept_result_def)

lemma kept_handle: "ServerDkg_HandleMessage al (Some a) m = Ret (r, p) \<Longrightarrow> \<exists>b. p = Some b \<and> kept_result a b"
  by (auto simp: ServerDkg_HandleMessage_def kept_result_def split: sum.split_asm go.split_asm prod.split_asm)

lemma kept_change: "Dkg_OnStateChanged g s (sd_service a) = Ret sv \<Longrightarrow> kept_result a (a\<lparr>sd_service := sv\<rparr>)"
  by (auto simp: Dkg_OnStateChanged_def Dkg_close_def kept_result_def split: if_split_asm sum.split_asm)

lemma kept_emit: "kept_result a (ServerDkg_emit a x)"
  by (simp add: kept_result_def ServerDkg_emit_def)

lemma kept_refl: "kept_result a a"
  by (simp add: kept_result_def)

lemma kept_ws: "handle_ws_tss cj (ServerDkg_HandleMessage al) msg (Some a) = Ret (r, p) \<Longrightarrow> \<exists>b. p = Some b \<and> kept_result a b"
  by (auto simp: handle_ws_tss_def kept_refl dest: kept_handle split: sum.split_asm option.split_asm)

lemma dkg_step_made:
  assumes "dkg_step E u ua ev st = Some st'" and I: "dkg_ok st" and "hd_main st \<noteq> DM_wait" and "dkg_made E st r"
  shows "dkg_made E st' r"
proof -
  from assms(4) obtain a where a: "hd_dkg st = Some a" by (auto simp: dkg_made_def)
  have "\<exists>b. hd_dkg st' = Some b \<and> kept_result a b"
    using assms(1)
  proof (cases rule: dkg_step_cases)
    case (read_err err)
    with a show ?thesis by (auto simp: dkg_read_err_def dkg_report_def kept_refl split: option.split_asm)
  next
    case (peer msg)
    then have "st' = st" using I assms(3) by (auto simp: dkg_ok_def dkg_on_peer_def peer_stage)
    with a kept_refl show ?thesis by simp
  next
    case (tss msg)
    with a show ?thesis
      by (auto simp: dkg_on_tss_def dkg_report_def kept_refl dest!: kept_ws
          split: if_split_asm go.split_asm sum.split_asm option.split_asm)
  next
    case (ack msg)
    with a show ?thesis by (auto simp: dkg_on_ack_def kept_refl split: if_split_asm)
  next
    case (other w)
    with a show ?thesis by (auto simp: dkg_on_other_def dkg_report_def kept_refl split: sum.split_asm option.split_asm)
  next
    case start
    with assms(3) show ?thesis by (simp add: dkg_start_def split: if_split_asm)
  next
    case stage
    with a show ?thesis by (auto simp: dkg_set_stage_def kept_refl split: if_split_asm)
  next
    case (main rnd w)
    with dkg_main_frame [OF main(1)] a kept_refl show ?thesis by simp
  next
    case (send w)
    with a show ?thesis
      by (auto simp: dkg_send_step_def kept_refl dest!: kept_turn
          split: if_split_asm prod.split_asm turn.split_asm option.split_asm)
  next
    case (emit p m)
    with a kept_emit show ?thesis by (auto simp: dkg_emit_def split: if_split_asm)
  next
    case (state g s)
    with a show ?thesis by (auto simp: dkg_report_state_def kept_refl dest!: kept_change split: if_split_asm go.split_asm)
  next
    case timeout
    with a show ?thesis by (auto simp: dkg_timeout_def kept_refl split: if_split_asm)
  qed
  with assms(4) a show ?thesis by (auto simp: dkg_made_def kept_result_def)
qed

text \<open>The metadata opens what was stored, which satisfies \<open>Q\<close>: the vault reads it back.\<close>

definition dkg_opens ::
  "('m, 'e, 'pt, 'pl) env \<Rightarrow> (DkgResult \<Rightarrow> bool) \<Rightarrow> string \<Rightarrow> string \<Rightarrow> db \<Rightarrow> bool" where
  "dkg_opens E Q userId metadata d \<longleftrightarrow>
     vault_ok d \<and> known d userId \<and>
     (\<exists>r. Q r \<and>
        (aead_ok (en_aead E) \<longrightarrow>
           (\<forall>pick. RetrieveWallet (en_wallet E) (en_aead E) None pick (Some metadata) userId d =
              Ret (read_back (en_wallet E) r))))"

definition sent_metadata :: "ws_msg list \<Rightarrow> string set" where
  "sent_metadata out = {wm_Msg m | m. m \<in> set out \<and> wm_Type m = MetadataMessage}"

definition dkg_wallet_ok ::
  "('m, 'e, 'pt, 'pl) env \<Rightarrow> (DkgResult \<Rightarrow> bool) \<Rightarrow> string \<Rightarrow> db \<Rightarrow> ('m, 'e, 'pt) dkg_state \<Rightarrow> bool" where
  "dkg_wallet_ok E Q userId d st \<longleftrightarrow>
     (\<forall>md \<in> sent_metadata (hd_out st). dkg_opens E Q userId md (hd_db st)) \<and>
     (case hd_main st of
        DM_wait \<Rightarrow> hd_db st = d
      | DM_process \<Rightarrow> hd_db st = d
      | DM_check r \<Rightarrow> hd_db st = d \<and> Q r
      | DM_stage r \<Rightarrow> hd_db st = d \<and> Q r
      | DM_store r \<Rightarrow> hd_db st = d \<and> Q r
      | DM_send md \<Rightarrow> dkg_opens E Q userId md (hd_db st)
      | DM_ack \<Rightarrow> sent_metadata (hd_out st) \<noteq> {}
      | DM_closed \<Rightarrow> sent_metadata (hd_out st) \<noteq> {} \<and> hd_serverDone st
      | DM_failed \<Rightarrow> True) \<and>
     (hd_main st \<notin> {DM_ack, DM_closed} \<longrightarrow> sent_metadata (hd_out st) = {})"

lemma sent_metadata_append:
  "\<forall>m \<in> set ms. wm_Type m \<noteq> MetadataMessage \<Longrightarrow> sent_metadata (out @ ms) = sent_metadata out"
  by (auto simp: sent_metadata_def)

lemma sent_metadata_one: "sent_metadata (out @ [ws_message MetadataMessage md]) = insert md (sent_metadata out)"
  by (force simp: sent_metadata_def ws_message_def)

text \<open>The steps of the reader, the sender, the library and the clock.\<close>

definition dkg_side :: "('m, 'e, 'pt) dkg_state \<Rightarrow> ('m, 'e, 'pt) dkg_state \<Rightarrow> bool" where
  "dkg_side st st' \<longleftrightarrow>
     hd_main st' = hd_main st \<and> hd_db st' = hd_db st \<and> (hd_serverDone st \<longrightarrow> hd_serverDone st') \<and>
     (\<exists>ms. hd_out st' = hd_out st @ ms \<and> (\<forall>m \<in> set ms. wm_Type m \<noteq> MetadataMessage))"

lemma dkg_side_same:
  "hd_main st' = hd_main st \<Longrightarrow> hd_db st' = hd_db st \<Longrightarrow> hd_serverDone st' = hd_serverDone st \<Longrightarrow>
     hd_out st' = hd_out st \<Longrightarrow> dkg_side st st'"
  by (simp add: dkg_side_def)

lemma frame_not_metadata: "TssMessage \<noteq> MetadataMessage" "wm_Type unexpected_msg \<noteq> MetadataMessage"
  by (simp_all add: mtype_defs unexpected_msg_def ws_message_def)

lemma dkg_side_upd: "dkg_side st st" "dkg_side st (st\<lparr>hd_dkg := p\<rparr>)" "dkg_side st (dkg_crash st)"
  "dkg_side st (st\<lparr>hd_out := hd_out st @ [unexpected_msg]\<rparr>)"
  by (simp_all add: dkg_side_def frame_not_metadata)

lemma dkg_report_side: "dkg_report err st = Some st' \<Longrightarrow> dkg_side st st'"
  by (auto simp: dkg_report_def dkg_side_def split: option.split_asm)

lemma dkg_report_side':
  "dkg_report err (st\<lparr>hd_dkg := p\<rparr>) = Some st' \<Longrightarrow> dkg_side st st'"
  "dkg_report err (st\<lparr>hd_peer := q, hd_dkg := p\<rparr>) = Some st' \<Longrightarrow> dkg_side st st'"
  by (auto simp: dkg_report_def dkg_side_def split: option.split_asm)

lemma dkg_side_opens: "dkg_side st st' \<Longrightarrow> dkg_wallet_ok E Q u d st \<Longrightarrow> dkg_wallet_ok E Q u d st'"
  by (cases "hd_main st") (auto simp: dkg_side_def dkg_wallet_ok_def sent_metadata_append)

lemma dkg_step_side:
  assumes "dkg_step E u ua ev st = Some st'" and I: "dkg_ok st"
    and "\<And>rnd w. ev \<noteq> De_main rnd w" and "ev \<noteq> De_start"
  shows "dkg_side st st'"
  using assms(1)
proof (cases rule: dkg_step_cases)
  case (read_err err)
  then show ?thesis
    by (auto simp: dkg_read_err_def dkg_report_side intro: dkg_side_same split: option.split_asm)
next
  case (peer msg)
  then show ?thesis
    by (auto simp: dkg_on_peer_def dkg_report_side' intro: dkg_side_same split: if_split_asm sum.split_asm)
next
  case (tss msg)
  then show ?thesis
    by (auto simp: dkg_on_tss_def dkg_report_side' dkg_side_upd
        split: if_split_asm sum.split_asm go.split_asm)
next
  case (ack msg)
  then show ?thesis by (auto simp: dkg_on_ack_def dkg_side_def split: if_split_asm)
next
  case (other w)
  then show ?thesis
    by (auto simp: dkg_on_other_def dkg_report_side dkg_side_upd split: sum.split_asm)
next
  case start
  with assms(4) show ?thesis by simp
next
  case stage
  then show ?thesis by (auto simp: dkg_set_stage_def intro: dkg_side_same split: if_split_asm)
next
  case (main rnd w)
  with assms(3) show ?thesis by blast
next
  case (send w)
  then obtain a where a: "hd_dkg st = Some a"
    using I by (auto simp: dkg_send_step_def dkg_ok_def split: if_split_asm option.split_asm)
  with I have "dkg_wired a" by (simp add: dkg_ok_def)
  from dkg_send_frame [OF send a this] show ?thesis
    using frame_not_metadata send by (auto simp: dkg_side_def)
next
  case (emit p m)
  then show ?thesis by (auto simp: dkg_emit_def intro: dkg_side_same split: option.split_asm if_split_asm)
next
  case (state g s)
  then show ?thesis
    by (auto simp: dkg_report_state_def intro: dkg_side_same split: option.split_asm if_split_asm go.split_asm)
next
  case timeout
  then show ?thesis by (auto simp: dkg_timeout_def intro: dkg_side_same split: if_split_asm)
qed

lemma dkg_wallet_main:
  assumes step: "dkg_main_step E u ua rnd w st = Some st'" and I: "dkg_wallet_ok E Q u d st"
    and d: "vault_ok d" "\<not> known d u" and rnd: "draw_ok rnd"
    and made: "\<And>a r. hd_dkg st = Some a \<Longrightarrow> ServerDkg_Process (en_lib E) a = Some (Ret (Inr r)) \<Longrightarrow> Q r"
  shows "dkg_wallet_ok E Q u d st'"
proof (cases "hd_main st")
  case DM_process
  with step have "dkg_process E st = Some st'" by (simp add: dkg_main_step_def)
  then show ?thesis
    using I DM_process
    by (cases rule: dkg_process_cases) (auto simp: dkg_wallet_ok_def made)
next
  case (DM_check r)
  with step have "dkg_check E r st = Some st'" by (simp add: dkg_main_step_def)
  then show ?thesis
    using I DM_check by (cases rule: dkg_check_cases) (auto simp: dkg_wallet_ok_def)
next
  case (DM_stage r)
  with step I show ?thesis by (auto simp: dkg_main_step_def dkg_wallet_ok_def)
next
  case (DM_store r)
  with I have st: "hd_db st = d" "Q r" "sent_metadata (hd_out st) = {}"
    by (auto simp: dkg_wallet_ok_def)
  from DM_store step have "dkg_store E u ua rnd r st = Some st'" by (simp add: dkg_main_step_def)
  then show ?thesis
  proof (cases rule: dkg_store_cases)
    case 1
    with I DM_store show ?thesis by (simp add: dkg_wallet_ok_def)
  next
    case (2 md d')
    then have sw: "StoreWallet (en_wallet E) (en_aead E) rnd u (hd_peer st) ua r d = (Inr md, d')"
      using st(1) by simp
    have "vault_ok d'" "known d' u"
      using StoreWallet_Inr [OF sw] Dkg_query [OF d] by blast+
    moreover have "RetrieveWallet (en_wallet E) (en_aead E) None pick (Some md) u d' = Ret (read_back (en_wallet E) r)"
      if "aead_ok (en_aead E)" for pick
      using StoreWallet_reads [OF d(1) rnd that d(2) sw] by blast
    ultimately have "dkg_opens E Q u md d'" using st(2) by (auto simp: dkg_opens_def)
    with 2 st show ?thesis by (simp add: dkg_wallet_ok_def)
  qed
next
  case (DM_send md)
  with step have "dkg_send_metadata md w st = Some st'" by (simp add: dkg_main_step_def)
  then show ?thesis
    using I DM_send
    by (cases rule: dkg_send_metadata_cases) (auto simp: dkg_wallet_ok_def sent_metadata_one)
next
  case DM_ack
  with step I show ?thesis by (auto simp: dkg_main_step_def dkg_wallet_ok_def split: if_split_asm)
qed (use step in \<open>auto simp: dkg_main_step_def\<close>)

lemma dkg_wallet_step:
  assumes step: "dkg_step E u ua ev st = Some st'" and I: "dkg_ok st" "dkg_wallet_ok E Q u d st"
    and d: "vault_ok d" "\<not> known d u" and fair: "dkg_event_fair ev"
    and made: "\<And>a r. hd_dkg st = Some a \<Longrightarrow> ServerDkg_Process (en_lib E) a = Some (Ret (Inr r)) \<Longrightarrow> Q r"
  shows "dkg_wallet_ok E Q u d st'"
proof (cases "(\<exists>rnd w. ev = De_main rnd w) \<or> ev = De_start")
  case True
  then show ?thesis
  proof (elim disjE exE)
    fix rnd w
    assume ev: "ev = De_main rnd w"
    with step have "dkg_main_step E u ua rnd w st = Some st'" by (simp split: if_split_asm)
    moreover from ev fair have "draw_ok rnd" by simp
    ultimately show ?thesis using I(2) d made by (blast intro: dkg_wallet_main)
  next
    assume "ev = De_start"
    with step I(2) show ?thesis
      by (auto simp: dkg_start_def dkg_wallet_ok_def split: if_split_asm)
  qed
next
  case False
  then have "dkg_side st st'" by (intro dkg_step_side [OF step I(1)]) auto
  then show ?thesis using I(2) by (rule dkg_side_opens)
qed

lemma dkg_init_wallet: "dkg_wallet_ok E Q u d (dkg_init d)"
  by (simp add: dkg_wallet_ok_def dkg_init_def sent_metadata_def)

lemma dkg_wait_leaves:
  assumes "dkg_step E u ua ev st = Some st'" and "dkg_ok st" and "hd_main st = DM_wait"
  shows "hd_main st' \<in> {DM_wait, DM_process}"
proof (cases "(\<exists>rnd w. ev = De_main rnd w) \<or> ev = De_start")
  case True
  with assms show ?thesis by (auto simp: dkg_start_def dkg_main_step_def split: if_split_asm)
next
  case False
  then have "dkg_side st st'" by (intro dkg_step_side [OF assms(1,2)]) auto
  with assms(3) show ?thesis by (simp add: dkg_side_def)
qed

lemma dkg_wallet_mono:
  assumes "dkg_wallet_ok E Q u d st" and "hd_main st \<notin> {DM_wait, DM_process} \<Longrightarrow> (\<And>r. Q r \<Longrightarrow> Q' r)"
  shows "dkg_wallet_ok E Q' u d st"
proof (cases "hd_main st \<in> {DM_wait, DM_process}")
  case True
  with assms(1) show ?thesis by (auto simp: dkg_wallet_ok_def)
next
  case False
  note Q = assms(2) [OF False]
  have "dkg_opens E Q u md x \<Longrightarrow> dkg_opens E Q' u md x" for md x unfolding dkg_opens_def using Q by blast
  with assms(1) Q show ?thesis by (cases "hd_main st") (auto simp: dkg_wallet_ok_def)
qed

lemma dkg_made_step:
  assumes step: "dkg_step E u ua ev st = Some st'" and ok: "dkg_ok st" and "dkg_wallet_ok E (dkg_made E st) u d st"
    and "vault_ok d" and "\<not> known d u" and "dkg_event_fair ev"
  shows "dkg_wallet_ok E (dkg_made E st') u d st'"
proof -
  have st': "dkg_wallet_ok E (dkg_made E st) u d st'"
    by (rule dkg_wallet_step [OF step ok assms(3-6)]) (auto simp: dkg_made_def dest: process_dkg_wallet)
  show ?thesis
  proof (rule dkg_wallet_mono [OF st'])
    fix r
    assume "hd_main st' \<notin> {DM_wait, DM_process}" and made: "dkg_made E st r"
    then have "hd_main st \<noteq> DM_wait" using dkg_wait_leaves [OF step ok] by auto
    then show "dkg_made E st' r" by (rule dkg_step_made [OF step ok _ made])
  qed
qed

lemma dkg_reach_wallet:
  assumes "vault_ok d" and "\<not> known d u"
  shows "dkg_reach E u ua d st \<Longrightarrow> dkg_wallet_ok E (dkg_made E st) u d st"
proof (induction rule: dkg_reach.induct)
  case dkg_reach_init
  show ?case by (rule dkg_init_wallet)
next
  case (dkg_reach_step st ev st')
  show ?case
    by (rule dkg_made_step [OF dkg_reach_step.hyps(3) dkg_reach_ok [OF dkg_reach_step.hyps(1)]
          dkg_reach_step.IH assms dkg_reach_step.hyps(2)])
qed

subsection \<open>Crashes and blocked handlers\<close>

lemma dkg_crash_causes:
  assumes "dkg_step E u ua ev st = Some st'" and I: "dkg_ok st" and "\<not> hd_crashed st" and "hd_crashed st'"
  shows "(\<exists>msg w. ev = De_read (ReadMsg msg w) \<and> wm_Type msg = TssMessage \<and>
            (decode_ws_ptr (en_msg E) msg = Inr None \<or> hd_dkg st = None)) \<or>
         (\<exists>msg w. ev = De_read (ReadMsg msg w) \<and> wm_Type msg = MetadataAckMessage \<and> hd_serverDone st) \<or>
         (\<exists>g s a. ev = De_state g s \<and> hd_dkg st = Some a \<and> final_state s \<and> dk_done (sd_service a))"
  using assms(1)
proof (cases rule: dkg_step_cases)
  case (read_err err)
  with assms show ?thesis by (auto simp: dkg_read_err_def dkg_report_def split: option.split_asm)
next
  case (peer msg)
  with assms show ?thesis
    by (auto simp: dkg_on_peer_def dkg_report_def split: option.split_asm sum.split_asm if_split_asm)
next
  case (tss msg)
  show ?thesis
  proof (cases "hd_dkg st")
    case None
    with tss show ?thesis by blast
  next
    case (Some a)
    with I have a: "dkg_wired a" by (simp add: dkg_ok_def)
    from handle_ws_wired [OF a, of "en_msg E" "en_al E" msg] show ?thesis
    proof (elim disjE exE conjE)
      assume "decode_ws_ptr (en_msg E) msg = Inr None"
      with tss show ?thesis by blast
    next
      fix r a'
      assume "handle_ws_tss (en_msg E) (ServerDkg_HandleMessage (en_al E)) msg (Some a) = Ret (r, Some a')"
      with tss(2) Some assms(3,4) show ?thesis
        by (cases r) (auto simp: dkg_on_tss_def dkg_report_def split: if_split_asm option.split_asm)
    qed
  qed
next
  case (ack msg)
  with assms(3,4) show ?thesis by (auto simp: dkg_on_ack_def split: if_split_asm)
next
  case (other w)
  with assms(3,4) show ?thesis
    by (auto simp: dkg_on_other_def dkg_report_def split: sum.split_asm option.split_asm)
next
  case start
  with assms(3,4) show ?thesis by (auto simp: dkg_start_def split: if_split_asm)
next
  case stage
  with assms(3,4) show ?thesis by (auto simp: dkg_set_stage_def split: if_split_asm)
next
  case (main rnd w)
  show ?thesis
  proof (cases "hd_main st")
    case DM_process
    with main have "dkg_process E st = Some st'" by (simp add: dkg_main_step_def)
    then show ?thesis using assms(3,4) by (cases rule: dkg_process_cases) auto
  next
    case (DM_check r)
    with main have "dkg_check E r st = Some st'" by (simp add: dkg_main_step_def)
    then show ?thesis using assms(3,4) by (cases rule: dkg_check_cases) auto
  next
    case (DM_store r)
    with main have "dkg_store E u ua rnd r st = Some st'" by (simp add: dkg_main_step_def)
    then show ?thesis using assms(3,4) by (cases rule: dkg_store_cases) auto
  next
    case (DM_send md)
    with main have "dkg_send_metadata md w st = Some st'" by (simp add: dkg_main_step_def)
    then show ?thesis using assms(3,4) by (cases rule: dkg_send_metadata_cases) auto
  qed (use main assms(3,4) in \<open>auto simp: dkg_main_step_def split: if_split_asm\<close>)
next
  case (send w)
  then obtain a where a: "hd_dkg st = Some a"
    using I by (auto simp: dkg_send_step_def dkg_ok_def split: if_split_asm option.split_asm)
  with I have "dkg_wired a" by (simp add: dkg_ok_def)
  from dkg_send_frame [OF send a this] assms(3,4) show ?thesis by simp
next
  case (emit p m)
  with assms(3,4) show ?thesis by (auto simp: dkg_emit_def split: option.split_asm if_split_asm)
next
  case (state g s)
  with assms(3,4) show ?thesis
    by (auto simp: dkg_report_state_def dest: change_panics split: option.split_asm if_split_asm go.split_asm)
next
  case timeout
  with assms(3,4) show ?thesis by (auto simp: dkg_timeout_def split: if_split_asm)
qed

text \<open>Without a reader the main goroutine waits for the start for ever.\<close>

lemma dkg_no_reader_step:
  assumes "dkg_step E u ua ev st = Some st'" and "hd_main st = DM_wait" and "hd_reader st = DR_gone"
    and "hd_sender st = Sender_off"
  shows "hd_main st' = DM_wait \<and> hd_reader st' = DR_gone \<and> hd_sender st' = Sender_off"
  using assms(1)
proof (cases rule: dkg_step_cases)
  case (main rnd w)
  with assms show ?thesis by (simp add: dkg_main_step_def)
next
  case (send w)
  with assms show ?thesis by (simp add: dkg_send_step_def)
qed (use assms in \<open>auto simp: dkg_start_def dkg_set_stage_def dkg_emit_def dkg_report_state_def
      dkg_timeout_def split: if_split_asm option.split_asm\<close>)

lemma dkg_no_reader_run:
  "steps (dkg_step E u ua) evs st = Some st' \<Longrightarrow> hd_main st = DM_wait \<Longrightarrow> hd_reader st = DR_gone \<Longrightarrow>
     hd_sender st = Sender_off \<Longrightarrow> hd_main st' = DM_wait"
proof (induction evs arbitrary: st)
  case Nil
  then show ?case by simp
next
  case (Cons ev evs)
  from Cons.prems(1) obtain st1 where s: "dkg_step E u ua ev st = Some st1"
      and r: "steps (dkg_step E u ua) evs st1 = Some st'" by (auto simp del: dkg_step.simps split: option.split_asm)
  from dkg_no_reader_step [OF s Cons.prems(2-4)] Cons.IH [OF r] show ?case by blast
qed

end
