(* ===== verification/DkgProperties.thy ===== *)
theory DkgProperties
  imports KeyProperties DkgHandler
begin

text \<open>
  Properties of the server's DKG handler over every interleaving of its reader, its main
  goroutine and its sender: what it stores and sends, what it needs to end, how it fails, and
  what an untrusted client can make of it.
\<close>

lemma entry_unknown:
  "DkgHandler_entry E cfg None pick r c d = Inr userId \<Longrightarrow> c ''userId'' = Some userId \<and> \<not> known d userId"
  using WalletExists_iff [of pick userId d]
  by (auto simp: DkgHandler_entry_def split: option.split_asm if_split_asm sum.split_asm)

lemma entry_conflict:
  "known d u \<Longrightarrow> c ''userId'' = Some u \<Longrightarrow>
     DkgHandler_entry E cfg None pick r c d = Inl (http_Error ''Conflict'' StatusConflict)"
  using WalletExists_iff [of pick u d] by (simp add: DkgHandler_entry_def)

lemma dkg_run_reach:
  "steps (dkg_step E u ua) evs st = Some st' \<Longrightarrow> \<forall>ev \<in> set evs. dkg_event_fair ev \<Longrightarrow> dkg_reach E u ua d st \<Longrightarrow>
     dkg_reach E u ua d st'"
  by (rule steps_invariant [where P = "dkg_reach E u ua d"]) (auto intro: dkg_reach_step simp del: dkg_step.simps)

subsection \<open>What is stored and sent\<close>

text \<open>C3: in every reachable state of a DKG handler, metadata that was sent to the client opens what
  the vault keeps for the user, and that is the wallet made of the result which the library has
  reported to the actor of this run: its public key with the address, its share and all its party
  parameters, read back by the decoder of the vault. Before that nothing is stored, and the
  connection is closed normally only after metadata was sent and acknowledged.\<close>

theorem dkg_metadata_opens_wallet:
  assumes "vault_ok d" and "aead_ok (en_aead E)" and "DkgHandler_entry E cfg None pick r c d = Inr userId"
    and "dkg_reach E userId ua d st"
  shows "(\<forall>m \<in> set (hd_out st). wm_Type m = MetadataMessage \<longrightarrow>
            (\<exists>a g w. hd_dkg st = Some a \<and> dk_result (sd_service a) = Some g \<and>
               dkg_wallet (en_lib E) g (sd_clientPeerID a) w \<and>
               RetrieveWallet (en_wallet E) (en_aead E) None pick' (Some (wm_Msg m)) userId (hd_db st) =
                 Ret (read_back (en_wallet E) w))) \<and>
         (hd_main st \<in> {DM_wait, DM_process} \<longrightarrow> hd_db st = d) \<and>
         (hd_main st = DM_closed \<longrightarrow>
            hd_serverDone st \<and> (\<exists>m \<in> set (hd_out st). wm_Type m = MetadataMessage))"
proof -
  have "\<not> known d userId" using entry_unknown [OF assms(3)] by simp
  from dkg_reach_wallet [OF assms(1) this assms(4)] have ok: "dkg_wallet_ok E (dkg_made E st) userId d st" .
  have opened: "\<exists>a g w. hd_dkg st = Some a \<and> dk_result (sd_service a) = Some g \<and>
               dkg_wallet (en_lib E) g (sd_clientPeerID a) w \<and>
               RetrieveWallet (en_wallet E) (en_aead E) None pick' (Some md) userId (hd_db st) =
                 Ret (read_back (en_wallet E) w)" if "dkg_opens E (dkg_made E st) userId md (hd_db st)" for md
    using that assms(2) unfolding dkg_opens_def dkg_made_def by blast
  have "\<forall>m \<in> set (hd_out st). wm_Type m = MetadataMessage \<longrightarrow>
      dkg_opens E (dkg_made E st) userId (wm_Msg m) (hd_db st)"
    using ok by (auto simp: dkg_wallet_ok_def sent_metadata_def)
  moreover have "hd_main st \<in> {DM_wait, DM_process} \<longrightarrow> hd_db st = d"
    using ok by (auto simp: dkg_wallet_ok_def)
  moreover have "hd_main st = DM_closed \<longrightarrow>
            hd_serverDone st \<and> (\<exists>m \<in> set (hd_out st). wm_Type m = MetadataMessage)"
    using ok by (auto simp: dkg_wallet_ok_def sent_metadata_def)
  ultimately show ?thesis using opened by blast
qed

subsection \<open>A run to the end\<close>

definition completed :: "('m, 'e, 'pt) ServerDkg \<Rightarrow> 'pt lib_result \<Rightarrow> ('m, 'e, 'pt) ServerDkg" where
  "completed a g = a\<lparr>sd_service := (sd_service a)\<lparr>dk_result := Some g, dk_done := True\<rparr>\<rparr>"

text \<open>The schedule: identifier, start, a result of the library, the steps of the main goroutine,
  and the client's acknowledgement before the last one.\<close>

definition dkg_prefix :: "string \<Rightarrow> 'pt lib_result \<Rightarrow> draw \<Rightarrow> ('m, 'pt) dkg_event list" where
  "dkg_prefix peer g rnd =
     [De_read (ReadMsg (ws_message PeerIdBroadcastMessage peer) (Inr ())), De_start, De_stage,
      De_state (Inr g) StateDone, De_main rnd (Inr ()), De_main rnd (Inr ()), De_main rnd (Inr ()),
      De_main rnd (Inr ())]"

definition dkg_suffix :: "draw \<Rightarrow> ('m, 'pt) dkg_event list" where
  "dkg_suffix rnd =
     [De_main rnd (Inr ()), De_read (ReadMsg (ws_message MetadataAckMessage []) (Inr ())), De_main rnd (Inr ())]"

lemma message_types:
  "MetadataAckMessage \<noteq> PeerIdBroadcastMessage" "MetadataAckMessage \<noteq> TssMessage" "TssMessage \<noteq> PeerIdBroadcastMessage"
  by (simp_all add: mtype_defs)

lemma new_not_done: "NewServerDkg al peer = Inr a \<Longrightarrow> \<not> dk_done (sd_service a)"
  by (auto simp: NewServerDkg_def Dkg_Init_def NewServiceDkg_def Let_def split: sum.split_asm)

lemma dkg_prefix_run:
  assumes "NewServerDkg (en_al E) peer = Inr a"
    and "ServerDkg_Process (en_lib E) (completed a g) = Some (Ret (Inr w))"
    and "StoreWallet (en_wallet E) (en_aead E) rnd u peer ua w d = (Inr md, d')"
  shows "steps (dkg_step E u ua) (dkg_prefix peer g rnd) (dkg_init d) =
    Some \<lparr>hd_reader = DR_read, hd_main = DM_send md, hd_sender = Sender_on, hd_dkg = Some (completed a g),
          hd_peer = peer, hd_stage = 40, hd_errs = [], hd_serverDone = False, hd_ctx = Ctx_live,
          hd_out = [], hd_db = d', hd_crashed = False\<rparr>"
  using assms(2,3) new_not_done [OF assms(1)]
  by (simp add: dkg_prefix_def dkg_init_def dkg_read_def dkg_on_peer_def ws_message_def assms(1) dkg_start_def
      dkg_set_stage_def dkg_report_state_def Dkg_OnStateChanged_def Dkg_close_def dkg_main_step_def
      dkg_process_def completed_def dkg_check_def ProcessErrors_def dkg_store_def)

text \<open>If the library produces a result that can be post-processed and stored, and the
  client sends its identifier and acknowledges, there is a schedule that runs the handler to
  its normal end with the wallet stored and the metadata as the only message beside those of
  the TSS process.\<close>

theorem dkg_completes:
  assumes "NewServerDkg (en_al E) peer = Inr a"
    and "ServerDkg_Process (en_lib E) (completed a g) = Some (Ret (Inr w))"
    and "StoreWallet (en_wallet E) (en_aead E) rnd u peer ua w d = (Inr md, d')"
  shows "\<exists>st. steps (dkg_step E u ua) (dkg_prefix peer g rnd @ dkg_suffix rnd) (dkg_init d) = Some st \<and>
           hd_main st = DM_closed \<and> hd_db st = d' \<and> hd_out st = [ws_message MetadataMessage md] \<and>
           \<not> hd_crashed st \<and> hd_errs st = []"
  by (simp add: steps_append dkg_prefix_run [OF assms] dkg_suffix_def dkg_main_step_def dkg_send_metadata_def
      dkg_read_def ws_message_def message_types dkg_on_ack_def dkg_return_def)

definition toy_dkg_result :: "int lib_result" where
  "toy_dkg_result = \<lparr>lr_PublicKey = 5, lr_Share = 1, lr_Bks = fmempty\<rparr>"

definition toy_dkg :: "(string, string list, int) ServerDkg" where
  "toy_dkg =
     \<lparr>sd_service = \<lparr>dk_pm = Some (RegisterHandleMessage (AddPeer (NewPeerManager serverID) ''c'') (service_handle toy_alice)),
        dk_dkg = Some [], dk_threshold = threshold2, dk_rank = rank0, dk_done = False, dk_result = None\<rparr>,
      sd_clientPeerID = ''c''\<rparr>"

lemma toy_dkg_new: "NewServerDkg toy_alice ''c'' = Inr toy_dkg"
  by (simp add: NewServerDkg_def Dkg_Init_def NewServiceDkg_def toy_dkg_def toy_alice_def Let_def)

lemma toy_dkg_process:
  "\<exists>w. ServerDkg_Process toy_lib (completed toy_dkg toy_dkg_result) = Some (Ret (Inr w))"
  by (simp add: ServerDkg_Process_def completed_def toy_dkg_def toy_dkg_result_def PostProcessResult_def Let_def
      GetAddress_def GetECDSA_def PubkeyToAddress_def FromECDSAPub_def ec_Marshal_def toy_lib_def FillBytes_def
      slice_from_1_def)

lemma toy_store_any:
  "\<exists>d'. StoreWallet toy_wallet_codec toy_aead toy_draw u p ua w d = (Inr toy_metadata, d')"
  by (auto simp: StoreWallet_def toy_draw_def encryptAES_def NewCipher_def
      generateRandomBytes_def run_query_def Dkg_def insert_defs Let_def toy_metadata_def case_prod_beta
      split: sum.split prod.split)

lemma toy_dkg_facts:
  obtains w d' where "NewServerDkg (en_al toy_env) ''c'' = Inr toy_dkg"
    "ServerDkg_Process (en_lib toy_env) (completed toy_dkg toy_dkg_result) = Some (Ret (Inr w))"
    "StoreWallet (en_wallet toy_env) (en_aead toy_env) toy_draw ''u'' ''c'' ''ua'' w empty_db = (Inr toy_metadata, d')"
proof -
  obtain w where "ServerDkg_Process (en_lib toy_env) (completed toy_dkg toy_dkg_result) = Some (Ret (Inr w))"
    using toy_dkg_process by auto
  moreover obtain d' where
    "StoreWallet (en_wallet toy_env) (en_aead toy_env) toy_draw ''u'' ''c'' ''ua'' w empty_db = (Inr toy_metadata, d')"
    using toy_store_any by (metis toy_env_simps(4,5))
  ultimately show ?thesis using that toy_dkg_new by auto
qed

theorem dkg_completes_witness:
  "\<exists>st. steps (dkg_step toy_env ''u'' ''ua'') (dkg_prefix ''c'' toy_dkg_result toy_draw @ dkg_suffix toy_draw) (dkg_init empty_db) = Some st \<and>
        hd_main st = DM_closed"
proof -
  obtain w d' where "NewServerDkg (en_al toy_env) ''c'' = Inr toy_dkg"
    "ServerDkg_Process (en_lib toy_env) (completed toy_dkg toy_dkg_result) = Some (Ret (Inr w))"
    "StoreWallet (en_wallet toy_env) (en_aead toy_env) toy_draw ''u'' ''c'' ''ua'' w empty_db = (Inr toy_metadata, d')"
    by (rule toy_dkg_facts)
  from dkg_completes [OF this] show ?thesis by blast
qed

lemma toy_fair: "\<forall>ev \<in> set (dkg_prefix p g toy_draw). dkg_event_fair ev" "\<forall>ev \<in> set (dkg_suffix toy_draw). dkg_event_fair ev"
  by (simp_all add: dkg_prefix_def dkg_suffix_def toy_draw_ok)

lemma toy_dkg_sent:
  "\<exists>st. dkg_reach toy_env ''u'' ''ua'' empty_db st \<and> hd_main st = DM_ack \<and>
     hd_out st = [ws_message MetadataMessage toy_metadata] \<and> hd_dkg st = Some (completed toy_dkg toy_dkg_result)"
proof -
  obtain w d' where f: "NewServerDkg (en_al toy_env) ''c'' = Inr toy_dkg"
    "ServerDkg_Process (en_lib toy_env) (completed toy_dkg toy_dkg_result) = Some (Ret (Inr w))"
    "StoreWallet (en_wallet toy_env) (en_aead toy_env) toy_draw ''u'' ''c'' ''ua'' w empty_db = (Inr toy_metadata, d')"
    by (rule toy_dkg_facts)
  from dkg_run_reach [OF dkg_prefix_run [OF f] toy_fair(1) dkg_reach_init]
  have reach: "dkg_reach toy_env ''u'' ''ua'' empty_db
      \<lparr>hd_reader = DR_read, hd_main = DM_send toy_metadata, hd_sender = Sender_on,
       hd_dkg = Some (completed toy_dkg toy_dkg_result), hd_peer = ''c'', hd_stage = 40, hd_errs = [],
       hd_serverDone = False, hd_ctx = Ctx_live, hd_out = [], hd_db = d', hd_crashed = False\<rparr>"
    (is "dkg_reach _ _ _ _ ?st") .
  have "dkg_step toy_env ''u'' ''ua'' (De_main toy_draw (Inr ())) ?st =
      Some (?st\<lparr>hd_out := [ws_message MetadataMessage toy_metadata], hd_main := DM_ack\<rparr>)"
    by (simp add: dkg_main_step_def dkg_send_metadata_def)
  from dkg_reach_step [OF reach _ this] show ?thesis by (force simp: toy_draw_ok)
qed

lemma toy_dkg_entry:
  "DkgHandler_entry toy_env toy_config None pick r [''userId'' \<mapsto> ''u''] empty_db = Inr ''u''"
  by (simp add: DkgHandler_entry_def WalletExists_def GetUserByForeignKey_def one_row_def empty_db_def toy_ws_open)

theorem dkg_metadata_opens_wallet_witness:
  "\<exists>st g w. dkg_reach toy_env ''u'' ''ua'' empty_db st \<and> dkg_wallet toy_lib g ''c'' w \<and>
     RetrieveWallet toy_wallet_codec toy_aead None 0 (Some toy_metadata) ''u'' (hd_db st) = Ret (Inr w)"
proof -
  obtain st where st: "dkg_reach toy_env ''u'' ''ua'' empty_db st" "hd_dkg st = Some (completed toy_dkg toy_dkg_result)"
    "hd_out st = [ws_message MetadataMessage toy_metadata]" using toy_dkg_sent by blast
  from dkg_metadata_opens_wallet [OF empty_db_ok(1) _ toy_dkg_entry [of 0 "toy_request ''/dkg''"] st(1), of 0] st
  show ?thesis by (auto simp: ws_message_def toy_aead_ok completed_def toy_dkg_def)
qed

subsection \<open>Failures\<close>

text \<open>C31: when writing the metadata fails, the handler ends with the wallet stored and no
  metadata sent; from then on every DKG request of that user is refused with a conflict.\<close>

theorem lost_metadata_blocks_user:
  assumes "vault_ok d" and "\<not> known d u" and "dkg_reach E u ua d st" and "hd_main st = DM_send md"
    and "dkg_step E u ua (De_main rnd (Inl err)) st = Some st'"
  shows "hd_main st' = DM_failed \<and> (\<forall>m \<in> set (hd_out st'). wm_Type m \<noteq> MetadataMessage) \<and>
         (\<forall>cfg pick r c. c ''userId'' = Some u \<longrightarrow>
            DkgHandler_entry E cfg None pick r c (hd_db st') = Inl (http_Error ''Conflict'' StatusConflict))"
proof -
  from dkg_reach_wallet [OF assms(1,2,3)] have ok: "dkg_wallet_ok E (dkg_made E st) u d st" .
  with assms(4) have sent: "sent_metadata (hd_out st) = {}" and known: "known (hd_db st) u"
    by (auto simp: dkg_wallet_ok_def dkg_opens_def)
  from assms(4,5) have st': "st' = dkg_return DM_failed st"
    by (simp add: dkg_main_step_def dkg_send_metadata_def split: if_split_asm)
  from sent known st' show ?thesis
    by (auto simp: sent_metadata_def dkg_return_def intro: entry_conflict)
qed

theorem lost_metadata_blocks_user_witness:
  "\<exists>st. dkg_reach toy_env ''u'' ''ua'' empty_db st \<and> hd_main st = DM_failed \<and>
     DkgHandler_entry toy_env toy_config None 0 (toy_request ''/dkg'') [''userId'' \<mapsto> ''u''] (hd_db st) =
       Inl (http_Error ''Conflict'' StatusConflict)"
proof -
  obtain w d' where f: "NewServerDkg (en_al toy_env) ''c'' = Inr toy_dkg"
    "ServerDkg_Process (en_lib toy_env) (completed toy_dkg toy_dkg_result) = Some (Ret (Inr w))"
    "StoreWallet (en_wallet toy_env) (en_aead toy_env) toy_draw ''u'' ''c'' ''ua'' w empty_db = (Inr toy_metadata, d')"
    by (rule toy_dkg_facts)
  let ?st = "\<lparr>hd_reader = DR_read, hd_main = DM_send toy_metadata, hd_sender = Sender_on,
       hd_dkg = Some (completed toy_dkg toy_dkg_result), hd_peer = ''c'', hd_stage = 40, hd_errs = [],
       hd_serverDone = False, hd_ctx = Ctx_live, hd_out = [], hd_db = d', hd_crashed = False\<rparr>"
  from dkg_run_reach [OF dkg_prefix_run [OF f] toy_fair(1) dkg_reach_init]
  have reach: "dkg_reach toy_env ''u'' ''ua'' empty_db ?st" .
  have step: "dkg_step toy_env ''u'' ''ua'' (De_main toy_draw (Inl (ErrLib ''write''))) ?st =
      Some (dkg_return DM_failed ?st)"
    by (simp add: dkg_main_step_def dkg_send_metadata_def)
  have fair: "dkg_event_fair (De_main toy_draw (Inl (ErrLib ''write'')))" by (simp add: toy_draw_ok)
  from lost_metadata_blocks_user [OF empty_db_ok reach _ step] dkg_reach_step [OF reach fair step]
  show ?thesis by auto
qed

text \<open>C27: the two senders of errors never block: the channel of errors has room for one of the
  reader and one of the sender, and holds no more than those that have reported.\<close>

theorem dkg_errors_fit:
  assumes "dkg_reach E u ua d st"
  shows "length (hd_errs st) \<le> errs_cap \<and>
         (hd_reader st \<noteq> DR_gone \<or> hd_sender st \<noteq> Sender_gone \<longrightarrow>
            (\<forall>err. \<exists>q. chan_send errs_cap (hd_errs st) err = Some q))"
  using dkg_reach_ok [OF assms] by (auto simp: dkg_ok_def errs_cap_def chan_send_def split: if_split_asm)

theorem dkg_errors_fit_witness:
  "length (hd_errs (dkg_init empty_db :: (string, string list, int) dkg_state)) \<le> errs_cap"
  using dkg_errors_fit [OF dkg_reach_init [of toy_env "''u''" "''ua''" empty_db]] by blast

text \<open>C30: when the reader ends before the start, by a read error, a closed connection or an
  identifier that is refused, the handler's main goroutine waits for ever: no later event,
  not even the deadline of the connection, makes it leave.\<close>

theorem dkg_waits_for_ever:
  assumes "dkg_reach E u ua d st" and "hd_main st = DM_wait" and "hd_reader st = DR_gone"
    and "steps (dkg_step E u ua) evs st = Some st'"
  shows "hd_main st' = DM_wait"
  using dkg_reach_ok [OF assms(1)] assms(2-4)
  by (intro dkg_no_reader_run [of E u ua evs st st']) (simp_all add: dkg_ok_def)

theorem dkg_waits_for_ever_witness:
  "\<exists>st st'. dkg_reach toy_env ''u'' ''ua'' empty_db st \<and> hd_reader st = DR_gone \<and>
     steps (dkg_step toy_env ''u'' ''ua'') [De_timeout] st = Some st' \<and> hd_ctx st' = Ctx_timeout \<and> hd_main st' = DM_wait"
proof -
  let ?st = "(dkg_init empty_db)\<lparr>hd_reader := DR_gone\<rparr> :: (string, string list, int) dkg_state"
  have "dkg_step toy_env ''u'' ''ua'' (De_read (ReadErr (ErrLib ''closed''))) (dkg_init empty_db) = Some ?st"
    by (simp add: dkg_read_def dkg_read_err_def read_failure_def dkg_init_def)
  from dkg_reach_step [OF dkg_reach_init _ this] have reach: "dkg_reach toy_env ''u'' ''ua'' empty_db ?st" by simp
  have run: "steps (dkg_step toy_env ''u'' ''ua'') [De_timeout] ?st = Some (?st\<lparr>hd_ctx := Ctx_timeout\<rparr>)"
    by (simp add: dkg_timeout_def dkg_init_def)
  from dkg_waits_for_ever [OF reach _ _ run] reach run show ?thesis by (fastforce simp: dkg_init_def)
qed

text \<open>C29: a client can end the whole server process with messages that decode: a TSS message
  before its identifier, or a second acknowledgement. A panic of the reader is a nil actor, a
  message \<open>null\<close> or a second close of \<open>serverDone\<close>; the only other panic is a library that
  reports two final states.\<close>

theorem dkg_crashes:
  assumes "decode_ws_ptr (en_msg E) (ws_message TssMessage s) = Inr (Some m)"
    and "decode_payload (en_al E) DkgKind m = Inr x"
  shows "(\<exists>st. steps (dkg_step E u ua) [De_read (ReadMsg (ws_message TssMessage s) (Inr ()))] (dkg_init d) = Some st \<and> hd_crashed st) \<and>
         (\<exists>st. steps (dkg_step E u ua) [De_read (ReadMsg (ws_message MetadataAckMessage []) (Inr ())),
                   De_read (ReadMsg (ws_message MetadataAckMessage []) (Inr ()))] (dkg_init d) = Some st \<and> hd_crashed st) \<and>
         (\<forall>ev st st'. dkg_reach E u ua d st \<longrightarrow> dkg_step E u ua ev st = Some st' \<longrightarrow> hd_crashed st' \<longrightarrow>
            (\<exists>msg w. ev = De_read (ReadMsg msg w) \<and> wm_Type msg = TssMessage \<and>
               (decode_ws_ptr (en_msg E) msg = Inr None \<or> hd_dkg st = None)) \<or>
            (\<exists>msg w. ev = De_read (ReadMsg msg w) \<and> wm_Type msg = MetadataAckMessage \<and> hd_serverDone st) \<or>
            (\<exists>g fin a. ev = De_state g fin \<and> hd_dkg st = Some a \<and> final_state fin \<and> dk_done (sd_service a)))"
proof (intro conjI allI impI)
  show "\<exists>st. steps (dkg_step E u ua) [De_read (ReadMsg (ws_message TssMessage s) (Inr ()))] (dkg_init d) = Some st \<and> hd_crashed st"
    using assms by (simp add: dkg_read_def dkg_init_def ws_message_def message_types dkg_on_tss_def
        handle_ws_tss_def nil_handle dkg_crash_def)
  show "\<exists>st. steps (dkg_step E u ua) [De_read (ReadMsg (ws_message MetadataAckMessage []) (Inr ())),
                   De_read (ReadMsg (ws_message MetadataAckMessage []) (Inr ()))] (dkg_init d) = Some st \<and> hd_crashed st"
    by (simp add: dkg_read_def dkg_init_def ws_message_def message_types dkg_on_ack_def dkg_crash_def)
next
  fix ev st st'
  assume reach: "dkg_reach E u ua d st" and step: "dkg_step E u ua ev st = Some st'" and "hd_crashed st'"
  moreover have "\<not> hd_crashed st" using step by (auto split: if_split_asm)
  ultimately show "(\<exists>msg w. ev = De_read (ReadMsg msg w) \<and> wm_Type msg = TssMessage \<and>
               (decode_ws_ptr (en_msg E) msg = Inr None \<or> hd_dkg st = None)) \<or>
            (\<exists>msg w. ev = De_read (ReadMsg msg w) \<and> wm_Type msg = MetadataAckMessage \<and> hd_serverDone st) \<or>
            (\<exists>g fin a. ev = De_state g fin \<and> hd_dkg st = Some a \<and> final_state fin \<and> dk_done (sd_service a))"
    by (intro dkg_crash_causes [OF step dkg_reach_ok]) simp_all
qed

theorem dkg_crashes_witness:
  "\<exists>msg st. steps (dkg_step toy_env ''u'' ''ua'') [De_read (ReadMsg msg (Inr ()))] (dkg_init empty_db) = Some st \<and> hd_crashed st"
proof -
  let ?m = "\<lparr>PeerID = ''c'', Msg = PStr (hex_encode ''x'')\<rparr>" and ?s = "hex_encode (join2 ''c'' (hex_encode ''x''))"
  have "\<not> json_null (join2 ''c'' (hex_encode ''x''))" by code_simp
  then have "decode_ws_ptr toy_msg_codec (ws_message TssMessage ?s) = Inr (Some ?m)"
    by (simp add: decode_ws_ptr_def ws_message_def toy_msg_codec_def del: hex_encode.simps)
  moreover have "decode_payload toy_alice DkgKind ?m = Inr ''x''"
    by (simp add: decode_payload_def toy_alice_def del: hex_encode.simps)
  ultimately have "decode_ws_ptr (en_msg toy_env) (ws_message TssMessage ?s) = Inr (Some ?m)"
      "decode_payload (en_al toy_env) DkgKind ?m = Inr ''x''" by simp_all
  from dkg_crashes [OF this, of "''u''" "''ua''" empty_db] show ?thesis by blast
qed

end
