(* ===== verification/TssProperties.thy ===== *)
theory TssProperties
  imports KeyProperties
begin

text \<open>
  Properties of the TSS actors: the messages of one engine reach the other one in order over
  the websocket, the server relays between two devices, \<open>Process\<close> returns exactly when the
  library reports an end, and the text form of a wallet loses nothing.
\<close>

subsection \<open>Serving frames\<close>

fun serve_frames :: "(ws_msg \<Rightarrow> 'a \<Rightarrow> (unit result \<times> 'a) go) \<Rightarrow> ws_msg list \<Rightarrow> 'a \<Rightarrow> 'a option" where
  "serve_frames h [] a = Some a"
| "serve_frames h (msg # msgs) a =
     (case h msg a of Ret (Inr _, b) \<Rightarrow> serve_frames h msgs b | _ \<Rightarrow> None)"

text \<open>What the documentation says of decoding \<open>null\<close> into a struct: it stays empty.\<close>

definition null_empty :: "'m tss_msg codec \<Rightarrow> bool" where
  "null_empty cj \<longleftrightarrow> (\<forall>bs x. json_null bs \<longrightarrow> Unmarshal cj bs = Inr x \<longrightarrow> PeerID x = [])"

lemma decode_ptr:
  "null_empty cj \<Longrightarrow> decode_ws_tss cj msg = Inr x \<Longrightarrow> PeerID x \<noteq> [] \<Longrightarrow> decode_ws_ptr cj msg = Inr (Some x)"
  by (auto simp: decode_ws_tss_def decode_ws_ptr_def null_empty_def split: sum.split_asm)

text \<open>What the library queued for a peer, as it is on the wire.\<close>

definition wires :: "('m, 'e, 'pt, 'pl) alice \<Rightarrow> (string \<times> 'm) list \<Rightarrow> 'm tss_msg list" where
  "wires al xs = map (\<lambda>x. wire_of al (queued x)) xs"

definition to_peer :: "string \<Rightarrow> (string \<times> 'm) list \<Rightarrow> (string \<times> 'm) list" where
  "to_peer c xs = filter (\<lambda>x. fst x = c) xs"

lemma concat_peer_adds: "concat (map (peer_adds al c) xs) = wires al (to_peer c xs)"
  by (induction xs) (auto simp: peer_adds_def wires_def to_peer_def)

lemma wire_payload:
  "sendable al cj x \<Longrightarrow> proto_ok al k (snd x) \<Longrightarrow> decode_payload al k (wire_of al (queued x)) = Inr (snd x)"
  using sendable_sent [of al cj x] decode_sent_form [of al "queued x"] by (auto simp: queued_def)

text \<open>The engine takes messages one after the other, until it refuses one.\<close>

fun engine_takes :: "('m, 'e, 'pt, 'pl) alice \<Rightarrow> 'e \<Rightarrow> 'm list \<Rightarrow> 'e option" where
  "engine_takes al e [] = Some e"
| "engine_takes al e (m # ms) =
     (case AddMessage al e (GetId al m) m of (Inr _, e1) \<Rightarrow> engine_takes al e1 ms | (Inl _, _) \<Rightarrow> None)"

definition with_engine :: "('m, 'e, 'pt) ServerDkg \<Rightarrow> 'e \<Rightarrow> ('m, 'e, 'pt) ServerDkg" where
  "with_engine a e = a\<lparr>sd_service := (sd_service a)\<lparr>dk_dkg := Some e\<rparr>\<rparr>"

definition server_frame ::
  "('m, 'e, 'pt, 'pl) alice \<Rightarrow> 'm tss_msg codec \<Rightarrow> ws_msg \<Rightarrow> ('m, 'e, 'pt) ServerDkg option
     \<Rightarrow> (unit result \<times> ('m, 'e, 'pt) ServerDkg option) go" where
  "server_frame al cj msg a = handle_ws_tss cj (ServerDkg_HandleMessage al) msg a"

lemma server_serves:
  assumes "null_empty cj" and "\<forall>x \<in> set xs. sendable al cj x \<and> proto_ok al DkgKind (snd x)"
  shows "map (decode_ws_tss cj) ws = map Inr (wires al xs) \<Longrightarrow>
     dk_pm (sd_service a) = Some pm \<Longrightarrow> pm_handle pm = Some (service_handle al) \<Longrightarrow>
     dk_dkg (sd_service a) = Some e \<Longrightarrow>
     serve_frames (server_frame al cj) ws (Some a) =
       map_option (\<lambda>e'. Some (with_engine a e')) (engine_takes al e (map snd xs))"
  using assms(2)
proof (induction xs arbitrary: ws a e)
  case Nil
  then show ?case by (simp add: wires_def with_engine_def)
next
  case (Cons x xs)
  from Cons.prems(1) obtain w ws' where ws: "ws = w # ws'" "decode_ws_tss cj w = Inr (wire_of al (queued x))"
      "map (decode_ws_tss cj) ws' = map Inr (wires al xs)" by (auto simp: wires_def)
  have "PeerID (wire_of al (queued x)) \<noteq> []" using sendable_sent [of al cj x] Cons.prems(5) by simp
  with decode_ptr [OF assms(1) ws(2)] have w: "decode_ws_ptr cj w = Inr (Some (wire_of al (queued x)))" .
  have pay: "decode_payload al DkgKind (wire_of al (queued x)) = Inr (snd x)"
    using wire_payload [of al cj x] Cons.prems(5) by simp
  obtain r e1 where e1: "AddMessage al e (GetId al (snd x)) (snd x) = (r, e1)" by fastforce
  have step: "server_frame al cj w (Some a) = Ret (r, Some (with_engine a e1))"
    using w pay e1 Cons.prems(2-4)
    by (simp add: server_frame_def handle_ws_tss_def ServerDkg_HandleMessage_def deliver_def HandleMessage_def
        service_handle_def with_engine_def)
  have "serve_frames (server_frame al cj) ws' (Some (with_engine a e1)) =
      map_option (\<lambda>e'. Some (with_engine a e')) (engine_takes al e1 (map snd xs))"
    using Cons.IH [OF ws(3), of "with_engine a e1" e1] Cons.prems(2,3,5) by (simp add: with_engine_def)
  with ws(1) step e1 show ?case by (simp split: sum.split)
qed

subsection \<open>From the client's engine to the server's\<close>

definition turns_ok :: "('m, 'e, 'pt, 'pl) alice \<Rightarrow> 'm tss_msg codec \<Rightarrow> msg_kind \<Rightarrow> ((string \<times> 'm) list \<times> tick) list \<Rightarrow> bool" where
  "turns_ok al cj k ts \<longleftrightarrow>
     (\<forall>(feeds, t) \<in> set ts. live t \<and> (\<forall>x \<in> set feeds. sendable al cj x \<and> proto_ok al k (snd x)))"

lemma new_client_dkg:
  "NewClientDkg al c = Inr p \<Longrightarrow> \<exists>pm. dk_pm (cd_service p) = Some pm \<and> pm_out pm = []"
  by (auto simp: NewClientDkg_def Let_def Dkg_Init_def NewServiceDkg_def RegisterHandleMessage_def AddPeer_def
      NewPeerManager_def split: sum.split_asm)

text \<open>Turns one after the other, when none of the first ones ends the loop.\<close>

lemma TssSend_run_append:
  assumes "TssSend_run cj getNext feed ts q = (ws1, Again None, q1)"
    and "TssSend_run cj getNext feed ts2 q1 = (ws2, fin, q2)"
  shows "TssSend_run cj getNext feed (ts @ ts2) q = (ws1 @ ws2, fin, q2)"
  using assms(1)
proof (induction ts arbitrary: q ws1)
  case (Cons tf ts)
  then show ?case
    by (cases tf) (auto simp: assms(2) split: prod.split_asm turn.split_asm option.split_asm)
qed (use assms(2) in simp)

lemma sent_prefix:
  assumes "sent @ rest = wires al xs"
  shows "sent = wires al (take (length sent) xs) \<and> rest = wires al (drop (length sent) xs)"
  using assms by (auto simp: wires_def take_map [symmetric] drop_map [symmetric] append_eq_conv_conj)

text \<open>C16: while the connection lives, the messages that the client's DKG engine addresses to the
  server are written in order, one frame each, and once the engine makes no more of them, all are
  written after as many turns as there are messages. Serving these frames hands exactly the
  messages written to the server's engine, in the order in which the client's engine made them:
  it succeeds when the server's engine takes them all, and then nothing but the engine has changed;
  it stops at a message only when the engine refuses one.\<close>

theorem dkg_messages_arrive:
  assumes new: "NewClientDkg al c = Inr p" "NewServerDkg al c = Inr a" "dk_dkg (sd_service a) = Some e"
    and lib: "null_empty cj" "turns_ok al cj DkgKind (ts @ quiet)" "concat (map fst quiet) = []"
    and run: "TssSend_run cj (ClientDkg_GetNextMessageToSend al) ClientDkg_emit (ts @ quiet) p = (ws, fin, p')"
  shows "fin = Again None \<and>
     (let msgs = to_peer serverID (concat (map fst ts)) in
        length ws \<le> length msgs \<and> (length msgs \<le> length quiet \<longrightarrow> length ws = length msgs) \<and>
        serve_frames (server_frame al cj) ws (Some a) =
          map_option (\<lambda>e'. Some (with_engine a e')) (engine_takes al e (map snd (take (length ws) msgs))))"
proof -
  let ?xs = "to_peer serverID (concat (map fst ts))"
  from new_client_dkg [OF new(1)] obtain pm where pm: "dk_pm (cd_service p) = Some pm" "pm_out pm = []" by blast
  then have ready: "opt_ready al cj (dk_pm (cd_service p))" and pend: "pend_of (peer_pend al serverID) (dk_pm (cd_service p)) = []"
    by (simp_all add: opt_ready_def pm_ready_def pend_of_def peer_pend_def waiting_def)
  have live: "\<forall>(feeds, t) \<in> set ts. live t \<and> (\<forall>x \<in> set feeds. sendable al cj x)"
      "\<forall>(feeds, t) \<in> set quiet. live t \<and> (\<forall>x \<in> set feeds. sendable al cj x)"
    using lib(2) by (auto simp: turns_ok_def)
  obtain ws1 fin1 p1 where run1: "TssSend_run cj (ClientDkg_GetNextMessageToSend al) ClientDkg_emit ts p = (ws1, fin1, p1)"
    by (metis surj_pair)
  from client_dkg.run_live [OF live(1) ready run1] pend obtain sent1 where
      s1: "fin1 = Again None" "opt_ready al cj (dk_pm (cd_service p1))" "map (decode_ws_tss cj) ws1 = map Inr sent1"
        "sent1 @ pend_of (peer_pend al serverID) (dk_pm (cd_service p1)) = wires al ?xs"
    by (auto simp: concat_peer_adds)
  obtain ws2 fin2 p2 where run2: "TssSend_run cj (ClientDkg_GetNextMessageToSend al) ClientDkg_emit quiet p1 = (ws2, fin2, p2)"
    by (metis surj_pair)
  from client_dkg.run_live [OF live(2) s1(2) run2] lib(3) obtain sent2 where
      s2: "fin2 = Again None" "map (decode_ws_tss cj) ws2 = map Inr sent2"
        "sent2 @ pend_of (peer_pend al serverID) (dk_pm (cd_service p2)) = pend_of (peer_pend al serverID) (dk_pm (cd_service p1))"
        "min (length quiet) (length (pend_of (peer_pend al serverID) (dk_pm (cd_service p1)))) \<le> length sent2"
    by auto
  have ws: "ws = ws1 @ ws2" "fin = Again None"
    using run TssSend_run_append [OF run1 [unfolded s1(1)] run2] s2(1) by simp_all
  have dec: "map (decode_ws_tss cj) ws = map Inr (sent1 @ sent2)" using ws(1) s1(3) s2(2) by simp
  then have len: "length ws = length (sent1 @ sent2)" by (metis length_map)
  have all: "(sent1 @ sent2) @ pend_of (peer_pend al serverID) (dk_pm (cd_service p2)) = wires al ?xs"
    using s1(4) s2(3) by simp
  note sent = conjunct1 [OF sent_prefix [OF all], folded len]
  have total: "length sent1 + length (pend_of (peer_pend al serverID) (dk_pm (cd_service p1))) = length ?xs"
    using arg_cong [OF s1(4), of length] by (simp add: wires_def)
  have le: "length ws \<le> length ?xs" using arg_cong [OF all, of length] len by (simp add: wires_def)
  have full: "length ws = length ?xs" if "length ?xs \<le> length quiet"
    using that total s2(4) len le by simp
  from NewServerDkg_ok [OF new(2)] new(3) obtain pma where
      a: "dk_pm (sd_service a) = Some pma" "pm_handle pma = Some (service_handle al)" by blast
  have "\<forall>x \<in> set (take (length ws) ?xs). sendable al cj x \<and> proto_ok al DkgKind (snd x)"
    using lib(2) set_take_subset by (fastforce simp: turns_ok_def to_peer_def)
  from server_serves [OF lib(1) this, of ws a pma e] dec sent a new(3)
  have "serve_frames (server_frame al cj) ws (Some a) =
      map_option (\<lambda>e'. Some (with_engine a e')) (engine_takes al e (map snd (take (length ws) ?xs)))" by simp
  with ws(2) le full show ?thesis by (simp add: Let_def)
qed

lemma json_null_no_comma: "json_null bs \<Longrightarrow> sep \<notin> set bs"
proof -
  assume n: "json_null bs"
  let ?l = "dropWhile json_space bs"
  have space: "\<not> json_space sep" by (simp add: json_space_def sep_def)
  have "set bs \<subseteq> set (takeWhile json_space bs) \<union> set ?l"
    by (metis set_append subset_refl takeWhile_dropWhile_id)
  moreover have "set ?l \<subseteq> set (takeWhile json_space (rev ?l)) \<union> set (dropWhile json_space (rev ?l))"
    by (metis set_append set_rev subset_refl takeWhile_dropWhile_id)
  moreover have "set (dropWhile json_space (rev ?l)) = set ''null''"
    using n by (metis json_null_def set_rev)
  moreover have "sep \<notin> set ''null''" by (simp add: sep_def)
  moreover have "sep \<notin> set (takeWhile json_space xs)" for xs using space by (auto dest: set_takeWhileD)
  ultimately show ?thesis by blast
qed

lemma toy_null: "null_empty toy_msg_codec"
  by (auto simp: null_empty_def toy_msg_codec_def split2_def split_at_no_sep dest!: json_null_no_comma)

lemma toy_client_new: "\<exists>p. NewClientDkg toy_alice c = Inr p"
  by (simp add: NewClientDkg_def Dkg_Init_def NewServiceDkg_def toy_alice_def Let_def)

lemma toy_server_new: "\<exists>a. NewServerDkg toy_alice c = Inr a \<and> dk_dkg (sd_service a) = Some []"
  by (simp add: NewServerDkg_def Dkg_Init_def NewServiceDkg_def toy_alice_def Let_def)

definition toy_tick :: tick where
  "toy_tick = \<lparr>tk_ctx_done = False, tk_server_done = False, tk_write = Inr ()\<rparr>"

definition toy_turns :: "((string \<times> string) list \<times> tick) list" where
  "toy_turns = [([(serverID, ''x''), (''d'', ''y''), (serverID, ''z'')], toy_tick)]"

definition toy_quiet :: "((string \<times> string) list \<times> tick) list" where
  "toy_quiet = [([], toy_tick), ([], toy_tick)]"

lemma toy_turns_ok: "turns_ok toy_alice toy_msg_codec k (toy_turns @ toy_quiet)" "concat (map fst toy_quiet) = []"
  by (simp_all add: turns_ok_def toy_turns_def toy_quiet_def toy_tick_def live_def toy_sendable toy_proto_ok serverID_def)

theorem dkg_messages_arrive_witness:
  "\<exists>p a ws p'. NewClientDkg toy_alice ''c'' = Inr p \<and> NewServerDkg toy_alice ''c'' = Inr a \<and>
     TssSend_run toy_msg_codec (ClientDkg_GetNextMessageToSend toy_alice) ClientDkg_emit (toy_turns @ toy_quiet) p =
       (ws, Again None, p') \<and> length ws = 2 \<and>
     serve_frames (server_frame toy_alice toy_msg_codec) ws (Some a) = Some (Some (with_engine a [''xx'', ''zz'']))"
proof -
  obtain p a where n: "NewClientDkg toy_alice ''c'' = Inr p" "NewServerDkg toy_alice ''c'' = Inr a"
      "dk_dkg (sd_service a) = Some []" using toy_client_new toy_server_new by blast
  obtain ws fin p' where run: "TssSend_run toy_msg_codec (ClientDkg_GetNextMessageToSend toy_alice) ClientDkg_emit
      (toy_turns @ toy_quiet) p = (ws, fin, p')" by (metis surj_pair)
  have msgs: "to_peer serverID (concat (map fst toy_turns)) = [(serverID, ''x''), (serverID, ''z'')]"
      "length toy_quiet = 2"
    by (simp_all add: toy_turns_def toy_quiet_def to_peer_def serverID_def)
  from dkg_messages_arrive [OF n toy_null toy_turns_ok run] msgs have out: "fin = Again None" "length ws = 2"
      "serve_frames (server_frame toy_alice toy_msg_codec) ws (Some a) =
         map_option (\<lambda>e'. Some (with_engine a e')) (engine_takes toy_alice [] [''x'', ''z''])"
    by (simp_all add: Let_def)
  then show ?thesis using n(1,2) run by (simp add: toy_alice_def)
qed

subsection \<open>Between two devices\<close>

definition adder_frame ::
  "('m, 'e, 'pt, 'pl) alice \<Rightarrow> 'm tss_msg codec \<Rightarrow> ws_msg \<Rightarrow> ('m, 'e, 'pt) ServerAdd option
     \<Rightarrow> (unit result \<times> ('m, 'e, 'pt) ServerAdd option) go" where
  "adder_frame al cj msg a = handle_ws_tss cj (ServerAdd_HandleMessage al) msg a"

lemma adder_relays:
  assumes "null_empty cj"
    and "\<forall>x \<in> set xs. sendable al cj x \<and> proto_ok al AddKind (snd x) \<and> fst x \<noteq> serverID"
  shows "map (decode_ws_tss cj) ws = map Inr (wires al xs) \<Longrightarrow> opt_ready al cj (ax_pm (sa_service a)) \<Longrightarrow>
     \<exists>b. serve_frames (adder_frame al cj) ws (Some a) = Some (Some b) \<and>
         ax_adder (sa_service b) = ax_adder (sa_service a) \<and> opt_ready al cj (ax_pm (sa_service b)) \<and>
         (\<forall>d. pend_of (peer_pend al d) (ax_pm (sa_service b)) =
            pend_of (peer_pend al d) (ax_pm (sa_service a)) @ wires al (to_peer d xs))"
  using assms(2)
proof (induction xs arbitrary: ws a)
  case Nil
  then show ?case by (simp add: wires_def to_peer_def)
next
  case (Cons x xs)
  from Cons.prems(1) obtain w ws' where ws: "ws = w # ws'" "decode_ws_tss cj w = Inr (wire_of al (queued x))"
      "map (decode_ws_tss cj) ws' = map Inr (wires al xs)" by (auto simp: wires_def)
  have x: "PeerID (wire_of al (queued x)) = fst x" "fst x \<noteq> []" "sendable al cj x" "fst x \<noteq> serverID"
    using sendable_sent [of al cj x] Cons.prems(3) by simp_all
  with decode_ptr [OF assms(1) ws(2)] have w: "decode_ws_ptr cj w = Inr (Some (wire_of al (queued x)))" by simp
  have pay: "decode_payload al AddKind (wire_of al (queued x)) = Inr (snd x)"
    using wire_payload [of al cj x] Cons.prems(3) by simp
  obtain pm where pm: "ax_pm (sa_service a) = Some pm"
    using Cons.prems(2) by (auto simp: opt_ready_def split: option.split_asm)
  let ?a1 = "a\<lparr>sa_service := (sa_service a)\<lparr>ax_pm := Some (pm_feed pm x)\<rparr>\<rparr>"
  have step: "adder_frame al cj w (Some a) = Ret (Inr (), Some ?a1)"
    using w pm x(1,4) relay [OF pay, of serverID pm]
    by (simp add: adder_frame_def handle_ws_tss_def ServerAdd_HandleMessage_def pm_feed_def)
  have ready: "opt_ready al cj (ax_pm (sa_service ?a1))"
    using opt_feed(1) [OF Cons.prems(2) x(3)] pm by simp
  have "pend_of (peer_pend al d) (Some (pm_feed pm x)) =
      pend_of (peer_pend al d) (Some pm) @ peer_adds al d x" for d
    using opt_feed(2) [OF Cons.prems(2), of d x] pm by simp
  with Cons.IH [OF ws(3) ready] Cons.prems(3) ws(1) step pm show ?case
    by (fastforce simp: wires_def to_peer_def peer_adds_def)
qed

lemma new_existing:
  "NewExistingClientAdd lib al n c pk share bks = Inr p \<Longrightarrow> \<exists>pm. ax_pm (ea_service p) = Some pm \<and> pm_out pm = []"
  by (auto simp: NewExistingClientAdd_def Let_def AddExisting_Init_def NewServiceAddExisting_def
      RegisterHandleMessage_def AddPeer_def NewPeerManager_def split: sum.split_asm)

text \<open>C17: messages that the existing device's engine addresses to the new device pass the
  server's adder unchanged: serving the frames of the existing device never fails, does not
  touch the server's own engine, and what the server's sender then writes to the new device,
  followed by what still waits, decodes to the same messages in the same order.\<close>

theorem server_relays_between_devices:
  assumes new: "NewExistingClientAdd lib al n c pk share bks = Inr p"
      "NewServerAdd lib al n c pk' share' bks' = Inr a" "n \<noteq> []"
    and lib: "null_empty cj" "turns_ok al cj AddKind ts" "\<forall>x \<in> set (concat (map fst ts)). fst x = n"
    and not_server: "n \<noteq> serverID"
    and run: "TssSend_run cj (ExistingClientAdd_GetNextMessageToSendAll al) ExistingClientAdd_emit ts p = (ws, fin, p')"
  shows "\<exists>b. serve_frames (adder_frame al cj) ws (Some a) = Some (Some b) \<and>
     ax_adder (sa_service b) = ax_adder (sa_service a) \<and>
     (\<forall>ts2 ws2 fin2 b'. turns_ok al cj AddKind ts2 \<longrightarrow> concat (map fst ts2) = [] \<longrightarrow>
        TssSend_run cj (ServerAdd_GetNextMessageToSend al n) ServerAdd_emit ts2 b = (ws2, fin2, b') \<longrightarrow>
        length ws \<le> length ts2 \<longrightarrow> map (decode_ws_tss cj) ws2 = map (decode_ws_tss cj) ws)"
proof -
  let ?xs = "concat (map fst ts)"
  from new_existing [OF new(1)] obtain pm where pm: "ax_pm (ea_service p) = Some pm" "pm_out pm = []" by blast
  then have ready: "opt_ready al cj (ax_pm (ea_service p))" and pend: "pend_of (all_pend al) (ax_pm (ea_service p)) = []"
    by (simp_all add: opt_ready_def pm_ready_def pend_of_def all_pend_def)
  have adds: "concat (map (all_adds al) xs) = wires al xs" for xs by (induction xs) (auto simp: all_adds_def wires_def)
  have "\<forall>(feeds, t) \<in> set ts. live t \<and> (\<forall>x \<in> set feeds. sendable al cj x)"
    using lib(2) by (auto simp: turns_ok_def)
  from existing_add.run_live [OF this ready run] pend obtain sent where
      s: "map (decode_ws_tss cj) ws = map Inr sent"
        "sent @ pend_of (all_pend al) (ax_pm (ea_service p')) = wires al ?xs" by (auto simp: adds)
  have "length ws = length sent" using s(1) by (metis length_map)
  then have sent: "sent = wires al (take (length ws) ?xs)" using s(2)
    by (metis append_eq_conv_conj take_map wires_def)
  have xs: "\<forall>x \<in> set (take (length ws) ?xs). sendable al cj x \<and> proto_ok al AddKind (snd x) \<and> fst x \<noteq> serverID"
    using lib(2,3) not_server set_take_subset [of "length ws" ?xs] by (fastforce simp: turns_ok_def)
  from NewServerAdd_ok [OF new(2)] obtain pma where a: "ax_pm (sa_service a) = Some pma" "pm_out pma = []" by blast
  then have aready: "opt_ready al cj (ax_pm (sa_service a))" "pend_of (peer_pend al n) (ax_pm (sa_service a)) = []"
    by (simp_all add: opt_ready_def pm_ready_def pend_of_def peer_pend_def waiting_def)
  have "to_peer n (take (length ws) ?xs) = take (length ws) ?xs"
    using lib(3) set_take_subset [of "length ws" ?xs] unfolding to_peer_def by (intro filter_True) blast
  with adder_relays [OF lib(1) xs, of ws a] s(1) sent aready obtain b where
      b: "serve_frames (adder_frame al cj) ws (Some a) = Some (Some b)"
        "ax_adder (sa_service b) = ax_adder (sa_service a)" "opt_ready al cj (ax_pm (sa_service b))"
        "pend_of (peer_pend al n) (ax_pm (sa_service b)) = sent" by auto
  have "map (decode_ws_tss cj) ws2 = map (decode_ws_tss cj) ws"
    if t2: "turns_ok al cj AddKind ts2" "concat (map fst ts2) = []" "length ws \<le> length ts2"
      and run2: "TssSend_run cj (ServerAdd_GetNextMessageToSend al n) ServerAdd_emit ts2 b = (ws2, fin2, b')"
    for ts2 ws2 fin2 b'
  proof -
    have "\<forall>(feeds, t) \<in> set ts2. live t \<and> (\<forall>x \<in> set feeds. sendable al cj x)"
      using t2(1) by (auto simp: turns_ok_def)
    from server_add.run_live [OF this _ run2] b(3,4) new(3) t2(2) obtain sent2 where
        s2: "map (decode_ws_tss cj) ws2 = map Inr sent2"
          "sent2 @ pend_of (peer_pend al n) (ax_pm (sa_service b')) = sent"
          "min (length ts2) (length sent) \<le> length sent2" by auto
    have "length sent \<le> length sent2" using s2(3) t2(3) \<open>length ws = length sent\<close> by simp
    with s2(2) have "sent2 = sent" by (metis append_eq_conv_conj append_Nil2 length_append le_add1 le_antisym take_all)
    with s2(1) s(1) show ?thesis by simp
  qed
  with b(1,2) show ?thesis by blast
qed

lemma toy_adders:
  "\<exists>p. NewExistingClientAdd toy_lib toy_alice ''n'' ''c'' (dr_Pubkey toy_wallet) ''1'' toy_bks = Inr p"
  "\<exists>a. NewServerAdd toy_lib toy_alice ''n'' ''c'' (dr_Pubkey toy_wallet) ''1'' toy_bks = Inr a"
proof -
  have "NewPubkey (dr_Pubkey toy_wallet) = Inr toy_key" by (simp add: toy_recovery toy_key_def)
  then show "\<exists>p. NewExistingClientAdd toy_lib toy_alice ''n'' ''c'' (dr_Pubkey toy_wallet) ''1'' toy_bks = Inr p"
    "\<exists>a. NewServerAdd toy_lib toy_alice ''n'' ''c'' (dr_Pubkey toy_wallet) ''1'' toy_bks = Inr a"
    using toy_convert
    by (auto simp: NewExistingClientAdd_def NewServerAdd_def Let_def AddExisting_Init_def
        NewServiceAddExisting_def toy_alice_def)
qed

definition toy_device_turns :: "((string \<times> string) list \<times> tick) list" where
  "toy_device_turns =
     [([(''n'', ''x'')], \<lparr>tk_ctx_done = False, tk_server_done = False, tk_write = Inr ()\<rparr>)]"

theorem server_relays_between_devices_witness:
  "\<exists>p a ws b. NewExistingClientAdd toy_lib toy_alice ''n'' ''c'' (dr_Pubkey toy_wallet) ''1'' toy_bks = Inr p \<and>
     NewServerAdd toy_lib toy_alice ''n'' ''c'' (dr_Pubkey toy_wallet) ''1'' toy_bks = Inr a \<and>
     ws = fst (TssSend_run toy_msg_codec (ExistingClientAdd_GetNextMessageToSendAll toy_alice)
       ExistingClientAdd_emit toy_device_turns p) \<and>
     serve_frames (adder_frame toy_alice toy_msg_codec) ws (Some a) = Some (Some b)"
proof -
  obtain p a where n: "NewExistingClientAdd toy_lib toy_alice ''n'' ''c'' (dr_Pubkey toy_wallet) ''1'' toy_bks = Inr p"
      "NewServerAdd toy_lib toy_alice ''n'' ''c'' (dr_Pubkey toy_wallet) ''1'' toy_bks = Inr a"
    using toy_adders by blast
  obtain ws fin p' where run: "TssSend_run toy_msg_codec (ExistingClientAdd_GetNextMessageToSendAll toy_alice)
      ExistingClientAdd_emit toy_device_turns p = (ws, fin, p')" by (metis surj_pair)
  have "turns_ok toy_alice toy_msg_codec AddKind toy_device_turns"
    by (simp add: turns_ok_def toy_device_turns_def live_def toy_sendable toy_proto_ok)
  moreover have "\<forall>x \<in> set (concat (map fst toy_device_turns)). fst x = ''n''" by (simp add: toy_device_turns_def)
  ultimately show ?thesis
    using server_relays_between_devices [OF n _ toy_null _ _ _ run] n run by (fastforce simp: serverID_def)
qed

subsection \<open>Process\<close>

text \<open>Deriving the address of a key panics for a point off the curve, and only then once coordinates
  fit into 32 bytes.\<close>

definition marshals :: "'pt curve_lib \<Rightarrow> 'pt \<Rightarrow> bool" where
  "marshals lib P \<longleftrightarrow>
     IsOnCurve lib (GetX lib P) (GetY lib P) \<and> nat \<bar>GetX lib P\<bar> < 256 ^ 32 \<and> nat \<bar>GetY lib P\<bar> < 256 ^ 32"

lemma PostProcessResult_cases:
  "if marshals lib (pr_PublicKey r)
   then \<exists>w. PostProcessResult lib r = Ret (Inr w) \<and>
     dr_Pubkey w = GetStr \<lparr>pk_X = GetX lib (pr_PublicKey r), pk_Y = GetY lib (pr_PublicKey r)\<rparr> \<and>
     dr_Share w = big_String (pr_Share r) \<and> dr_BKs w = fmmap bk_text (pr_Bks r) \<and> dr_PeerID w = pr_PeerID r
   else \<exists>m. PostProcessResult lib r = Panic m"
  by (auto simp: marshals_def PostProcessResult_def Let_def GetAddress_def GetECDSA_def PubkeyToAddress_def
      FromECDSAPub_def ec_Marshal_def FillBytes_def slice_from_1_def)

text \<open>C19: \<open>Process\<close> of the server's DKG, when the library reports one final state at most, blocks
  exactly until that report. Then it returns an error unless the state was a success with a result;
  of a result it returns the text form, key, share and party parameters as they are, when the key
  marshals; and it panics exactly when it does not, that is for a key that is not a point of the curve
  with coordinates of 32 bytes.\<close>

theorem dkg_process_returns:
  assumes "NewServerDkg al c = Inr a"
    and "length (filter (\<lambda>ch. final_state (snd ch)) chs) \<le> 1"
  shows "\<exists>sv. run_changes Dkg_OnStateChanged chs (sd_service a) = Ret sv \<and>
     (case ServerDkg_Process lib (a\<lparr>sd_service := sv\<rparr>) of
        None \<Rightarrow> \<not> (\<exists>ch \<in> set chs. final_state (snd ch))
      | Some res \<Rightarrow> (\<exists>ch \<in> set chs. final_state (snd ch)) \<and>
          (case final_result chs of
             None \<Rightarrow> res = Ret (Inl (ErrNew ''could not get ServerDkg dkg results''))
           | Some r \<Rightarrow>
               if marshals lib (lr_PublicKey r)
               then \<exists>w. res = Ret (Inr w) \<and>
                 dr_Pubkey w = GetStr \<lparr>pk_X = GetX lib (lr_PublicKey r), pk_Y = GetY lib (lr_PublicKey r)\<rparr> \<and>
                 dr_Share w = big_String (lr_Share r) \<and> dr_BKs w = fmmap bk_text (lr_Bks r) \<and> dr_PeerID w = c
               else \<exists>m. res = Panic m))"
proof -
  from NewServerDkg_ok [OF assms(1)] have a: "\<not> dk_done (sd_service a)" "dk_result (sd_service a) = None"
      "sd_clientPeerID a = c" by auto
  from dkg_listener.run_changes_total [of chs "sd_service a"] a(1) assms(2) obtain sv where
      sv: "run_changes Dkg_OnStateChanged chs (sd_service a) = Ret sv" by auto
  have post: "if marshals lib (lr_PublicKey r)
      then \<exists>w. PostProcessResult lib \<lparr>pr_PublicKey = lr_PublicKey r, pr_Share = lr_Share r, pr_Bks = lr_Bks r, pr_PeerID = c\<rparr> = Ret (Inr w) \<and>
        dr_Pubkey w = GetStr \<lparr>pk_X = GetX lib (lr_PublicKey r), pk_Y = GetY lib (lr_PublicKey r)\<rparr> \<and>
        dr_Share w = big_String (lr_Share r) \<and> dr_BKs w = fmmap bk_text (lr_Bks r) \<and> dr_PeerID w = c
      else \<exists>m. PostProcessResult lib \<lparr>pr_PublicKey = lr_PublicKey r, pr_Share = lr_Share r, pr_Bks = lr_Bks r, pr_PeerID = c\<rparr> = Panic m"
    for r using PostProcessResult_cases [of lib "\<lparr>pr_PublicKey = lr_PublicKey r, pr_Share = lr_Share r, pr_Bks = lr_Bks r, pr_PeerID = c\<rparr>"]
    by (simp only: ProcessResult.simps)
  have out: "case ServerDkg_Process lib (a\<lparr>sd_service := sv\<rparr>) of
        None \<Rightarrow> \<not> (\<exists>ch \<in> set chs. final_state (snd ch))
      | Some res \<Rightarrow> (\<exists>ch \<in> set chs. final_state (snd ch)) \<and>
          res = (case final_result chs of
             None \<Rightarrow> Ret (Inl (ErrNew ''could not get ServerDkg dkg results''))
           | Some r \<Rightarrow> PostProcessResult lib
               \<lparr>pr_PublicKey = lr_PublicKey r, pr_Share = lr_Share r, pr_Bks = lr_Bks r, pr_PeerID = c\<rparr>)"
    using dkg_listener.run_changes_outcome [OF a(1,2) sv] a(3)
    by (auto simp: ServerDkg_Process_def split: option.split)
  show ?thesis
  proof (intro exI [of _ sv] conjI)
    show "run_changes Dkg_OnStateChanged chs (sd_service a) = Ret sv" by (rule sv)
  next
    show "case ServerDkg_Process lib (a\<lparr>sd_service := sv\<rparr>) of
        None \<Rightarrow> \<not> (\<exists>ch \<in> set chs. final_state (snd ch))
      | Some res \<Rightarrow> (\<exists>ch \<in> set chs. final_state (snd ch)) \<and>
          (case final_result chs of
             None \<Rightarrow> res = Ret (Inl (ErrNew ''could not get ServerDkg dkg results''))
           | Some r \<Rightarrow>
               if marshals lib (lr_PublicKey r)
               then \<exists>w. res = Ret (Inr w) \<and>
                 dr_Pubkey w = GetStr \<lparr>pk_X = GetX lib (lr_PublicKey r), pk_Y = GetY lib (lr_PublicKey r)\<rparr> \<and>
                 dr_Share w = big_String (lr_Share r) \<and> dr_BKs w = fmmap bk_text (lr_Bks r) \<and> dr_PeerID w = c
               else \<exists>m. res = Panic m)"
    proof (cases "final_result chs")
      case None
      with out show ?thesis by (simp split: option.splits)
    next
      case (Some r)
      with out post [of r] show ?thesis by (simp split: option.splits if_splits)
    qed
  qed
qed

theorem dkg_process_returns_witness:
  "\<exists>a sv. NewServerDkg toy_alice ''c'' = Inr a \<and>
     run_changes Dkg_OnStateChanged [(Inl ErrTimeOut, StateOther), (Inl ErrTimeOut, StateFailed)] (sd_service a) = Ret sv \<and>
     ServerDkg_Process toy_lib (a\<lparr>sd_service := sv\<rparr>) = Some (Ret (Inl (ErrNew ''could not get ServerDkg dkg results'')))"
proof -
  obtain a where a: "NewServerDkg toy_alice ''c'' = Inr a" using toy_server_new by blast
  let ?chs = "[(Inl ErrTimeOut, StateOther), (Inl ErrTimeOut, StateFailed)] :: (int lib_result result \<times> MainState) list"
  have "length (filter (\<lambda>ch. final_state (snd ch)) ?chs) \<le> 1" by (simp add: final_state_def)
  from dkg_process_returns [OF a this, of toy_lib] a show ?thesis
    by (auto simp: final_state_def split: option.split_asm)
qed

subsection \<open>The text form of a wallet\<close>

text \<open>C18: what the library's result was is what the signer and the adder read back from the
  stored text: public key, share and every Birkhoff parameter.\<close>

theorem wallet_text_round_trip:
  assumes "PostProcessResult lib r = Ret (Inr w)" and "point_coords_ok lib (pr_PublicKey r)"
  shows "\<exists>k. NewPubkey (dr_Pubkey w) = Inr k \<and>
     ConvertDKGResult lib k (dr_Share w) (dr_BKs w) =
       Inr \<lparr>lr_PublicKey = pr_PublicKey r, lr_Share = pr_Share r, lr_Bks = pr_Bks r\<rparr>"
  using assms
  by (auto simp: PostProcessResult_def Let_def point_coords_ok_def ConvertDKGResult_text GetECPoint_def
      split: go.split_asm)

theorem wallet_text_round_trip_witness:
  "\<exists>w k. PostProcessResult toy_lib \<lparr>pr_PublicKey = 5, pr_Share = 1, pr_Bks = fmempty, pr_PeerID = ''c''\<rparr> = Ret (Inr w) \<and>
     ConvertDKGResult toy_lib k (dr_Share w) (dr_BKs w) = Inr \<lparr>lr_PublicKey = 5, lr_Share = 1, lr_Bks = fmempty\<rparr>"
proof -
  let ?r = "\<lparr>pr_PublicKey = 5, pr_Share = 1, pr_Bks = fmempty, pr_PeerID = ''c''\<rparr> :: int ProcessResult"
  obtain w where w: "PostProcessResult toy_lib ?r = Ret (Inr w)"
    by (simp add: PostProcessResult_def Let_def GetAddress_def GetECDSA_def PubkeyToAddress_def FromECDSAPub_def
        ec_Marshal_def toy_lib_def FillBytes_def slice_from_1_def)
  have "point_coords_ok toy_lib (pr_PublicKey ?r)" by (simp add: point_coords_ok_def toy_lib_def)
  from wallet_text_round_trip [OF w this] w show ?thesis by auto
qed

text \<open>C24: merging the wallets of two devices succeeds exactly when key, share, address and peer
  agree, keeps the Birkhoff parameters of every peer of both, and prefers those of the second.\<close>

theorem merge_keeps_peers:
  "(case MergeDkgResults a b of
      None \<Rightarrow> (dr_Pubkey a, dr_Address a, dr_PeerID a, dr_Share a) \<noteq> (dr_Pubkey b, dr_Address b, dr_PeerID b, dr_Share b)
    | Some m \<Rightarrow>
        a = b\<lparr>dr_BKs := dr_BKs a\<rparr> \<and> m = b\<lparr>dr_BKs := dr_BKs m\<rparr> \<and>
        fmdom (dr_BKs m) = fmdom (dr_BKs a) |\<union>| fmdom (dr_BKs b) \<and>
        (\<forall>peer. fmlookup (dr_BKs m) peer =
           (case fmlookup (dr_BKs b) peer of None \<Rightarrow> fmlookup (dr_BKs a) peer | Some bk \<Rightarrow> Some bk)))"
proof (cases "MergeDkgResults a b")
  case None
  with MergeDkgResults_Some_iff [of a b "a\<lparr>dr_BKs := fmadd (dr_BKs a) (dr_BKs b)\<rparr>"] show ?thesis by auto
next
  case (Some m)
  then have "dr_Address a = dr_Address b" "dr_PeerID a = dr_PeerID b" "dr_Share a = dr_Share b"
      "dr_Pubkey a = dr_Pubkey b" "m = a\<lparr>dr_BKs := fmadd (dr_BKs a) (dr_BKs b)\<rparr>"
    by (simp_all add: MergeDkgResults_Some_iff)
  with Some show ?thesis by (auto simp: fmlookup_dom_iff split: option.split)
qed

end
