(* ===== verification/ClientLoop.thy ===== *)
theory ClientLoop
  imports ClientCalls
begin

text \<open>
  The websocket loops of the client. \<open>Dkg\<close>, \<open>RegisterDevice\<close> and \<open>AcceptDevice\<close> have the same
  three goroutines around a different actor: a reader that serves the server's messages, a
  sender (\<open>TssSend\<close>) and the calling goroutine. This theory holds the state of such a loop, the
  pieces of code that the three functions repeat, and what they have in common.
\<close>

subsection \<open>State\<close>

datatype conn_reader = CR_read | CR_start | CR_gone

datatype conn_main =
    CM_wait
  | CM_process
  | CM_done DkgResult
  | CM_check DkgResult
  | CM_stage DkgResult
  | CM_tell DkgResult
  | CM_finish DkgResult
  | CM_returned

text \<open>What the call returns: the result of the process, the metadata, the error; \<open>None\<close> is nil.\<close>

record outcome =
  oc_result :: "DkgResult option"
  oc_metadata :: string
  oc_err :: "go_error option"

definition oc_fail :: "go_error \<Rightarrow> outcome" where
  "oc_fail err = \<lparr>oc_result = None, oc_metadata = [], oc_err = Some err\<rparr>"

definition oc_nil :: outcome where
  "oc_nil = \<lparr>oc_result = None, oc_metadata = [], oc_err = None\<rparr>"

record 'a conn =
  cn_reader :: conn_reader
  cn_main :: conn_main
  cn_sender :: sender_pc
  cn_actor :: "'a option"
  cn_peer :: string
  cn_metadata :: string
  cn_stage :: "32 word"
  cn_errs :: "go_error list"
  cn_serverDone :: bool
  cn_ctx :: ctx_state
  cn_out :: "ws_msg list"
  cn_returned :: "outcome option"
  cn_crashed :: bool

text \<open>The identifier of the device has been sent when the goroutines start.\<close>

definition conn_init :: "conn_main \<Rightarrow> sender_pc \<Rightarrow> 'a option \<Rightarrow> ws_msg \<Rightarrow> 'a conn" where
  "conn_init pc sender a hello =
     \<lparr>cn_reader = CR_read, cn_main = pc, cn_sender = sender, cn_actor = a, cn_peer = [],
      cn_metadata = [], cn_stage = 0, cn_errs = [], cn_serverDone = False, cn_ctx = Ctx_live,
      cn_out = [hello], cn_returned = None, cn_crashed = False\<rparr>"

subsection \<open>Pieces of the reader\<close>

definition conn_crash :: "'a conn \<Rightarrow> 'a conn" where
  "conn_crash st = st\<lparr>cn_crashed := True\<rparr>"

definition conn_say :: "ws_msg \<Rightarrow> 'a conn \<Rightarrow> 'a conn" where
  "conn_say m st = st\<lparr>cn_out := cn_out st @ [m]\<rparr>"

definition conn_report :: "go_error \<Rightarrow> 'a conn \<Rightarrow> 'a conn option" where
  "conn_report err st =
     (case chan_send errs_cap (cn_errs st) err of
        None \<Rightarrow> None
      | Some q \<Rightarrow> Some (st\<lparr>cn_errs := q, cn_reader := CR_gone\<rparr>))"

definition conn_read_err :: "(go_error \<Rightarrow> bool) \<Rightarrow> go_error \<Rightarrow> 'a conn \<Rightarrow> 'a conn option" where
  "conn_read_err normal err st =
     (case read_failure normal (cn_ctx st) err of
        None \<Rightarrow> Some (st\<lparr>cn_reader := CR_gone\<rparr>)
      | Some e \<Rightarrow> conn_report e st)"

definition conn_late :: "ws_msg \<Rightarrow> 'a conn \<Rightarrow> bool" where
  "conn_late msg st = (cn_stage st > mt_stage (wm_Type msg))"

text \<open>A reply of the reader: a failed write is reported and ends it.\<close>

definition conn_reply :: "unit result \<Rightarrow> ws_msg \<Rightarrow> 'a conn \<Rightarrow> 'a conn option" where
  "conn_reply write m st =
     (case write of Inl err \<Rightarrow> conn_report err st | Inr _ \<Rightarrow> Some (conn_say m st))"

definition conn_close_done :: "'a conn \<Rightarrow> 'a conn" where
  "conn_close_done st = (if cn_serverDone st then conn_crash st else st\<lparr>cn_serverDone := True\<rparr>)"

text \<open>A reply and then \<open>close(serverDone)\<close>.\<close>

definition conn_reply_close :: "unit result \<Rightarrow> ws_msg \<Rightarrow> 'a conn \<Rightarrow> 'a conn option" where
  "conn_reply_close write m st =
     (case write of Inl err \<Rightarrow> conn_report err st | Inr _ \<Rightarrow> Some (conn_close_done (conn_say m st)))"

definition conn_tss ::
  "'m tss_msg codec \<Rightarrow> ('a option \<Rightarrow> 'm tss_msg \<Rightarrow> (unit result \<times> 'a option) go) \<Rightarrow> ws_msg
     \<Rightarrow> 'a conn \<Rightarrow> 'a conn option" where
  "conn_tss cj handle msg st =
     (if conn_late msg st then Some st
      else
        (case handle_ws_tss cj handle msg (cn_actor st) of
           Panic m \<Rightarrow> Some (conn_crash st)
         | Ret (Inl err, a) \<Rightarrow> conn_report err (st\<lparr>cn_actor := a\<rparr>)
         | Ret (Inr _, a) \<Rightarrow> Some (st\<lparr>cn_actor := a\<rparr>)))"

subsection \<open>Pieces of the calling goroutine\<close>

text \<open>The rendezvous on \<open>startTss\<close>, after which the sender runs.\<close>

definition conn_start :: "'a conn \<Rightarrow> 'a conn option" where
  "conn_start st =
     (if cn_main st = CM_wait \<and> cn_reader st = CR_start
      then Some (st\<lparr>cn_main := CM_process, cn_reader := CR_read, cn_sender := Sender_on\<rparr>)
      else None)"

definition conn_return :: "outcome \<Rightarrow> 'a conn \<Rightarrow> 'a conn" where
  "conn_return oc st =
     st\<lparr>cn_main := CM_returned, cn_returned := Some oc, cn_ctx := cancel_ctx (cn_ctx st)\<rparr>"

text \<open>
  A failed process is put on \<open>errs\<close>, which blocks when both goroutines have reported an error,
  and the call then returns nil for the error too.
\<close>

definition conn_process ::
  "('a \<Rightarrow> DkgResult result go option) \<Rightarrow> (DkgResult \<Rightarrow> conn_main) \<Rightarrow> 'a conn \<Rightarrow> 'a conn option" where
  "conn_process process pc st =
     (case cn_actor st of
        None \<Rightarrow> Some (conn_crash st)
      | Some a \<Rightarrow>
          (case process a of
             None \<Rightarrow> None
           | Some (Panic m) \<Rightarrow> Some (conn_crash st)
           | Some (Ret (Inl err)) \<Rightarrow>
               (case chan_send errs_cap (cn_errs st) err of
                  None \<Rightarrow> None
                | Some q \<Rightarrow> Some (conn_return oc_nil (st\<lparr>cn_errs := q\<rparr>)))
           | Some (Ret (Inr r)) \<Rightarrow> Some (st\<lparr>cn_main := pc r\<rparr>)))"

definition conn_check ::
  "(go_error \<Rightarrow> bool) \<Rightarrow> DkgResult \<Rightarrow> 'a conn \<Rightarrow> 'a conn option" where
  "conn_check normal r st =
     (case ProcessErrors normal (cn_ctx st = Ctx_canceled) (cn_errs st) of
        (Some err, q) \<Rightarrow> Some (conn_return (oc_fail err) (st\<lparr>cn_errs := q\<rparr>))
      | (None, q) \<Rightarrow> Some (st\<lparr>cn_errs := q, cn_main := CM_stage r\<rparr>))"

definition conn_set_stage :: "(DkgResult \<Rightarrow> conn_main) \<Rightarrow> DkgResult \<Rightarrow> 'a conn \<Rightarrow> 'a conn option" where
  "conn_set_stage pc r st = Some (st\<lparr>cn_stage := 40, cn_main := pc r\<rparr>)"

text \<open>\<open><-serverDone\<close>, then \<open>cancel\<close> and the normal closure.\<close>

definition conn_finish :: "(DkgResult \<Rightarrow> 'a conn \<Rightarrow> outcome) \<Rightarrow> DkgResult \<Rightarrow> 'a conn \<Rightarrow> 'a conn option" where
  "conn_finish result r st = (if cn_serverDone st then Some (conn_return (result r st) st) else None)"

definition oc_wallet :: "DkgResult \<Rightarrow> 'a conn \<Rightarrow> outcome" where
  "oc_wallet r st = \<lparr>oc_result = Some r, oc_metadata = cn_metadata st, oc_err = None\<rparr>"

subsection \<open>Sender and clock\<close>

definition conn_send ::
  "'m tss_msg codec \<Rightarrow> ('a \<Rightarrow> ('m tss_msg result \<times> 'a) go) \<Rightarrow> unit result \<Rightarrow> 'a conn \<Rightarrow> 'a conn option" where
  "conn_send cj next write st =
     (if cn_sender st \<noteq> Sender_on then None
      else
        (case cn_actor st of
           None \<Rightarrow> Some (conn_crash st)
         | Some a \<Rightarrow>
             (case TssSend_turn cj next
                     \<lparr>tk_ctx_done = (cn_ctx st \<noteq> Ctx_live), tk_server_done = cn_serverDone st,
                      tk_write = write\<rparr> a of
                (Again w, b) \<Rightarrow>
                  Some (st\<lparr>cn_actor := Some b,
                           cn_out := cn_out st @ (case w of None \<Rightarrow> [] | Some m \<Rightarrow> [m])\<rparr>)
              | (Stop None, b) \<Rightarrow> Some (st\<lparr>cn_actor := Some b, cn_sender := Sender_gone\<rparr>)
              | (Stop (Some err), b) \<Rightarrow>
                  (case chan_send errs_cap (cn_errs st) err of
                     None \<Rightarrow> None
                   | Some q \<Rightarrow> Some (st\<lparr>cn_actor := Some b, cn_errs := q, cn_sender := Sender_gone\<rparr>))
              | (Crash m, b) \<Rightarrow> Some (conn_crash st))))"

definition conn_timeout :: "'a conn \<Rightarrow> 'a conn option" where
  "conn_timeout st = (if cn_ctx st = Ctx_live then Some (st\<lparr>cn_ctx := Ctx_timeout\<rparr>) else None)"

text \<open>The library works on the actor once the process runs.\<close>

definition conn_engine :: "('a \<Rightarrow> 'a go) \<Rightarrow> 'a conn \<Rightarrow> 'a conn option" where
  "conn_engine f st =
     (case cn_actor st of
        None \<Rightarrow> None
      | Some a \<Rightarrow>
          if cn_main st = CM_wait then None
          else (case f a of Panic m \<Rightarrow> Some (conn_crash st) | Ret b \<Rightarrow> Some (st\<lparr>cn_actor := Some b\<rparr>)))"

subsection \<open>Runs\<close>

text \<open>
  The functions a loop is made of, and its events. \<open>co_engine\<close> gives what an action of the
  library does to the actor.
\<close>

datatype ('m, 'pt) engine_event = En_emit string 'm | En_state "'pt lib_result result" MainState

record ('m, 'pt, 'a) conn_ops =
  co_read :: "ws_msg \<Rightarrow> unit result \<Rightarrow> 'a conn \<Rightarrow> 'a conn option"
  co_main :: "unit result \<Rightarrow> 'a conn \<Rightarrow> 'a conn option"
  co_next :: "'a \<Rightarrow> ('m tss_msg result \<times> 'a) go"
  co_engine :: "('m, 'pt) engine_event \<Rightarrow> 'a \<Rightarrow> 'a go"

datatype ('m, 'pt) conn_event =
    Ce_read read_event
  | Ce_start
  | Ce_main "unit result"
  | Ce_send "unit result"
  | Ce_engine "('m, 'pt) engine_event"
  | Ce_timeout

fun conn_step ::
  "('m, 'e, 'pt, 'pl) env \<Rightarrow> ('m, 'pt, 'a) conn_ops \<Rightarrow> ('m, 'pt) conn_event \<Rightarrow> 'a conn \<Rightarrow> 'a conn option" where
  "conn_step E ops ev st =
     (if cn_crashed st then None
      else
        (case ev of
           Ce_read (ReadErr err) \<Rightarrow>
             if cn_reader st = CR_read then conn_read_err (en_normal E) err st else None
         | Ce_read (ReadMsg msg write) \<Rightarrow>
             if cn_reader st = CR_read then co_read ops msg write st else None
         | Ce_start \<Rightarrow> conn_start st
         | Ce_main write \<Rightarrow> co_main ops write st
         | Ce_send write \<Rightarrow> conn_send (en_msg E) (co_next ops) write st
         | Ce_engine x \<Rightarrow> conn_engine (co_engine ops x) st
         | Ce_timeout \<Rightarrow> conn_timeout st))"

inductive conn_reach ::
  "('m, 'e, 'pt, 'pl) env \<Rightarrow> ('m, 'pt, 'a) conn_ops \<Rightarrow> 'a conn \<Rightarrow> 'a conn \<Rightarrow> bool"
  for E ops st0 where
  conn_reach_init: "conn_reach E ops st0 st0"
| conn_reach_step:
    "conn_reach E ops st0 st \<Longrightarrow> conn_step E ops ev st = Some st' \<Longrightarrow> conn_reach E ops st0 st'"

end
