(* ===== verification/DeviceLink.thy ===== *)
theory DeviceLink
  imports HandlerCommon
begin

text \<open>
  How the two handlers of the multi-device process of \<open>server/tss_add.go\<close> find each other: the
  registering handler creates eight channels and puts them into the cache under keys made of
  the user identifier; the accepting one takes them from there (\<open>GetInterHandlersChannels\<close>). A
  channel is a number here, its content is part of the state of the handlers.
\<close>

record channels =
  ch_newClientPeerId :: nat
  ch_existingClientPeerId :: nat
  ch_useragent :: nat
  ch_metadata :: nat
  ch_adder :: nat
  ch_existingDeviceTssDone :: nat
  ch_newDeviceDone :: nat
  ch_existingDeviceDone :: nat

definition register_channels ::
  "'c cache_lib \<Rightarrow> string \<Rightarrow> channels \<Rightarrow> 'c \<Rightarrow> 'c" where
  "register_channels cl userId ch c =
     fold (\<lambda>(suffix, v). Set cl (userId @ suffix) v)
       [(''-newclientpeeridch'', CvChanString (ch_newClientPeerId ch)),
        (''-existingclientpeeridch'', CvChanString (ch_existingClientPeerId ch)),
        (''-useragentch'', CvChanString (ch_useragent ch)),
        (''-metadatach'', CvChanString (ch_metadata ch)),
        (''-adderch'', CvChanAdder (ch_adder ch)),
        (''-existingdevicetssdonech'', CvChanUnit (ch_existingDeviceTssDone ch)),
        (''-newdevicedonech'', CvChanUnit (ch_newDeviceDone ch)),
        (''-existingdevicedonech'', CvChanUnit (ch_existingDeviceDone ch))] c"

text \<open>A lookup with a type assertion, for each type of channel.\<close>

definition err_no_channel :: go_error where "err_no_channel = ErrNew ''channel not found''"
definition err_wrong_channel :: go_error where "err_wrong_channel = ErrNew ''wrong channel''"

definition get_string_chan :: "'c cache_lib \<Rightarrow> string \<Rightarrow> 'c \<Rightarrow> nat result" where
  "get_string_chan cl k c =
     (case Get cl k c of
        None \<Rightarrow> Inl err_no_channel
      | Some v \<Rightarrow> (case v of CvChanString i \<Rightarrow> Inr i | _ \<Rightarrow> Inl err_wrong_channel))"

definition get_adder_chan :: "'c cache_lib \<Rightarrow> string \<Rightarrow> 'c \<Rightarrow> nat result" where
  "get_adder_chan cl k c =
     (case Get cl k c of
        None \<Rightarrow> Inl err_no_channel
      | Some v \<Rightarrow> (case v of CvChanAdder i \<Rightarrow> Inr i | _ \<Rightarrow> Inl err_wrong_channel))"

definition get_unit_chan :: "'c cache_lib \<Rightarrow> string \<Rightarrow> 'c \<Rightarrow> nat result" where
  "get_unit_chan cl k c =
     (case Get cl k c of
        None \<Rightarrow> Inl err_no_channel
      | Some v \<Rightarrow> (case v of CvChanUnit i \<Rightarrow> Inr i | _ \<Rightarrow> Inl err_wrong_channel))"

definition GetInterHandlersChannels ::
  "'c cache_lib \<Rightarrow> string \<Rightarrow> 'c \<Rightarrow> channels result" where
  "GetInterHandlersChannels cl userId c =
     (case get_string_chan cl (userId @ ''-newclientpeeridch'') c of Inl e \<Rightarrow> Inl e | Inr n1 \<Rightarrow>
     (case get_string_chan cl (userId @ ''-existingclientpeeridch'') c of Inl e \<Rightarrow> Inl e | Inr n2 \<Rightarrow>
     (case get_string_chan cl (userId @ ''-useragentch'') c of Inl e \<Rightarrow> Inl e | Inr n3 \<Rightarrow>
     (case get_string_chan cl (userId @ ''-metadatach'') c of Inl e \<Rightarrow> Inl e | Inr n4 \<Rightarrow>
     (case get_adder_chan cl (userId @ ''-adderch'') c of Inl e \<Rightarrow> Inl e | Inr n5 \<Rightarrow>
     (case get_unit_chan cl (userId @ ''-existingdevicetssdonech'') c of Inl e \<Rightarrow> Inl e | Inr n6 \<Rightarrow>
     (case get_unit_chan cl (userId @ ''-newdevicedonech'') c of Inl e \<Rightarrow> Inl e | Inr n7 \<Rightarrow>
     (case get_unit_chan cl (userId @ ''-existingdevicedonech'') c of Inl e \<Rightarrow> Inl e | Inr n8 \<Rightarrow>
        Inr \<lparr>ch_newClientPeerId = n1, ch_existingClientPeerId = n2, ch_useragent = n3,
             ch_metadata = n4, ch_adder = n5, ch_existingDeviceTssDone = n6,
             ch_newDeviceDone = n7, ch_existingDeviceDone = n8\<rparr>))))))))"

text \<open>The entries of both handlers, before their websockets.\<close>

definition RegisterDeviceHandler_entry ::
  "('m, 'e, 'pt, 'pl) env \<Rightarrow> Config \<Rightarrow> 'c cache_lib \<Rightarrow> channels \<Rightarrow> request \<Rightarrow> ctx \<Rightarrow> 'c
     \<Rightarrow> (response + string) \<times> 'c" where
  "RegisterDeviceHandler_entry E cfg cl ch r c cache =
     (case c ''userId'' of
        None \<Rightarrow> (Inl (http_Error ''Authorization info not found'' StatusUnauthorized), cache)
      | Some userId \<Rightarrow>
          (case ws_open E cfg r of
             Inl resp \<Rightarrow> (Inl resp, cache)
           | Inr _ \<Rightarrow> (Inr userId, register_channels cl userId ch cache)))"

definition AcceptDeviceHandler_entry ::
  "('m, 'e, 'pt, 'pl) env \<Rightarrow> Config \<Rightarrow> 'c cache_lib \<Rightarrow> request \<Rightarrow> ctx \<Rightarrow> 'c
     \<Rightarrow> response + string \<times> channels" where
  "AcceptDeviceHandler_entry E cfg cl r c cache =
     (case c ''userId'' of
        None \<Rightarrow> Inl (http_Error ''Authorization info not found'' StatusUnauthorized)
      | Some userId \<Rightarrow>
          (case GetInterHandlersChannels cl userId cache of
             Inl err \<Rightarrow> Inl (http_Error ''Channel not found'' StatusUnauthorized)
           | Inr ch \<Rightarrow>
               (case ws_open E cfg r of
                  Inl resp \<Rightarrow> Inl resp
                | Inr _ \<Rightarrow> Inr (userId, ch))))"

subsection \<open>Keys of different users\<close>

definition link_suffixes :: "string list" where
  "link_suffixes =
     [''-newclientpeeridch'', ''-existingclientpeeridch'', ''-useragentch'', ''-metadatach'',
      ''-adderch'', ''-existingdevicetssdonech'', ''-newdevicedonech'', ''-existingdevicedonech'']"

text \<open>A suffix is a dash followed by letters, so the user identifier is what precedes the last dash.\<close>

lemma suffix_form:
  "s \<in> set link_suffixes \<Longrightarrow> \<exists>t. s = CHR ''-'' # t \<and> CHR ''-'' \<notin> set t"
  by (auto simp: link_suffixes_def)

lemma dash_split:
  "u @ CHR ''-'' # t = u' @ CHR ''-'' # t' \<Longrightarrow> CHR ''-'' \<notin> set t \<Longrightarrow> CHR ''-'' \<notin> set t' \<Longrightarrow> u = u' \<and> t = t'"
proof (induction u arbitrary: u')
  case Nil
  then show ?case by (cases u') auto
next
  case (Cons a u)
  then show ?case by (cases u') auto
qed

lemma link_key_inj:
  "u @ s = u' @ s' \<Longrightarrow> s \<in> set link_suffixes \<Longrightarrow> s' \<in> set link_suffixes \<Longrightarrow> u = u' \<and> s = s'"
  using suffix_form dash_split by metis

lemma register_channels_other:
  "cache_ok cl \<Longrightarrow> \<forall>s \<in> set link_suffixes. k \<noteq> userId @ s \<Longrightarrow>
     Get cl k (register_channels cl userId ch c) = Get cl k c"
  by (simp add: register_channels_def cache_okD link_suffixes_def)

lemma register_channels_own:
  assumes "cache_ok cl"
  shows "GetInterHandlersChannels cl userId (register_channels cl userId ch c) = Inr ch"
  by (simp add: GetInterHandlersChannels_def register_channels_def get_string_chan_def
      get_adder_chan_def get_unit_chan_def cache_okD [OF assms])

lemma GetInterHandlersChannels_cong:
  assumes "\<And>s. s \<in> set link_suffixes \<Longrightarrow> Get cl (u @ s) c = Get cl (u @ s) c'"
  shows "GetInterHandlersChannels cl u c = GetInterHandlersChannels cl u c'"
proof -
  have "\<forall>s \<in> set link_suffixes. Get cl (u @ s) c = Get cl (u @ s) c'" using assms by blast
  note g = this [unfolded link_suffixes_def, simplified]
  show ?thesis
    by (simp add: GetInterHandlersChannels_def get_string_chan_def get_adder_chan_def
        get_unit_chan_def g cong: sum.case_cong)
qed

lemma register_channels_others:
  assumes "cache_ok cl" and "u' \<noteq> userId"
  shows "GetInterHandlersChannels cl u' (register_channels cl userId ch c) = GetInterHandlersChannels cl u' c"
proof (rule GetInterHandlersChannels_cong)
  fix s assume "s \<in> set link_suffixes"
  then have "\<forall>s' \<in> set link_suffixes. u' @ s \<noteq> userId @ s'"
    using assms(2) link_key_inj by blast
  then show "Get cl (u' @ s) (register_channels cl userId ch c) = Get cl (u' @ s) c"
    by (rule register_channels_other [OF assms(1)])
qed

end
