(* ===== verification/AddHandlers.thy ===== *)
theory AddHandlers
  imports DeviceLink
begin

text \<open>
  \<open>RegisterDeviceHandler\<close> and \<open>AcceptDeviceHandler\<close> of \<open>server/tss_add.go\<close>, running together
  for one user. Each has a main goroutine, a reader and a sender; they share eight channels of
  capacity one and the adder, which the registering side creates and passes by pointer (an
  index into \<open>ad_heap\<close>). Every send, receive and write is a step of its own, so the steps of
  the six goroutines interleave freely; a blocked step is \<open>None\<close>.
\<close>

subsection \<open>State\<close>

record PublicWallet =
  pw_PublicKey :: PubkeyStr
  pw_BKs :: BKs

datatype reg_reader =
    RR_read
  | RR_peer_send
  | RR_peer_recv
  | RR_peer_agent
  | RR_peer_write
  | RR_metadata string
  | RR_retrieve string
  | RR_adder DkgResult
  | RR_pubkey DkgResult
  | RR_offer
  | RR_stage
  | RR_stored
  | RR_gone

datatype reg_main =
    RM_wait | RM_tss | RM_check | RM_stage | RM_existing | RM_metadata | RM_done | RM_write
  | RM_close | RM_closed | RM_failed

record register_state =
  rg_reader :: reg_reader
  rg_main :: reg_main
  rg_sender :: sender_pc
  rg_adder :: "nat option"
  rg_newPeer :: string
  rg_existingPeer :: string
  rg_metadata :: string
  rg_stage :: "32 word"
  rg_errs :: "go_error list"
  rg_ctx :: ctx_state
  rg_serverDone :: bool
  rg_out :: "ws_msg list"

datatype acc_reader =
    AR_read
  | AR_peer_send
  | AR_peer_recv
  | AR_peer_write
  | AR_metadata
  | AR_adder
  | AR_ack
  | AR_offer
  | AR_stage
  | AR_tss_done
  | AR_device_done
  | AR_close
  | AR_gone

datatype acc_main =
    AM_wait
  | AM_original
  | AM_process DkgResult
  | AM_merge DkgResult DkgResult
  | AM_agent DkgResult
  | AM_store DkgResult string
  | AM_tss
  | AM_check
  | AM_stage
  | AM_new_done
  | AM_write
  | AM_done
  | AM_closed
  | AM_failed

record accept_state =
  ac_reader :: acc_reader
  ac_main :: acc_main
  ac_sender :: sender_pc
  ac_adder :: "nat option"
  ac_newPeer :: string
  ac_existingPeer :: string
  ac_metadata :: string
  ac_stage :: "32 word"
  ac_errs :: "go_error list"
  ac_ctx :: ctx_state
  ac_serverDone :: bool
  ac_out :: "ws_msg list"

record link =
  lk_newPeer :: "string list"
  lk_existingPeer :: "string list"
  lk_agent :: "string list"
  lk_metadata :: "string list"
  lk_adder :: "nat list"
  lk_existing_tss_done :: "unit list"
  lk_new_done :: "unit list"
  lk_existing_done :: "unit list"

record ('m, 'e, 'pt) add_state =
  ad_reg :: register_state
  ad_acc :: accept_state
  ad_link :: link
  ad_heap :: "('m, 'e, 'pt) ServerAdd list"
  ad_db :: db
  ad_device :: "string option"
  ad_crashed :: bool

definition add_init :: "db \<Rightarrow> ('m, 'e, 'pt) add_state" where
  "add_init d =
     \<lparr>ad_reg = \<lparr>rg_reader = RR_read, rg_main = RM_wait, rg_sender = Sender_off, rg_adder = None,
         rg_newPeer = [], rg_existingPeer = [], rg_metadata = [], rg_stage = 0, rg_errs = [],
         rg_ctx = Ctx_live, rg_serverDone = False, rg_out = []\<rparr>,
      ad_acc = \<lparr>ac_reader = AR_read, ac_main = AM_wait, ac_sender = Sender_off, ac_adder = None,
         ac_newPeer = [], ac_existingPeer = [], ac_metadata = [], ac_stage = 0, ac_errs = [],
         ac_ctx = Ctx_live, ac_serverDone = False, ac_out = []\<rparr>,
      ad_link = \<lparr>lk_newPeer = [], lk_existingPeer = [], lk_agent = [], lk_metadata = [],
         lk_adder = [], lk_existing_tss_done = [], lk_new_done = [], lk_existing_done = []\<rparr>,
      ad_heap = [], ad_db = d, ad_device = None, ad_crashed = False\<rparr>"

definition set_reg :: "('m, 'e, 'pt) add_state \<Rightarrow> register_state \<Rightarrow> ('m, 'e, 'pt) add_state" where
  "set_reg st r = st\<lparr>ad_reg := r\<rparr>"

definition set_acc :: "('m, 'e, 'pt) add_state \<Rightarrow> accept_state \<Rightarrow> ('m, 'e, 'pt) add_state" where
  "set_acc st a = st\<lparr>ad_acc := a\<rparr>"

definition add_crash :: "('m, 'e, 'pt) add_state \<Rightarrow> ('m, 'e, 'pt) add_state" where
  "add_crash st = st\<lparr>ad_crashed := True\<rparr>"

text \<open>A method call on the adder that a goroutine's pointer refers to.\<close>

definition adder_at :: "('m, 'e, 'pt) add_state \<Rightarrow> nat option \<Rightarrow> ('m, 'e, 'pt) ServerAdd option" where
  "adder_at st p =
     (case p of None \<Rightarrow> None | Some i \<Rightarrow> if i < length (ad_heap st) then Some (ad_heap st ! i) else None)"

definition put_adder ::
  "nat option \<Rightarrow> ('m, 'e, 'pt) ServerAdd option \<Rightarrow> ('m, 'e, 'pt) add_state \<Rightarrow> ('m, 'e, 'pt) add_state" where
  "put_adder p a st =
     (case (p, a) of (Some i, Some x) \<Rightarrow> st\<lparr>ad_heap := (ad_heap st)[i := x]\<rparr> | _ \<Rightarrow> st)"

definition handle_at ::
  "('m, 'e, 'pt, 'pl) env \<Rightarrow> nat option \<Rightarrow> ws_msg \<Rightarrow> ('m, 'e, 'pt) add_state
     \<Rightarrow> (unit result \<times> ('m, 'e, 'pt) add_state) go" where
  "handle_at E p msg st =
     (case handle_ws_tss (en_msg E) (ServerAdd_HandleMessage (en_al E)) msg (adder_at st p) of
        Panic m \<Rightarrow> Panic m
      | Ret (r, a) \<Rightarrow> Ret (r, put_adder p a st))"

subsection \<open>The reader of the registering device\<close>

definition reg_goto :: "reg_reader \<Rightarrow> ('m, 'e, 'pt) add_state \<Rightarrow> ('m, 'e, 'pt) add_state" where
  "reg_goto pc st = set_reg st ((ad_reg st)\<lparr>rg_reader := pc\<rparr>)"

definition reg_report :: "go_error \<Rightarrow> ('m, 'e, 'pt) add_state \<Rightarrow> ('m, 'e, 'pt) add_state option" where
  "reg_report err st =
     (case chan_send errs_cap (rg_errs (ad_reg st)) err of
        None \<Rightarrow> None
      | Some q \<Rightarrow> Some (set_reg st ((ad_reg st)\<lparr>rg_errs := q, rg_reader := RR_gone\<rparr>)))"

definition reg_say :: "ws_msg \<Rightarrow> ('m, 'e, 'pt) add_state \<Rightarrow> ('m, 'e, 'pt) add_state" where
  "reg_say m st = set_reg st ((ad_reg st)\<lparr>rg_out := rg_out (ad_reg st) @ [m]\<rparr>)"

definition reg_read_err ::
  "('m, 'e, 'pt, 'pl) env \<Rightarrow> go_error \<Rightarrow> ('m, 'e, 'pt) add_state \<Rightarrow> ('m, 'e, 'pt) add_state option" where
  "reg_read_err E err st =
     (case read_failure (en_normal E) (rg_ctx (ad_reg st)) err of
        None \<Rightarrow> Some (reg_goto RR_gone st)
      | Some e \<Rightarrow> reg_report e st)"

definition reg_on_peer :: "ws_msg \<Rightarrow> ('m, 'e, 'pt) add_state \<Rightarrow> ('m, 'e, 'pt) add_state option" where
  "reg_on_peer msg st =
     (if rg_stage (ad_reg st) > mt_stage (wm_Type msg) then Some st
      else Some (set_reg st ((ad_reg st)\<lparr>rg_newPeer := wm_Msg msg, rg_reader := RR_peer_send\<rparr>)))"

definition reg_on_device :: "ws_msg \<Rightarrow> ('m, 'e, 'pt) add_state \<Rightarrow> ('m, 'e, 'pt) add_state option" where
  "reg_on_device msg st =
     (if rg_stage (ad_reg st) > mt_stage (wm_Type msg) then Some st
      else Some (reg_goto (RR_metadata (wm_Msg msg)) st))"

definition reg_on_tss ::
  "('m, 'e, 'pt, 'pl) env \<Rightarrow> ws_msg \<Rightarrow> ('m, 'e, 'pt) add_state \<Rightarrow> ('m, 'e, 'pt) add_state option" where
  "reg_on_tss E msg st =
     (if rg_stage (ad_reg st) > mt_stage (wm_Type msg) then Some st
      else
        (case handle_at E (rg_adder (ad_reg st)) msg st of
           Panic m \<Rightarrow> Some (add_crash st)
         | Ret (Inl err, st') \<Rightarrow> reg_report err st'
         | Ret (Inr _, st') \<Rightarrow> Some st'))"

definition reg_on_other ::
  "unit result \<Rightarrow> ('m, 'e, 'pt) add_state \<Rightarrow> ('m, 'e, 'pt) add_state option" where
  "reg_on_other write st =
     (case write of Inl err \<Rightarrow> reg_report err st | Inr _ \<Rightarrow> Some (reg_say unexpected_msg st))"

definition reg_on_stored :: "('m, 'e, 'pt) add_state \<Rightarrow> ('m, 'e, 'pt) add_state option" where
  [simp]: "reg_on_stored st = Some (reg_goto RR_stored st)"

definition reg_read ::
  "('m, 'e, 'pt, 'pl) env \<Rightarrow> read_event \<Rightarrow> ('m, 'e, 'pt) add_state \<Rightarrow> ('m, 'e, 'pt) add_state option" where
  "reg_read E ev st =
     (if rg_reader (ad_reg st) \<noteq> RR_read then None
      else
        (case ev of
           ReadErr err \<Rightarrow> reg_read_err E err st
         | ReadMsg msg write \<Rightarrow>
             if wm_Type msg = PeerIdBroadcastMessage then reg_on_peer msg st
             else if wm_Type msg = DeviceMessage then reg_on_device msg st
             else if wm_Type msg = TssMessage then reg_on_tss E msg st
             else if wm_Type msg = EverythingStoredClientMessage then reg_on_stored st
             else reg_on_other write st))"

text \<open>Exchange of the peer identifiers with the accepting side.\<close>

definition reg_peer_step ::
  "string \<Rightarrow> unit result \<Rightarrow> ('m, 'e, 'pt) add_state \<Rightarrow> ('m, 'e, 'pt) add_state option" where
  "reg_peer_step userAgent write st =
     (case rg_reader (ad_reg st) of
        RR_peer_send \<Rightarrow>
          (case chan_send 1 (lk_newPeer (ad_link st)) (rg_newPeer (ad_reg st)) of
             None \<Rightarrow> None
           | Some q \<Rightarrow> Some (reg_goto RR_peer_recv (st\<lparr>ad_link := (ad_link st)\<lparr>lk_newPeer := q\<rparr>\<rparr>)))
      | RR_peer_recv \<Rightarrow>
          (case chan_recv (lk_existingPeer (ad_link st)) of
             None \<Rightarrow> None
           | Some (p, q) \<Rightarrow>
               Some (set_reg (st\<lparr>ad_link := (ad_link st)\<lparr>lk_existingPeer := q\<rparr>\<rparr>)
                       ((ad_reg st)\<lparr>rg_existingPeer := p, rg_reader := RR_peer_agent\<rparr>)))
      | RR_peer_agent \<Rightarrow>
          (case chan_send 1 (lk_agent (ad_link st)) userAgent of
             None \<Rightarrow> None
           | Some q \<Rightarrow> Some (reg_goto RR_peer_write (st\<lparr>ad_link := (ad_link st)\<lparr>lk_agent := q\<rparr>\<rparr>)))
      | RR_peer_write \<Rightarrow>
          (case write of
             Inl err \<Rightarrow> reg_report err st
           | Inr _ \<Rightarrow>
               Some (reg_goto RR_read
                       (reg_say (ws_message PeerIdBroadcastMessage (rg_existingPeer (ad_reg st))) st)))
      | _ \<Rightarrow> None)"

text \<open>
  The new device: metadata from the other side, the wallet, the adder. When the wallet or the
  adder cannot be had, the reader returns without reporting an error.
\<close>

definition reg_take_metadata :: "string \<Rightarrow> ('m, 'e, 'pt) add_state \<Rightarrow> ('m, 'e, 'pt) add_state option" where
  "reg_take_metadata device st =
     (case chan_recv (lk_metadata (ad_link st)) of
        None \<Rightarrow> None
      | Some (m, q) \<Rightarrow>
          Some (set_reg (st\<lparr>ad_link := (ad_link st)\<lparr>lk_metadata := q\<rparr>\<rparr>)
                  ((ad_reg st)\<lparr>rg_metadata := m, rg_reader := RR_retrieve device\<rparr>)))"

definition reg_make_adder ::
  "('m, 'e, 'pt, 'pl) env \<Rightarrow> string \<Rightarrow> go_error option \<Rightarrow> nat \<Rightarrow> string \<Rightarrow> ('m, 'e, 'pt) add_state
     \<Rightarrow> ('m, 'e, 'pt) add_state option" where
  "reg_make_adder E userId fault pick device st =
     (case RetrieveWallet (en_wallet E) (en_aead E) fault pick (Some (rg_metadata (ad_reg st))) userId (ad_db st) of
        Panic m \<Rightarrow> Some (add_crash st)
      | Ret (Inl err) \<Rightarrow> Some (reg_goto RR_gone st)
      | Ret (Inr w) \<Rightarrow>
          (case NewServerAdd (en_lib E) (en_al E) (rg_newPeer (ad_reg st)) (rg_existingPeer (ad_reg st))
                  (dr_Pubkey w) (dr_Share w) (dr_BKs w) of
             Inl err \<Rightarrow> Some (reg_goto RR_gone (set_reg st ((ad_reg st)\<lparr>rg_adder := None\<rparr>)))
           | Inr adder \<Rightarrow>
               Some (set_reg
                       (st\<lparr>ad_heap := ad_heap st @ [adder], ad_device := Some device\<rparr>)
                       ((ad_reg st)\<lparr>rg_adder := Some (length (ad_heap st)), rg_reader := RR_adder w\<rparr>))))"

definition reg_pass_adder :: "DkgResult \<Rightarrow> ('m, 'e, 'pt) add_state \<Rightarrow> ('m, 'e, 'pt) add_state option" where
  "reg_pass_adder w st =
     (case rg_adder (ad_reg st) of
        None \<Rightarrow> None
      | Some i \<Rightarrow>
          (case chan_send 1 (lk_adder (ad_link st)) i of
             None \<Rightarrow> None
           | Some q \<Rightarrow> Some (reg_goto (RR_pubkey w) (st\<lparr>ad_link := (ad_link st)\<lparr>lk_adder := q\<rparr>\<rparr>))))"

definition reg_send_pubkey ::
  "PublicWallet codec \<Rightarrow> unit result \<Rightarrow> DkgResult \<Rightarrow> ('m, 'e, 'pt) add_state
     \<Rightarrow> ('m, 'e, 'pt) add_state option" where
  "reg_send_pubkey cpw write w st =
     (case Marshal cpw \<lparr>pw_PublicKey = dr_Pubkey w, pw_BKs = dr_BKs w\<rparr> of
        Inl err \<Rightarrow> reg_report err st
      | Inr walletJSON \<Rightarrow>
          (case write of
             Inl err \<Rightarrow> reg_report err st
           | Inr _ \<Rightarrow>
               Some (reg_goto RR_offer (reg_say (ws_message PubkeyMessage (hex_encode walletJSON)) st))))"

definition reg_device_step ::
  "('m, 'e, 'pt, 'pl) env \<Rightarrow> PublicWallet codec \<Rightarrow> string \<Rightarrow> go_error option \<Rightarrow> nat \<Rightarrow> unit result
     \<Rightarrow> ('m, 'e, 'pt) add_state \<Rightarrow> ('m, 'e, 'pt) add_state option" where
  "reg_device_step E cpw userId fault pick write st =
     (case rg_reader (ad_reg st) of
        RR_metadata device \<Rightarrow> reg_take_metadata device st
      | RR_retrieve device \<Rightarrow> reg_make_adder E userId fault pick device st
      | RR_adder w \<Rightarrow> reg_pass_adder w st
      | RR_pubkey w \<Rightarrow> reg_send_pubkey cpw write w st
      | RR_stage \<Rightarrow> Some (set_reg st ((ad_reg st)\<lparr>rg_stage := 30, rg_reader := RR_read\<rparr>))
      | RR_stored \<Rightarrow>
          (case chan_send 1 (lk_new_done (ad_link st)) () of
             None \<Rightarrow> None
           | Some q \<Rightarrow> Some (reg_goto RR_read (st\<lparr>ad_link := (ad_link st)\<lparr>lk_new_done := q\<rparr>\<rparr>)))
      | _ \<Rightarrow> None)"

subsection \<open>The main goroutine of the registering device\<close>

definition reg_start :: "('m, 'e, 'pt) add_state \<Rightarrow> ('m, 'e, 'pt) add_state option" where
  "reg_start st =
     (if rg_main (ad_reg st) = RM_wait \<and> rg_reader (ad_reg st) = RR_offer
      then Some (set_reg st ((ad_reg st)\<lparr>rg_main := RM_tss, rg_reader := RR_stage, rg_sender := Sender_on\<rparr>))
      else None)"

definition reg_return :: "reg_main \<Rightarrow> ('m, 'e, 'pt) add_state \<Rightarrow> ('m, 'e, 'pt) add_state" where
  "reg_return pc st = set_reg st ((ad_reg st)\<lparr>rg_main := pc, rg_ctx := cancel_ctx (rg_ctx (ad_reg st))\<rparr>)"

definition reg_main_goto :: "reg_main \<Rightarrow> ('m, 'e, 'pt) add_state \<Rightarrow> ('m, 'e, 'pt) add_state" where
  "reg_main_goto pc st = set_reg st ((ad_reg st)\<lparr>rg_main := pc\<rparr>)"

text \<open>A write of the main goroutine: a failure goes to \<open>errs\<close>, which may block, and ends it.\<close>

definition reg_main_write ::
  "ws_msg \<Rightarrow> reg_main \<Rightarrow> unit result \<Rightarrow> ('m, 'e, 'pt) add_state \<Rightarrow> ('m, 'e, 'pt) add_state option" where
  "reg_main_write m pc write st =
     (case write of
        Inl err \<Rightarrow>
          (case chan_send errs_cap (rg_errs (ad_reg st)) err of
             None \<Rightarrow> None
           | Some q \<Rightarrow> Some (reg_return RM_failed (set_reg st ((ad_reg st)\<lparr>rg_errs := q\<rparr>))))
      | Inr _ \<Rightarrow> Some (reg_main_goto pc (reg_say m st)))"

definition reg_check ::
  "('m, 'e, 'pt, 'pl) env \<Rightarrow> ('m, 'e, 'pt) add_state \<Rightarrow> ('m, 'e, 'pt) add_state option" where
  "reg_check E st =
     (case ProcessErrors (en_closed E) (rg_ctx (ad_reg st) = Ctx_canceled) (rg_errs (ad_reg st)) of
        (Some err, q) \<Rightarrow> Some (reg_return RM_failed (set_reg st ((ad_reg st)\<lparr>rg_errs := q\<rparr>)))
      | (None, q) \<Rightarrow> Some (set_reg st ((ad_reg st)\<lparr>rg_errs := q, rg_main := RM_stage\<rparr>)))"

definition reg_main_step ::
  "('m, 'e, 'pt, 'pl) env \<Rightarrow> unit result \<Rightarrow> ('m, 'e, 'pt) add_state \<Rightarrow> ('m, 'e, 'pt) add_state option" where
  "reg_main_step E write st =
     (case rg_main (ad_reg st) of
        RM_wait \<Rightarrow> None
      | RM_tss \<Rightarrow>
          (case adder_at st (rg_adder (ad_reg st)) of
             None \<Rightarrow> Some (reg_return RM_failed st)
           | Some a \<Rightarrow> if ServerAdd_GetDoneChan a then Some (reg_main_goto RM_check st) else None)
      | RM_check \<Rightarrow> reg_check E st
      | RM_stage \<Rightarrow> Some (set_reg st ((ad_reg st)\<lparr>rg_stage := 40, rg_main := RM_existing\<rparr>))
      | RM_existing \<Rightarrow>
          (case chan_recv (lk_existing_tss_done (ad_link st)) of
             None \<Rightarrow> None
           | Some (_, q) \<Rightarrow>
               Some (reg_main_goto RM_metadata (st\<lparr>ad_link := (ad_link st)\<lparr>lk_existing_tss_done := q\<rparr>\<rparr>)))
      | RM_metadata \<Rightarrow>
          reg_main_write (ws_message MetadataMessage (rg_metadata (ad_reg st))) RM_done write st
      | RM_done \<Rightarrow>
          (case chan_recv (lk_existing_done (ad_link st)) of
             None \<Rightarrow> None
           | Some (_, q) \<Rightarrow>
               Some (reg_main_goto RM_write (st\<lparr>ad_link := (ad_link st)\<lparr>lk_existing_done := q\<rparr>\<rparr>)))
      | RM_write \<Rightarrow> reg_main_write (ws_message ExistingDeviceDoneMessage []) RM_close write st
      | RM_close \<Rightarrow>
          Some (reg_return RM_closed (set_reg st ((ad_reg st)\<lparr>rg_serverDone := True\<rparr>)))
      | RM_closed \<Rightarrow> None
      | RM_failed \<Rightarrow> None)"

definition reg_send_step ::
  "('m, 'e, 'pt, 'pl) env \<Rightarrow> unit result \<Rightarrow> ('m, 'e, 'pt) add_state \<Rightarrow> ('m, 'e, 'pt) add_state option" where
  "reg_send_step E write st =
     (if rg_sender (ad_reg st) \<noteq> Sender_on then None
      else
        (case adder_at st (rg_adder (ad_reg st)) of
           None \<Rightarrow> Some (add_crash st)
         | Some a \<Rightarrow>
             (case TssSend_turn (en_msg E)
                     (ServerAdd_GetNextMessageToSend (en_al E) (rg_newPeer (ad_reg st)))
                     \<lparr>tk_ctx_done = (rg_ctx (ad_reg st) \<noteq> Ctx_live),
                      tk_server_done = rg_serverDone (ad_reg st), tk_write = write\<rparr> a of
                (u, b) \<Rightarrow>
                  let st1 = put_adder (rg_adder (ad_reg st)) (Some b) st in
                  (case u of
                     Again w \<Rightarrow> Some (case w of None \<Rightarrow> st1 | Some m \<Rightarrow> reg_say m st1)
                   | Stop None \<Rightarrow> Some (set_reg st1 ((ad_reg st)\<lparr>rg_sender := Sender_gone\<rparr>))
                   | Stop (Some err) \<Rightarrow>
                       (case chan_send errs_cap (rg_errs (ad_reg st)) err of
                          None \<Rightarrow> None
                        | Some q \<Rightarrow>
                            Some (set_reg st1 ((ad_reg st)\<lparr>rg_errs := q, rg_sender := Sender_gone\<rparr>)))
                   | Crash m \<Rightarrow> Some (add_crash st)))))"

end
