(* ===== verification/ClientLoops.thy ===== *)
theory ClientLoops
  imports ClientLoop AddHandlers
begin

text \<open>
  The three loops themselves: \<open>Dkg\<close> of \<open>client/client.go\<close>, \<open>RegisterDevice\<close> and
  \<open>AcceptDevice\<close> of \<open>client/tss_add.go\<close>, each with its messages, its sequence of steps and its
  actor; and \<open>backup\<close>, which runs the last two against each other.
\<close>

subsection \<open>Dkg\<close>

text \<open>A method call through a pointer.\<close>

definition on_ptr ::
  "('a \<Rightarrow> 'm tss_msg \<Rightarrow> (unit result \<times> 'a) go) \<Rightarrow> 'a option \<Rightarrow> 'm tss_msg \<Rightarrow> (unit result \<times> 'a option) go" where
  "on_ptr f p m =
     (case p of
        None \<Rightarrow> Panic err_nil
      | Some a \<Rightarrow> (case f a m of Panic e \<Rightarrow> Panic e | Ret (r, b) \<Rightarrow> Ret (r, Some b)))"

definition Dkg_read ::
  "('m, 'e, 'pt, 'pl) env \<Rightarrow> ws_msg \<Rightarrow> unit result \<Rightarrow> ('m, 'e, 'pt) ClientDkg conn
     \<Rightarrow> ('m, 'e, 'pt) ClientDkg conn option" where
  "Dkg_read E msg write st =
     (if wm_Type msg = TssMessage
      then conn_tss (en_msg E) (on_ptr (ClientDkg_HandleMessage (en_al E))) msg st
      else if wm_Type msg = MetadataMessage
      then conn_reply_close write (ws_message MetadataAckMessage []) (st\<lparr>cn_metadata := wm_Msg msg\<rparr>)
      else conn_reply write unexpected_msg st)"

definition Dkg_main ::
  "('m, 'e, 'pt, 'pl) env \<Rightarrow> unit result \<Rightarrow> ('m, 'e, 'pt) ClientDkg conn
     \<Rightarrow> ('m, 'e, 'pt) ClientDkg conn option" where
  "Dkg_main E write st =
     (case cn_main st of
        CM_process \<Rightarrow> conn_process (ClientDkg_Process (en_lib E)) CM_check st
      | CM_check r \<Rightarrow> conn_check (en_closed E) r st
      | CM_stage r \<Rightarrow> conn_set_stage CM_finish r st
      | CM_finish r \<Rightarrow> conn_finish oc_wallet r st
      | _ \<Rightarrow> None)"

definition Dkg_engine ::
  "('m, 'pt) engine_event \<Rightarrow> ('m, 'e, 'pt) ClientDkg \<Rightarrow> ('m, 'e, 'pt) ClientDkg go" where
  "Dkg_engine x a =
     (case x of
        En_emit peer m \<Rightarrow> Ret (ClientDkg_emit a (peer, m))
      | En_state g s \<Rightarrow>
          (case Dkg_OnStateChanged g s (cd_service a) of
             Panic e \<Rightarrow> Panic e
           | Ret sv \<Rightarrow> Ret (a\<lparr>cd_service := sv\<rparr>)))"

definition Dkg_ops ::
  "('m, 'e, 'pt, 'pl) env \<Rightarrow> ('m, 'pt, ('m, 'e, 'pt) ClientDkg) conn_ops" where
  "Dkg_ops E =
     \<lparr>co_read = Dkg_read E, co_main = Dkg_main E, co_next = ClientDkg_GetNextMessageToSend (en_al E),
      co_engine = Dkg_engine\<rparr>"

definition Dkg_start :: "('m, 'e, 'pt) ClientDkg \<Rightarrow> ws_msg \<Rightarrow> ('m, 'e, 'pt) ClientDkg conn" where
  "Dkg_start dkg hello = conn_init CM_process Sender_on (Some dkg) hello"

subsection \<open>RegisterDevice\<close>

definition RegisterDevice_entry ::
  "'u client_lib \<Rightarrow> string \<Rightarrow> unit result \<Rightarrow> string \<Rightarrow> string \<Rightarrow> ws_msg result" where
  "RegisterDevice_entry L peerID write host authData =
     (case getAccessToken L host [] authData of
        Inl err \<Rightarrow> Inl err
      | Inr token \<Rightarrow>
          (case urlToWs L host of
             Inl err \<Rightarrow> Inl err
           | Inr h \<Rightarrow>
               (case cl_dial L (h @ ''/register?token='' @ token) of
                  Inl (resp, err) \<Rightarrow> Inl (dial_error resp err)
                | Inr _ \<Rightarrow>
                    (case write of
                       Inl err \<Rightarrow> Inl err
                     | Inr _ \<Rightarrow> Inr (ws_message PeerIdBroadcastMessage peerID)))))"

text \<open>
  A new actor, and the offer on \<open>startTss\<close>. Once the calling goroutine has passed \<open><-startTss\<close> it has
  its own references (the done channel, the method value that the sender calls, the receiver of
  \<open>Process\<close>, taken in the step that starts it) and reads the variable \<open>adder\<close> no more; and a reader
  that assigns it again then returns, or blocks for ever on the offer that nobody receives, so that
  it does not read it either. What is assigned that late is never used, and the actor is kept.
\<close>

definition conn_new_actor :: "'a result \<Rightarrow> 'a conn \<Rightarrow> 'a conn option" where
  "conn_new_actor made st =
     (let keep = (cn_main st \<noteq> CM_wait) in
      case made of
        Inl err \<Rightarrow> conn_report err (if keep then st else st\<lparr>cn_actor := None\<rparr>)
      | Inr a \<Rightarrow> Some ((if keep then st else st\<lparr>cn_actor := Some a\<rparr>)\<lparr>cn_reader := CR_start\<rparr>))"

definition Register_on_pubkey ::
  "('m, 'e, 'pt, 'pl) env \<Rightarrow> PublicWallet codec \<Rightarrow> string \<Rightarrow> ws_msg \<Rightarrow> ('m, 'e, 'pt) ClientAdd conn
     \<Rightarrow> ('m, 'e, 'pt) ClientAdd conn option" where
  "Register_on_pubkey E cpw peerID msg st =
     (case hex_decode (wm_Msg msg) of
        Inl err \<Rightarrow> conn_report err st
      | Inr data \<Rightarrow>
          (case Unmarshal cpw data of
             Inl err \<Rightarrow> conn_report err st
           | Inr publicWallet \<Rightarrow>
               conn_new_actor
                 (NewClientAdd (en_lib E) (en_al E) peerID (cn_peer st) (pw_PublicKey publicWallet)
                    (pw_BKs publicWallet)) st))"

text \<open>The metadata is kept for the result before it is acknowledged.\<close>

definition Register_on_metadata :: "ws_msg \<Rightarrow> unit result \<Rightarrow> 'a conn \<Rightarrow> 'a conn option" where
  [simp]: "Register_on_metadata msg write st =
     conn_reply write (ws_message EverythingStoredClientMessage []) (st\<lparr>cn_metadata := wm_Msg msg\<rparr>)"

definition Register_on_done :: "ws_msg \<Rightarrow> 'a conn \<Rightarrow> 'a conn option" where
  [simp]: "Register_on_done msg st = (if conn_late msg st then Some st else Some (conn_close_done st))"

definition Register_read ::
  "('m, 'e, 'pt, 'pl) env \<Rightarrow> PublicWallet codec \<Rightarrow> string \<Rightarrow> string \<Rightarrow> ws_msg \<Rightarrow> unit result
     \<Rightarrow> ('m, 'e, 'pt) ClientAdd conn \<Rightarrow> ('m, 'e, 'pt) ClientAdd conn option" where
  "Register_read E cpw peerID device msg write st =
     (if wm_Type msg = PeerIdBroadcastMessage then
        (if conn_late msg st then Some st
         else conn_reply write (ws_message DeviceMessage device) (st\<lparr>cn_peer := wm_Msg msg\<rparr>))
      else if wm_Type msg = PubkeyMessage then Register_on_pubkey E cpw peerID msg st
      else if wm_Type msg = TssMessage
      then conn_tss (en_msg E) (ClientAdd_HandleMessage (en_al E)) msg st
      else if wm_Type msg = MetadataMessage then Register_on_metadata msg write st
      else if wm_Type msg = ExistingDeviceDoneMessage then Register_on_done msg st
      else conn_reply write unexpected_msg st)"

definition Register_main ::
  "('m, 'e, 'pt, 'pl) env \<Rightarrow> unit result \<Rightarrow> ('m, 'e, 'pt) ClientAdd conn
     \<Rightarrow> ('m, 'e, 'pt) ClientAdd conn option" where
  "Register_main E write st =
     (case cn_main st of
        CM_process \<Rightarrow> conn_process (ClientAdd_Process (en_lib E)) CM_done st
      | CM_done r \<Rightarrow>
          (case cn_actor st of
             None \<Rightarrow> Some (conn_crash st)
           | Some a \<Rightarrow> if ClientAdd_GetDoneChan a then Some (st\<lparr>cn_main := CM_check r\<rparr>) else None)
      | CM_check r \<Rightarrow> conn_check (en_closed E) r st
      | CM_stage r \<Rightarrow> conn_set_stage CM_finish r st
      | CM_finish r \<Rightarrow> conn_finish oc_wallet r st
      | _ \<Rightarrow> None)"

definition Register_engine ::
  "('m, 'pt) engine_event \<Rightarrow> ('m, 'e, 'pt) ClientAdd \<Rightarrow> ('m, 'e, 'pt) ClientAdd go" where
  "Register_engine x a =
     (case x of
        En_emit peer m \<Rightarrow> Ret (ClientAdd_emit a (peer, m))
      | En_state g s \<Rightarrow>
          (case AddNew_OnStateChanged g s (ca_service a) of
             Panic e \<Rightarrow> Panic e
           | Ret sv \<Rightarrow> Ret (a\<lparr>ca_service := sv\<rparr>)))"

definition Register_ops ::
  "('m, 'e, 'pt, 'pl) env \<Rightarrow> PublicWallet codec \<Rightarrow> string \<Rightarrow> string
     \<Rightarrow> ('m, 'pt, ('m, 'e, 'pt) ClientAdd) conn_ops" where
  "Register_ops E cpw peerID device =
     \<lparr>co_read = Register_read E cpw peerID device, co_main = Register_main E,
      co_next = ClientAdd_GetNextMessageToSendAll (en_al E), co_engine = Register_engine\<rparr>"

definition Register_start :: "ws_msg \<Rightarrow> ('m, 'e, 'pt) ClientAdd conn" where
  "Register_start hello = conn_init CM_wait Sender_off None hello"

subsection \<open>AcceptDevice\<close>

definition AcceptDevice_entry ::
  "('m, 'e, 'pt, 'pl) env \<Rightarrow> 'u client_lib \<Rightarrow> unit result \<Rightarrow> string \<Rightarrow> string \<Rightarrow> string \<Rightarrow> string
     \<Rightarrow> (DkgResult \<times> ws_msg) result" where
  "AcceptDevice_entry E L write host dkgResultStr metadata authData =
     (case getAccessToken L host metadata authData of
        Inl err \<Rightarrow> Inl err
      | Inr token \<Rightarrow>
          (case Unmarshal (en_wallet E) dkgResultStr of
             Inl err \<Rightarrow> Inl err
           | Inr dkgResult \<Rightarrow>
               (case urlToWs L host of
                  Inl err \<Rightarrow> Inl err
                | Inr h \<Rightarrow>
                    (case cl_dial L (h @ ''/accept?token='' @ token) of
                       Inl (resp, err) \<Rightarrow> Inl (dial_error resp err)
                     | Inr _ \<Rightarrow>
                         (case write of
                            Inl err \<Rightarrow> Inl err
                          | Inr _ \<Rightarrow>
                              Inr (dkgResult, ws_message PeerIdBroadcastMessage (dr_PeerID dkgResult)))))))"

definition Accept_read ::
  "('m, 'e, 'pt, 'pl) env \<Rightarrow> DkgResult \<Rightarrow> string \<Rightarrow> ws_msg \<Rightarrow> unit result
     \<Rightarrow> ('m, 'e, 'pt) ExistingClientAdd conn \<Rightarrow> ('m, 'e, 'pt) ExistingClientAdd conn option" where
  "Accept_read E w metadata msg write st =
     (if wm_Type msg = PeerIdBroadcastMessage then
        (if conn_late msg st then Some st
         else conn_reply write (ws_message MetadataMessage metadata) (st\<lparr>cn_peer := wm_Msg msg\<rparr>))
      else if wm_Type msg = MetadataAckMessage then
        conn_new_actor
          (NewExistingClientAdd (en_lib E) (en_al E) (cn_peer st) (dr_PeerID w) (dr_Pubkey w)
             (dr_Share w) (dr_BKs w)) st
      else if wm_Type msg = TssMessage
      then conn_tss (en_msg E) (ExistingClientAdd_HandleMessage (en_al E)) msg st
      else if wm_Type msg = NewDeviceDoneMessage then
        (if conn_late msg st then Some st
         else conn_reply_close write (ws_message ExistingDeviceDoneMessage []) st)
      else conn_reply write unexpected_msg st)"

definition Accept_tell :: "unit result \<Rightarrow> DkgResult \<Rightarrow> 'a conn \<Rightarrow> 'a conn option" where
  "Accept_tell write r st =
     (case write of
        Inl err \<Rightarrow> Some (conn_return (oc_fail err) st)
      | Inr _ \<Rightarrow> Some (conn_say (ws_message TssDoneMessage []) st\<lparr>cn_main := CM_finish r\<rparr>))"

definition Accept_main ::
  "('m, 'e, 'pt, 'pl) env \<Rightarrow> unit result \<Rightarrow> ('m, 'e, 'pt) ExistingClientAdd conn
     \<Rightarrow> ('m, 'e, 'pt) ExistingClientAdd conn option" where
  "Accept_main E write st =
     (case cn_main st of
        CM_process \<Rightarrow> conn_process (ExistingClientAdd_Process (en_lib E)) CM_done st
      | CM_done r \<Rightarrow>
          (case cn_actor st of
             None \<Rightarrow> Some (conn_crash st)
           | Some a \<Rightarrow> if ExistingClientAdd_GetDoneChan a then Some (st\<lparr>cn_main := CM_check r\<rparr>) else None)
      | CM_check r \<Rightarrow> conn_check (en_closed E) r st
      | CM_stage r \<Rightarrow> conn_set_stage CM_tell r st
      | CM_tell r \<Rightarrow> Accept_tell write r st
      | CM_finish r \<Rightarrow> conn_finish (\<lambda>r st. oc_nil) r st
      | _ \<Rightarrow> None)"

definition Accept_engine ::
  "('m, 'pt) engine_event \<Rightarrow> ('m, 'e, 'pt) ExistingClientAdd \<Rightarrow> ('m, 'e, 'pt) ExistingClientAdd go" where
  "Accept_engine x a =
     (case x of
        En_emit peer m \<Rightarrow> Ret (ExistingClientAdd_emit a (peer, m))
      | En_state g s \<Rightarrow>
          (case AddExisting_OnStateChanged g s (ea_service a) of
             Panic e \<Rightarrow> Panic e
           | Ret sv \<Rightarrow> Ret (a\<lparr>ea_service := sv\<rparr>)))"

definition Accept_ops ::
  "('m, 'e, 'pt, 'pl) env \<Rightarrow> DkgResult \<Rightarrow> string \<Rightarrow> ('m, 'pt, ('m, 'e, 'pt) ExistingClientAdd) conn_ops" where
  "Accept_ops E w metadata =
     \<lparr>co_read = Accept_read E w metadata, co_main = Accept_main E,
      co_next = ExistingClientAdd_GetNextMessageToSendAll (en_al E), co_engine = Accept_engine\<rparr>"

definition Accept_start :: "ws_msg \<Rightarrow> ('m, 'e, 'pt) ExistingClientAdd conn" where
  "Accept_start hello = conn_init CM_wait Sender_off None hello"

subsection \<open>Backups\<close>

text \<open>
  \<open>backup\<close>: a goroutine registers a device called backup while the caller accepts it. The two
  share the variable \<open>err\<close>, which both assign before they test it; the caller reads it once more to
  return it.
\<close>

datatype backup_reg = BR_call | BR_check | BR_offer | BR_gone
datatype backup_main = BA_call | BA_check | BA_fail | BA_recv | BA_returned outcome

record backup_state =
  bk_reg :: backup_reg
  bk_main :: backup_main
  bk_err :: "go_error option"
  bk_result :: "DkgResult option"
  bk_metadata :: string

definition backup_init :: backup_state where
  "backup_init =
     \<lparr>bk_reg = BR_call, bk_main = BA_call, bk_err = None, bk_result = None, bk_metadata = []\<rparr>"

datatype backup_event =
    Be_registered outcome
  | Be_reg_check
  | Be_accepted "go_error option"
  | Be_acc_check
  | Be_acc_return
  | Be_meet

fun backup_step :: "backup_event \<Rightarrow> backup_state \<Rightarrow> backup_state option" where
  "backup_step (Be_registered oc) st =
     (if bk_reg st = BR_call
      then Some (st\<lparr>bk_result := oc_result oc, bk_metadata := oc_metadata oc, bk_err := oc_err oc,
                    bk_reg := BR_check\<rparr>)
      else None)"
| "backup_step Be_reg_check st =
     (if bk_reg st = BR_check
      then Some (st\<lparr>bk_reg := if bk_err st \<noteq> None then BR_gone else BR_offer\<rparr>) else None)"
| "backup_step (Be_accepted e) st =
     (if bk_main st = BA_call then Some (st\<lparr>bk_err := e, bk_main := BA_check\<rparr>) else None)"
| "backup_step Be_acc_check st =
     (if bk_main st = BA_check
      then Some (st\<lparr>bk_main := if bk_err st \<noteq> None then BA_fail else BA_recv\<rparr>) else None)"
| "backup_step Be_acc_return st =
     (if bk_main st = BA_fail
      then Some (st\<lparr>bk_main := BA_returned \<lparr>oc_result = None, oc_metadata = [], oc_err = bk_err st\<rparr>\<rparr>)
      else None)"
| "backup_step Be_meet st =
     (if bk_reg st = BR_offer \<and> bk_main st = BA_recv
      then Some (st\<lparr>bk_reg := BR_gone,
                    bk_main := BA_returned \<lparr>oc_result = bk_result st, oc_metadata = bk_metadata st,
                                            oc_err = None\<rparr>\<rparr>)
      else None)"

text \<open>The text of a backup; a nil result is written as \<open>null\<close>.\<close>

definition marshal_ptr :: "'a codec \<Rightarrow> 'a option \<Rightarrow> bytes result" where
  "marshal_ptr c p = (case p of None \<Rightarrow> Inr ''null'' | Some x \<Rightarrow> Marshal c x)"

definition Backup :: "DkgResult codec \<Rightarrow> (string \<rightharpoonup> string) codec \<Rightarrow> outcome \<Rightarrow> string result" where
  "Backup cw cm oc =
     (case oc_err oc of
        Some err \<Rightarrow> Inl err
      | None \<Rightarrow>
          (case marshal_ptr cw (oc_result oc) of
             Inl err \<Rightarrow> Inl err
           | Inr backupDkgResultStr \<Rightarrow>
               (case Marshal cm [''DkgResult'' \<mapsto> backupDkgResultStr, ''Metadata'' \<mapsto> oc_metadata oc] of
                  Inl err \<Rightarrow> Inl err
                | Inr respJSON \<Rightarrow> Inr (hex_encode respJSON))))"

text \<open>What \<open>FromBackup\<close> gives to \<open>backup\<close>: the wallet of the backup and its metadata.\<close>

definition FromBackup_args :: "(string \<rightharpoonup> string) codec \<Rightarrow> string \<Rightarrow> (string \<times> string) result" where
  "FromBackup_args cm s =
     (case hex_decode s of
        Inl err \<Rightarrow> Inl err
      | Inr backupBytes \<Rightarrow>
          (case Unmarshal cm backupBytes of
             Inl err \<Rightarrow> Inl err
           | Inr m \<Rightarrow>
               Inr ((case m ''DkgResult'' of None \<Rightarrow> [] | Some v \<Rightarrow> v),
                    (case m ''Metadata'' of None \<Rightarrow> [] | Some v \<Rightarrow> v))))"

definition FromBackup :: "outcome \<Rightarrow> outcome" where
  "FromBackup oc = (case oc_err oc of Some err \<Rightarrow> oc_fail err | None \<Rightarrow> oc)"

end
