(* ===== verification/Tx.thy ===== *)
theory Tx
  imports GoStd "HOL-Library.Word"
begin

text \<open>
  Ethereum transactions for the web client (\<open>utils/tx/tx.go\<close>): numbers of several JSON forms,
  the transaction built from JSON parameters, its hash and its signed form. The types and
  signers of go-ethereum are a parameter; the transaction data they are given is modelled.
\<close>

subsection \<open>ParseBigInt\<close>

text \<open>
  A \<open>float64\<close> is the three fields of its 64 bits: sign, biased exponent and fraction. An exponent of
  0 has no hidden bit; the exponent 2047 is kept for infinities and what is not a number. A finite
  value is an integral significand, of 53 bits, times a power of two.
\<close>

datatype float64 = Float64 (fl_negative: bool) (fl_exponent: "11 word") (fl_fraction: "52 word")

definition fl_finite :: "float64 \<Rightarrow> bool" where
  "fl_finite f \<longleftrightarrow> fl_exponent f \<noteq> 2047"

definition fl_significand :: "float64 \<Rightarrow> int" where
  "fl_significand f =
     (if fl_negative f then - 1 else 1) *
     (if fl_exponent f = 0 then uint (fl_fraction f) else 2 ^ 52 + uint (fl_fraction f))"

definition fl_power :: "float64 \<Rightarrow> int" where
  "fl_power f = (if fl_exponent f = 0 then - 1074 else uint (fl_exponent f) - 1075)"

text \<open>The conversion to an integer truncates towards zero.\<close>

definition float_trunc :: "float64 \<Rightarrow> int" where
  "float_trunc f =
     (let m = fl_significand f; e = fl_power f
      in if 0 \<le> e then m * 2 ^ nat e else sgn m * (\<bar>m\<bar> div 2 ^ nat (- e)))"

text \<open>\<open>int64(v)\<close> of a value in the range of \<open>int64\<close>; outside it Go leaves the result open (\<open>wild\<close>).\<close>

definition float_int64 :: "(float64 \<Rightarrow> 64 word) \<Rightarrow> float64 \<Rightarrow> 64 word" where
  "float_int64 wild f =
     (let i = float_trunc f
      in if fl_finite f \<and> - (2 ^ 63) \<le> i \<and> i < 2 ^ 63 then word_of_int i else wild f)"

text \<open>The dynamic types that \<open>ParseBigInt\<close> distinguishes.\<close>

datatype any =
    AnyInt64 "64 word"
  | AnyInt "64 word"
  | AnyBig int
  | AnyFloat float64
  | AnyString string
  | AnyOther

text \<open>
  \<open>float_text\<close> stands for \<open>big.Float.SetString\<close> followed by \<open>Int\<close>: the integer part of a
  number with a decimal point, rounded to the 64 bits of a \<open>big.Float\<close>.
\<close>

record num_lib =
  float_text :: "string \<Rightarrow> int option"
  float_wild :: "float64 \<Rightarrow> 64 word"

definition or_zero :: "int option \<Rightarrow> int" where
  "or_zero r = (case r of None \<Rightarrow> 0 | Some i \<Rightarrow> i)"

definition ParseBigInt :: "num_lib \<Rightarrow> any \<Rightarrow> int" where
  "ParseBigInt N value =
     (case value of
        AnyInt64 v \<Rightarrow> sint v
      | AnyInt v \<Rightarrow> sint v
      | AnyBig v \<Rightarrow> v
      | AnyFloat v \<Rightarrow> sint (float_int64 (float_wild N) v)
      | AnyString v \<Rightarrow>
          if length v > 2 \<and> take 2 v = ''0x'' then or_zero (big_SetString 16 (drop 2 v))
          else if Contains v ''.'' then or_zero (float_text N v)
          else or_zero (big_SetString 10 v)
      | AnyOther \<Rightarrow> 0)"

text \<open>\<open>big.Int.Uint64\<close> keeps the low 64 bits of the absolute value.\<close>

definition big_Uint64 :: "int \<Rightarrow> 64 word" where
  "big_Uint64 i = word_of_int \<bar>i\<bar>"

subsection \<open>Transactions\<close>

record 'al TransactionParams =
  tp_To :: string
  tp_Nonce :: any
  tp_Value :: any
  tp_GasLimit :: any
  tp_GasPrice :: any
  tp_Data :: string
  tp_AccessList :: 'al
  tp_MaxFeePerGas :: "any option"
  tp_MaxPriorityFeePerGas :: "any option"

datatype 'al TxData =
    DynamicFeeTx (df_ChainID: int) (df_Nonce: "64 word") (df_To: bytes) (df_Value: int)
      (df_GasFeeCap: int) (df_GasTipCap: int) (df_Gas: "64 word") (df_Data: bytes) (df_AccessList: 'al)
  | LegacyTx (lg_Nonce: "64 word") (lg_GasPrice: int) (lg_Gas: "64 word") (lg_To: bytes)
      (lg_Value: int) (lg_Data: bytes)

text \<open>
  go-ethereum: \<open>'tx\<close> is \<open>types.Transaction\<close>; an EIP155 signer is its chain identifier.
\<close>

record ('tx, 'al) eth_lib =
  et_params :: "bytes \<Rightarrow> 'al TransactionParams result"
  et_HexToAddress :: "string \<Rightarrow> bytes"
  et_FromHex :: "string \<Rightarrow> bytes"
  et_NewTx :: "'al TxData \<Rightarrow> 'tx"
  et_ChainId :: "'tx \<Rightarrow> int"
  et_Hash :: "int \<Rightarrow> 'tx \<Rightarrow> bytes"
  et_WithSignature :: "int \<Rightarrow> bytes \<Rightarrow> 'tx \<Rightarrow> 'tx result"
  et_EncodeRLP :: "'tx \<Rightarrow> bytes result"
  et_DecodeRLP :: "bytes \<Rightarrow> 'tx result"

record 'tx EthereumTx =
  ex_tx :: "'tx option"
  ex_signer :: int
  ex_hash :: bytes

definition NewEthereumTxWithRlp :: "('tx, 'al) eth_lib \<Rightarrow> bytes \<Rightarrow> 'tx EthereumTx result" where
  "NewEthereumTxWithRlp T encodedRawTx =
     (case et_DecodeRLP T encodedRawTx of
        Inl err \<Rightarrow> Inl err
      | Inr tx \<Rightarrow> Inr \<lparr>ex_tx = Some tx, ex_signer = et_ChainId T tx, ex_hash = []\<rparr>)"

definition NewEthereumTxWithHash ::
  "('tx, 'al) eth_lib \<Rightarrow> bytes \<Rightarrow> bytes \<Rightarrow> 'tx EthereumTx result" where
  "NewEthereumTxWithHash T encodedRawTx hash =
     (case NewEthereumTxWithRlp T encodedRawTx of
        Inl err \<Rightarrow> Inl err
      | Inr tx \<Rightarrow> Inr (tx\<lparr>ex_hash := hash\<rparr>))"

text \<open>A missing JSON field is a nil interface, which \<open>ParseBigInt\<close> reads as zero.\<close>

definition any_of :: "any option \<Rightarrow> any" where
  "any_of a = (case a of None \<Rightarrow> AnyOther | Some x \<Rightarrow> x)"

definition tx_data ::
  "num_lib \<Rightarrow> ('tx, 'al) eth_lib \<Rightarrow> 'al TransactionParams \<Rightarrow> int \<Rightarrow> 'al TxData" where
  "tx_data N T p chainId =
     (let nonce = big_Uint64 (ParseBigInt N (tp_Nonce p));
          val = ParseBigInt N (tp_Value p);
          gasLimit = big_Uint64 (ParseBigInt N (tp_GasLimit p));
          to = et_HexToAddress T (tp_To p);
          data = et_FromHex T (tp_Data p) in
      if tp_MaxFeePerGas p \<noteq> None
      then DynamicFeeTx chainId nonce to val
             (ParseBigInt N (any_of (tp_MaxFeePerGas p)))
             (ParseBigInt N (any_of (tp_MaxPriorityFeePerGas p)))
             gasLimit data (tp_AccessList p)
      else LegacyTx nonce (ParseBigInt N (tp_GasPrice p)) gasLimit to val data)"

definition NewEthereumTxWithJson ::
  "num_lib \<Rightarrow> ('tx, 'al) eth_lib \<Rightarrow> string \<Rightarrow> any \<Rightarrow> 'tx EthereumTx result" where
  "NewEthereumTxWithJson N T jsonData chainIdAny =
     (case et_params T jsonData of
        Inl err \<Rightarrow> Inl err
      | Inr params \<Rightarrow>
          (let chainId = ParseBigInt N chainIdAny in
           Inr \<lparr>ex_tx = Some (et_NewTx T (tx_data N T params chainId)), ex_signer = chainId,
                ex_hash = []\<rparr>))"

text \<open>\<open>GenerateMessage\<close> remembers the hash; a nil transaction panics.\<close>

definition GenerateMessage ::
  "('tx, 'al) eth_lib \<Rightarrow> 'tx EthereumTx \<Rightarrow> (bytes \<times> 'tx EthereumTx) go" where
  "GenerateMessage T x =
     (case ex_tx x of
        None \<Rightarrow> Panic ''invalid memory address or nil pointer dereference''
      | Some tx \<Rightarrow> (let h = et_Hash T (ex_signer x) tx in Ret (h, x\<lparr>ex_hash := h\<rparr>)))"

text \<open>\<open>Sign\<close> overwrites the transaction with what \<open>WithSignature\<close> returns: nil when it fails.\<close>

definition EthSign ::
  "('tx, 'al) eth_lib \<Rightarrow> bytes \<Rightarrow> 'tx EthereumTx \<Rightarrow> (string result \<times> 'tx EthereumTx) go" where
  "EthSign T signature x =
     (case ex_tx x of
        None \<Rightarrow> Panic ''invalid memory address or nil pointer dereference''
      | Some tx \<Rightarrow>
          (case et_WithSignature T (ex_signer x) signature tx of
             Inl err \<Rightarrow> Ret (Inl err, x\<lparr>ex_tx := None\<rparr>)
           | Inr signedTx \<Rightarrow>
               (case et_EncodeRLP T signedTx of
                  Inl err \<Rightarrow> Ret (Inl err, x\<lparr>ex_tx := Some signedTx\<rparr>)
                | Inr rawTxBytes \<Rightarrow> Ret (Inr (hex_encode rawTxBytes), x\<lparr>ex_tx := Some signedTx\<rparr>))))"

end
