(* ===== verification/Bindings.thy ===== *)
theory Bindings
  imports ClientLoops Tx
begin

text \<open>
  The two wrappers around the client package: \<open>client/ios/ios.go\<close> for Swift and
  \<open>client/web/wasm/main.go\<close> for JavaScript. They see of a call what it returns; the calls
  themselves are modelled in \<open>ClientCalls\<close> and \<open>ClientLoops\<close>.
\<close>

record client_calls =
  cc_Identify :: "string \<Rightarrow> string \<Rightarrow> string result"
  cc_Dkg :: "string \<Rightarrow> string \<Rightarrow> outcome"
  cc_RegisterDevice :: "string \<Rightarrow> string \<Rightarrow> string \<Rightarrow> outcome"
  cc_AcceptDevice :: "string \<Rightarrow> string \<Rightarrow> string \<Rightarrow> string \<Rightarrow> go_error option"
  cc_Backup :: "string \<Rightarrow> string \<Rightarrow> string \<Rightarrow> string \<Rightarrow> string result"
  cc_FromBackup :: "string \<Rightarrow> string \<Rightarrow> string \<Rightarrow> outcome"
  cc_Sign :: "string \<Rightarrow> bytes \<Rightarrow> string \<Rightarrow> string \<Rightarrow> string \<Rightarrow> Signature result"
  cc_Export :: "string \<Rightarrow> string \<Rightarrow> string \<Rightarrow> string \<Rightarrow> string result"

subsection \<open>Swift\<close>

record upgradedDkgResult =
  ug_DkgResultStr :: string
  ug_Metadata :: string

record 'a swift_result =
  sw_Successful :: bool
  sw_Result :: 'a
  sw_Error :: string

definition swiftResultString :: "string result \<Rightarrow> string swift_result" where
  "swiftResultString r =
     (case r of
        Inl err \<Rightarrow> \<lparr>sw_Successful = False, sw_Result = [], sw_Error = Error err\<rparr>
      | Inr ret \<Rightarrow> \<lparr>sw_Successful = True, sw_Result = ret, sw_Error = []\<rparr>)"

definition swiftResultSignature :: "Signature result \<Rightarrow> bytes swift_result" where
  "swiftResultSignature r =
     (case r of
        Inl err \<Rightarrow> \<lparr>sw_Successful = False, sw_Result = [], sw_Error = Error err\<rparr>
      | Inr sig \<Rightarrow> \<lparr>sw_Successful = True, sw_Result = sg_Signature sig, sw_Error = []\<rparr>)"

definition swiftResultDkg ::
  "DkgResult codec \<Rightarrow> upgradedDkgResult codec \<Rightarrow> outcome \<Rightarrow> string swift_result" where
  "swiftResultDkg cw cu oc =
     (case oc_err oc of
        Some err \<Rightarrow> swiftResultString (Inl err)
      | None \<Rightarrow>
          (case marshal_ptr cw (oc_result oc) of
             Inl err \<Rightarrow> swiftResultString (Inl err)
           | Inr dkgResultStr \<Rightarrow>
               (case Marshal cu \<lparr>ug_DkgResultStr = dkgResultStr, ug_Metadata = oc_metadata oc\<rparr> of
                  Inl err \<Rightarrow> swiftResultString (Inl err)
                | Inr ret \<Rightarrow> swiftResultString (Inr ret))))"

text \<open>The calls that take a wallet take the upgraded form that \<open>Dkg\<close> returned.\<close>

definition with_upgraded ::
  "upgradedDkgResult codec \<Rightarrow> string \<Rightarrow> (string \<Rightarrow> string \<Rightarrow> 'a result) \<Rightarrow> 'a result" where
  "with_upgraded cu s k =
     (case Unmarshal cu s of Inl err \<Rightarrow> Inl err | Inr u \<Rightarrow> k (ug_DkgResultStr u) (ug_Metadata u))"

definition of_err :: "go_error option \<Rightarrow> string result" where
  "of_err e = (case e of None \<Rightarrow> Inr [] | Some err \<Rightarrow> Inl err)"

definition swift_Identify :: "client_calls \<Rightarrow> string \<Rightarrow> string \<Rightarrow> string swift_result" where
  "swift_Identify C host authData = swiftResultString (cc_Identify C host authData)"

definition swift_Dkg ::
  "DkgResult codec \<Rightarrow> upgradedDkgResult codec \<Rightarrow> client_calls \<Rightarrow> string \<Rightarrow> string \<Rightarrow> string swift_result" where
  "swift_Dkg cw cu C host authData = swiftResultDkg cw cu (cc_Dkg C host authData)"

definition swift_RegisterDevice ::
  "DkgResult codec \<Rightarrow> upgradedDkgResult codec \<Rightarrow> client_calls \<Rightarrow> string \<Rightarrow> string \<Rightarrow> string swift_result" where
  "swift_RegisterDevice cw cu C host authData = swiftResultDkg cw cu (cc_RegisterDevice C host authData ''ios'')"

definition swift_AcceptDevice ::
  "upgradedDkgResult codec \<Rightarrow> client_calls \<Rightarrow> string \<Rightarrow> string \<Rightarrow> string \<Rightarrow> string swift_result" where
  "swift_AcceptDevice cu C host s authData =
     swiftResultString (with_upgraded cu s (\<lambda>w md. of_err (cc_AcceptDevice C host w md authData)))"

definition swift_Backup ::
  "upgradedDkgResult codec \<Rightarrow> client_calls \<Rightarrow> string \<Rightarrow> string \<Rightarrow> string \<Rightarrow> string swift_result" where
  "swift_Backup cu C host s authData =
     swiftResultString (with_upgraded cu s (\<lambda>w md. cc_Backup C host w md authData))"

definition swift_FromBackup ::
  "DkgResult codec \<Rightarrow> upgradedDkgResult codec \<Rightarrow> client_calls \<Rightarrow> string \<Rightarrow> string \<Rightarrow> string
     \<Rightarrow> string swift_result" where
  "swift_FromBackup cw cu C host backup authData = swiftResultDkg cw cu (cc_FromBackup C host backup authData)"

definition swift_Sign ::
  "upgradedDkgResult codec \<Rightarrow> client_calls \<Rightarrow> string \<Rightarrow> bytes \<Rightarrow> string \<Rightarrow> string \<Rightarrow> bytes swift_result" where
  "swift_Sign cu C host message s authData =
     swiftResultSignature (with_upgraded cu s (\<lambda>w md. cc_Sign C host message w md authData))"

definition swift_Export ::
  "upgradedDkgResult codec \<Rightarrow> client_calls \<Rightarrow> string \<Rightarrow> string \<Rightarrow> string \<Rightarrow> string swift_result" where
  "swift_Export cu C host s authData =
     swiftResultString (with_upgraded cu s (\<lambda>w md. cc_Export C host w md authData))"

subsection \<open>JavaScript\<close>

text \<open>
  A function given to \<open>asyncFunc\<close> becomes a promise: an error and a recovered panic reject it.
  Arguments are read by position, and a missing one panics.
\<close>

datatype js_value = JsNull | JsString string

datatype promise = Resolved js_value | Rejected string

definition asyncFunc :: "js_value result go \<Rightarrow> promise" where
  "asyncFunc f =
     (case f of
        Panic m \<Rightarrow> Rejected (''panic:'' @ m)
      | Ret (Inl err) \<Rightarrow> Rejected (Error err)
      | Ret (Inr res) \<Rightarrow> Resolved res)"

text \<open>\<open>need n args k\<close>: the first \<open>n\<close> arguments are read.\<close>

definition need :: "nat \<Rightarrow> string list \<Rightarrow> 'a go \<Rightarrow> 'a go" where
  "need n args k = (if length args < n then Panic ''runtime error: index out of range'' else k)"

definition js_result :: "string result \<Rightarrow> js_value result" where
  "js_result r = (case r of Inl err \<Rightarrow> Inl err | Inr s \<Rightarrow> Inr (JsString s))"

record dkgResponse =
  dp_DkgResult :: "DkgResult option"
  dp_Metadata :: string

definition dkg_response :: "dkgResponse codec \<Rightarrow> outcome \<Rightarrow> js_value result" where
  "dkg_response cd oc =
     (case oc_err oc of
        Some err \<Rightarrow> Inl err
      | None \<Rightarrow> js_result (Marshal cd \<lparr>dp_DkgResult = oc_result oc, dp_Metadata = oc_metadata oc\<rparr>))"

definition wasm_Identify :: "client_calls \<Rightarrow> string list \<Rightarrow> js_value result go" where
  "wasm_Identify C args = need 2 args (Ret (js_result (cc_Identify C (args ! 0) (args ! 1))))"

definition wasm_Dkg :: "dkgResponse codec \<Rightarrow> client_calls \<Rightarrow> string list \<Rightarrow> js_value result go" where
  "wasm_Dkg cd C args = need 2 args (Ret (dkg_response cd (cc_Dkg C (args ! 0) (args ! 1))))"

definition wasm_RegisterDevice ::
  "dkgResponse codec \<Rightarrow> client_calls \<Rightarrow> string list \<Rightarrow> js_value result go" where
  "wasm_RegisterDevice cd C args =
     need 2 args (Ret (dkg_response cd (cc_RegisterDevice C (args ! 0) (args ! 1) ''web'')))"

definition wasm_AcceptDevice :: "client_calls \<Rightarrow> string list \<Rightarrow> js_value result go" where
  "wasm_AcceptDevice C args =
     need 4 args
       (Ret (case cc_AcceptDevice C (args ! 0) (args ! 1) (args ! 2) (args ! 3) of
               Some err \<Rightarrow> Inl err
             | None \<Rightarrow> Inr JsNull))"

definition wasm_Backup :: "client_calls \<Rightarrow> string list \<Rightarrow> js_value result go" where
  "wasm_Backup C args =
     need 4 args (Ret (js_result (cc_Backup C (args ! 0) (args ! 1) (args ! 2) (args ! 3))))"

definition wasm_FromBackup ::
  "dkgResponse codec \<Rightarrow> client_calls \<Rightarrow> string list \<Rightarrow> js_value result go" where
  "wasm_FromBackup cd C args =
     need 3 args (Ret (dkg_response cd (cc_FromBackup C (args ! 0) (args ! 1) (args ! 2))))"

text \<open>The message comes as hexadecimal text, possibly quoted, ended by a new line or prefixed.\<close>

definition trim_hex :: "string \<Rightarrow> string" where
  "trim_hex s =
     TrimPrefix (TrimSuffix (filter (\<lambda>c. c \<noteq> char_of (34::nat)) s) [char_of (10::nat)]) ''0x''"

definition wasm_SignBytes :: "client_calls \<Rightarrow> string list \<Rightarrow> js_value result go" where
  "wasm_SignBytes C args =
     need 5 args
       (Ret (case hex_decode (trim_hex (args ! 1)) of
               Inl err \<Rightarrow> Inl err
             | Inr message \<Rightarrow>
                 (case cc_Sign C (args ! 0) message (args ! 2) (args ! 3) (args ! 4) of
                    Inl err \<Rightarrow> Inl err
                  | Inr signature \<Rightarrow> Inr (JsString (hex_encode (sg_Signature signature))))))"

definition wasm_Export :: "client_calls \<Rightarrow> string list \<Rightarrow> js_value result go" where
  "wasm_Export C args =
     need 4 args (Ret (js_result (cc_Export C (args ! 0) (args ! 1) (args ! 2) (args ! 3))))"

text \<open>
  \<open>SignEthTransaction\<close> ignores the error of \<open>_tx.Sign\<close>, whose text is empty then.
\<close>

definition wasm_SignEthTransaction ::
  "num_lib \<Rightarrow> ('tx, 'al) eth_lib \<Rightarrow> client_calls \<Rightarrow> string list \<Rightarrow> js_value result go" where
  "wasm_SignEthTransaction N T C args =
     (if length args \<noteq> 6 then Ret (Inl (ErrNew ''incorrect number of arguments''))
      else
        (case NewEthereumTxWithJson N T (args ! 1) (AnyString (args ! 5)) of
           Inl err \<Rightarrow> Ret (Inl err)
         | Inr x \<Rightarrow>
             (case GenerateMessage T x of
                Panic m \<Rightarrow> Panic m
              | Ret (message, x') \<Rightarrow>
                  (case cc_Sign C (args ! 0) message (args ! 2) (args ! 3) (args ! 4) of
                     Inl err \<Rightarrow> Ret (Inl err)
                   | Inr signature \<Rightarrow>
                       (case EthSign T (sg_Signature signature) x' of
                          Panic m \<Rightarrow> Panic m
                        | Ret (Inl err, _) \<Rightarrow> Ret (Inr (JsString []))
                        | Ret (Inr signedTx, _) \<Rightarrow> Ret (Inr (JsString signedTx)))))))"

text \<open>\<open>main\<close> makes the functions global in JavaScript, each as a promise.\<close>

definition wasm_main ::
  "num_lib \<Rightarrow> ('tx, 'al) eth_lib \<Rightarrow> dkgResponse codec \<Rightarrow> client_calls \<Rightarrow> string \<rightharpoonup> (string list \<Rightarrow> promise)" where
  "wasm_main N T cd C =
     map_of
       [(''Identify'', \<lambda>args. asyncFunc (wasm_Identify C args)),
        (''Dkg'', \<lambda>args. asyncFunc (wasm_Dkg cd C args)),
        (''RegisterDevice'', \<lambda>args. asyncFunc (wasm_RegisterDevice cd C args)),
        (''AcceptDevice'', \<lambda>args. asyncFunc (wasm_AcceptDevice C args)),
        (''Backup'', \<lambda>args. asyncFunc (wasm_Backup C args)),
        (''FromBackup'', \<lambda>args. asyncFunc (wasm_FromBackup cd C args)),
        (''SignBytes'', \<lambda>args. asyncFunc (wasm_SignBytes C args)),
        (''SignEthTransaction'', \<lambda>args. asyncFunc (wasm_SignEthTransaction N T C args)),
        (''Export'', \<lambda>args. asyncFunc (wasm_Export C args))]"

end
