(* ===== verification/ClientContract.thy ===== *)
theory ClientContract
  imports ClientLoops "HOL-Library.Sublist"
begin

text \<open>
  What the three websocket loops of the client have in common: the steps that leave the course of
  the calling goroutine alone, the steps of that goroutine, and the contract under which an
  invariant of a loop follows from its messages and its steps.
\<close>

text \<open>Steps that leave the course of the calling goroutine and the final handshake alone.\<close>

definition calm :: "'a conn \<Rightarrow> 'a conn \<Rightarrow> bool" where
  "calm st st' \<longleftrightarrow>
     (cn_main st' = cn_main st \<or> cn_main st = CM_wait \<and> cn_main st' = CM_process) \<and>
     cn_returned st' = cn_returned st \<and> cn_serverDone st' = cn_serverDone st \<and>
     cn_metadata st' = cn_metadata st \<and> prefix (cn_out st) (cn_out st')"

lemma calm_report: "conn_report err st = Some st' \<Longrightarrow> calm st st'"
  by (auto simp: conn_report_def calm_def split: option.split_asm)

lemma calm_send: "conn_send cj next w st = Some st' \<Longrightarrow> calm st st'"
  by (auto simp: conn_send_def calm_def conn_crash_def
      split: if_split_asm option.split_asm prod.split_asm turn.split_asm)

lemma calm_engine: "conn_engine f st = Some st' \<Longrightarrow> calm st st'"
  by (auto simp: conn_engine_def calm_def conn_crash_def split: option.split_asm if_split_asm go.split_asm)

lemma calm_start: "conn_start st = Some st' \<Longrightarrow> calm st st'"
  by (auto simp: conn_start_def calm_def split: if_split_asm)

lemma calm_timeout: "conn_timeout st = Some st' \<Longrightarrow> calm st st'"
  by (auto simp: conn_timeout_def calm_def split: if_split_asm)

lemma calm_read_err: "conn_read_err normal err st = Some st' \<Longrightarrow> calm st st'"
  by (cases "read_failure normal (cn_ctx st) err") (auto simp: conn_read_err_def calm_report, simp add: calm_def)

lemma calm_tss: "conn_tss cj handle msg st = Some st' \<Longrightarrow> calm st st'"
  using calm_report [of _ "st\<lparr>cn_actor := _\<rparr>" st']
  by (auto simp: conn_tss_def calm_def conn_crash_def
      split: if_split_asm go.split_asm prod.split_asm sum.split_asm)

lemma calm_reply: "conn_reply w m st = Some st' \<Longrightarrow> calm st st'"
  by (cases w) (auto simp: conn_reply_def conn_say_def calm_report, auto simp: calm_def)

lemma calm_new_actor: "conn_new_actor made st = Some st' \<Longrightarrow> calm st st'"
  using calm_report [of _ "st\<lparr>cn_actor := None\<rparr>" st'] calm_report [of _ st st']
  by (auto simp: conn_new_actor_def Let_def calm_def split: sum.split_asm if_split_asm)

lemmas calm_pieces = calm_report calm_send calm_engine calm_start calm_timeout calm_read_err calm_tss
  calm_reply calm_new_actor

text \<open>An invariant of a loop that calm steps keep is kept by all when the messages and the steps
  of the loop keep it.\<close>

locale conn_loop =
  fixes ops :: "('m, 'pt, 'a) conn_ops" and holds :: "'a conn \<Rightarrow> bool"
  assumes calm_holds: "holds st \<Longrightarrow> calm st st' \<Longrightarrow> holds st'"
    and read_holds: "holds st \<Longrightarrow> co_read ops msg w st = Some st' \<Longrightarrow> holds st'"
    and main_holds: "holds st \<Longrightarrow> co_main ops w st = Some st' \<Longrightarrow> holds st'"
begin

lemma step_holds: "conn_step E ops ev st = Some st' \<Longrightarrow> holds st \<Longrightarrow> holds st'"
proof (cases ev)
  case (Ce_read re)
  assume "conn_step E ops ev st = Some st'" "holds st"
  with Ce_read show ?thesis
    by (cases re) (auto intro: calm_holds calm_read_err read_holds split: if_split_asm)
qed (auto intro: calm_holds calm_pieces main_holds split: if_split_asm)

lemma reach_holds: "conn_reach E ops st0 st \<Longrightarrow> holds st0 \<Longrightarrow> holds st"
  by (induction rule: conn_reach.induct) (auto intro: step_holds simp del: conn_step.simps)

end

text \<open>The steps of the calling goroutine that the three loops share.\<close>

definition wallet_done :: "'a conn \<Rightarrow> bool" where
  "wallet_done st \<longleftrightarrow>
     (\<forall>oc. cn_returned st = Some oc \<and> oc_result oc \<noteq> None \<longrightarrow> oc_err oc = None \<and> cn_serverDone st)"

lemma process_done: "conn_process process pc st = Some st' \<Longrightarrow> wallet_done st \<Longrightarrow> wallet_done st'"
  by (auto simp: conn_process_def conn_crash_def conn_return_def wallet_done_def oc_nil_def
      split: option.split_asm go.split_asm sum.split_asm)

lemma check_done: "conn_check normal r st = Some st' \<Longrightarrow> wallet_done st \<Longrightarrow> wallet_done st'"
  by (auto simp: conn_check_def conn_return_def wallet_done_def oc_fail_def split: prod.split_asm option.split_asm)

lemma stage_done: "conn_set_stage pc r st = Some st' \<Longrightarrow> wallet_done st \<Longrightarrow> wallet_done st'"
  by (auto simp: conn_set_stage_def wallet_done_def)

lemma finish_done:
  "conn_finish oc_wallet r st = Some st' \<Longrightarrow> wallet_done st \<Longrightarrow> wallet_done st'"
  by (auto simp: conn_finish_def conn_return_def wallet_done_def oc_wallet_def split: if_split_asm)

lemma finish_nil_done:
  "conn_finish (\<lambda>r st. oc_nil) r st = Some st' \<Longrightarrow> wallet_done st \<Longrightarrow> wallet_done st'"
  by (auto simp: conn_finish_def conn_return_def wallet_done_def oc_nil_def split: if_split_asm)

lemmas done_pieces = process_done check_done stage_done finish_done finish_nil_done

lemma calm_done: "calm st st' \<Longrightarrow> wallet_done st \<Longrightarrow> wallet_done st'"
  by (auto simp: calm_def wallet_done_def)

text \<open>What the steps of the calling goroutine leave alone.\<close>

definition quiet :: "'a conn \<Rightarrow> 'a conn \<Rightarrow> bool" where
  "quiet st st' \<longleftrightarrow>
     cn_serverDone st' = cn_serverDone st \<and> cn_metadata st' = cn_metadata st \<and> prefix (cn_out st) (cn_out st')"

lemma quiet_pieces:
  "conn_process process pc st = Some st' \<Longrightarrow> quiet st st'"
  "conn_check normal r st = Some st' \<Longrightarrow> quiet st st'"
  "conn_set_stage pc r st = Some st' \<Longrightarrow> quiet st st'"
  "conn_finish result r st = Some st' \<Longrightarrow> quiet st st'"
  by (auto simp: conn_process_def conn_check_def conn_set_stage_def conn_finish_def conn_crash_def conn_return_def
      quiet_def split: option.split_asm go.split_asm sum.split_asm prod.split_asm if_split_asm)

text \<open>What is true of the actor of a loop.\<close>

definition actor_good :: "('a \<Rightarrow> bool) \<Rightarrow> 'a conn \<Rightarrow> bool" where
  "actor_good good c \<longleftrightarrow> (\<forall>a. cn_actor c = Some a \<longrightarrow> good a)"

lemma actor_good_same: "cn_actor c' = cn_actor c \<Longrightarrow> actor_good good c \<Longrightarrow> actor_good good c'"
  by (simp add: actor_good_def)

lemma actor_pieces:
  "conn_report err c = Some c' \<Longrightarrow> cn_actor c' = cn_actor c"
  "conn_read_err normal err c = Some c' \<Longrightarrow> cn_actor c' = cn_actor c"
  "conn_reply w m c = Some c' \<Longrightarrow> cn_actor c' = cn_actor c"
  "conn_reply_close w m c = Some c' \<Longrightarrow> cn_actor c' = cn_actor c"
  "conn_start c = Some c' \<Longrightarrow> cn_actor c' = cn_actor c" "conn_timeout c = Some c' \<Longrightarrow> cn_actor c' = cn_actor c"
  "conn_process process pc c = Some c' \<Longrightarrow> cn_actor c' = cn_actor c"
  "conn_check normal r c = Some c' \<Longrightarrow> cn_actor c' = cn_actor c"
  "conn_set_stage spc r c = Some c' \<Longrightarrow> cn_actor c' = cn_actor c"
  "conn_finish result r c = Some c' \<Longrightarrow> cn_actor c' = cn_actor c"
  "cn_actor (conn_close_done c) = cn_actor c" "cn_actor (conn_crash c) = cn_actor c"
  by (auto simp: conn_report_def conn_read_err_def conn_reply_def conn_reply_close_def conn_start_def conn_timeout_def
      conn_process_def conn_check_def conn_set_stage_def conn_finish_def conn_close_done_def conn_crash_def
      conn_return_def conn_say_def
      split: option.split_asm sum.split_asm go.split_asm prod.split_asm if_split_asm)

text \<open>A message for the actor, which \<open>handle\<close> keeps good.\<close>

lemma actor_tss:
  assumes "conn_tss cj handle msg c = Some c'" and "actor_good good c"
    and "\<And>p m r b. handle p m = Ret (r, Some b) \<Longrightarrow> \<exists>a. p = Some a \<and> (good a \<longrightarrow> good b)"
  shows "actor_good good c'"
proof (cases "conn_late msg c")
  case True
  with assms(1,2) show ?thesis by (simp add: conn_tss_def)
next
  case False
  have keep: "good b" if "handle_ws_tss cj handle msg (cn_actor c) = Ret (r, Some b)" for r b
    using that assms(2,3) by (fastforce simp: handle_ws_tss_def actor_good_def split: sum.split_asm option.split_asm)
  from False assms(1) consider "c' = conn_crash c"
    | r p where "handle_ws_tss cj handle msg (cn_actor c) = Ret (r, p)" "cn_actor c' = p"
    by (auto simp: conn_tss_def dest: actor_pieces(1) split: go.split_asm prod.split_asm sum.split_asm)
  then show ?thesis
  proof cases
    case 1
    then show ?thesis using actor_good_same [OF actor_pieces(12) assms(2)] by simp
  next
    case 2
    with keep show ?thesis by (simp add: actor_good_def)
  qed
qed

lemma actor_new:
  assumes "conn_new_actor made c = Some c'" and "actor_good good c" and "\<And>a. made = Inr a \<Longrightarrow> good a"
  shows "actor_good good c'"
  using assms by (auto simp: conn_new_actor_def Let_def actor_good_def dest: actor_pieces(1)
      split: sum.split_asm if_split_asm)

lemma actor_send:
  assumes "conn_send cj next w c = Some c'" and "actor_good good c" and "\<And>a r b. good a \<Longrightarrow> next a = Ret (r, b) \<Longrightarrow> good b"
  shows "actor_good good c'"
proof -
  have "good b" if "TssSend_turn cj next t a = (u, b)" "good a" for t a u b
    using that assms(3) by (auto simp: TssSend_turn_def split: if_split_asm go.split_asm sum.split_asm)
  with assms(1,2) show ?thesis
    by (auto simp: conn_send_def actor_good_def conn_crash_def
        split: if_split_asm option.split_asm prod.split_asm turn.split_asm)
qed

lemma actor_engine:
  assumes "conn_engine f c = Some c'" and "actor_good good c" and "\<And>a b. good a \<Longrightarrow> f a = Ret b \<Longrightarrow> good b"
  shows "actor_good good c'"
  using assms by (auto simp: conn_engine_def actor_good_def conn_crash_def
      split: option.split_asm if_split_asm go.split_asm)

text \<open>What the messages, the sender and the library keep of the actor is kept by every step.\<close>

locale conn_actor =
  fixes ops :: "('m, 'pt, 'a) conn_ops" and good :: "'a \<Rightarrow> bool" and fair :: "('m, 'pt) engine_event \<Rightarrow> bool"
  assumes engine_good: "good a \<Longrightarrow> fair x \<Longrightarrow> co_engine ops x a = Ret b \<Longrightarrow> good b"
    and next_good: "good a \<Longrightarrow> co_next ops a = Ret (r, b) \<Longrightarrow> good b"
    and read_good: "actor_good good c \<Longrightarrow> co_read ops msg w c = Some c' \<Longrightarrow> actor_good good c'"
    and main_good: "co_main ops w c = Some c' \<Longrightarrow> cn_actor c' = cn_actor c"
begin

lemma step_good:
  assumes "conn_step E ops ev c = Some c'" and "\<And>x. ev = Ce_engine x \<Longrightarrow> fair x" and "actor_good good c"
  shows "actor_good good c'"
proof (cases ev)
  case (Ce_read re)
  with assms(1,3) show ?thesis
    by (cases re) (auto intro: read_good actor_good_same [OF actor_pieces(2)] split: if_split_asm)
next
  case (Ce_engine x)
  with assms have "conn_engine (co_engine ops x) c = Some c'" "fair x" by (auto split: if_split_asm)
  with assms(3) engine_good show ?thesis by (blast intro: actor_engine)
next
  case (Ce_send w)
  with assms have "conn_send (en_msg E) (co_next ops) w c = Some c'" by (auto split: if_split_asm)
  with assms(3) next_good show ?thesis by (blast intro: actor_send)
qed (use assms in \<open>auto intro: actor_good_same actor_pieces main_good split: if_split_asm\<close>)

end

end
