(* ===== verification/ClientProperties.thy ===== *)
theory ClientProperties
  imports KeyProperties Bindings ClientContract
begin

text \<open>
  Properties of the client: the three websocket loops satisfy one contract, from which what a
  returned wallet stands for follows; a failed process is reported as success; what a backup
  holds, loses and waits for.
\<close>

subsection \<open>Dkg\<close>

definition metadata_ack :: ws_msg where
  "metadata_ack = ws_message MetadataAckMessage []"

definition Dkg_told :: "('m, 'e, 'pt) ClientDkg conn \<Rightarrow> bool" where
  "Dkg_told st \<longleftrightarrow> wallet_done st \<and> (cn_serverDone st \<longrightarrow> metadata_ack \<in> set (cn_out st))"

lemma Dkg_told_quiet: "Dkg_told st \<Longrightarrow> quiet st st' \<Longrightarrow> wallet_done st' \<Longrightarrow> Dkg_told st'"
  by (auto simp: Dkg_told_def quiet_def dest: set_mono_prefix)

lemma reply_close_done:
  "conn_reply_close w m st = Some st' \<Longrightarrow> wallet_done st \<Longrightarrow>
     wallet_done st' \<and> set (cn_out st) \<subseteq> set (cn_out st') \<and> (cn_serverDone st' \<longrightarrow> cn_serverDone st \<or> m \<in> set (cn_out st'))"
  by (cases w; cases "cn_serverDone st")
    (auto simp: conn_reply_close_def conn_close_done_def conn_say_def conn_crash_def conn_report_def wallet_done_def
      split: option.split_asm)

interpretation dkg_loop: conn_loop "Dkg_ops E" Dkg_told for E :: "('m, 'e, 'pt, 'pl) env"
proof unfold_locales
  fix st st' :: "('m, 'e, 'pt) ClientDkg conn" and w
  assume I: "Dkg_told st" and m: "co_main (Dkg_ops E) w st = Some st'"
  from m have "quiet st st'"
    by (auto simp: Dkg_ops_def Dkg_main_def intro: quiet_pieces split: conn_main.split_asm)
  moreover have "wallet_done st" using I by (simp add: Dkg_told_def)
  then have "wallet_done st'"
    using m by (auto simp: Dkg_ops_def Dkg_main_def intro: done_pieces split: conn_main.split_asm)
  ultimately show "Dkg_told st'" using I by (simp add: Dkg_told_quiet)
next
  fix st st' :: "('m, 'e, 'pt) ClientDkg conn"
  assume "Dkg_told st" "calm st st'"
  then show "Dkg_told st'" using calm_done [of st st'] by (auto simp: Dkg_told_def calm_def dest: set_mono_prefix)
next
  fix st st' :: "('m, 'e, 'pt) ClientDkg conn" and msg w
  assume I: "Dkg_told st" and r: "co_read (Dkg_ops E) msg w st = Some st'"
  show "Dkg_told st'"
  proof (cases "wm_Type msg = MetadataMessage")
    case True
    moreover have "MetadataMessage \<noteq> TssMessage" by (simp add: mtype_defs)
    ultimately have closed: "conn_reply_close w metadata_ack (st\<lparr>cn_metadata := wm_Msg msg\<rparr>) = Some st'"
      using r by (simp add: Dkg_ops_def Dkg_read_def metadata_ack_def)
    have "wallet_done (st\<lparr>cn_metadata := wm_Msg msg\<rparr>)"
      using I by (auto simp: Dkg_told_def wallet_done_def)
    note r = reply_close_done [OF closed this]
    from r I show ?thesis by (simp add: Dkg_told_def) blast
  next
    case False
    with r have "calm st st'" by (auto simp: Dkg_ops_def Dkg_read_def intro: calm_pieces split: if_split_asm)
    then show ?thesis using I calm_done [of st st'] by (auto simp: Dkg_told_def calm_def dest: set_mono_prefix)
  qed
qed

text \<open>C23: however its goroutines run, \<open>Dkg\<close> returns a wallet only without an error and only
  after the metadata has been acknowledged to the server.\<close>

theorem client_dkg_acknowledged:
  assumes "conn_reach E (Dkg_ops E) (Dkg_start dkg hello) st"
    and "cn_returned st = Some oc" and "oc_result oc = Some w"
  shows "oc_err oc = None \<and> ws_message MetadataAckMessage [] \<in> set (cn_out st)"
proof -
  have "Dkg_told (Dkg_start dkg hello)" by (simp add: Dkg_told_def wallet_done_def Dkg_start_def conn_init_def)
  from dkg_loop.reach_holds [OF assms(1) this] assms(2,3) show ?thesis
    by (auto simp: Dkg_told_def wallet_done_def metadata_ack_def)
qed

lemma conn_reach_run:
  "steps (conn_step E ops) evs st = Some st' \<Longrightarrow> conn_reach E ops st0 st \<Longrightarrow> conn_reach E ops st0 st'"
  by (rule steps_invariant [where P = "conn_reach E ops st0"]) (auto intro: conn_reach_step simp del: conn_step.simps)

definition toy_cdkg :: "(string, string list, int) ClientDkg" where
  "toy_cdkg =
     \<lparr>cd_service = \<lparr>dk_pm = Some (RegisterHandleMessage (AddPeer (NewPeerManager ''c'') serverID) (service_handle toy_alice)),
        dk_dkg = Some [], dk_threshold = threshold2, dk_rank = rank0, dk_done = True,
        dk_result = Some \<lparr>lr_PublicKey = 5, lr_Share = 1, lr_Bks = fmempty\<rparr>\<rparr>,
      cd_clientPeerID = ''c''\<rparr>"

definition toy_hello :: ws_msg where
  "toy_hello = ws_message PeerIdBroadcastMessage ''c''"

definition toy_cdkg_events :: "(string, int) conn_event list" where
  "toy_cdkg_events =
     [Ce_main (Inr ()), Ce_main (Inr ()), Ce_main (Inr ()),
      Ce_read (ReadMsg (ws_message MetadataMessage ''md'') (Inr ())), Ce_main (Inr ())]"

lemma toy_cdkg_process:
  obtains w where "ClientDkg_Process toy_lib toy_cdkg = Some (Ret (Inr w))"
  by (simp add: ClientDkg_Process_def toy_cdkg_def PostProcessResult_def Let_def GetAddress_def GetECDSA_def
      PubkeyToAddress_def FromECDSAPub_def ec_Marshal_def toy_lib_def FillBytes_def slice_from_1_def)

lemma toy_cdkg_run:
  "\<exists>st w. conn_reach toy_env (Dkg_ops toy_env) (Dkg_start toy_cdkg toy_hello) st \<and>
     cn_returned st = Some \<lparr>oc_result = Some w, oc_metadata = ''md'', oc_err = None\<rparr>"
proof -
  obtain w where w: "ClientDkg_Process toy_lib toy_cdkg = Some (Ret (Inr w))" by (rule toy_cdkg_process)
  have ne: "MetadataMessage \<noteq> TssMessage" by (simp add: mtype_defs)
  have "\<exists>st. steps (conn_step toy_env (Dkg_ops toy_env)) toy_cdkg_events (Dkg_start toy_cdkg toy_hello) = Some st \<and>
      cn_returned st = Some \<lparr>oc_result = Some w, oc_metadata = ''md'', oc_err = None\<rparr>"
    by (simp add: toy_cdkg_events_def Dkg_start_def conn_init_def Dkg_ops_def Dkg_main_def conn_process_def w
        conn_check_def ProcessErrors_def conn_set_stage_def Dkg_read_def ws_message_def ne conn_reply_close_def
        conn_close_done_def conn_say_def conn_finish_def conn_return_def oc_wallet_def)
  with conn_reach_run conn_reach_init show ?thesis by blast
qed

theorem client_dkg_acknowledged_witness:
  "\<exists>st w. conn_reach toy_env (Dkg_ops toy_env) (Dkg_start toy_cdkg toy_hello) st \<and>
     cn_returned st = Some \<lparr>oc_result = Some w, oc_metadata = ''md'', oc_err = None\<rparr> \<and>
     ws_message MetadataAckMessage [] \<in> set (cn_out st)"
proof -
  obtain st w where st: "conn_reach toy_env (Dkg_ops toy_env) (Dkg_start toy_cdkg toy_hello) st"
     "cn_returned st = Some \<lparr>oc_result = Some w, oc_metadata = ''md'', oc_err = None\<rparr>" using toy_cdkg_run by blast
  from client_dkg_acknowledged [OF this, of w] st show ?thesis by auto
qed

subsection \<open>Devices\<close>

interpretation register_loop: conn_loop "Register_ops E cpw peerID device" wallet_done
  for E :: "('m, 'e, 'pt, 'pl) env" and cpw and peerID and device
proof unfold_locales
  fix st st' :: "('m, 'e, 'pt) ClientAdd conn" and w
  assume "wallet_done st" "co_main (Register_ops E cpw peerID device) w st = Some st'"
  then show "wallet_done st'"
    by (auto simp: Register_ops_def Register_main_def conn_crash_def intro: done_pieces
        split: conn_main.split_asm option.split_asm if_split_asm) (auto simp: wallet_done_def)
next
  fix st st' :: "('m, 'e, 'pt) ClientAdd conn"
  assume "wallet_done st" "calm st st'"
  then show "wallet_done st'" by (blast intro: calm_done)
next
  fix st st' :: "('m, 'e, 'pt) ClientAdd conn" and msg w
  assume I: "wallet_done st" and r: "co_read (Register_ops E cpw peerID device) msg w st = Some st'"
  have I2: "wallet_done (st\<lparr>cn_peer := p\<rparr>)" "wallet_done (st\<lparr>cn_metadata := p\<rparr>)" "wallet_done (conn_close_done st)" for p
    using I by (auto simp: wallet_done_def conn_close_done_def conn_crash_def)
  have "st' = st \<or> st' = conn_close_done st \<or> calm st st' \<or> (\<exists>p. calm (st\<lparr>cn_peer := p\<rparr>) st' \<or> calm (st\<lparr>cn_metadata := p\<rparr>) st')"
    using r by (auto simp: Register_ops_def Register_read_def Register_on_pubkey_def
        intro: calm_pieces split: if_split_asm sum.split_asm)
  with I I2 show "wallet_done st'" by (auto intro: calm_done)
qed

text \<open>\<open>RegisterDevice\<close> returns a wallet only without an error and only after the existing
  device has said that it is done.\<close>

theorem register_after_existing_done:
  assumes "conn_reach E (Register_ops E cpw peerID device) (Register_start hello) st"
    and "cn_returned st = Some oc" and "oc_result oc = Some w"
  shows "oc_err oc = None \<and> cn_serverDone st"
proof -
  have "wallet_done (Register_start hello :: ('a, 'b, 'c) ClientAdd conn)"
    by (simp add: wallet_done_def Register_start_def conn_init_def)
  from register_loop.reach_holds [OF assms(1) this] assms(2,3) show ?thesis by (simp add: wallet_done_def)
qed

definition toy_public :: "PublicWallet codec" where
  "toy_public =
     \<lparr>Marshal = (\<lambda>w. Inr ''p''),
      Unmarshal = (\<lambda>bs. Inr \<lparr>pw_PublicKey = dr_Pubkey toy_wallet, pw_BKs = toy_bks\<rparr>)\<rparr>"

definition toy_register_events :: "(string, int) conn_event list" where
  "toy_register_events =
     [Ce_read (ReadMsg (ws_message PubkeyMessage []) (Inr ())), Ce_start,
      Ce_engine (En_state (Inr \<lparr>lr_PublicKey = 5, lr_Share = 1, lr_Bks = fmempty\<rparr>) StateDone),
      Ce_main (Inr ()), Ce_main (Inr ()), Ce_main (Inr ()), Ce_main (Inr ()),
      Ce_read (ReadMsg (ws_message ExistingDeviceDoneMessage []) (Inr ())), Ce_main (Inr ())]"

lemma toy_client_add:
  obtains a where "NewClientAdd toy_lib toy_alice ''n'' [] (dr_Pubkey toy_wallet) toy_bks = Inr a"
    "\<not> an_done (ca_service a)"
proof -
  have "NewPubkey (dr_Pubkey toy_wallet) = Inr toy_key" by (simp add: toy_recovery toy_key_def)
  moreover have "GetECPoint toy_lib toy_key = Inr 5" by (simp add: toy_key_def toy_recovery)
  ultimately have "\<exists>a. NewClientAdd toy_lib toy_alice ''n'' [] (dr_Pubkey toy_wallet) toy_bks = Inr a \<and>
      \<not> an_done (ca_service a)"
    by (simp add: NewClientAdd_def AddNew_Init_def NewServiceAddNew_def Let_def)
  with that show ?thesis by blast
qed

lemma toy_add_process:
  "an_done (ca_service a) \<Longrightarrow> an_result (ca_service a) = Some \<lparr>lr_PublicKey = 5, lr_Share = 1, lr_Bks = fmempty\<rparr> \<Longrightarrow>
     \<exists>w. ClientAdd_Process toy_lib a = Some (Ret (Inr w))"
  by (simp add: ClientAdd_Process_def PostProcessResult_def Let_def GetAddress_def GetECDSA_def
      PubkeyToAddress_def FromECDSAPub_def ec_Marshal_def toy_lib_def FillBytes_def slice_from_1_def)

lemma toy_register_run:
  "\<exists>st oc w. conn_reach toy_env (Register_ops toy_env toy_public ''n'' ''web'') (Register_start toy_hello) st \<and>
     cn_returned st = Some oc \<and> oc_result oc = Some w"
proof -
  obtain a where a: "NewClientAdd toy_lib toy_alice ''n'' [] (dr_Pubkey toy_wallet) toy_bks = Inr a"
    "\<not> an_done (ca_service a)" by (rule toy_client_add)
  let ?a = "a\<lparr>ca_service := (ca_service a)\<lparr>an_result := Some \<lparr>lr_PublicKey = 5, lr_Share = 1, lr_Bks = fmempty\<rparr>,
      an_done := True\<rparr>\<rparr>"
  obtain w where w: "ClientAdd_Process toy_lib ?a = Some (Ret (Inr w))" using toy_add_process [of ?a] by auto
  have ne: "PubkeyMessage \<noteq> PeerIdBroadcastMessage" "ExistingDeviceDoneMessage \<noteq> PeerIdBroadcastMessage"
      "ExistingDeviceDoneMessage \<noteq> PubkeyMessage" "ExistingDeviceDoneMessage \<noteq> TssMessage"
      "ExistingDeviceDoneMessage \<noteq> MetadataMessage" "mt_stage ExistingDeviceDoneMessage = 80"
    by (simp_all add: mtype_defs)
  have "\<exists>st oc. steps (conn_step toy_env (Register_ops toy_env toy_public ''n'' ''web'')) toy_register_events
      (Register_start toy_hello) = Some st \<and> cn_returned st = Some oc \<and> oc_result oc = Some w"
    using a(2) w
    by (simp add: toy_register_events_def Register_start_def conn_init_def Register_ops_def Register_read_def
        ws_message_def ne Register_on_pubkey_def toy_public_def conn_new_actor_def a(1) conn_start_def
        conn_engine_def Register_engine_def AddNew_OnStateChanged_def AddNew_close_def Register_main_def
        conn_process_def conn_check_def ProcessErrors_def conn_set_stage_def conn_late_def conn_close_done_def
        conn_finish_def conn_return_def oc_wallet_def)
  with conn_reach_run conn_reach_init show ?thesis by blast
qed

theorem register_after_existing_done_witness:
  "\<exists>st. conn_reach toy_env (Register_ops toy_env toy_public ''n'' ''web'') (Register_start toy_hello) st \<and>
     cn_returned st \<noteq> None \<and> cn_serverDone st"
proof -
  obtain st oc w where "conn_reach toy_env (Register_ops toy_env toy_public ''n'' ''web'') (Register_start toy_hello) st"
     "cn_returned st = Some oc" "oc_result oc = Some w" using toy_register_run by blast
  from this register_after_existing_done [OF this] show ?thesis by blast
qed

subsection \<open>Failed processes\<close>

text \<open>C35: when the TSS process fails, \<open>Dkg\<close> returns neither a wallet nor an error; and if both
  its reader and its sender have reported errors before, it does not return at all: whatever
  happens later, the call stays blocked on the channel of errors.\<close>

theorem failed_process_returns_no_error:
  assumes "cn_main st = CM_process" and "\<not> cn_crashed st" and "cn_actor st = Some a"
    and "ClientDkg_Process (en_lib E) a = Some (Ret (Inl err))"
  shows "(length (cn_errs st) < errs_cap \<longrightarrow>
            (\<exists>st'. conn_step E (Dkg_ops E) (Ce_main w) st = Some st' \<and> cn_returned st' = Some oc_nil)) \<and>
         (length (cn_errs st) = errs_cap \<and> cn_reader st = CR_gone \<and> cn_sender st = Sender_gone \<longrightarrow>
            (\<forall>evs st'. (\<forall>x. Ce_engine x \<notin> set evs) \<longrightarrow> steps (conn_step E (Dkg_ops E)) evs st = Some st' \<longrightarrow>
               cn_returned st' = cn_returned st))"
proof -
  let ?stuck = "\<lambda>s. cn_main s = CM_process \<and> cn_actor s = Some a \<and> length (cn_errs s) = errs_cap \<and>
      cn_reader s = CR_gone \<and> cn_sender s = Sender_gone \<and> cn_returned s = cn_returned st"
  have step: "?stuck s'" if "?stuck s" "conn_step E (Dkg_ops E) ev s = Some s'" "\<forall>x. ev \<noteq> Ce_engine x" for s s' ev
    using that assms(4)
    by (cases ev) (auto simp: conn_start_def Dkg_ops_def Dkg_main_def conn_process_def conn_send_def conn_timeout_def
        chan_send_def split: if_split_asm read_event.split_asm)
  have "cn_returned s' = cn_returned st"
    if "steps (conn_step E (Dkg_ops E)) evs st = Some s'" "?stuck st" "\<forall>x. Ce_engine x \<notin> set evs" for evs s'
  proof -
    have "?stuck s'"
    proof (rule steps_invariant [where P = ?stuck, OF that(1,2)])
      fix s ev s'
      assume "?stuck s" "ev \<in> set evs" "conn_step E (Dkg_ops E) ev s = Some s'"
      with that(3) step [of s ev s'] show "?stuck s'" by blast
    qed
    then show ?thesis by blast
  qed
  moreover have "length (cn_errs st) < errs_cap \<Longrightarrow>
      \<exists>st'. conn_step E (Dkg_ops E) (Ce_main w) st = Some st' \<and> cn_returned st' = Some oc_nil"
    using assms by (simp add: Dkg_ops_def Dkg_main_def conn_process_def conn_return_def chan_send_def)
  ultimately show ?thesis using assms(1,3) by blast
qed

lemma toy_cdkg_failed:
  "ClientDkg_Process toy_lib (toy_cdkg\<lparr>cd_service := (cd_service toy_cdkg)\<lparr>dk_result := None\<rparr>\<rparr>) =
     Some (Ret (Inl (ErrNew ''could not get client dkg results'')))"
  by (simp add: ClientDkg_Process_def toy_cdkg_def)

theorem failed_process_returns_no_error_witness:
  "\<exists>st. conn_step toy_env (Dkg_ops toy_env) (Ce_main (Inr ()))
      (Dkg_start (toy_cdkg\<lparr>cd_service := (cd_service toy_cdkg)\<lparr>dk_result := None\<rparr>\<rparr>) toy_hello) = Some st \<and>
    cn_returned st = Some oc_nil"
  using failed_process_returns_no_error [of "Dkg_start (toy_cdkg\<lparr>cd_service := (cd_service toy_cdkg)\<lparr>dk_result := None\<rparr>\<rparr>) toy_hello"
      _ toy_env] toy_cdkg_failed
  by (simp add: Dkg_start_def conn_init_def errs_cap_def)

subsection \<open>Backups\<close>

text \<open>C26: a backup reads back as what was written: the wallet text and the metadata.\<close>

theorem backup_round_trip:
  assumes "oc_err oc = None" and "oc_result oc = Some w" and "Marshal cw w = Inr text"
    and "codec_ok cm [''DkgResult'' \<mapsto> text, ''Metadata'' \<mapsto> oc_metadata oc]"
  shows "\<exists>s. Backup cw cm oc = Inr s \<and> FromBackup_args cm s = Inr (text, oc_metadata oc)"
  using assms by (auto simp: Backup_def FromBackup_args_def marshal_ptr_def codec_ok_def split: sum.split_asm)

definition toy_map_codec :: "(string \<rightharpoonup> string) codec" where
  "toy_map_codec =
     \<lparr>Marshal = (\<lambda>m. Inr ''m''), Unmarshal = (\<lambda>bs. Inr [''DkgResult'' \<mapsto> toy_text toy_wallet, ''Metadata'' \<mapsto> ''md''])\<rparr>"

theorem backup_round_trip_witness:
  "\<exists>s. Backup toy_wallet_codec toy_map_codec \<lparr>oc_result = Some toy_wallet, oc_metadata = ''md'', oc_err = None\<rparr> = Inr s \<and>
       FromBackup_args toy_map_codec s = Inr (toy_text toy_wallet, ''md'')"
  using backup_round_trip [of "\<lparr>oc_result = Some toy_wallet, oc_metadata = ''md'', oc_err = None\<rparr>" toy_wallet
      toy_wallet_codec "toy_text toy_wallet" toy_map_codec]
  by (simp add: codec_ok_def toy_map_codec_def)

subsection \<open>The two goroutines of a backup\<close>

text \<open>Runs in which \<open>RegisterDevice\<close> returns \<open>oc\<close> and \<open>AcceptDevice\<close> the error \<open>e\<close>; where the caller can
  be when neither goroutine can go on.\<close>

definition Be_ok :: "outcome \<Rightarrow> go_error option \<Rightarrow> backup_event \<Rightarrow> bool" where
  "Be_ok oc e ev = (case ev of Be_registered x \<Rightarrow> x = oc | Be_accepted x \<Rightarrow> x = e | _ \<Rightarrow> True)"

definition backup_ends :: "outcome \<Rightarrow> go_error option \<Rightarrow> backup_main set" where
  "backup_ends oc e =
     {bk_main st | st. (\<exists>evs. (\<forall>ev \<in> set evs. Be_ok oc e ev) \<and> steps backup_step evs backup_init = Some st) \<and>
        (\<forall>ev. Be_ok oc e ev \<longrightarrow> backup_step ev st = None)}"

definition backup_result :: "outcome \<Rightarrow> go_error option \<Rightarrow> outcome \<Rightarrow> bool" where
  "backup_result oc e r \<longleftrightarrow>
     (case (oc_err oc, e) of
        (None, None) \<Rightarrow> r = oc
      | (None, Some x) \<Rightarrow> r \<in> {oc_fail x, oc, oc_nil}
      | (Some y, None) \<Rightarrow> r \<in> {oc_fail y, oc\<lparr>oc_err := None\<rparr>}
      | (Some y, Some x) \<Rightarrow> r \<in> {oc_fail x, oc_fail y})"

definition backup_good :: "outcome \<Rightarrow> go_error option \<Rightarrow> backup_state \<Rightarrow> bool" where
  "backup_good oc e st \<longleftrightarrow>
     (bk_reg st \<noteq> BR_call \<longrightarrow> bk_result st = oc_result oc \<and> bk_metadata st = oc_metadata oc) \<and>
     (bk_reg st = BR_offer \<longrightarrow> oc_err oc = None \<or> e = None) \<and>
     (bk_reg st = BR_check \<longrightarrow> bk_err st \<in> {oc_err oc, e}) \<and>
     (case bk_main st of
        BA_call \<Rightarrow> (bk_reg st = BR_check \<longrightarrow> bk_err st = oc_err oc) \<and> (bk_reg st = BR_gone \<longrightarrow> oc_err oc \<noteq> None) \<and>
          (bk_reg st = BR_offer \<longrightarrow> oc_err oc = None)
      | BA_check \<Rightarrow> bk_err st \<in> {oc_err oc, e} \<and> (bk_reg st = BR_call \<longrightarrow> bk_err st = e) \<and>
          (bk_reg st = BR_gone \<and> bk_err st = None \<longrightarrow> oc_err oc \<noteq> None \<and> e = None)
      | BA_fail \<Rightarrow> bk_err st \<in> {oc_err oc, e} \<and> (bk_reg st = BR_call \<longrightarrow> bk_err st = e) \<and>
          (oc_err oc \<noteq> None \<or> e \<noteq> None) \<and> (e = None \<longrightarrow> bk_err st = oc_err oc \<and> bk_reg st \<noteq> BR_call)
      | BA_recv \<Rightarrow> (bk_reg st = BR_call \<longrightarrow> e = None) \<and>
          (bk_reg st = BR_check \<and> bk_err st \<noteq> None \<longrightarrow> oc_err oc \<noteq> None \<and> e = None) \<and>
          (bk_reg st = BR_gone \<longrightarrow> oc_err oc \<noteq> None \<and> e = None)
      | BA_returned r \<Rightarrow> backup_result oc e r)"

lemma backup_step_good:
  assumes "backup_step ev s = Some s'" and "Be_ok oc e ev" and "backup_good oc e s"
  shows "backup_good oc e s'"
proof (cases ev)
  case Be_meet
  with assms show ?thesis
    by (cases "oc_err oc"; cases e)
      (auto simp: backup_good_def backup_result_def intro: outcome.equality split: if_split_asm)
next
  case Be_acc_return
  with assms show ?thesis
    by (cases "oc_err oc"; cases e)
      (auto simp: backup_good_def backup_result_def oc_fail_def oc_nil_def split: if_split_asm)
next
  case (Be_registered x)
  with assms show ?thesis
    by (cases "bk_main s"; auto simp: Be_ok_def backup_good_def split: if_split_asm)
next
  case Be_reg_check
  with assms show ?thesis
    by (cases "bk_main s"; cases "bk_err s"; cases "oc_err oc"; auto simp: backup_good_def split: if_split_asm)
next
  case (Be_accepted x)
  with assms show ?thesis
    by (cases "bk_reg s"; auto simp: Be_ok_def backup_good_def split: if_split_asm)
next
  case Be_acc_check
  with assms show ?thesis
    by (cases "bk_reg s"; cases "bk_err s"; cases "oc_err oc"; auto simp: backup_good_def split: if_split_asm)
qed

lemma backup_runs_good:
  assumes "\<forall>ev \<in> set evs. Be_ok oc e ev" and "steps backup_step evs backup_init = Some st"
  shows "backup_good oc e st"
proof (rule steps_invariant [where P = "backup_good oc e", OF assms(2)])
  show "backup_good oc e backup_init" by (simp add: backup_init_def backup_good_def)
qed (use assms(1) backup_step_good in blast)

text \<open>The caller returns, or waits for the channel on which the other one does not send.\<close>

lemma backup_ends_at:
  assumes "backup_good oc e st" and "\<forall>ev. Be_ok oc e ev \<longrightarrow> backup_step ev st = None"
  shows "(\<exists>r. bk_main st = BA_returned r \<and> backup_result oc e r) \<or> bk_main st = BA_recv \<and> oc_err oc \<noteq> None \<and> e = None"
proof -
  have no: "Be_ok oc e ev \<Longrightarrow> backup_step ev st = None" for ev using assms(2) by blast
  have "bk_reg st \<noteq> BR_call" "bk_reg st \<noteq> BR_check" "bk_main st \<noteq> BA_call" "bk_main st \<noteq> BA_check" "bk_main st \<noteq> BA_fail"
      "\<not> (bk_reg st = BR_offer \<and> bk_main st = BA_recv)"
    using no [of "Be_registered oc"] no [of Be_reg_check] no [of "Be_accepted e"] no [of Be_acc_check]
      no [of Be_acc_return] no [of Be_meet] by (auto simp: Be_ok_def split: if_split_asm)
  then show ?thesis using assms(1) by (cases "bk_reg st"; cases "bk_main st") (auto simp: backup_good_def)
qed

text \<open>Orders of the two goroutines, from which the ends arise.\<close>

definition settled :: "backup_main \<Rightarrow> backup_state \<Rightarrow> bool" where
  "settled m st \<longleftrightarrow>
     bk_main st = m \<and> bk_reg st \<notin> {BR_call, BR_check} \<and> (m = BA_recv \<and> bk_reg st = BR_gone \<or> (\<exists>r. m = BA_returned r))"

lemma end_of_run:
  assumes "map_option (settled m) (steps backup_step evs backup_init) = Some True" and "\<forall>ev \<in> set evs. Be_ok oc e ev"
  shows "m \<in> backup_ends oc e"
proof -
  from assms(1) obtain st where st: "steps backup_step evs backup_init = Some st" "settled m st" by auto
  then have "backup_step ev st = None" for ev by (cases ev) (auto simp: settled_def)
  with st assms(2) show ?thesis unfolding backup_ends_def settled_def by blast
qed

definition good_backup :: "outcome \<Rightarrow> go_error option \<Rightarrow> backup_event list" where
  "good_backup oc e = [Be_accepted e, Be_registered oc, Be_reg_check, Be_acc_check, Be_meet]"

definition lost_error :: "outcome \<Rightarrow> go_error option \<Rightarrow> backup_event list" where
  "lost_error oc e = [Be_registered oc, Be_accepted e, Be_reg_check, Be_acc_check, Be_meet]"

definition no_sender :: "outcome \<Rightarrow> go_error option \<Rightarrow> backup_event list" where
  "no_sender oc e = [Be_registered oc, Be_reg_check, Be_accepted e, Be_acc_check]"

definition register_error :: "outcome \<Rightarrow> go_error option \<Rightarrow> backup_event list" where
  "register_error oc e = [Be_accepted e, Be_registered oc, Be_reg_check, Be_acc_check, Be_acc_return]"

definition accept_error :: "outcome \<Rightarrow> go_error option \<Rightarrow> backup_event list" where
  "accept_error oc e = [Be_registered oc, Be_reg_check, Be_accepted e, Be_acc_check, Be_acc_return]"

definition cleared_error :: "outcome \<Rightarrow> go_error option \<Rightarrow> backup_event list" where
  "cleared_error oc e = [Be_accepted e, Be_acc_check, Be_registered oc, Be_reg_check, Be_acc_return]"

lemmas backup_runs = good_backup_def lost_error_def no_sender_def register_error_def accept_error_def cleared_error_def

lemmas backup_eval = backup_init_def Be_ok_def settled_def oc_nil_def oc_fail_def

lemma backup_reaches:
  "oc_err oc = None \<Longrightarrow> BA_returned oc \<in> backup_ends oc e"
  "oc_err oc = None \<Longrightarrow> BA_returned oc_nil \<in> backup_ends oc (Some x)"
  "BA_returned (oc_fail x) \<in> backup_ends oc (Some x)"
  "oc_err oc = Some y \<Longrightarrow> BA_returned (oc_fail y) \<in> backup_ends oc e"
  "oc_err oc = Some y \<Longrightarrow> BA_returned (oc\<lparr>oc_err := None\<rparr>) \<in> backup_ends oc None"
  "oc_err oc = Some y \<Longrightarrow> BA_recv \<in> backup_ends oc None"
       apply (cases oc, rule end_of_run [of _ "good_backup oc e"]; simp add: backup_runs backup_eval)
      apply (cases oc, rule end_of_run [of _ "cleared_error oc (Some x)"]; simp add: backup_runs backup_eval)
     apply (cases oc, rule end_of_run [of _ "accept_error oc (Some x)"]; simp add: backup_runs backup_eval)
    apply (cases oc, rule end_of_run [of _ "register_error oc e"]; simp add: backup_runs backup_eval)
   apply (cases oc, rule end_of_run [of _ "lost_error oc None"]; simp add: backup_runs backup_eval)
  apply (cases oc, rule end_of_run [of _ "no_sender oc None"]; simp add: backup_runs backup_eval)
  done

text \<open>C36: where \<open>backup\<close> can end, over all orders of its two goroutines, which share the variable
  \<open>err\<close>. When both calls succeed it always returns the registered wallet. When only accepting fails it
  returns that error, but also, when registering clears the error in between, the registered wallet,
  or no wallet without an error. When only registering fails it returns that error, or what
  registering returned (no wallet) without an error, or it waits for ever on the channel on which
  nobody sends. When both fail it returns one of the two errors. No wallet without an error is made
  a backup of \<open>null\<close> by \<open>Backup\<close>.\<close>

theorem backup_outcomes:
  "backup_ends oc e =
     (case (oc_err oc, e) of
        (None, None) \<Rightarrow> {BA_returned oc}
      | (None, Some x) \<Rightarrow> {BA_returned (oc_fail x), BA_returned oc, BA_returned oc_nil}
      | (Some y, None) \<Rightarrow> {BA_returned (oc_fail y), BA_returned (oc\<lparr>oc_err := None\<rparr>), BA_recv}
      | (Some y, Some x) \<Rightarrow> {BA_returned (oc_fail x), BA_returned (oc_fail y)}) \<and>
   (oc_fail y)\<lparr>oc_err := None\<rparr> = oc_nil \<and>
   Backup cw cm oc_nil = map_sum (\<lambda>e. e) hex_encode (Marshal cm [''DkgResult'' \<mapsto> ''null'', ''Metadata'' \<mapsto> []])"
proof (intro conjI equalityI subsetI)
  fix m assume "m \<in> backup_ends oc e"
  then obtain evs st where st: "m = bk_main st" "\<forall>ev \<in> set evs. Be_ok oc e ev" "steps backup_step evs backup_init = Some st"
      "\<forall>ev. Be_ok oc e ev \<longrightarrow> backup_step ev st = None"
    unfolding backup_ends_def by blast
  from backup_ends_at [OF backup_runs_good [OF st(2,3)] st(4)] st(1)
  show "m \<in> (case (oc_err oc, e) of
        (None, None) \<Rightarrow> {BA_returned oc}
      | (None, Some x) \<Rightarrow> {BA_returned (oc_fail x), BA_returned oc, BA_returned oc_nil}
      | (Some y, None) \<Rightarrow> {BA_returned (oc_fail y), BA_returned (oc\<lparr>oc_err := None\<rparr>), BA_recv}
      | (Some y, Some x) \<Rightarrow> {BA_returned (oc_fail x), BA_returned (oc_fail y)})"
    by (auto simp: backup_result_def split: option.splits)
next
  fix m assume "m \<in> (case (oc_err oc, e) of
        (None, None) \<Rightarrow> {BA_returned oc}
      | (None, Some x) \<Rightarrow> {BA_returned (oc_fail x), BA_returned oc, BA_returned oc_nil}
      | (Some y, None) \<Rightarrow> {BA_returned (oc_fail y), BA_returned (oc\<lparr>oc_err := None\<rparr>), BA_recv}
      | (Some y, Some x) \<Rightarrow> {BA_returned (oc_fail x), BA_returned (oc_fail y)})"
  then show "m \<in> backup_ends oc e" by (auto simp: backup_reaches split: option.split_asm)
qed (simp_all add: oc_fail_def oc_nil_def Backup_def marshal_ptr_def split: sum.split)

end
