(* ===== verification/Config.thy ===== *)
theory Config
  imports ServerHttp Database
begin

text \<open>
  Configuration from the environment (\<open>utils/config/config.go\<close>), the server object of
  \<open>server/main.go\<close> and the start of the program (\<open>server/cmd/main.go\<close>). The environment is a map from names to values, the one found after
  \<open>godotenv.Load\<close> has added the entries of a \<open>.env\<close> file.
\<close>

type_synonym environ = "string \<rightharpoonup> string"

definition Getenv :: "environ \<Rightarrow> string \<Rightarrow> string" where
  "Getenv env key = (case env key of None \<Rightarrow> [] | Some v \<Rightarrow> v)"

fun CheckRequiredEnvVars :: "environ \<Rightarrow> string list \<Rightarrow> unit result" where
  "CheckRequiredEnvVars env [] = Inr ()"
| "CheckRequiredEnvVars env (v # vs) =
     (if env v = None then Inl (ErrNew (''Required environment variable'' @ v @ ''not set''))
      else CheckRequiredEnvVars env vs)"

definition GetEnvAsInt :: "environ \<Rightarrow> string \<Rightarrow> int \<Rightarrow> int" where
  "GetEnvAsInt env key defaultValue =
     (let valueStr = Getenv env key in
      if valueStr = [] then defaultValue
      else (case Atoi valueStr of Inl err \<Rightarrow> defaultValue | Inr value \<Rightarrow> value))"

definition GetEnvAsBool :: "environ \<Rightarrow> string \<Rightarrow> bool \<Rightarrow> bool" where
  "GetEnvAsBool env key defaultValue =
     (let valueStr = Getenv env key in
      if valueStr = [] then defaultValue
      else (case ParseBool valueStr of Inl err \<Rightarrow> defaultValue | Inr value \<Rightarrow> value))"

definition requiredVars :: "string list" where
  "requiredVars =
     [''DEV_MODE'', ''PORT'', ''DB_CONNECTION_URL'', ''CLIENT_ORIGIN'', ''AUTH_TYPE'',
      ''AUTH_SERVER_URL'', ''SUPABASE_URL'', ''SUPABASE_API_KEY'']"

definition loadConfigFromEnvs :: "environ \<Rightarrow> Config result" where
  "loadConfigFromEnvs env =
     (case CheckRequiredEnvVars env requiredVars of
        Inl err \<Rightarrow> Inl err
      | Inr _ \<Rightarrow>
          Inr \<lparr>cf_DevMode = GetEnvAsBool env ''DEV_MODE'' False,
               cf_Port = GetEnvAsInt env ''PORT'' 9421,
               cf_DbConnectionUrl = Getenv env ''DB_CONNECTION_URL'',
               cf_ClientOrigin = Getenv env ''CLIENT_ORIGIN'',
               cf_AuthType = Getenv env ''AUTH_TYPE'',
               cf_AuthServerUrl = Getenv env ''AUTH_SERVER_URL'',
               cf_SupabaseUrl = Getenv env ''SUPABASE_URL'',
               cf_SupabaseApiKey = Getenv env ''SUPABASE_API_KEY''\<rparr>)"

text \<open>
  \<open>main\<close>: the configuration, the connection, a first query, the schema if the users cannot be
  read, and the server. A database is what \<open>sql.Open\<close> gives; its driver answers \<open>Status\<close>,
  \<open>GetFirstUser\<close> and the statements of the schema.
\<close>

record 'd db_driver =
  dd_open :: "string \<Rightarrow> 'd result"
  dd_status :: "'d \<Rightarrow> unit result"
  dd_first_user :: "'d \<Rightarrow> User result"
  dd_exec :: "string \<Rightarrow> 'd \<Rightarrow> unit result \<times> 'd"

definition ensure_schema :: "'d db_driver \<Rightarrow> string \<Rightarrow> 'd \<Rightarrow> unit result \<times> 'd" where
  "ensure_schema drv schema d =
     (case dd_first_user drv d of
        Inr u \<Rightarrow> (Inr (), d)
      | Inl err \<Rightarrow>
          if err = ErrNoRows then (Inr (), d)
          else LoadSchema (dd_exec drv) (\<lambda>p. Inl (ErrNew p)) schema [] d)"

subsection \<open>The objects that main puts together\<close>

text \<open>
  The queries on a connection (\<open>database/db.go\<close>), the vault on the queries, and the server: its
  configuration, the wasm client, its routes, whether requests are logged, and the function that
  gives the configuration of the identity provider, which can be replaced.
\<close>

record 'd Queries =
  qs_db :: 'd

definition New :: "'d \<Rightarrow> 'd Queries" where
  "New d = \<lparr>qs_db = d\<rparr>"

definition WithTx :: "'d \<Rightarrow> 'd Queries \<Rightarrow> 'd Queries" where
  "WithTx tx q = \<lparr>qs_db = tx\<rparr>"

record 'd vault =
  vt_queries :: "'d Queries"

definition NewVault :: "'d Queries \<Rightarrow> 'd vault" where
  "NewVault queries = \<lparr>vt_queries = queries\<rparr>"

record ('d, 'c) Server =
  srv_vault :: "'d vault"
  srv_cache :: 'c
  srv_config :: Config
  srv_wasm :: bytes
  srv_router :: "route list"
  srv_logger :: bool
  srv_getAuthConfig :: "Config \<Rightarrow> AuthConfig result"

definition NewServer :: "'d vault \<Rightarrow> 'c \<Rightarrow> Config \<Rightarrow> bytes \<Rightarrow> bool \<Rightarrow> ('d, 'c) Server" where
  "NewServer v cache0 config wasm logging =
     \<lparr>srv_vault = v, srv_cache = cache0, srv_config = config, srv_wasm = wasm, srv_router = NewServer_routes,
      srv_logger = logging, srv_getAuthConfig = getAuthConfig\<rparr>"

definition Router :: "('d, 'c) Server \<Rightarrow> route list" where
  "Router s = srv_router s"

definition server_vault :: "('d, 'c) Server \<Rightarrow> 'd vault" where
  "server_vault s = srv_vault s"

definition UpdateGetAuthConfig :: "(Config \<Rightarrow> AuthConfig result) \<Rightarrow> ('d, 'c) Server \<Rightarrow> ('d, 'c) Server" where
  "UpdateGetAuthConfig f s = s\<lparr>srv_getAuthConfig := f\<rparr>"

text \<open>\<open>-s\<close> as the first argument silences the program; only otherwise are requests logged.\<close>

definition logging_enabled :: "string list \<Rightarrow> bool" where
  "logging_enabled args = (\<not> (args \<noteq> [] \<and> hd args = ''-s''))"

definition server_main ::
  "string list \<Rightarrow> environ \<Rightarrow> 'd db_driver \<Rightarrow> string \<Rightarrow> bytes \<Rightarrow> 'c \<Rightarrow> bool \<Rightarrow> started \<times> 'd option \<times> ('d, 'c) Server option" where
  "server_main args env drv schema wasm cache0 darwin =
     (case loadConfigFromEnvs env of
        Inl err \<Rightarrow> (Fatal ''Unable to load config'', None, None)
      | Inr cfg \<Rightarrow>
          (case dd_open drv (cf_DbConnectionUrl cfg) of
             Inl err \<Rightarrow> (Fatal ''Unable to connect to database'', None, None)
           | Inr d \<Rightarrow>
               (case dd_status drv d of
                  Inl err \<Rightarrow> (Fatal ''Error during db sttuse'', Some d, None)
                | Inr _ \<Rightarrow>
                    (case ensure_schema drv schema d of
                       (Inl err, d') \<Rightarrow> (Fatal ''Could not load schema'', Some d', None)
                     | (Inr _, d') \<Rightarrow>
                         (let s = NewServer (NewVault (New d')) cache0 cfg wasm (logging_enabled args)
                          in (Start darwin (srv_config s), Some d', Some s))))))"

subsection \<open>Lemmas\<close>

lemma CheckRequiredEnvVars_Inr: "CheckRequiredEnvVars env vs = Inr () \<longleftrightarrow> set vs \<subseteq> dom env"
  by (induction vs) auto

lemma CheckRequiredEnvVars_first:
  "CheckRequiredEnvVars env vs = Inl e \<Longrightarrow>
     \<exists>us v ws. vs = us @ v # ws \<and> set us \<subseteq> dom env \<and> env v = None \<and>
       e = ErrNew (''Required environment variable'' @ v @ ''not set'')"
proof (induction vs)
  case Nil
  then show ?case by simp
next
  case (Cons v vs)
  show ?case
  proof (cases "env v")
    case None
    with Cons.prems show ?thesis by (intro exI [of _ "[]"] exI [of _ v] exI [of _ vs]) simp
  next
    case (Some x)
    with Cons.prems have "CheckRequiredEnvVars env vs = Inl e" by simp
    then obtain us w ws where "vs = us @ w # ws" "set us \<subseteq> dom env" "env w = None"
        "e = ErrNew (''Required environment variable'' @ w @ ''not set'')"
      using Cons.IH by blast
    with Some show ?thesis by (intro exI [of _ "v # us"] exI [of _ w] exI [of _ ws]) auto
  qed
qed

lemma GetEnvAsInt_set: "env key = Some v \<Longrightarrow> Atoi v = Inr i \<Longrightarrow> GetEnvAsInt env key dflt = i"
  by (auto simp: GetEnvAsInt_def Getenv_def Atoi_def big_SetString_def)

end
