(* ===== verification/InputProperties.thy ===== *)
theory InputProperties
  imports HandlerSamples DeviceLink Bindings Config
begin

text \<open>
  Properties of what comes from outside: the user whose channels a device finds, the numbers and
  the fee fields of a transaction in JSON, and the environment of the server.
\<close>

subsection \<open>Devices of one user\<close>

text \<open>
  A device that starts registering: its context, its request and the channels its handler has
  made. The links of all users are, abstractly, a map from users to channels.
\<close>

type_synonym registration = "ctx \<times> request \<times> channels"

fun registrations ::
  "('m, 'e, 'pt, 'pl) env \<Rightarrow> Config \<Rightarrow> 'c cache_lib \<Rightarrow> registration list \<Rightarrow> 'c \<Rightarrow> 'c" where
  "registrations E cfg cl [] cache = cache"
| "registrations E cfg cl ((c, r, ch) # rs) cache =
     registrations E cfg cl rs (snd (RegisterDeviceHandler_entry E cfg cl ch r c cache))"

fun links ::
  "('m, 'e, 'pt, 'pl) env \<Rightarrow> Config \<Rightarrow> registration list \<Rightarrow> (string \<rightharpoonup> channels) \<Rightarrow> string \<rightharpoonup> channels" where
  "links E cfg [] m = m"
| "links E cfg ((c, r, ch) # rs) m =
     links E cfg rs
       (case (c ''userId'', ws_open E cfg r) of (Some u, Inr _) \<Rightarrow> m(u \<mapsto> ch) | _ \<Rightarrow> m)"

definition linked :: "'c cache_lib \<Rightarrow> (string \<rightharpoonup> channels) \<Rightarrow> 'c \<Rightarrow> bool" where
  "linked cl m cache \<longleftrightarrow>
     (\<forall>u. GetInterHandlersChannels cl u cache = (case m u of None \<Rightarrow> Inl err_no_channel | Some ch \<Rightarrow> Inr ch))"

lemma linked_register:
  assumes "cache_ok cl" and "linked cl m cache"
  shows "linked cl (case (c ''userId'', ws_open E cfg r) of (Some u, Inr _) \<Rightarrow> m(u \<mapsto> ch) | _ \<Rightarrow> m)
           (snd (RegisterDeviceHandler_entry E cfg cl ch r c cache))"
proof (cases "c ''userId''")
  case None
  with assms(2) show ?thesis by (simp add: RegisterDeviceHandler_entry_def)
next
  case (Some u)
  note c = Some
  show ?thesis
  proof (cases "ws_open E cfg r")
    case (Inl resp)
    with c assms(2) show ?thesis by (simp add: RegisterDeviceHandler_entry_def)
  next
    case (Inr v)
    have "GetInterHandlersChannels cl u' (register_channels cl u ch cache) =
            (case (m(u \<mapsto> ch)) u' of None \<Rightarrow> Inl err_no_channel | Some ch \<Rightarrow> Inr ch)" for u'
    proof (cases "u' = u")
      case True
      then show ?thesis by (simp add: register_channels_own [OF assms(1)])
    next
      case False
      with assms(2) register_channels_others [OF assms(1) False, of ch cache] show ?thesis
        by (simp add: linked_def)
    qed
    with c Inr show ?thesis by (simp add: RegisterDeviceHandler_entry_def linked_def)
  qed
qed

lemma linked_registrations:
  assumes "cache_ok cl"
  shows "linked cl m cache \<Longrightarrow> linked cl (links E cfg rs m) (registrations E cfg cl rs cache)"
proof (induction rs arbitrary: m cache)
  case Nil
  then show ?case by simp
next
  case (Cons x rs)
  obtain c r ch where x: "x = (c, r, ch)" by (cases x) auto
  show ?case
    unfolding x links.simps registrations.simps
    by (rule Cons.IH [OF linked_register [OF assms Cons.prems]])
qed

text \<open>C22: after any history of devices that start registering, for any users, an accepting device
  is connected with the channels of the last registration of its own user, and refused when
  there was none: the cache keys of different users never collide.\<close>

theorem devices_meet_within_user:
  assumes "cache_ok cl" and "\<And>k. Get cl k cache = None" and "c ''userId'' = Some u"
    and "ws_open E cfg r = Inr ()"
  shows "AcceptDeviceHandler_entry E cfg cl r c (registrations E cfg cl rs cache) =
           (case links E cfg rs Map.empty u of
              None \<Rightarrow> Inl (http_Error ''Channel not found'' StatusUnauthorized)
            | Some ch \<Rightarrow> Inr (u, ch))"
proof -
  have "linked cl Map.empty cache"
    by (simp add: linked_def GetInterHandlersChannels_def get_string_chan_def assms(2))
  from linked_registrations [OF assms(1) this]
  have "linked cl (links E cfg rs Map.empty) (registrations E cfg cl rs cache)" .
  with assms(3,4) show ?thesis
    by (simp add: AcceptDeviceHandler_entry_def linked_def split: option.split)
qed

definition toy_channels :: "nat \<Rightarrow> channels" where
  "toy_channels n =
     \<lparr>ch_newClientPeerId = n, ch_existingClientPeerId = n + 1, ch_useragent = n + 2,
      ch_metadata = n + 3, ch_adder = n + 4, ch_existingDeviceTssDone = n + 5,
      ch_newDeviceDone = n + 6, ch_existingDeviceDone = n + 7\<rparr>"

definition toy_registrations :: "request \<Rightarrow> registration list" where
  "toy_registrations r =
     [([''userId'' \<mapsto> ''u''], r, toy_channels 0), ([''userId'' \<mapsto> ''v''], r, toy_channels 8),
      ([''userId'' \<mapsto> ''u''], r, toy_channels 16), (Map.empty, r, toy_channels 24)]"

definition toy_origin :: request where
  "toy_origin =
     \<lparr>rq_method = ''GET'', rq_scheme = [], rq_path = ''/accept'', rq_query = Map.empty,
      rq_header = [], rq_form = Inr Map.empty, rq_body = []\<rparr>"

theorem devices_meet_within_user_witness:
  "AcceptDeviceHandler_entry toy_env toy_config toy_cache toy_origin [''userId'' \<mapsto> ''u'']
     (registrations toy_env toy_config toy_cache (toy_registrations toy_origin) Map.empty) =
   Inr (''u'', toy_channels 16)"
  by (subst devices_meet_within_user [where u = "''u''"])
     (simp_all add: toy_cache_ok toy_ws_open toy_registrations_def)

subsection \<open>Numbers\<close>

lemma set_nat_digits: "set (nat_digits 10 n) \<subseteq> set ''0123456789''"
proof (induction n rule: less_induct)
  case (less n)
  have digit: "hex_digit (n mod 10) \<in> set ''0123456789''"
  proof -
    have "n mod 10 \<in> set [0..<10]" by simp
    then show ?thesis by (auto simp: upt_rec hex_digit_def)
  qed
  show ?case
  proof (cases "n < 10")
    case True
    with digit show ?thesis by (simp add: nat_digits.simps [of 10 n])
  next
    case False
    then have "n div 10 < n" by simp
    from less.IH [OF this] digit False show ?thesis by (simp add: nat_digits.simps [of 10 n])
  qed
qed

lemma Atoi_range: "Atoi s = Inr i \<Longrightarrow> - (2 ^ 63) \<le> i \<and> i < 2 ^ 63"
  by (auto simp: Atoi_def split: option.split_asm if_split_asm)

lemma decimal_text: "\<not> Contains (big_String i) ''.''" "take 2 (big_String i) \<noteq> ''0x''"
proof -
  have s: "set (big_String i) \<subseteq> insert (CHR ''-'') (set ''0123456789'')"
  proof (cases "i < 0")
    case True
    show ?thesis using set_nat_digits [of "nat (- i)"] unfolding big_String_def if_P [OF True] list.set(2) by (rule insert_mono)
  next
    case False
    show ?thesis using set_nat_digits [of "nat i"] unfolding big_String_def if_not_P [OF False] by (rule subset_insertI2)
  qed
  have no: "CHR ''.'' \<notin> insert (CHR ''-'') (set ''0123456789'')" "CHR ''x'' \<notin> insert (CHR ''-'') (set ''0123456789'')"
    by simp_all
  show "\<not> Contains (big_String i) ''.''"
  proof
    assume "Contains (big_String i) ''.''"
    then obtain u v where "big_String i = u @ ''.'' @ v" by (auto simp: Contains_iff)
    then have "CHR ''.'' \<in> set (big_String i)" by simp
    from subsetD [OF s this] no(1) show False by contradiction
  qed
  show "take 2 (big_String i) \<noteq> ''0x''"
  proof
    assume "take 2 (big_String i) = ''0x''"
    then have "CHR ''x'' \<in> set (take 2 (big_String i))" by simp
    from subsetD [OF s in_set_takeD [OF this]] no(2) show False by contradiction
  qed
qed

text \<open>A \<open>float64\<close> that is an integer, without rounding; the one for an integer of 53 bits.\<close>

definition float_is :: "float64 \<Rightarrow> int \<Rightarrow> bool" where
  "float_is f i \<longleftrightarrow>
     fl_finite f \<and>
     (if 0 \<le> fl_power f then fl_significand f * 2 ^ nat (fl_power f) = i
      else fl_significand f = i * 2 ^ nat (- fl_power f))"

lemma float_is_trunc: "float_is f i \<Longrightarrow> float_trunc f = i"
  by (auto simp: float_is_def float_trunc_def Let_def abs_mult sgn_mult mult_sgn_abs split: if_split_asm)

lemma significand_bound: "\<bar>fl_significand f\<bar> < 2 ^ 53"
proof -
  have "uint (fl_fraction f) < 2 ^ 52" using uint_lt2p [of "fl_fraction f"] by simp
  then show ?thesis using uint_ge_0 [of "fl_fraction f"] by (auto simp: fl_significand_def abs_mult)
qed

lemma float_exists_pos:
  assumes "0 < n" and "n \<le> 2 ^ 53"
  shows "\<exists>e fr. float_is (Float64 neg e fr) ((if neg then - 1 else 1) * int n)"
proof -
  obtain k where k: "2 ^ k \<le> n" "n < 2 ^ (k + 1)" using ex_power_ivl1 [of 2 n] assms(1) by auto
  have "2 ^ k \<le> (2 :: nat) ^ 53" using k(1) assms(2) by linarith
  then have k53: "k \<le> 53" by (rule power_le_imp_le_exp [rotated]) simp
  let ?e = "word_of_int (int k + 1023) :: 11 word"
  have e: "uint ?e = int k + 1023" using k53 by (simp only: uint_word_of_int) (rule mod_pos_pos_trivial, simp_all)
  then have exp: "?e \<noteq> 0" "?e \<noteq> 2047" using k53 by auto
  have pow: "fl_power (Float64 neg ?e fr) = int k - 52" for fr
    using exp(1) e by (simp add: fl_power_def)
  have sig: "fl_significand (Float64 neg ?e fr) = (if neg then - 1 else 1) * (2 ^ 52 + uint fr)" for fr
    using exp(1) by (simp add: fl_significand_def)
  have fin: "fl_finite (Float64 neg ?e fr)" for fr using exp(2) by (simp add: fl_finite_def)
  show ?thesis
  proof (cases "k = 53")
    case True
    with k(1) assms(2) have "n = 2 ^ 53" by simp
    with True have "float_is (Float64 neg ?e 0) ((if neg then - 1 else 1) * int n)"
      unfolding float_is_def pow sig using fin by simp
    then show ?thesis by blast
  next
    case False
    with k53 have k52: "k \<le> 52" by simp
    let ?m = "(n - 2 ^ k) * 2 ^ (52 - k)"
    have split: "2 ^ k * 2 ^ (52 - k) = (2 :: nat) ^ 52" using k52 by (simp only: power_add [symmetric]) simp
    have "?m < 2 ^ k * 2 ^ (52 - k)" using k by (intro mult_strict_right_mono) simp_all
    then have m: "?m < 2 ^ 52" using split by linarith
    let ?fr = "word_of_int (int ?m) :: 52 word"
    have fr: "uint ?fr = int ?m"
    proof -
      have "int ?m < 2 ^ 52" using m by (metis of_nat_less_numeral_power_cancel_iff)
      then show ?thesis by (simp only: uint_word_of_int) (rule mod_pos_pos_trivial, simp_all)
    qed
    have "n * 2 ^ (52 - k) = 2 ^ 52 + ?m"
      using k(1) split by (metis add_mult_distrib le_add_diff_inverse)
    then have sum: "2 ^ 52 + int ?m = int n * 2 ^ (52 - k)" by (metis of_nat_add of_nat_mult of_nat_numeral of_nat_power)
    have "float_is (Float64 neg ?e ?fr) ((if neg then - 1 else 1) * int n)"
    proof (cases "k = 52")
      case True
      then show ?thesis unfolding float_is_def pow sig fr sum using fin by simp
    next
      case False
      with k52 have "\<not> 0 \<le> int k - 52" "nat (- (int k - 52)) = 52 - k" by simp_all
      then show ?thesis unfolding float_is_def pow sig fr sum using fin by (simp only: if_False simp_thms mult.assoc)
    qed
    then show ?thesis by blast
  qed
qed

lemma float_exists:
  assumes "\<bar>i\<bar> \<le> 2 ^ 53"
  shows "\<exists>f. float_is f i"
proof (cases "i = 0")
  case True
  have "float_is (Float64 False 0 0) 0" by (simp add: float_is_def fl_finite_def fl_significand_def fl_power_def)
  with True show ?thesis by blast
next
  case False
  from assms have "nat \<bar>i\<bar> \<le> 2 ^ 53" by simp
  with float_exists_pos [of "nat \<bar>i\<bar>" "i < 0"] False show ?thesis by (auto split: if_split_asm)
qed

lemma no_float: "\<not> float_is f (2 ^ 53 + 1)"
proof
  assume f: "float_is f (2 ^ 53 + 1)"
  show False
  proof (cases "fl_power f \<le> 0")
    case True
    have "(1 :: int) \<le> 2 ^ nat (- fl_power f)" by simp
    then have "(2 :: int) ^ 53 + 1 \<le> (2 ^ 53 + 1) * 2 ^ nat (- fl_power f)"
      by (metis mult_left_mono mult.right_neutral zero_le_numeral zero_le_power add_nonneg_nonneg zero_le_one)
    moreover have "fl_significand f = (2 ^ 53 + 1) * 2 ^ nat (- fl_power f)"
      using f True by (auto simp: float_is_def split: if_split_asm)
    ultimately show False using significand_bound [of f] by linarith
  next
    case False
    then obtain p where "nat (fl_power f) = Suc p" by (metis Suc_pred' zero_less_nat_eq not_le)
    with f False have "fl_significand f * 2 ^ Suc p = 2 ^ 53 + 1" by (auto simp: float_is_def split: if_split_asm)
    then have "even ((2 :: int) ^ 53 + 1)" by (metis dvd_triv_right even_mult_iff power_Suc dvd_triv_left)
    then show False by simp
  qed
qed

text \<open>C39: the forms in which JSON gives a number agree: decimal text, a big integer, for a number that
  is not negative the prefixed hexadecimal text, and within the range of \<open>int64\<close> an integer and any
  \<open>float64\<close> that is the number. Every number up to \<open>2^53\<close>, of either sign, has such a \<open>float64\<close>;
  \<open>2^53 + 1\<close> has none. \<open>Uint64\<close> is the absolute value modulo \<open>2^64\<close>.\<close>

theorem number_forms_agree:
  "ParseBigInt N (AnyString (big_String i)) = i \<and> ParseBigInt N (AnyBig i) = i \<and>
   (0 \<le> i \<longrightarrow> ParseBigInt N (AnyString (''0x'' @ nat_digits 16 (nat i))) = i) \<and>
   (- (2 ^ 63) \<le> i \<and> i < 2 ^ 63 \<longrightarrow>
      ParseBigInt N (AnyInt64 (word_of_int i)) = i \<and> ParseBigInt N (AnyInt (word_of_int i)) = i \<and>
      (\<forall>f. float_is f i \<longrightarrow> ParseBigInt N (AnyFloat f) = i)) \<and>
   (\<bar>i\<bar> \<le> 2 ^ 53 \<longrightarrow> (\<exists>f. float_is f i)) \<and> \<not> (\<exists>f. float_is f (2 ^ 53 + 1)) \<and>
   uint (big_Uint64 i) = \<bar>i\<bar> mod 2 ^ 64"
proof (intro conjI impI allI)
  show "ParseBigInt N (AnyString (big_String i)) = i"
    using decimal_text [of i] by (simp add: ParseBigInt_def or_zero_def)
  show "ParseBigInt N (AnyString (''0x'' @ nat_digits 16 (nat i))) = i" if "0 \<le> i"
    using that by (simp add: ParseBigInt_def or_zero_def big_SetString_digits)
  have sint: "sint (word_of_int i :: 64 word) = i" if "- (2 ^ 63) \<le> i \<and> i < 2 ^ 63"
    using that by (simp only: sint_sbintrunc' signed_take_bit_int_eq_self_iff) simp
  fix f
  assume i: "- (2 ^ 63) \<le> i \<and> i < 2 ^ 63"
  then show "ParseBigInt N (AnyInt64 (word_of_int i)) = i" "ParseBigInt N (AnyInt (word_of_int i)) = i"
    using sint by (simp_all add: ParseBigInt_def)
  assume f: "float_is f i"
  then have "float_int64 (float_wild N) f = word_of_int i"
    using i float_is_trunc [OF f] by (simp add: float_int64_def float_is_def)
  with sint i show "ParseBigInt N (AnyFloat f) = i" by (simp add: ParseBigInt_def)
next
  show "uint (big_Uint64 i) = \<bar>i\<bar> mod 2 ^ 64"
    by (simp add: big_Uint64_def uint_word_of_int take_bit_eq_mod)
  show "\<not> (\<exists>f. float_is f (2 ^ 53 + 1))" using no_float by blast
qed (simp_all add: float_exists ParseBigInt_def)

definition toy_num :: num_lib where
  "toy_num = \<lparr>float_text = (\<lambda>s. None), float_wild = (\<lambda>f. 0)\<rparr>"

theorem number_forms_agree_witness:
  "ParseBigInt toy_num (AnyString (big_String (- 300))) = - 300 \<and> (\<exists>f. float_is f (- 300) \<and> ParseBigInt toy_num (AnyFloat f) = - 300) \<and>
   ParseBigInt toy_num (AnyString (''0x'' @ nat_digits 16 300)) = 300"
  using number_forms_agree [of toy_num "- 300"] number_forms_agree [of toy_num 300] by auto

subsection \<open>Fees\<close>

text \<open>The documented behaviour of an EIP155 signer: it signs no transaction of a newer type.\<close>

definition eip155 :: "('tx, 'al) eth_lib \<Rightarrow> bool" where
  "eip155 T \<longleftrightarrow>
     (\<forall>c sig d. is_DynamicFeeTx d \<longrightarrow> (\<exists>err. et_WithSignature T c sig (et_NewTx T d) = Inl err))"

text \<open>C38: a transaction that names \<open>maxFeePerGas\<close> can never be signed through the web client, and
  the caller is not told: the two devices sign its hash, the promise resolves, and its value is
  the empty text.\<close>

theorem dynamic_fee_resolves_empty:
  assumes "eip155 T" and "length args = 6" and "et_params T (args ! 1) = Inr p"
    and "tp_MaxFeePerGas p \<noteq> None"
    and "cc_Sign C (args ! 0)
           (et_Hash T (ParseBigInt N (AnyString (args ! 5)))
             (et_NewTx T (tx_data N T p (ParseBigInt N (AnyString (args ! 5))))))
           (args ! 2) (args ! 3) (args ! 4) = Inr sig"
  shows "\<exists>f. wasm_main N T cd C ''SignEthTransaction'' = Some f \<and> f args = Resolved (JsString [])"
proof -
  define c where "c = ParseBigInt N (AnyString (args ! 5))"
  define tx where "tx = et_NewTx T (tx_data N T p c)"
  have "is_DynamicFeeTx (tx_data N T p c)" using assms(4) by (simp add: tx_data_def Let_def)
  with assms(1) obtain err where err: "et_WithSignature T c (sg_Signature sig) tx = Inl err"
    unfolding eip155_def tx_def by blast
  have json: "NewEthereumTxWithJson N T (args ! 1) (AnyString (args ! 5)) =
      Inr \<lparr>ex_tx = Some tx, ex_signer = c, ex_hash = []\<rparr>"
    using assms(3) by (simp add: NewEthereumTxWithJson_def Let_def c_def tx_def)
  have sign: "cc_Sign C (args ! 0) (et_Hash T c tx) (args ! 2) (args ! 3) (args ! 4) = Inr sig"
    using assms(5) by (simp only: c_def tx_def)
  have "wasm_SignEthTransaction N T C args = Ret (Inr (JsString []))"
    unfolding wasm_SignEthTransaction_def json using assms(2) sign err
    by (simp add: GenerateMessage_def EthSign_def Let_def)
  then show ?thesis by (simp add: wasm_main_def asyncFunc_def)
qed

definition toy_params :: "unit TransactionParams" where
  "toy_params =
     \<lparr>tp_To = ''0xb'', tp_Nonce = AnyString ''1'', tp_Value = AnyString ''0x10'',
      tp_GasLimit = AnyString ''21000'', tp_GasPrice = AnyOther, tp_Data = [], tp_AccessList = (),
      tp_MaxFeePerGas = Some (AnyString ''5''), tp_MaxPriorityFeePerGas = None\<rparr>"

definition toy_eth :: "(unit TxData, unit) eth_lib" where
  "toy_eth =
     \<lparr>et_params = (\<lambda>s. Inr toy_params), et_HexToAddress = (\<lambda>s. s), et_FromHex = (\<lambda>s. s),
      et_NewTx = (\<lambda>d. d), et_ChainId = (\<lambda>t. 1), et_Hash = (\<lambda>c t. ''h''),
      et_WithSignature =
        (\<lambda>c s t. if is_DynamicFeeTx t then Inl (ErrLib ''transaction type not supported'') else Inr t),
      et_EncodeRLP = (\<lambda>t. Inr ''r''), et_DecodeRLP = (\<lambda>b. Inl (ErrLib ''rlp''))\<rparr>"

definition toy_response :: "dkgResponse codec" where
  "toy_response = \<lparr>Marshal = (\<lambda>r. Inr ''r''), Unmarshal = (\<lambda>bs. Inl (ErrLib ''json''))\<rparr>"

definition toy_calls :: client_calls where
  "toy_calls =
     \<lparr>cc_Identify = (\<lambda>h a. Inr ''u''), cc_Dkg = (\<lambda>h a. \<lparr>oc_result = None, oc_metadata = [], oc_err = None\<rparr>),
      cc_RegisterDevice = (\<lambda>h a d. \<lparr>oc_result = None, oc_metadata = [], oc_err = None\<rparr>),
      cc_AcceptDevice = (\<lambda>h w m a. None), cc_Backup = (\<lambda>h w m a. Inr ''b''),
      cc_FromBackup = (\<lambda>h b a. \<lparr>oc_result = None, oc_metadata = [], oc_err = None\<rparr>),
      cc_Sign = (\<lambda>h msg w m a. Inr \<lparr>sg_R = 1, sg_S = 1, sg_Signature = ''s''\<rparr>),
      cc_Export = (\<lambda>h w m a. Inr ''k'')\<rparr>"

theorem dynamic_fee_resolves_empty_witness:
  "\<exists>f. wasm_main toy_num toy_eth toy_response toy_calls ''SignEthTransaction'' = Some f \<and>
     f [''host'', ''tx'', ''w'', ''m'', ''a'', ''1''] = Resolved (JsString [])"
  by (rule dynamic_fee_resolves_empty [where p = toy_params and sig = "\<lparr>sg_R = 1, sg_S = 1, sg_Signature = ''s''\<rparr>"])
     (simp_all add: eip155_def toy_eth_def toy_params_def toy_calls_def)

subsection \<open>Environment\<close>

text \<open>C40: the server loads its configuration exactly when every variable is set, otherwise the error
  names the first that is missing and nothing else is started. A loaded configuration has the texts
  as they are; dev mode is on exactly for the six texts of a true value in \<open>DEV_MODE\<close>; the port is
  the number in \<open>PORT\<close>, or 9421 when that is not a number in the range of \<open>int\<close>, and is not checked
  further.\<close>

theorem configuration_complete:
  "case loadConfigFromEnvs env of
     Inl e \<Rightarrow>
       (\<exists>us v ws. requiredVars = us @ v # ws \<and> set us \<subseteq> dom env \<and> env v = None \<and>
          e = ErrNew (''Required environment variable'' @ v @ ''not set'')) \<and>
       server_main args env drv schema wasm cache0 darwin = (Fatal ''Unable to load config'', None, None)
   | Inr cfg \<Rightarrow>
       set requiredVars \<subseteq> dom env \<and>
       env ''DB_CONNECTION_URL'' = Some (cf_DbConnectionUrl cfg) \<and>
       env ''CLIENT_ORIGIN'' = Some (cf_ClientOrigin cfg) \<and>
       env ''AUTH_TYPE'' = Some (cf_AuthType cfg) \<and>
       env ''AUTH_SERVER_URL'' = Some (cf_AuthServerUrl cfg) \<and>
       env ''SUPABASE_URL'' = Some (cf_SupabaseUrl cfg) \<and>
       env ''SUPABASE_API_KEY'' = Some (cf_SupabaseApiKey cfg) \<and>
       (cf_DevMode cfg \<longleftrightarrow> the (env ''DEV_MODE'') \<in> {''1'', ''t'', ''T'', ''TRUE'', ''true'', ''True''}) \<and>
       (case big_SetString 10 (the (env ''PORT'')) of
          Some i \<Rightarrow> cf_Port cfg = (if - (2 ^ 63) \<le> i \<and> i < 2 ^ 63 then i else 9421)
        | None \<Rightarrow> cf_Port cfg = 9421)"
proof (cases "CheckRequiredEnvVars env requiredVars")
  case (Inl e)
  then have "loadConfigFromEnvs env = Inl e" by (simp add: loadConfigFromEnvs_def)
  with CheckRequiredEnvVars_first [OF Inl] show ?thesis by (simp add: server_main_def)
next
  case (Inr u)
  then have vars: "set requiredVars \<subseteq> dom env" using CheckRequiredEnvVars_Inr [of env requiredVars] by simp
  then have get: "v \<in> set requiredVars \<Longrightarrow> env v = Some (Getenv env v)" for v
    by (auto simp: Getenv_def split: option.split)
  have nil: "big_SetString 10 [] = None" by (simp add: big_SetString_def)
  have "case big_SetString 10 (the (env ''PORT'')) of
          Some i \<Rightarrow> GetEnvAsInt env ''PORT'' 9421 = (if - (2 ^ 63) \<le> i \<and> i < 2 ^ 63 then i else 9421)
        | None \<Rightarrow> GetEnvAsInt env ''PORT'' 9421 = 9421"
    using get [of "''PORT''"] nil
    by (auto simp: GetEnvAsInt_def Atoi_def requiredVars_def Let_def split: option.split)
  moreover have "GetEnvAsBool env ''DEV_MODE'' False \<longleftrightarrow> the (env ''DEV_MODE'') \<in> {''1'', ''t'', ''T'', ''TRUE'', ''true'', ''True''}"
    using get [of "''DEV_MODE''"] by (simp add: GetEnvAsBool_def ParseBool_def requiredVars_def Let_def)
  ultimately show ?thesis using Inr vars get by (simp add: loadConfigFromEnvs_def requiredVars_def split: option.splits)
qed

end
