(* ===== verification/Wire.thy ===== *)
theory Wire
  imports WsLayer "HOL-Library.Sublist"
begin

text \<open>
  The two ends of a websocket run against each other: each reads, in order, what the other has
  written. An end is given by its steps, the messages it has written and the message that a step
  reads; what it guarantees is stated in terms of the messages it has read. \<open>nhooyr.io/websocket\<close>
  delivers messages in order; it may fail at any read or write, which are events of the ends.
\<close>

subsection \<open>Ends and wires\<close>

record ('x, 's) port =
  pt_step :: "'x \<Rightarrow> 's \<Rightarrow> 's option"
  pt_out :: "'s \<Rightarrow> ws_msg list"
  pt_in :: "'x \<Rightarrow> ws_msg option"
  pt_fair :: "'x \<Rightarrow> bool"

text \<open>\<open>wi_up\<close> and \<open>wi_down\<close> count the messages that have been read by the server and the client.\<close>

record ('s, 'c) wire =
  wi_server :: 's
  wi_client :: 'c
  wi_up :: nat
  wi_down :: nat

datatype ('x, 'y) wire_event = Server_does 'x | Client_does 'y

definition wire_init :: "'s \<Rightarrow> 'c \<Rightarrow> ('s, 'c) wire" where
  "wire_init s c = \<lparr>wi_server = s, wi_client = c, wi_up = 0, wi_down = 0\<rparr>"

definition delivers :: "ws_msg list \<Rightarrow> nat \<Rightarrow> ws_msg option \<Rightarrow> nat option" where
  "delivers out n got =
     (case got of
        None \<Rightarrow> Some n
      | Some m \<Rightarrow> if n < length out \<and> out ! n = m then Some (Suc n) else None)"

fun wire_step ::
  "('x, 's) port \<Rightarrow> ('y, 'c) port \<Rightarrow> ('x, 'y) wire_event \<Rightarrow> ('s, 'c) wire \<Rightarrow> ('s, 'c) wire option" where
  "wire_step S C (Server_does x) p =
     (case delivers (pt_out C (wi_client p)) (wi_up p) (pt_in S x) of
        None \<Rightarrow> None
      | Some n \<Rightarrow> map_option (\<lambda>s. p\<lparr>wi_server := s, wi_up := n\<rparr>) (pt_step S x (wi_server p)))"
| "wire_step S C (Client_does y) p =
     (case delivers (pt_out S (wi_server p)) (wi_down p) (pt_in C y) of
        None \<Rightarrow> None
      | Some n \<Rightarrow> map_option (\<lambda>c. p\<lparr>wi_client := c, wi_down := n\<rparr>) (pt_step C y (wi_client p)))"

fun wire_fair :: "('x, 's) port \<Rightarrow> ('y, 'c) port \<Rightarrow> ('x, 'y) wire_event \<Rightarrow> bool" where
  "wire_fair S C (Server_does x) = pt_fair S x"
| "wire_fair S C (Client_does y) = pt_fair C y"

inductive wire_reach ::
  "('x, 's) port \<Rightarrow> ('y, 'c) port \<Rightarrow> ('s, 'c) wire \<Rightarrow> ('s, 'c) wire \<Rightarrow> bool"
  for S C p0 where
  wire_reach_init: "wire_reach S C p0 p0"
| wire_reach_step:
    "wire_reach S C p0 p \<Longrightarrow> wire_fair S C ev \<Longrightarrow> wire_step S C ev p = Some p' \<Longrightarrow> wire_reach S C p0 p'"

lemma wire_run_reach:
  "steps (wire_step S C) evs p = Some p' \<Longrightarrow> \<forall>ev \<in> set evs. wire_fair S C ev \<Longrightarrow> wire_reach S C p0 p \<Longrightarrow>
     wire_reach S C p0 p'"
  by (rule steps_invariant [where P = "wire_reach S C p0"]) (auto intro: wire_reach_step)

text \<open>Steps of one end that read nothing are steps of the wire.\<close>

lemma wire_run_server:
  "\<forall>x \<in> set xs. pt_in S x = None \<Longrightarrow>
     steps (wire_step S C) (map Server_does xs) p = map_option (\<lambda>s. p\<lparr>wi_server := s\<rparr>) (steps (pt_step S) xs (wi_server p))"
  by (induction xs arbitrary: p) (auto simp: delivers_def split: option.split)

lemma wire_run_client:
  "\<forall>y \<in> set ys. pt_in C y = None \<Longrightarrow>
     steps (wire_step S C) (map Client_does ys) p = map_option (\<lambda>c. p\<lparr>wi_client := c\<rparr>) (steps (pt_step C) ys (wi_client p))"
  by (induction ys arbitrary: p) (auto simp: delivers_def split: option.split)

subsection \<open>What has been read\<close>

definition got :: "ws_msg option \<Rightarrow> ws_msg list" where
  "got x = (case x of None \<Rightarrow> [] | Some m \<Rightarrow> [m])"

lemma got_simps [simp]: "got None = []" "got (Some m) = [m]"
  by (simp_all add: got_def)

definition reads_of :: "('x, 's) port \<Rightarrow> 'x list \<Rightarrow> ws_msg list" where
  "reads_of P xs = concat (map (\<lambda>x. got (pt_in P x)) xs)"

lemma delivers_next:
  assumes "prefix (got x) (drop n out)"
  shows "delivers out n x = Some (n + length (got x))"
proof (cases x)
  case None
  then show ?thesis by (simp add: delivers_def)
next
  case (Some m)
  with assms obtain zs where zs: "drop n out = m # zs" by (auto simp: prefix_def)
  then have "n < length out" by (metis drop_all list.distinct(1) not_less)
  moreover from this zs have "out ! n = m" by (metis hd_drop_conv_nth list.sel(1))
  ultimately show ?thesis using Some by (simp add: delivers_def)
qed

lemma prefix_split:
  assumes "prefix (xs @ ys) (drop n out)"
  shows "prefix xs (drop n out)" and "prefix ys (drop (n + length xs) out)"
proof -
  from assms obtain zs where "drop n out = xs @ ys @ zs" by (auto simp: prefix_def)
  then have "drop (length xs) (drop n out) = ys @ zs" by simp
  then show "prefix ys (drop (n + length xs) out)" by (simp add: add.commute)
  show "prefix xs (drop n out)" using assms by (rule append_prefixD)
qed

text \<open>A run of one end is a run of the wire when it reads what the other end has written next.\<close>

lemma wire_run_server_reads:
  "steps (pt_step S) xs (wi_server p) = Some s \<Longrightarrow>
     prefix (reads_of S xs) (drop (wi_up p) (pt_out C (wi_client p))) \<Longrightarrow>
     steps (wire_step S C) (map Server_does xs) p = Some (p\<lparr>wi_server := s, wi_up := wi_up p + length (reads_of S xs)\<rparr>)"
proof (induction xs arbitrary: p)
  case Nil
  then show ?case by (simp add: reads_of_def)
next
  case (Cons x xs)
  let ?g = "got (pt_in S x)" and ?out = "pt_out C (wi_client p)"
  from Cons.prems(1) obtain s1 where s1: "pt_step S x (wi_server p) = Some s1" "steps (pt_step S) xs s1 = Some s"
    by (auto split: option.split_asm)
  have rs: "reads_of S (x # xs) = ?g @ reads_of S xs" by (simp add: reads_of_def)
  note slices = prefix_split [OF Cons.prems(2) [unfolded rs]]
  let ?p = "p\<lparr>wi_server := s1, wi_up := wi_up p + length ?g\<rparr>"
  have "wire_step S C (Server_does x) p = Some ?p" using delivers_next [OF slices(1)] s1(1) by simp
  with Cons.IH [of ?p] s1(2) slices(2) show ?case by (simp add: rs add.assoc)
qed

lemma wire_run_client_reads:
  "steps (pt_step C) ys (wi_client p) = Some c \<Longrightarrow>
     prefix (reads_of C ys) (drop (wi_down p) (pt_out S (wi_server p))) \<Longrightarrow>
     steps (wire_step S C) (map Client_does ys) p = Some (p\<lparr>wi_client := c, wi_down := wi_down p + length (reads_of C ys)\<rparr>)"
proof (induction ys arbitrary: p)
  case Nil
  then show ?case by (simp add: reads_of_def)
next
  case (Cons y ys)
  let ?g = "got (pt_in C y)" and ?out = "pt_out S (wi_server p)"
  from Cons.prems(1) obtain c1 where c1: "pt_step C y (wi_client p) = Some c1" "steps (pt_step C) ys c1 = Some c"
    by (auto split: option.split_asm)
  have rs: "reads_of C (y # ys) = ?g @ reads_of C ys" by (simp add: reads_of_def)
  note slices = prefix_split [OF Cons.prems(2) [unfolded rs]]
  let ?p = "p\<lparr>wi_client := c1, wi_down := wi_down p + length ?g\<rparr>"
  have "wire_step S C (Client_does y) p = Some ?p" using delivers_next [OF slices(1)] c1(1) by simp
  with Cons.IH [of ?p] c1(2) slices(2) show ?case by (simp add: rs add.assoc)
qed

lemma delivers_take:
  "delivers out n x = Some k \<Longrightarrow> n \<le> length out \<Longrightarrow> k \<le> length out \<and> take k out = take n out @ got x"
  by (cases x) (auto simp: delivers_def take_Suc_conv_app_nth split: if_split_asm)

lemma take_prefix: "prefix xs ys \<Longrightarrow> n \<le> length xs \<Longrightarrow> n \<le> length ys \<and> take n ys = take n xs"
  by (auto simp: prefix_def)

text \<open>
  An end keeps a property of what it has read and of its state, whatever it reads next, and
  never takes back what it has written.
\<close>

locale endpoint =
  fixes P :: "('x, 's) port" and keeps :: "ws_msg list \<Rightarrow> 's \<Rightarrow> bool"
  assumes step_keeps: "keeps msgs s \<Longrightarrow> pt_fair P x \<Longrightarrow> pt_step P x s = Some s' \<Longrightarrow> keeps (msgs @ got (pt_in P x)) s'"
    and step_writes: "keeps msgs s \<Longrightarrow> pt_fair P x \<Longrightarrow> pt_step P x s = Some s' \<Longrightarrow> prefix (pt_out P s) (pt_out P s')"

text \<open>What holds on a wire: each end's property, of what it has read.\<close>

definition wire_holds ::
  "('x, 's) port \<Rightarrow> (ws_msg list \<Rightarrow> 's \<Rightarrow> bool) \<Rightarrow> ('y, 'c) port \<Rightarrow> (ws_msg list \<Rightarrow> 'c \<Rightarrow> bool) \<Rightarrow> ('s, 'c) wire \<Rightarrow> bool" where
  "wire_holds S K C J p \<longleftrightarrow>
     wi_up p \<le> length (pt_out C (wi_client p)) \<and> wi_down p \<le> length (pt_out S (wi_server p)) \<and>
     K (take (wi_up p) (pt_out C (wi_client p))) (wi_server p) \<and>
     J (take (wi_down p) (pt_out S (wi_server p))) (wi_client p)"

lemma wire_holds_init: "wire_holds S K C J (wire_init s c) \<longleftrightarrow> K [] s \<and> J [] c"
  by (simp add: wire_holds_def wire_init_def)

lemma wire_holds_ends:
  "wire_holds S K C J p \<Longrightarrow> \<exists>up down. prefix up (pt_out C (wi_client p)) \<and> prefix down (pt_out S (wi_server p)) \<and>
     K up (wi_server p) \<and> J down (wi_client p)"
  unfolding wire_holds_def by (metis take_is_prefix)

text \<open>Two such ends on one wire: each keeps its property of exactly what the other has written.\<close>

locale duplex = server: endpoint S K + client: endpoint C J
  for S :: "('x, 's) port" and K and C :: "('y, 'c) port" and J
begin

lemma step_holds:
  assumes "wire_holds S K C J p" and "wire_fair S C ev" and "wire_step S C ev p = Some p'"
  shows "wire_holds S K C J p'"
proof (cases ev)
  case (Server_does x)
  with assms(3) obtain n s where x: "delivers (pt_out C (wi_client p)) (wi_up p) (pt_in S x) = Some n"
      "pt_step S x (wi_server p) = Some s" "p' = p\<lparr>wi_server := s, wi_up := n\<rparr>"
    by (auto split: option.split_asm)
  note p = assms(1) [unfolded wire_holds_def]
  from delivers_take [OF x(1)] p have n: "n \<le> length (pt_out C (wi_client p))"
      "take n (pt_out C (wi_client p)) = take (wi_up p) (pt_out C (wi_client p)) @ got (pt_in S x)" by simp_all
  from p Server_does assms(2) x(2) have "prefix (pt_out S (wi_server p)) (pt_out S s)"
      "K (take n (pt_out C (wi_client p))) s"
    unfolding n(2) by (auto intro: server.step_writes server.step_keeps)
  with p n(1) x(3) show ?thesis using take_prefix [of "pt_out S (wi_server p)" "pt_out S s" "wi_down p"]
    by (simp add: wire_holds_def)
next
  case (Client_does y)
  with assms(3) obtain n c where y: "delivers (pt_out S (wi_server p)) (wi_down p) (pt_in C y) = Some n"
      "pt_step C y (wi_client p) = Some c" "p' = p\<lparr>wi_client := c, wi_down := n\<rparr>"
    by (auto split: option.split_asm)
  note p = assms(1) [unfolded wire_holds_def]
  from delivers_take [OF y(1)] p have n: "n \<le> length (pt_out S (wi_server p))"
      "take n (pt_out S (wi_server p)) = take (wi_down p) (pt_out S (wi_server p)) @ got (pt_in C y)" by simp_all
  from p Client_does assms(2) y(2) have "prefix (pt_out C (wi_client p)) (pt_out C c)"
      "J (take n (pt_out S (wi_server p))) c"
    unfolding n(2) by (auto intro: client.step_writes client.step_keeps)
  with p n(1) y(3) show ?thesis using take_prefix [of "pt_out C (wi_client p)" "pt_out C c" "wi_up p"]
    by (simp add: wire_holds_def)
qed

lemma reach_holds: "wire_reach S C p0 p \<Longrightarrow> wire_holds S K C J p0 \<Longrightarrow> wire_holds S K C J p"
  by (induction rule: wire_reach.induct) (blast intro: step_holds)+

text \<open>What the ends know of each other.\<close>

lemma reach_ends:
  assumes "wire_reach S C (wire_init s0 c0) p" and "K [] s0" and "J [] c0"
  shows "\<exists>up down. prefix up (pt_out C (wi_client p)) \<and> prefix down (pt_out S (wi_server p)) \<and>
           K up (wi_server p) \<and> J down (wi_client p)"
  using reach_holds [OF assms(1)] assms(2,3) by (intro wire_holds_ends) (simp add: wire_holds_init)

end

end
