(* ===== verification/DkgEnds.thy ===== *)
theory DkgEnds
  imports DkgProperties ClientProperties Wire
begin

text \<open>
  \<open>Dkg\<close> of \<open>client/client.go\<close> and \<open>DkgHandler\<close> of \<open>server/tss_dkg.go\<close> on one websocket. The TSS library
  gives both parties the same public key, which is the only thing assumed of it; under that
  assumption both ends hold a wallet with that key and its address, and the metadata that the
  client returns opens the wallet of the server.
\<close>

subsection \<open>The ends\<close>

text \<open>Messages read, and results of the library with the public key \<open>P\<close> only.\<close>

fun dkg_reads :: "('m, 'pt) dkg_event \<Rightarrow> ws_msg option" where
  "dkg_reads (De_read (ReadMsg m w)) = Some m"
| "dkg_reads _ = None"

fun dkg_keyed_event :: "'pt \<Rightarrow> ('m, 'pt) dkg_event \<Rightarrow> bool" where
  "dkg_keyed_event P (De_state (Inr g) fin) = (lr_PublicKey g = P)"
| "dkg_keyed_event P _ = True"

definition dkg_port ::
  "('m, 'e, 'pt, 'pl) env \<Rightarrow> string \<Rightarrow> string \<Rightarrow> 'pt
     \<Rightarrow> (('m, 'pt) dkg_event, ('m, 'e, 'pt) dkg_state) port" where
  "dkg_port E userId userAgent P =
     \<lparr>pt_step = dkg_step E userId userAgent, pt_out = hd_out, pt_in = dkg_reads,
      pt_fair = (\<lambda>ev. dkg_event_fair ev \<and> dkg_keyed_event P ev)\<rparr>"

fun conn_reads :: "('m, 'pt) conn_event \<Rightarrow> ws_msg option" where
  "conn_reads (Ce_read (ReadMsg m w)) = Some m"
| "conn_reads _ = None"

fun conn_keyed_event :: "'pt \<Rightarrow> ('m, 'pt) conn_event \<Rightarrow> bool" where
  "conn_keyed_event P (Ce_engine (En_state (Inr g) fin)) = (lr_PublicKey g = P)"
| "conn_keyed_event P _ = True"

definition conn_port ::
  "('m, 'e, 'pt, 'pl) env \<Rightarrow> ('m, 'pt, 'a) conn_ops \<Rightarrow> 'pt \<Rightarrow> (('m, 'pt) conn_event, 'a conn) port" where
  "conn_port E ops P =
     \<lparr>pt_step = conn_step E ops, pt_out = cn_out, pt_in = conn_reads, pt_fair = conn_keyed_event P\<rparr>"

subsection \<open>A wallet with a given key\<close>

definition has_key :: "'pt curve_lib \<Rightarrow> 'pt \<Rightarrow> DkgResult \<Rightarrow> bool" where
  "has_key lib P w \<longleftrightarrow>
     dr_Pubkey w = GetStr \<lparr>pk_X = GetX lib P, pk_Y = GetY lib P\<rparr> \<and>
     (\<exists>addr. GetAddress lib \<lparr>pk_X = GetX lib P, pk_Y = GetY lib P\<rparr> = Ret addr \<and> dr_Address w = AddressHex lib addr)"

lemma post_process_key:
  "PostProcessResult lib r = Ret (Inr w) \<Longrightarrow> pr_PublicKey r = P \<Longrightarrow> has_key lib P w"
  by (auto simp: PostProcessResult_def has_key_def Let_def split: go.split_asm)

definition service_keyed :: "'pt \<Rightarrow> ('m, 'e, 'pt) serviceDkg \<Rightarrow> bool" where
  "service_keyed P sv \<longleftrightarrow> (\<forall>g. dk_result sv = Some g \<longrightarrow> lr_PublicKey g = P)"

lemma change_keyed:
  "Dkg_OnStateChanged g fin sv = Ret sv' \<Longrightarrow> service_keyed P sv \<Longrightarrow> \<forall>r. g = Inr r \<longrightarrow> lr_PublicKey r = P \<Longrightarrow>
     service_keyed P sv'"
  by (auto simp: Dkg_OnStateChanged_def Dkg_close_def service_keyed_def split: if_split_asm sum.split_asm)

text \<open>Everything else an actor does leaves its result alone.\<close>

lemma server_results:
  "NewServerDkg al peer = Inr a \<Longrightarrow> dk_result (sd_service a) = None"
  "ServerDkg_GetNextMessageToSend al a = Ret (r, b) \<Longrightarrow> dk_result (sd_service b) = dk_result (sd_service a)"
  "dk_result (sd_service (ServerDkg_emit a x)) = dk_result (sd_service a)"
  by (auto simp: ServerDkg_GetNextMessageToSend_def ServerDkg_emit_def dest: NewServerDkg_ok
      split: option.split_asm prod.split_asm)

lemma server_turn_result:
  "TssSend_turn cj (ServerDkg_GetNextMessageToSend al) t a = (u, b) \<Longrightarrow> dk_result (sd_service b) = dk_result (sd_service a)"
  by (auto simp: TssSend_turn_def dest: server_results(2) split: if_split_asm go.split_asm sum.split_asm)

lemma server_handle_result:
  "ServerDkg_HandleMessage al p m = Ret (r, Some b) \<Longrightarrow> \<exists>a. p = Some a \<and> dk_result (sd_service b) = dk_result (sd_service a)"
  by (auto simp: ServerDkg_HandleMessage_def split: sum.split_asm option.split_asm go.split_asm prod.split_asm)

lemma client_results:
  "ClientDkg_GetNextMessageToSend al c = Ret (r, b) \<Longrightarrow> dk_result (cd_service b) = dk_result (cd_service c)"
  "dk_result (cd_service (ClientDkg_emit c x)) = dk_result (cd_service c)"
  "ClientDkg_HandleMessage al c m = Ret (r', b) \<Longrightarrow> dk_result (cd_service b) = dk_result (cd_service c)"
  by (auto simp: ClientDkg_GetNextMessageToSend_def ClientDkg_emit_def ClientDkg_HandleMessage_def
      split: option.split_asm prod.split_asm sum.split_asm go.split_asm)

lemma client_turn_result:
  "TssSend_turn cj (ClientDkg_GetNextMessageToSend al) t a = (u, b) \<Longrightarrow> dk_result (cd_service b) = dk_result (cd_service a)"
  by (auto simp: TssSend_turn_def dest: client_results(1) split: if_split_asm go.split_asm sum.split_asm)

lemmas actor_results = server_results server_turn_result server_handle_result client_results client_turn_result

subsection \<open>The server\<close>

definition dkg_keyed :: "'pt \<Rightarrow> ('m, 'e, 'pt) dkg_state \<Rightarrow> bool" where
  "dkg_keyed P st \<longleftrightarrow> (\<forall>a. hd_dkg st = Some a \<longrightarrow> service_keyed P (sd_service a))"

text \<open>Steps that keep the actor or lose it.\<close>

definition same_results :: "('m, 'e, 'pt) dkg_state \<Rightarrow> ('m, 'e, 'pt) dkg_state \<Rightarrow> bool" where
  "same_results st st' \<longleftrightarrow>
     (\<forall>b. hd_dkg st' = Some b \<longrightarrow> dk_result (sd_service b) = None \<or>
        (\<exists>a. hd_dkg st = Some a \<and> dk_result (sd_service b) = dk_result (sd_service a)))"

lemma same_results_keyed: "same_results st st' \<Longrightarrow> dkg_keyed P st \<Longrightarrow> dkg_keyed P st'"
  by (fastforce simp: same_results_def dkg_keyed_def service_keyed_def)

lemma same_results_eq: "hd_dkg st' = hd_dkg st \<Longrightarrow> same_results st st'"
  by (simp add: same_results_def)

lemma report_same: "dkg_report err st = Some st' \<Longrightarrow> hd_dkg st' = hd_dkg st"
  by (auto simp: dkg_report_def split: option.split_asm)

lemma tss_same_results: "dkg_on_tss E msg st = Some st' \<Longrightarrow> same_results st st'"
proof (cases "hd_stage st > mt_stage (wm_Type msg)")
  case True
  assume "dkg_on_tss E msg st = Some st'"
  with True show ?thesis by (simp add: dkg_on_tss_def same_results_def)
next
  case False
  assume s: "dkg_on_tss E msg st = Some st'"
  show ?thesis
  proof (cases "handle_ws_tss (en_msg E) (ServerDkg_HandleMessage (en_al E)) msg (hd_dkg st)")
    case (Panic m)
    with s False have "st' = dkg_crash st" by (simp add: dkg_on_tss_def)
    then show ?thesis by (simp add: same_results_eq dkg_crash_def)
  next
    case (Ret x)
    obtain r p where x: "x = (r, p)" by (cases x)
    have "\<exists>a. hd_dkg st = Some a \<and> dk_result (sd_service b) = dk_result (sd_service a)" if "p = Some b" for b
      using Ret x that
      by (auto simp: handle_ws_tss_def dest: server_handle_result split: sum.split_asm option.split_asm)
    moreover have "hd_dkg st' = p"
      using s False Ret x by (auto simp: dkg_on_tss_def dest: report_same split: sum.split_asm)
    ultimately show ?thesis by (simp add: same_results_def)
  qed
qed

lemma peer_same_results: "dkg_on_peer E msg st = Some st' \<Longrightarrow> same_results st st'"
  by (auto simp: dkg_on_peer_def same_results_def actor_results(1) dest: report_same
      split: if_split_asm sum.split_asm)

lemma read_same_results: "dkg_read E ev st = Some st' \<Longrightarrow> same_results st st'"
  by (auto simp: dkg_read_def dkg_read_err_def dkg_on_ack_def dkg_on_other_def dkg_crash_def
      dest: report_same intro: same_results_eq tss_same_results peer_same_results
      split: if_split_asm read_event.split_asm option.split_asm sum.split_asm)

lemma main_same_results: "dkg_main_step E u ua rnd w st = Some st' \<Longrightarrow> hd_dkg st' = hd_dkg st"
  by (auto simp: dkg_main_step_def dkg_process_def dkg_check_def dkg_store_def dkg_send_metadata_def dkg_return_def
      split: dkg_main.split_asm option.split_asm go.split_asm sum.split_asm prod.split_asm if_split_asm)

lemma send_same_results: "dkg_send_step E w st = Some st' \<Longrightarrow> same_results st st'"
  by (auto simp: dkg_send_step_def same_results_def dkg_crash_def dest: server_turn_result
      split: if_split_asm option.split_asm prod.split_asm turn.split_asm)

lemma dkg_step_keyed:
  assumes "dkg_step E u ua ev st = Some st'" and "dkg_keyed_event P ev" and "dkg_keyed P st"
  shows "dkg_keyed P st'"
proof (cases ev)
  case (De_state g fin)
  with assms(1) have "dkg_report_state g fin st = Some st'" by (simp split: if_split_asm)
  moreover have "\<forall>r. g = Inr r \<longrightarrow> lr_PublicKey r = P" using assms(2) De_state by auto
  note change_keyed [OF _ _ this]
  ultimately show ?thesis
    using assms(3) by (fastforce simp: dkg_report_state_def dkg_keyed_def dkg_crash_def
        split: option.split_asm if_split_asm go.split_asm)
next
  case (De_main rnd w)
  with assms(1) have "hd_dkg st' = hd_dkg st" by (auto dest: main_same_results split: if_split_asm)
  with assms(3) show ?thesis by (simp add: dkg_keyed_def)
next
  case (De_emit p m)
  with assms(1,3) show ?thesis
    by (auto simp: dkg_emit_def dkg_keyed_def service_keyed_def actor_results split: if_split_asm option.split_asm)
qed (use assms in \<open>auto simp: dkg_start_def dkg_set_stage_def dkg_timeout_def
      intro: same_results_keyed read_same_results send_same_results split: if_split_asm\<close>, simp_all add: dkg_keyed_def)

definition server_keeps ::
  "('m, 'e, 'pt, 'pl) env \<Rightarrow> string \<Rightarrow> db \<Rightarrow> 'pt \<Rightarrow> ws_msg list \<Rightarrow> ('m, 'e, 'pt) dkg_state \<Rightarrow> bool" where
  "server_keeps E userId d P msgs st \<longleftrightarrow>
     vault_ok d \<and> \<not> known d userId \<and> dkg_ok st \<and> dkg_keyed P st \<and>
     dkg_wallet_ok E (dkg_made E st) userId d st"

lemma dkg_writes:
  assumes "dkg_ok st" and "dkg_step E u ua ev st = Some st'"
  shows "prefix (hd_out st) (hd_out st')"
proof (cases "(\<exists>rnd w. ev = De_main rnd w) \<or> ev = De_start")
  case True
  with assms(2) show ?thesis
    by (auto simp: dkg_start_def dkg_main_step_def dkg_process_def dkg_check_def dkg_store_def dkg_send_metadata_def
        dkg_return_def split: if_split_asm dkg_main.split_asm option.split_asm go.split_asm sum.split_asm
        prod.split_asm)
next
  case False
  with dkg_step_side [OF assms(2,1)] show ?thesis by (auto simp: dkg_side_def)
qed

interpretation dkg_server: endpoint "dkg_port E userId ua P" "server_keeps E userId d P"
  for E :: "('m, 'e, 'pt, 'pl) env" and userId and ua and d and P
proof unfold_locales
  fix msgs x and s s' :: "('m, 'e, 'pt) dkg_state"
  assume k: "server_keeps E userId d P msgs s" and x: "pt_fair (dkg_port E userId ua P) x"
    and s: "pt_step (dkg_port E userId ua P) x s = Some s'"
  from s x have step: "dkg_step E userId ua x s = Some s'" "dkg_event_fair x" "dkg_keyed_event P x"
    by (simp_all add: dkg_port_def)
  from k have "dkg_ok s'" "dkg_keyed P s'"
    using step by (auto simp: server_keeps_def intro: dkg_ok_step dkg_step_keyed simp del: dkg_step.simps)
  moreover have "dkg_wallet_ok E (dkg_made E s') userId d s'"
    using k by (intro dkg_made_step [OF step(1) _ _ _ _ step(2)]) (simp_all add: server_keeps_def)
  ultimately show "server_keeps E userId d P (msgs @ got (pt_in (dkg_port E userId ua P) x)) s'"
    using k by (simp add: server_keeps_def)
  show "prefix (pt_out (dkg_port E userId ua P) s) (pt_out (dkg_port E userId ua P) s')"
    using k dkg_writes [OF _ step(1)] by (simp add: dkg_port_def server_keeps_def)
qed

subsection \<open>The client\<close>

definition actor_keyed :: "'pt \<Rightarrow> ('m, 'e, 'pt) ClientDkg \<Rightarrow> bool" where
  "actor_keyed P a \<longleftrightarrow> service_keyed P (cd_service a)"

fun keyed_engine :: "'pt \<Rightarrow> ('m, 'pt) engine_event \<Rightarrow> bool" where
  "keyed_engine P (En_state (Inr g) fin) = (lr_PublicKey g = P)"
| "keyed_engine P _ = True"

lemma keyed_engine_event: "conn_keyed_event P (Ce_engine x) = keyed_engine P x"
  by (cases "(P, x)" rule: keyed_engine.cases) auto

interpretation dkg_actor: conn_actor "Dkg_ops E" "actor_keyed P" "keyed_engine P"
  for E :: "('m, 'e, 'pt, 'pl) env" and P :: 'pt
proof unfold_locales
  fix a b :: "('m, 'e, 'pt) ClientDkg" and x :: "('m, 'pt) engine_event"
  assume "actor_keyed P a" "keyed_engine P x" "co_engine (Dkg_ops E) x a = Ret b"
  then show "actor_keyed P b"
    by (cases x) (auto simp: Dkg_ops_def Dkg_engine_def actor_keyed_def service_keyed_def actor_results
        Dkg_OnStateChanged_def Dkg_close_def split: go.split_asm if_split_asm sum.split_asm)
next
  fix a b :: "('m, 'e, 'pt) ClientDkg" and r
  assume "actor_keyed P a" "co_next (Dkg_ops E) a = Ret (r, b)"
  then show "actor_keyed P b"
    by (auto simp: Dkg_ops_def actor_keyed_def service_keyed_def dest: client_results(1))
next
  fix c c' :: "('m, 'e, 'pt) ClientDkg conn" and msg w
  assume g: "actor_good (actor_keyed P) c" and r: "co_read (Dkg_ops E) msg w c = Some c'"
  have keep: "\<exists>a. p = Some a \<and> (actor_keyed P a \<longrightarrow> actor_keyed P b)"
    if "on_ptr (ClientDkg_HandleMessage (en_al E)) p m = Ret (r, Some b)" for p m r b
    using that by (auto simp: on_ptr_def actor_keyed_def service_keyed_def dest: client_results(3)
        split: option.split_asm go.split_asm prod.split_asm)
  from r show "actor_good (actor_keyed P) c'"
    by (auto simp: Dkg_ops_def Dkg_read_def intro: actor_tss [OF _ g keep]
        actor_good_same [OF actor_pieces(3) g] split: if_split_asm)
      (use g in \<open>auto simp: actor_good_def dest: actor_pieces(4)\<close>)
next
  fix c c' :: "('m, 'e, 'pt) ClientDkg conn" and w
  assume "co_main (Dkg_ops E) w c = Some c'"
  then show "cn_actor c' = cn_actor c"
    by (auto simp: Dkg_ops_def Dkg_main_def intro: actor_pieces split: conn_main.split_asm)
qed

lemma client_actor_keyed:
  assumes "conn_step E (Dkg_ops E) ev c = Some c'" and "conn_keyed_event P ev" and "actor_good (actor_keyed P) c"
  shows "actor_good (actor_keyed P) c'"
  by (rule dkg_actor.step_good [OF assms(1) _ assms(3)]) (use assms(2) in \<open>simp add: keyed_engine_event\<close>)

fun main_wallet :: "conn_main \<Rightarrow> DkgResult option" where
  "main_wallet (CM_done r) = Some r"
| "main_wallet (CM_check r) = Some r"
| "main_wallet (CM_stage r) = Some r"
| "main_wallet (CM_tell r) = Some r"
| "main_wallet (CM_finish r) = Some r"
| "main_wallet _ = None"

text \<open>What the client knows, of the messages that it has read.\<close>

definition returns_key :: "'pt curve_lib \<Rightarrow> 'pt \<Rightarrow> ws_msg list \<Rightarrow> 'a conn \<Rightarrow> bool" where
  "returns_key lib P msgs c \<longleftrightarrow>
     (cn_serverDone c \<longrightarrow> cn_metadata c \<in> sent_metadata msgs) \<and>
     (\<forall>w. main_wallet (cn_main c) = Some w \<longrightarrow> has_key lib P w) \<and>
     (\<forall>oc w. cn_returned c = Some oc \<longrightarrow> oc_result oc = Some w \<longrightarrow>
        oc_err oc = None \<and> oc_metadata oc \<in> sent_metadata msgs \<and> has_key lib P w)"

lemma sent_metadata_more: "x \<in> sent_metadata msgs \<Longrightarrow> x \<in> sent_metadata (msgs @ news)"
  by (auto simp: sent_metadata_def)

lemma returns_key_calm:
  "returns_key lib P msgs c \<Longrightarrow> calm c c' \<Longrightarrow> returns_key lib P (msgs @ news) c'"
  by (auto simp: returns_key_def calm_def intro: sent_metadata_more)

lemma calm_read:
  "Dkg_read E msg w c = Some c' \<Longrightarrow> wm_Type msg \<noteq> MetadataMessage \<Longrightarrow> calm c c'"
  by (auto simp: Dkg_read_def intro: calm_pieces split: if_split_asm)

lemma returns_key_metadata:
  assumes "Dkg_read E msg w c = Some c'" and "wm_Type msg = MetadataMessage" and "returns_key lib P msgs c"
  shows "returns_key lib P (msgs @ [msg]) c'"
proof -
  let ?c = "c\<lparr>cn_metadata := wm_Msg msg\<rparr>"
  have md: "wm_Msg msg \<in> sent_metadata (msgs @ [msg])" using assms(2) by (auto simp: sent_metadata_def)
  have "conn_reply_close w (ws_message MetadataAckMessage []) ?c = Some c'"
    using assms(1,2) by (simp add: Dkg_read_def frame_not_metadata(1) not_sym)
  then have "cn_main c' = cn_main c \<and> cn_returned c' = cn_returned c \<and> cn_metadata c' = wm_Msg msg"
    by (auto simp: conn_reply_close_def conn_report_def conn_close_done_def conn_say_def conn_crash_def
        split: sum.split_asm option.split_asm if_split_asm)
  with assms(3) md show ?thesis by (auto simp: returns_key_def intro: sent_metadata_more)
qed

lemma client_process_key:
  assumes "actor_good (actor_keyed P) c" and "cn_actor c = Some a" and "ClientDkg_Process lib a = Some (Ret (Inr r))"
  shows "has_key lib P r"
proof -
  from assms(3) obtain g where g: "dk_result (cd_service a) = Some g"
      "PostProcessResult lib \<lparr>pr_PublicKey = lr_PublicKey g, pr_Share = lr_Share g, pr_Bks = lr_Bks g,
         pr_PeerID = cd_clientPeerID a\<rparr> = Ret (Inr r)"
    by (auto simp: ClientDkg_Process_def split: if_split_asm option.split_asm)
  from g(1) assms(1,2) have "lr_PublicKey g = P" by (simp add: actor_good_def actor_keyed_def service_keyed_def)
  with post_process_key [OF g(2)] show ?thesis by simp
qed

lemma returns_key_main:
  assumes "Dkg_main E w c = Some c'" and "actor_good (actor_keyed P) c" and "returns_key (en_lib E) P msgs c"
  shows "returns_key (en_lib E) P msgs c'"
proof (cases "cn_main c")
  case CM_process
  with assms(1) have "conn_process (ClientDkg_Process (en_lib E)) CM_check c = Some c'" by (simp add: Dkg_main_def)
  with assms(3) client_process_key [OF assms(2)] show ?thesis
    by (auto simp: conn_process_def returns_key_def conn_crash_def conn_return_def oc_nil_def
        split: option.split_asm go.split_asm sum.split_asm)
next
  case (CM_check r)
  with assms(1) have "conn_check (en_closed E) r c = Some c'" by (simp add: Dkg_main_def)
  with assms(3) CM_check show ?thesis
    by (auto simp: conn_check_def returns_key_def conn_return_def oc_fail_def split: prod.split_asm option.split_asm)
next
  case (CM_stage r)
  with assms(1,3) show ?thesis by (auto simp: Dkg_main_def conn_set_stage_def returns_key_def)
next
  case (CM_finish r)
  with assms(1,3) show ?thesis
    by (auto simp: Dkg_main_def conn_finish_def returns_key_def conn_return_def oc_wallet_def split: if_split_asm)
qed (use assms(1) in \<open>simp_all add: Dkg_main_def\<close>)

definition client_keeps ::
  "('m, 'e, 'pt, 'pl) env \<Rightarrow> 'pt \<Rightarrow> ws_msg list \<Rightarrow> ('m, 'e, 'pt) ClientDkg conn \<Rightarrow> bool" where
  "client_keeps E P msgs c \<longleftrightarrow> actor_good (actor_keyed P) c \<and> returns_key (en_lib E) P msgs c"

lemma client_step_keeps:
  assumes "conn_step E (Dkg_ops E) ev c = Some c'" and "conn_keyed_event P ev" and "client_keeps E P msgs c"
  shows "client_keeps E P (msgs @ got (conn_reads ev)) c' \<and> prefix (cn_out c) (cn_out c')"
proof -
  have actor: "actor_good (actor_keyed P) c'" using client_actor_keyed [OF assms(1,2)] assms(3) by (simp add: client_keeps_def)
  from assms(3) have key: "returns_key (en_lib E) P msgs c" "actor_good (actor_keyed P) c" by (simp_all add: client_keeps_def)
  have calm: ?thesis if "calm c c'"
    using returns_key_calm [OF key(1) that] actor that by (simp add: client_keeps_def calm_def)
  have others: "calm c c'" if "\<And>w. ev \<noteq> Ce_main w" "\<And>re. ev \<noteq> Ce_read re"
    using that assms(1) by (cases ev) (auto simp: Dkg_ops_def intro: calm_pieces split: if_split_asm)
  show ?thesis
  proof (cases ev)
    case (Ce_main w)
    with assms(1) have main: "Dkg_main E w c = Some c'" by (simp add: Dkg_ops_def split: if_split_asm)
    then have "quiet c c'" by (auto simp: Dkg_main_def intro: quiet_pieces split: conn_main.split_asm)
    with returns_key_main [OF main key(2,1)] actor Ce_main show ?thesis by (simp add: client_keeps_def quiet_def)
  next
    case (Ce_read re)
    show ?thesis
    proof (cases re)
      case (ReadErr err)
      with Ce_read assms(1) have "calm c c'" by (auto intro: calm_read_err split: if_split_asm)
      then show ?thesis by (rule calm)
    next
      case (ReadMsg msg w)
      with Ce_read assms(1) have read: "Dkg_read E msg w c = Some c'" by (simp add: Dkg_ops_def split: if_split_asm)
      show ?thesis
      proof (cases "wm_Type msg = MetadataMessage")
        case True
        then have "conn_reply_close w (ws_message MetadataAckMessage []) (c\<lparr>cn_metadata := wm_Msg msg\<rparr>) = Some c'"
          using read by (simp add: Dkg_read_def frame_not_metadata(1) not_sym)
        then have "prefix (cn_out c) (cn_out c')"
          by (auto simp: conn_reply_close_def conn_report_def conn_close_done_def conn_say_def conn_crash_def
              split: sum.split_asm option.split_asm if_split_asm)
        with returns_key_metadata [OF read True key(1)] actor Ce_read ReadMsg show ?thesis
          by (simp add: client_keeps_def)
      next
        case False
        with read have "calm c c'" by (rule calm_read)
        then show ?thesis by (rule calm)
      qed
    qed
  qed (use calm others in blast)+
qed

interpretation dkg_client: endpoint "conn_port E (Dkg_ops E) P" "client_keeps E P"
  for E :: "('m, 'e, 'pt, 'pl) env" and P
  by unfold_locales (simp_all add: conn_port_def client_step_keeps del: conn_step.simps)

interpretation dkg_ends: duplex "dkg_port E userId ua P" "server_keeps E userId d P" "conn_port E (Dkg_ops E) P" "client_keeps E P"
  for E :: "('m, 'e, 'pt, 'pl) env" and userId and ua and d and P
  by unfold_locales

subsection \<open>Agreement\<close>

lemma new_client_result: "NewClientDkg al peer = Inr c \<Longrightarrow> dk_result (cd_service c) = None \<and> \<not> dk_done (cd_service c)"
  by (auto simp: NewClientDkg_def Dkg_Init_def NewServiceDkg_def Let_def split: sum.split_asm)

lemma client_starts: "NewClientDkg al peer = Inr c \<Longrightarrow> client_keeps E P [] (Dkg_start c hello)"
  using new_client_result [of al peer c]
  by (simp add: client_keeps_def actor_good_def actor_keyed_def service_keyed_def returns_key_def Dkg_start_def conn_init_def)

lemma server_starts: "vault_ok d \<Longrightarrow> \<not> known d u \<Longrightarrow> server_keeps E u d P [] (dkg_init d)"
  using dkg_ok_init [of d] dkg_init_wallet [of E "dkg_made E (dkg_init d)" u d]
  by (simp add: server_keeps_def dkg_keyed_def dkg_init_def)

lemma dkg_wallet_key: "dkg_wallet lib g peer ws \<Longrightarrow> has_key lib (lr_PublicKey g) ws"
  by (auto simp: dkg_wallet_def has_key_def Let_def)

lemma has_key_unique: "has_key lib P w \<Longrightarrow> has_key lib P v \<Longrightarrow> dr_Pubkey w = dr_Pubkey v \<and> dr_Address w = dr_Address v"
  by (auto simp: has_key_def)

text \<open>C2: the client's \<open>Dkg\<close> and the server's handler on one connection, every order of their
  steps, every failure of a read or write: when the library gives both ends one public key and the
  client returns a wallet, then it has that key and its address, no error is returned, and the
  returned metadata opens what the server has stored, which is the wallet made of the result that
  the library reported to the server's actor of this run, with the same key and address.\<close>

theorem dkg_ends_agree:
  assumes "vault_ok d" and "aead_ok (en_aead E)" and "DkgHandler_entry E cfg None pick r ctx d = Inr userId"
    and "NewClientDkg (en_al E) peer = Inr dkg"
    and "wire_reach (dkg_port E userId ua P) (conn_port E (Dkg_ops E) P) (wire_init (dkg_init d) (Dkg_start dkg hello)) p"
    and "cn_returned (wi_client p) = Some oc" and "oc_result oc = Some w"
  shows "oc_err oc = None \<and> has_key (en_lib E) P w \<and>
         (\<exists>a g ws. hd_dkg (wi_server p) = Some a \<and> dk_result (sd_service a) = Some g \<and> lr_PublicKey g = P \<and>
            dkg_wallet (en_lib E) g (sd_clientPeerID a) ws \<and>
            dr_Pubkey ws = dr_Pubkey w \<and> dr_Address ws = dr_Address w \<and>
            RetrieveWallet (en_wallet E) (en_aead E) None pick' (Some (oc_metadata oc)) userId (hd_db (wi_server p)) =
              Ret (read_back (en_wallet E) ws))"
proof -
  have "\<not> known d userId" using entry_unknown [OF assms(3)] by simp
  from dkg_ends.reach_ends [OF assms(5) server_starts [OF assms(1) this] client_starts [OF assms(4)]]
  obtain down where ends: "prefix down (hd_out (wi_server p))" "dkg_keyed P (wi_server p)"
      "dkg_wallet_ok E (dkg_made E (wi_server p)) userId d (wi_server p)" "returns_key (en_lib E) P down (wi_client p)"
    by (auto simp: dkg_port_def server_keeps_def client_keeps_def)
  from ends(4) assms(6,7) have oc: "oc_err oc = None" "oc_metadata oc \<in> sent_metadata down" "has_key (en_lib E) P w"
    by (simp_all add: returns_key_def)
  from oc(2) ends(1) have "oc_metadata oc \<in> sent_metadata (hd_out (wi_server p))"
    by (auto simp: sent_metadata_def dest: set_mono_prefix)
  with ends(3) have "dkg_opens E (dkg_made E (wi_server p)) userId (oc_metadata oc) (hd_db (wi_server p))"
    by (simp add: dkg_wallet_ok_def)
  then obtain a g ws where ws: "hd_dkg (wi_server p) = Some a" "dk_result (sd_service a) = Some g"
      "dkg_wallet (en_lib E) g (sd_clientPeerID a) ws"
      "RetrieveWallet (en_wallet E) (en_aead E) None pick' (Some (oc_metadata oc)) userId (hd_db (wi_server p)) =
         Ret (read_back (en_wallet E) ws)"
    unfolding dkg_opens_def dkg_made_def using assms(2) by blast
  then have "lr_PublicKey g = P" using ends(2) by (simp add: dkg_keyed_def service_keyed_def)
  moreover from this dkg_wallet_key [OF ws(3)] oc(3) have "dr_Pubkey ws = dr_Pubkey w \<and> dr_Address ws = dr_Address w"
    using has_key_unique by metis
  ultimately have "\<exists>ws. lr_PublicKey g = P \<and> dkg_wallet (en_lib E) g (sd_clientPeerID a) ws \<and>
      dr_Pubkey ws = dr_Pubkey w \<and> dr_Address ws = dr_Address w \<and>
      RetrieveWallet (en_wallet E) (en_aead E) None pick' (Some (oc_metadata oc)) userId (hd_db (wi_server p)) =
        Ret (read_back (en_wallet E) ws)" using ws(3,4) by (intro exI [of _ ws]) simp
  with oc(1,3) ws(1,2) show ?thesis by simp
qed

subsection \<open>A run of both ends\<close>

definition client_completed :: "('m, 'e, 'pt) ClientDkg \<Rightarrow> 'pt lib_result \<Rightarrow> ('m, 'e, 'pt) ClientDkg" where
  "client_completed c g = c\<lparr>cd_service := (cd_service c)\<lparr>dk_result := Some g, dk_done := True\<rparr>\<rparr>"

text \<open>The client's identifier; the process, the store and the metadata; the process of the client;
  metadata, acknowledgement and both ends.\<close>

definition ends_work :: "'pt lib_result \<Rightarrow> draw \<Rightarrow> ('m, 'pt) dkg_event list" where
  "ends_work g rnd =
     [De_start, De_stage, De_state (Inr g) StateDone, De_main rnd (Inr ()), De_main rnd (Inr ()),
      De_main rnd (Inr ()), De_main rnd (Inr ()), De_main rnd (Inr ())]"

definition ends_client :: "'pt lib_result \<Rightarrow> ('m, 'pt) conn_event list" where
  "ends_client g = [Ce_engine (En_state (Inr g) StateDone), Ce_main (Inr ()), Ce_main (Inr ()), Ce_main (Inr ())]"

definition ends_close :: "string \<Rightarrow> draw \<Rightarrow> (('m, 'pt) dkg_event, ('m, 'pt) conn_event) wire_event list" where
  "ends_close md rnd =
     [Client_does (Ce_read (ReadMsg (ws_message MetadataMessage md) (Inr ()))), Client_does (Ce_main (Inr ())),
      Server_does (De_read (ReadMsg (ws_message MetadataAckMessage []) (Inr ()))),
      Server_does (De_main rnd (Inr ()))]"

definition ends_schedule ::
  "string \<Rightarrow> 'pt lib_result \<Rightarrow> 'pt lib_result \<Rightarrow> draw \<Rightarrow> string
     \<Rightarrow> (('m, 'pt) dkg_event, ('m, 'pt) conn_event) wire_event list" where
  "ends_schedule peer g g' rnd md =
     Server_does (De_read (ReadMsg (ws_message PeerIdBroadcastMessage peer) (Inr ()))) #
     map Server_does (ends_work g rnd) @ map Client_does (ends_client g') @ ends_close md rnd"

definition ends_sent :: "('m, 'e, 'pt) ServerDkg \<Rightarrow> string \<Rightarrow> string \<Rightarrow> db \<Rightarrow> ('m, 'e, 'pt) dkg_state" where
  "ends_sent a peer md d' =
     \<lparr>hd_reader = DR_read, hd_main = DM_ack, hd_sender = Sender_on, hd_dkg = Some a, hd_peer = peer, hd_stage = 40,
      hd_errs = [], hd_serverDone = False, hd_ctx = Ctx_live, hd_out = [ws_message MetadataMessage md],
      hd_db = d', hd_crashed = False\<rparr>"

definition ends_ready :: "('m, 'e, 'pt) ClientDkg \<Rightarrow> ws_msg \<Rightarrow> DkgResult \<Rightarrow> ('m, 'e, 'pt) ClientDkg conn" where
  "ends_ready c hello w' = (Dkg_start c hello)\<lparr>cn_main := CM_finish w', cn_stage := 40\<rparr>"

lemma ends_server_run:
  assumes "NewServerDkg (en_al E) peer = Inr a"
    and "ServerDkg_Process (en_lib E) (completed a g) = Some (Ret (Inr w))"
    and "StoreWallet (en_wallet E) (en_aead E) rnd u peer ua w d = (Inr md, d')"
  shows "steps (dkg_step E u ua) (ends_work g rnd)
           ((dkg_init d)\<lparr>hd_peer := peer, hd_dkg := Some a, hd_reader := DR_offer\<rparr>) =
         Some (ends_sent (completed a g) peer md d')"
  using assms(2,3) new_not_done [OF assms(1)]
  by (simp add: ends_work_def ends_sent_def dkg_init_def dkg_start_def dkg_set_stage_def dkg_report_state_def
      Dkg_OnStateChanged_def Dkg_close_def dkg_main_step_def dkg_process_def completed_def dkg_check_def
      ProcessErrors_def dkg_store_def dkg_send_metadata_def)

lemma ends_client_run:
  assumes "NewClientDkg (en_al E) peer = Inr c"
    and "ClientDkg_Process (en_lib E) (client_completed c g) = Some (Ret (Inr w'))"
  shows "steps (conn_step E (Dkg_ops E)) (ends_client g) (Dkg_start c hello) =
         Some (ends_ready (client_completed c g) hello w')"
  using assms(2) new_client_result [OF assms(1)]
  by (simp add: ends_client_def ends_ready_def Dkg_start_def conn_init_def Dkg_ops_def conn_engine_def Dkg_engine_def
      Dkg_OnStateChanged_def Dkg_close_def Dkg_main_def conn_process_def client_completed_def conn_check_def
      ProcessErrors_def conn_set_stage_def)

lemma ends_run:
  assumes "NewServerDkg (en_al E) peer = Inr a" and "NewClientDkg (en_al E) peer = Inr c"
    and "ServerDkg_Process (en_lib E) (completed a g) = Some (Ret (Inr w))"
    and "ClientDkg_Process (en_lib E) (client_completed c g') = Some (Ret (Inr w'))"
    and "StoreWallet (en_wallet E) (en_aead E) rnd u peer ua w d = (Inr md, d')"
  defines "hello \<equiv> ws_message PeerIdBroadcastMessage peer"
  shows "steps (wire_step (dkg_port E u ua P) (conn_port E (Dkg_ops E) P)) (ends_schedule peer g g' rnd md)
           (wire_init (dkg_init d) (Dkg_start c hello)) =
         Some \<lparr>wi_server = (ends_sent (completed a g) peer md d')\<lparr>hd_main := DM_closed, hd_serverDone := True, hd_ctx := Ctx_canceled\<rparr>,
               wi_client = (ends_ready (client_completed c g') hello w')
                 \<lparr>cn_main := CM_returned, cn_metadata := md, cn_serverDone := True, cn_ctx := Ctx_canceled,
                   cn_out := [hello, ws_message MetadataAckMessage []],
                   cn_returned := Some \<lparr>oc_result = Some w', oc_metadata = md, oc_err = None\<rparr>\<rparr>,
               wi_up = 2, wi_down = 1\<rparr>"
proof -
  let ?S = "dkg_port E u ua P" and ?C = "conn_port E (Dkg_ops E) P"
  let ?s0 = "(dkg_init d :: ('a, 'b, 'c) dkg_state)\<lparr>hd_peer := peer, hd_dkg := Some a, hd_reader := DR_offer\<rparr>"
  have first: "wire_step ?S ?C (Server_does (De_read (ReadMsg hello (Inr ())))) (wire_init (dkg_init d) (Dkg_start c hello)) =
      Some \<lparr>wi_server = ?s0, wi_client = Dkg_start c hello, wi_up = 1, wi_down = 0\<rparr>"
    by (simp add: wire_init_def dkg_port_def conn_port_def delivers_def Dkg_start_def conn_init_def dkg_init_def
        dkg_read_def dkg_on_peer_def hello_def ws_message_def assms(1))
  have quiet: "\<forall>x \<in> set (ends_work g rnd). pt_in ?S x = None" "\<forall>y \<in> set (ends_client g'). pt_in ?C y = None"
    by (simp_all add: ends_work_def ends_client_def dkg_port_def conn_port_def)
  have steps: "pt_step ?S = dkg_step E u ua" "pt_step ?C = conn_step E (Dkg_ops E)"
    by (simp_all add: dkg_port_def conn_port_def)
  have ends: "steps (wire_step ?S ?C) (ends_close md rnd)
      \<lparr>wi_server = ends_sent (completed a g) peer md d', wi_client = ends_ready (client_completed c g') hello w',
       wi_up = 1, wi_down = 0\<rparr> =
     Some \<lparr>wi_server = (ends_sent (completed a g) peer md d')\<lparr>hd_main := DM_closed, hd_serverDone := True, hd_ctx := Ctx_canceled\<rparr>,
               wi_client = (ends_ready (client_completed c g') hello w')
                 \<lparr>cn_main := CM_returned, cn_metadata := md, cn_serverDone := True, cn_ctx := Ctx_canceled,
                   cn_out := [hello, ws_message MetadataAckMessage []],
                   cn_returned := Some \<lparr>oc_result = Some w', oc_metadata = md, oc_err = None\<rparr>\<rparr>,
               wi_up = 2, wi_down = 1\<rparr>"
    by (simp add: ends_close_def ends_sent_def ends_ready_def dkg_port_def conn_port_def delivers_def Dkg_start_def
        conn_init_def Dkg_ops_def Dkg_read_def ws_message_def frame_not_metadata(1) [symmetric] conn_reply_close_def
        conn_close_done_def conn_say_def Dkg_main_def conn_finish_def conn_return_def oc_wallet_def cancel_ctx_def
        dkg_read_def message_types dkg_on_ack_def dkg_main_step_def dkg_return_def)
  show ?thesis
    using first ends
    by (simp add: ends_schedule_def hello_def [symmetric] steps_append wire_run_server [OF quiet(1)]
        wire_run_client [OF quiet(2)] steps ends_server_run [OF assms(1,3,5)] ends_client_run [OF assms(2,4)]
        del: wire_step.simps dkg_step.simps conn_step.simps)
qed

lemma ends_fair:
  assumes "draw_ok rnd" and "lr_PublicKey g = P" and "lr_PublicKey g' = P"
  shows "\<forall>ev \<in> set (ends_schedule peer g g' rnd md). wire_fair (dkg_port E u ua P) (conn_port E ops P) ev"
  using assms
  by (simp add: ends_schedule_def ends_work_def ends_client_def ends_close_def dkg_port_def conn_port_def)

text \<open>C14: when the constructors of both actors succeed, the library gives each end a result with
  one public key that can be post-processed, and the server's can be stored, then there is a
  schedule of the connected ends that runs both to their normal end: the handler closes with the
  wallet stored and the metadata sent, and \<open>Dkg\<close> returns the client's wallet with that metadata.\<close>

theorem dkg_ends_complete:
  assumes "NewServerDkg (en_al E) peer = Inr a" and "NewClientDkg (en_al E) peer = Inr c"
    and "ServerDkg_Process (en_lib E) (completed a g) = Some (Ret (Inr w))"
    and "ClientDkg_Process (en_lib E) (client_completed c g') = Some (Ret (Inr w'))"
    and "StoreWallet (en_wallet E) (en_aead E) rnd u peer ua w d = (Inr md, d')"
    and "draw_ok rnd" and "lr_PublicKey g = P" and "lr_PublicKey g' = P"
  shows "\<exists>p. wire_reach (dkg_port E u ua P) (conn_port E (Dkg_ops E) P)
             (wire_init (dkg_init d) (Dkg_start c (ws_message PeerIdBroadcastMessage peer))) p \<and>
           hd_main (wi_server p) = DM_closed \<and> hd_db (wi_server p) = d' \<and> hd_errs (wi_server p) = [] \<and>
           hd_out (wi_server p) = [ws_message MetadataMessage md] \<and>
           cn_returned (wi_client p) = Some \<lparr>oc_result = Some w', oc_metadata = md, oc_err = None\<rparr> \<and>
           \<not> hd_crashed (wi_server p) \<and> \<not> cn_crashed (wi_client p)"
proof (rule exI, rule conjI)
  show "wire_reach (dkg_port E u ua P) (conn_port E (Dkg_ops E) P)
      (wire_init (dkg_init d) (Dkg_start c (ws_message PeerIdBroadcastMessage peer)))
      \<lparr>wi_server = (ends_sent (completed a g) peer md d')\<lparr>hd_main := DM_closed, hd_serverDone := True, hd_ctx := Ctx_canceled\<rparr>,
       wi_client = (ends_ready (client_completed c g') (ws_message PeerIdBroadcastMessage peer) w')
         \<lparr>cn_main := CM_returned, cn_metadata := md, cn_serverDone := True, cn_ctx := Ctx_canceled,
           cn_out := [ws_message PeerIdBroadcastMessage peer, ws_message MetadataAckMessage []],
           cn_returned := Some \<lparr>oc_result = Some w', oc_metadata = md, oc_err = None\<rparr>\<rparr>,
       wi_up = 2, wi_down = 1\<rparr>"
    by (rule wire_run_reach [OF ends_run [OF assms(1-5)] ends_fair [OF assms(6-8)] wire_reach_init])
qed (simp add: ends_sent_def ends_ready_def Dkg_start_def conn_init_def)

lemma toy_ends_client: "\<exists>c. NewClientDkg toy_alice ''c'' = Inr c"
  by (simp add: NewClientDkg_def Dkg_Init_def NewServiceDkg_def toy_alice_def Let_def)

lemma toy_client_process:
  "\<exists>w. ClientDkg_Process toy_lib (client_completed c toy_dkg_result) = Some (Ret (Inr w))"
  by (simp add: ClientDkg_Process_def client_completed_def toy_dkg_result_def PostProcessResult_def Let_def
      GetAddress_def GetECDSA_def PubkeyToAddress_def FromECDSAPub_def ec_Marshal_def toy_lib_def FillBytes_def
      slice_from_1_def)

lemma toy_ends_facts:
  obtains w w' c d' where "NewServerDkg (en_al toy_env) ''c'' = Inr toy_dkg" "NewClientDkg (en_al toy_env) ''c'' = Inr c"
    "ServerDkg_Process (en_lib toy_env) (completed toy_dkg toy_dkg_result) = Some (Ret (Inr w))"
    "ClientDkg_Process (en_lib toy_env) (client_completed c toy_dkg_result) = Some (Ret (Inr w'))"
    "StoreWallet (en_wallet toy_env) (en_aead toy_env) toy_draw ''u'' ''c'' ''ua'' w empty_db = (Inr toy_metadata, d')"
    "draw_ok toy_draw" "lr_PublicKey toy_dkg_result = 5" "lr_PublicKey toy_dkg_result = 5"
proof -
  obtain c where c: "NewClientDkg (en_al toy_env) ''c'' = Inr c" using toy_ends_client by auto
  moreover obtain w' where "ClientDkg_Process (en_lib toy_env) (client_completed c toy_dkg_result) = Some (Ret (Inr w'))"
    using toy_client_process by auto
  moreover have "lr_PublicKey toy_dkg_result = 5" by (simp add: toy_dkg_result_def)
  ultimately show ?thesis using toy_dkg_facts that toy_draw_ok by metis
qed

theorem dkg_ends_complete_witness:
  "\<exists>c p w'. wire_reach (dkg_port toy_env ''u'' ''ua'' 5) (conn_port toy_env (Dkg_ops toy_env) 5)
     (wire_init (dkg_init empty_db) (Dkg_start c (ws_message PeerIdBroadcastMessage ''c''))) p \<and>
     cn_returned (wi_client p) = Some \<lparr>oc_result = Some w', oc_metadata = toy_metadata, oc_err = None\<rparr>"
proof -
  obtain w w' c d' where f: "NewServerDkg (en_al toy_env) ''c'' = Inr toy_dkg" "NewClientDkg (en_al toy_env) ''c'' = Inr c"
    "ServerDkg_Process (en_lib toy_env) (completed toy_dkg toy_dkg_result) = Some (Ret (Inr w))"
    "ClientDkg_Process (en_lib toy_env) (client_completed c toy_dkg_result) = Some (Ret (Inr w'))"
    "StoreWallet (en_wallet toy_env) (en_aead toy_env) toy_draw ''u'' ''c'' ''ua'' w empty_db = (Inr toy_metadata, d')"
    "draw_ok toy_draw" "lr_PublicKey toy_dkg_result = 5" "lr_PublicKey toy_dkg_result = 5"
    by (rule toy_ends_facts)
  from dkg_ends_complete [OF f] show ?thesis by blast
qed

lemma toy_ends_reach:
  obtains c p w where "NewClientDkg (en_al toy_env) ''c'' = Inr c"
    "wire_reach (dkg_port toy_env ''u'' ''ua'' 5) (conn_port toy_env (Dkg_ops toy_env) 5)
       (wire_init (dkg_init empty_db) (Dkg_start c (ws_message PeerIdBroadcastMessage ''c''))) p"
    "cn_returned (wi_client p) = Some \<lparr>oc_result = Some w, oc_metadata = toy_metadata, oc_err = None\<rparr>"
proof -
  obtain w w' c d' where f: "NewServerDkg (en_al toy_env) ''c'' = Inr toy_dkg" "NewClientDkg (en_al toy_env) ''c'' = Inr c"
    "ServerDkg_Process (en_lib toy_env) (completed toy_dkg toy_dkg_result) = Some (Ret (Inr w))"
    "ClientDkg_Process (en_lib toy_env) (client_completed c toy_dkg_result) = Some (Ret (Inr w'))"
    "StoreWallet (en_wallet toy_env) (en_aead toy_env) toy_draw ''u'' ''c'' ''ua'' w empty_db = (Inr toy_metadata, d')"
    "draw_ok toy_draw" "lr_PublicKey toy_dkg_result = 5" "lr_PublicKey toy_dkg_result = 5"
    by (rule toy_ends_facts)
  from wire_run_reach [OF ends_run [OF f(1-5)] ends_fair [OF f(6-8)] wire_reach_init]
  show ?thesis by (rule that [OF f(2)]) simp
qed

theorem dkg_ends_agree_witness:
  "\<exists>c p w ws. wire_reach (dkg_port toy_env ''u'' ''ua'' 5) (conn_port toy_env (Dkg_ops toy_env) 5)
       (wire_init (dkg_init empty_db) (Dkg_start c (ws_message PeerIdBroadcastMessage ''c''))) p \<and>
     cn_returned (wi_client p) = Some \<lparr>oc_result = Some w, oc_metadata = toy_metadata, oc_err = None\<rparr> \<and>
     dr_Pubkey ws = dr_Pubkey w \<and>
     RetrieveWallet toy_wallet_codec toy_aead None 0 (Some toy_metadata) ''u'' (hd_db (wi_server p)) = Ret (Inr ws)"
proof -
  obtain c p w where run: "NewClientDkg (en_al toy_env) ''c'' = Inr c"
    "wire_reach (dkg_port toy_env ''u'' ''ua'' 5) (conn_port toy_env (Dkg_ops toy_env) 5)
       (wire_init (dkg_init empty_db) (Dkg_start c (ws_message PeerIdBroadcastMessage ''c''))) p"
    "cn_returned (wi_client p) = Some \<lparr>oc_result = Some w, oc_metadata = toy_metadata, oc_err = None\<rparr>"
    by (rule toy_ends_reach)
  have "aead_ok (en_aead toy_env)" by (simp add: toy_aead_ok)
  from dkg_ends_agree [OF empty_db_ok(1) this toy_dkg_entry [of 0 "toy_request ''/dkg''"] run, of w 0] run(2,3)
  show ?thesis by (simp only: toy_env_simps outcome.simps toy_read_back) blast
qed

end
