(* ===== verification/AcceptHandler.thy ===== *)
theory AcceptHandler
  imports AddHandlers
begin

text \<open>
  The accepting side of the multi-device process (\<open>AcceptDeviceHandler\<close> of
  \<open>server/tss_add.go\<close>), the steps of the TSS library on the shared adder, and the runs of both
  handlers together.
\<close>

subsection \<open>The reader of the accepting device\<close>

definition acc_goto :: "acc_reader \<Rightarrow> ('m, 'e, 'pt) add_state \<Rightarrow> ('m, 'e, 'pt) add_state" where
  "acc_goto pc st = set_acc st ((ad_acc st)\<lparr>ac_reader := pc\<rparr>)"

definition acc_report :: "go_error \<Rightarrow> ('m, 'e, 'pt) add_state \<Rightarrow> ('m, 'e, 'pt) add_state option" where
  "acc_report err st =
     (case chan_send errs_cap (ac_errs (ad_acc st)) err of
        None \<Rightarrow> None
      | Some q \<Rightarrow> Some (set_acc st ((ad_acc st)\<lparr>ac_errs := q, ac_reader := AR_gone\<rparr>)))"

definition acc_say :: "ws_msg \<Rightarrow> ('m, 'e, 'pt) add_state \<Rightarrow> ('m, 'e, 'pt) add_state" where
  "acc_say m st = set_acc st ((ad_acc st)\<lparr>ac_out := ac_out (ad_acc st) @ [m]\<rparr>)"

definition acc_read_err ::
  "('m, 'e, 'pt, 'pl) env \<Rightarrow> go_error \<Rightarrow> ('m, 'e, 'pt) add_state \<Rightarrow> ('m, 'e, 'pt) add_state option" where
  "acc_read_err E err st =
     (case read_failure (en_normal E) (ac_ctx (ad_acc st)) err of
        None \<Rightarrow> Some (acc_goto AR_gone st)
      | Some e \<Rightarrow> acc_report e st)"

definition acc_on_peer :: "ws_msg \<Rightarrow> ('m, 'e, 'pt) add_state \<Rightarrow> ('m, 'e, 'pt) add_state option" where
  "acc_on_peer msg st =
     (if ac_stage (ad_acc st) > mt_stage (wm_Type msg) then Some st
      else Some (set_acc st ((ad_acc st)\<lparr>ac_existingPeer := wm_Msg msg, ac_reader := AR_peer_send\<rparr>)))"

definition acc_on_metadata :: "ws_msg \<Rightarrow> ('m, 'e, 'pt) add_state \<Rightarrow> ('m, 'e, 'pt) add_state option" where
  "acc_on_metadata msg st =
     (if ac_stage (ad_acc st) > mt_stage (wm_Type msg) then Some st
      else Some (set_acc st ((ad_acc st)\<lparr>ac_metadata := wm_Msg msg, ac_reader := AR_metadata\<rparr>)))"

definition acc_on_tss ::
  "('m, 'e, 'pt, 'pl) env \<Rightarrow> ws_msg \<Rightarrow> ('m, 'e, 'pt) add_state \<Rightarrow> ('m, 'e, 'pt) add_state option" where
  "acc_on_tss E msg st =
     (if ac_stage (ad_acc st) > mt_stage (wm_Type msg) then Some st
      else
        (case handle_at E (ac_adder (ad_acc st)) msg st of
           Panic m \<Rightarrow> Some (add_crash st)
         | Ret (Inl err, st') \<Rightarrow> acc_report err st'
         | Ret (Inr _, st') \<Rightarrow> Some st'))"

definition acc_on_step ::
  "acc_reader \<Rightarrow> ws_msg \<Rightarrow> ('m, 'e, 'pt) add_state \<Rightarrow> ('m, 'e, 'pt) add_state option" where
  "acc_on_step pc msg st =
     (if ac_stage (ad_acc st) > mt_stage (wm_Type msg) then Some st else Some (acc_goto pc st))"

definition acc_on_other ::
  "unit result \<Rightarrow> ('m, 'e, 'pt) add_state \<Rightarrow> ('m, 'e, 'pt) add_state option" where
  "acc_on_other write st =
     (case write of Inl err \<Rightarrow> acc_report err st | Inr _ \<Rightarrow> Some (acc_say unexpected_msg st))"

definition acc_read ::
  "('m, 'e, 'pt, 'pl) env \<Rightarrow> read_event \<Rightarrow> ('m, 'e, 'pt) add_state \<Rightarrow> ('m, 'e, 'pt) add_state option" where
  "acc_read E ev st =
     (if ac_reader (ad_acc st) \<noteq> AR_read then None
      else
        (case ev of
           ReadErr err \<Rightarrow> acc_read_err E err st
         | ReadMsg msg write \<Rightarrow>
             if wm_Type msg = PeerIdBroadcastMessage then acc_on_peer msg st
             else if wm_Type msg = MetadataMessage then acc_on_metadata msg st
             else if wm_Type msg = TssMessage then acc_on_tss E msg st
             else if wm_Type msg = TssDoneMessage then acc_on_step AR_tss_done msg st
             else if wm_Type msg = ExistingDeviceDoneMessage then acc_on_step AR_device_done msg st
             else acc_on_other write st))"

definition acc_peer_step ::
  "unit result \<Rightarrow> ('m, 'e, 'pt) add_state \<Rightarrow> ('m, 'e, 'pt) add_state option" where
  "acc_peer_step write st =
     (case ac_reader (ad_acc st) of
        AR_peer_send \<Rightarrow>
          (case chan_send 1 (lk_existingPeer (ad_link st)) (ac_existingPeer (ad_acc st)) of
             None \<Rightarrow> None
           | Some q \<Rightarrow> Some (acc_goto AR_peer_recv (st\<lparr>ad_link := (ad_link st)\<lparr>lk_existingPeer := q\<rparr>\<rparr>)))
      | AR_peer_recv \<Rightarrow>
          (case chan_recv (lk_newPeer (ad_link st)) of
             None \<Rightarrow> None
           | Some (p, q) \<Rightarrow>
               Some (set_acc (st\<lparr>ad_link := (ad_link st)\<lparr>lk_newPeer := q\<rparr>\<rparr>)
                       ((ad_acc st)\<lparr>ac_newPeer := p, ac_reader := AR_peer_write\<rparr>)))
      | AR_peer_write \<Rightarrow>
          (case write of
             Inl err \<Rightarrow> acc_report err st
           | Inr _ \<Rightarrow>
               Some (acc_goto AR_read
                       (acc_say (ws_message PeerIdBroadcastMessage (ac_newPeer (ad_acc st))) st)))
      | _ \<Rightarrow> None)"

definition acc_metadata_step ::
  "unit result \<Rightarrow> ('m, 'e, 'pt) add_state \<Rightarrow> ('m, 'e, 'pt) add_state option" where
  "acc_metadata_step write st =
     (case ac_reader (ad_acc st) of
        AR_metadata \<Rightarrow>
          (case chan_send 1 (lk_metadata (ad_link st)) (ac_metadata (ad_acc st)) of
             None \<Rightarrow> None
           | Some q \<Rightarrow> Some (acc_goto AR_adder (st\<lparr>ad_link := (ad_link st)\<lparr>lk_metadata := q\<rparr>\<rparr>)))
      | AR_adder \<Rightarrow>
          (case chan_recv (lk_adder (ad_link st)) of
             None \<Rightarrow> None
           | Some (i, q) \<Rightarrow>
               Some (set_acc (st\<lparr>ad_link := (ad_link st)\<lparr>lk_adder := q\<rparr>\<rparr>)
                       ((ad_acc st)\<lparr>ac_adder := Some i, ac_reader := AR_ack\<rparr>)))
      | AR_ack \<Rightarrow>
          (case write of
             Inl err \<Rightarrow> acc_report err st
           | Inr _ \<Rightarrow> Some (acc_goto AR_offer (acc_say (ws_message MetadataAckMessage []) st)))
      | AR_stage \<Rightarrow> Some (set_acc st ((ad_acc st)\<lparr>ac_stage := 30, ac_reader := AR_read\<rparr>))
      | _ \<Rightarrow> None)"

text \<open>The two signals of the existing device; the second one also closes \<open>serverDone\<close>.\<close>

definition acc_signal_step :: "('m, 'e, 'pt) add_state \<Rightarrow> ('m, 'e, 'pt) add_state option" where
  "acc_signal_step st =
     (case ac_reader (ad_acc st) of
        AR_tss_done \<Rightarrow>
          (case chan_send 1 (lk_existing_tss_done (ad_link st)) () of
             None \<Rightarrow> None
           | Some q \<Rightarrow> Some (acc_goto AR_read (st\<lparr>ad_link := (ad_link st)\<lparr>lk_existing_tss_done := q\<rparr>\<rparr>)))
      | AR_device_done \<Rightarrow>
          (case chan_send 1 (lk_existing_done (ad_link st)) () of
             None \<Rightarrow> None
           | Some q \<Rightarrow> Some (acc_goto AR_close (st\<lparr>ad_link := (ad_link st)\<lparr>lk_existing_done := q\<rparr>\<rparr>)))
      | AR_close \<Rightarrow>
          if ac_serverDone (ad_acc st) then Some (add_crash st)
          else Some (set_acc st ((ad_acc st)\<lparr>ac_serverDone := True, ac_reader := AR_read\<rparr>))
      | _ \<Rightarrow> None)"

subsection \<open>The main goroutine of the accepting device\<close>

definition acc_start :: "('m, 'e, 'pt) add_state \<Rightarrow> ('m, 'e, 'pt) add_state option" where
  "acc_start st =
     (if ac_main (ad_acc st) = AM_wait \<and> ac_reader (ad_acc st) = AR_offer
      then Some (set_acc st ((ad_acc st)\<lparr>ac_main := AM_original, ac_reader := AR_stage, ac_sender := Sender_on\<rparr>))
      else None)"

definition acc_return :: "acc_main \<Rightarrow> ('m, 'e, 'pt) add_state \<Rightarrow> ('m, 'e, 'pt) add_state" where
  "acc_return pc st = set_acc st ((ad_acc st)\<lparr>ac_main := pc, ac_ctx := cancel_ctx (ac_ctx (ad_acc st))\<rparr>)"

definition acc_main_goto :: "acc_main \<Rightarrow> ('m, 'e, 'pt) add_state \<Rightarrow> ('m, 'e, 'pt) add_state" where
  "acc_main_goto pc st = set_acc st ((ad_acc st)\<lparr>ac_main := pc\<rparr>)"

definition acc_original ::
  "('m, 'e, 'pt, 'pl) env \<Rightarrow> ('m, 'e, 'pt) add_state \<Rightarrow> ('m, 'e, 'pt) add_state option" where
  "acc_original E st =
     (case adder_at st (ac_adder (ad_acc st)) of
        None \<Rightarrow> Some (acc_return AM_failed st)
      | Some a \<Rightarrow>
          (case GetOriginalWallet (en_lib E) a of
             Panic m \<Rightarrow> Some (acc_return AM_failed st)
           | Ret w \<Rightarrow> Some (acc_main_goto (AM_process w) st)))"

definition acc_process ::
  "('m, 'e, 'pt, 'pl) env \<Rightarrow> DkgResult \<Rightarrow> ('m, 'e, 'pt) add_state \<Rightarrow> ('m, 'e, 'pt) add_state option" where
  "acc_process E original st =
     (case adder_at st (ac_adder (ad_acc st)) of
        None \<Rightarrow> Some (acc_return AM_failed st)
      | Some a \<Rightarrow>
          (case ServerAdd_Process (en_lib E) a of
             None \<Rightarrow> None
           | Some (Panic m) \<Rightarrow> Some (acc_return AM_failed st)
           | Some (Ret (Inl err)) \<Rightarrow> Some (acc_return AM_failed st)
           | Some (Ret (Inr updated)) \<Rightarrow> Some (acc_main_goto (AM_merge original updated) st)))"

definition acc_store ::
  "('m, 'e, 'pt, 'pl) env \<Rightarrow> string \<Rightarrow> draw \<Rightarrow> nat \<Rightarrow> DkgResult \<Rightarrow> string \<Rightarrow> ('m, 'e, 'pt) add_state
     \<Rightarrow> ('m, 'e, 'pt) add_state option" where
  "acc_store E userId rnd pick merged userAgent st =
     (case VaultAddPeer (en_wallet E) (en_aead E) rnd pick (Some (ac_metadata (ad_acc st))) userId
             (ac_newPeer (ad_acc st)) userAgent merged (ad_db st) of
        (Inl err, d) \<Rightarrow> Some (acc_return AM_failed (st\<lparr>ad_db := d\<rparr>))
      | (Inr _, d) \<Rightarrow> Some (acc_main_goto AM_tss (st\<lparr>ad_db := d\<rparr>)))"

definition acc_check ::
  "('m, 'e, 'pt, 'pl) env \<Rightarrow> ('m, 'e, 'pt) add_state \<Rightarrow> ('m, 'e, 'pt) add_state option" where
  "acc_check E st =
     (case ProcessErrors (en_closed E) (ac_ctx (ad_acc st) = Ctx_canceled) (ac_errs (ad_acc st)) of
        (Some err, q) \<Rightarrow> Some (acc_return AM_failed (set_acc st ((ad_acc st)\<lparr>ac_errs := q\<rparr>)))
      | (None, q) \<Rightarrow> Some (set_acc st ((ad_acc st)\<lparr>ac_errs := q, ac_main := AM_stage\<rparr>)))"

definition acc_write ::
  "unit result \<Rightarrow> ('m, 'e, 'pt) add_state \<Rightarrow> ('m, 'e, 'pt) add_state option" where
  "acc_write write st =
     (case write of
        Inl err \<Rightarrow>
          (case chan_send errs_cap (ac_errs (ad_acc st)) err of
             None \<Rightarrow> None
           | Some q \<Rightarrow> Some (acc_return AM_failed (set_acc st ((ad_acc st)\<lparr>ac_errs := q\<rparr>))))
      | Inr _ \<Rightarrow> Some (acc_main_goto AM_done (acc_say (ws_message NewDeviceDoneMessage []) st)))"

definition acc_main_step ::
  "('m, 'e, 'pt, 'pl) env \<Rightarrow> string \<Rightarrow> draw \<Rightarrow> nat \<Rightarrow> unit result \<Rightarrow> ('m, 'e, 'pt) add_state
     \<Rightarrow> ('m, 'e, 'pt) add_state option" where
  "acc_main_step E userId rnd pick write st =
     (case ac_main (ad_acc st) of
        AM_wait \<Rightarrow> None
      | AM_original \<Rightarrow> acc_original E st
      | AM_process original \<Rightarrow> acc_process E original st
      | AM_merge original updated \<Rightarrow>
          (case MergeDkgResults original updated of
             None \<Rightarrow> Some (acc_return AM_failed st)
           | Some merged \<Rightarrow> Some (acc_main_goto (AM_agent merged) st))
      | AM_agent merged \<Rightarrow>
          (case chan_recv (lk_agent (ad_link st)) of
             None \<Rightarrow> None
           | Some (ua, q) \<Rightarrow>
               Some (acc_main_goto (AM_store merged ua) (st\<lparr>ad_link := (ad_link st)\<lparr>lk_agent := q\<rparr>\<rparr>)))
      | AM_store merged ua \<Rightarrow> acc_store E userId rnd pick merged ua st
      | AM_tss \<Rightarrow>
          (case adder_at st (ac_adder (ad_acc st)) of
             None \<Rightarrow> Some (acc_return AM_failed st)
           | Some a \<Rightarrow> if ServerAdd_GetDoneChan a then Some (acc_main_goto AM_check st) else None)
      | AM_check \<Rightarrow> acc_check E st
      | AM_stage \<Rightarrow> Some (set_acc st ((ad_acc st)\<lparr>ac_stage := 40, ac_main := AM_new_done\<rparr>))
      | AM_new_done \<Rightarrow>
          (case chan_recv (lk_new_done (ad_link st)) of
             None \<Rightarrow> None
           | Some (_, q) \<Rightarrow> Some (acc_main_goto AM_write (st\<lparr>ad_link := (ad_link st)\<lparr>lk_new_done := q\<rparr>\<rparr>)))
      | AM_write \<Rightarrow> acc_write write st
      | AM_done \<Rightarrow> if ac_serverDone (ad_acc st) then Some (acc_return AM_closed st) else None
      | AM_closed \<Rightarrow> None
      | AM_failed \<Rightarrow> None)"

definition acc_send_step ::
  "('m, 'e, 'pt, 'pl) env \<Rightarrow> unit result \<Rightarrow> ('m, 'e, 'pt) add_state \<Rightarrow> ('m, 'e, 'pt) add_state option" where
  "acc_send_step E write st =
     (if ac_sender (ad_acc st) \<noteq> Sender_on then None
      else
        (case adder_at st (ac_adder (ad_acc st)) of
           None \<Rightarrow> Some (add_crash st)
         | Some a \<Rightarrow>
             (case TssSend_turn (en_msg E)
                     (ServerAdd_GetNextMessageToSend (en_al E) (ac_existingPeer (ad_acc st)))
                     \<lparr>tk_ctx_done = (ac_ctx (ad_acc st) \<noteq> Ctx_live),
                      tk_server_done = ac_serverDone (ad_acc st), tk_write = write\<rparr> a of
                (u, b) \<Rightarrow>
                  let st1 = put_adder (ac_adder (ad_acc st)) (Some b) st in
                  (case u of
                     Again w \<Rightarrow> Some (case w of None \<Rightarrow> st1 | Some m \<Rightarrow> acc_say m st1)
                   | Stop None \<Rightarrow> Some (set_acc st1 ((ad_acc st)\<lparr>ac_sender := Sender_gone\<rparr>))
                   | Stop (Some err) \<Rightarrow>
                       (case chan_send errs_cap (ac_errs (ad_acc st)) err of
                          None \<Rightarrow> None
                        | Some q \<Rightarrow>
                            Some (set_acc st1 ((ad_acc st)\<lparr>ac_errs := q, ac_sender := Sender_gone\<rparr>)))
                   | Crash m \<Rightarrow> Some (add_crash st)))))"

subsection \<open>Library, clock, runs\<close>

definition add_started :: "('m, 'e, 'pt) add_state \<Rightarrow> bool" where
  "add_started st = (ac_main (ad_acc st) \<noteq> AM_wait \<and> ac_main (ad_acc st) \<noteq> AM_original)"

definition add_emit :: "string \<Rightarrow> 'm \<Rightarrow> ('m, 'e, 'pt) add_state \<Rightarrow> ('m, 'e, 'pt) add_state option" where
  "add_emit peer m st =
     (case adder_at st (ac_adder (ad_acc st)) of
        None \<Rightarrow> None
      | Some a \<Rightarrow>
          if add_started st then Some (put_adder (ac_adder (ad_acc st)) (Some (ServerAdd_emit a (peer, m))) st)
          else None)"

definition add_report_state ::
  "'pt lib_result result \<Rightarrow> MainState \<Rightarrow> ('m, 'e, 'pt) add_state \<Rightarrow> ('m, 'e, 'pt) add_state option" where
  "add_report_state g s st =
     (case adder_at st (ac_adder (ad_acc st)) of
        None \<Rightarrow> None
      | Some a \<Rightarrow>
          if \<not> add_started st then None
          else
            (case AddExisting_OnStateChanged g s (sa_service a) of
               Panic m \<Rightarrow> Some (add_crash st)
             | Ret sv \<Rightarrow> Some (put_adder (ac_adder (ad_acc st)) (Some (a\<lparr>sa_service := sv\<rparr>)) st)))"

datatype ('m, 'pt) add_event =
    Ae_reg_read read_event
  | Ae_reg_peer string "unit result"
  | Ae_reg_device "go_error option" nat "unit result"
  | Ae_reg_start
  | Ae_reg_main "unit result"
  | Ae_reg_send "unit result"
  | Ae_reg_timeout
  | Ae_acc_read read_event
  | Ae_acc_peer "unit result"
  | Ae_acc_metadata "unit result"
  | Ae_acc_signal
  | Ae_acc_start
  | Ae_acc_main draw nat "unit result"
  | Ae_acc_send "unit result"
  | Ae_acc_timeout
  | Ae_emit string 'm
  | Ae_state "'pt lib_result result" MainState

fun add_step ::
  "('m, 'e, 'pt, 'pl) env \<Rightarrow> PublicWallet codec \<Rightarrow> string \<Rightarrow> ('m, 'pt) add_event \<Rightarrow> ('m, 'e, 'pt) add_state
     \<Rightarrow> ('m, 'e, 'pt) add_state option" where
  "add_step E cpw userId ev st =
     (if ad_crashed st then None
      else
        (case ev of
           Ae_reg_read re \<Rightarrow> reg_read E re st
         | Ae_reg_peer ua w \<Rightarrow> reg_peer_step ua w st
         | Ae_reg_device f pick w \<Rightarrow> reg_device_step E cpw userId f pick w st
         | Ae_reg_start \<Rightarrow> reg_start st
         | Ae_reg_main w \<Rightarrow> reg_main_step E w st
         | Ae_reg_send w \<Rightarrow> reg_send_step E w st
         | Ae_reg_timeout \<Rightarrow>
             if rg_ctx (ad_reg st) = Ctx_live
             then Some (set_reg st ((ad_reg st)\<lparr>rg_ctx := Ctx_timeout\<rparr>)) else None
         | Ae_acc_read re \<Rightarrow> acc_read E re st
         | Ae_acc_peer w \<Rightarrow> acc_peer_step w st
         | Ae_acc_metadata w \<Rightarrow> acc_metadata_step w st
         | Ae_acc_signal \<Rightarrow> acc_signal_step st
         | Ae_acc_start \<Rightarrow> acc_start st
         | Ae_acc_main rnd pick w \<Rightarrow> acc_main_step E userId rnd pick w st
         | Ae_acc_send w \<Rightarrow> acc_send_step E w st
         | Ae_acc_timeout \<Rightarrow>
             if ac_ctx (ad_acc st) = Ctx_live
             then Some (set_acc st ((ad_acc st)\<lparr>ac_ctx := Ctx_timeout\<rparr>)) else None
         | Ae_emit p m \<Rightarrow> add_emit p m st
         | Ae_state g s \<Rightarrow> add_report_state g s st))"

fun add_event_fair :: "('m, 'pt) add_event \<Rightarrow> bool" where
  "add_event_fair (Ae_acc_main rnd pick w) = draw_ok rnd"
| "add_event_fair _ = True"

inductive add_reach ::
  "('m, 'e, 'pt, 'pl) env \<Rightarrow> PublicWallet codec \<Rightarrow> string \<Rightarrow> db \<Rightarrow> ('m, 'e, 'pt) add_state \<Rightarrow> bool"
  for E cpw userId d where
  add_reach_init: "add_reach E cpw userId d (add_init d)"
| add_reach_step:
    "add_reach E cpw userId d st \<Longrightarrow> add_event_fair ev \<Longrightarrow>
     add_step E cpw userId ev st = Some st' \<Longrightarrow> add_reach E cpw userId d st'"

end
