(* ===== verification/AddSafety.thy ===== *)
theory AddSafety
  imports AcceptHandler DkgHandler
begin

text \<open>
  The control flow of the two multi-device handlers, for every order of their steps: the adder
  is made once, the metadata that goes from one side to the other is fixed before it is made,
  and the new device is sent that metadata and no other. What the adder keeps of the wallet it
  was made from.
\<close>

subsection \<open>What the adder keeps\<close>

definition same_wallet :: "('m, 'e, 'pt) ServerAdd \<Rightarrow> ('m, 'e, 'pt) ServerAdd \<Rightarrow> bool" where
  "same_wallet a b \<longleftrightarrow>
     sa_originalBKs b = sa_originalBKs a \<and> ax_share (sa_service b) = ax_share (sa_service a) \<and>
     ax_pubkey (sa_service b) = ax_pubkey (sa_service a) \<and>
     (ax_done (sa_service a) \<longrightarrow> ax_done (sa_service b) \<and> ax_result (sa_service b) = ax_result (sa_service a))"

lemma same_wallet_refl [simp]: "same_wallet a a"
  by (simp add: same_wallet_def)

lemma same_wallet_handle:
  "ServerAdd_HandleMessage al (Some a) m = Ret (r, p) \<Longrightarrow> \<exists>b. p = Some b \<and> same_wallet a b"
  by (auto simp: ServerAdd_HandleMessage_def same_wallet_def split: go.split_asm prod.split_asm)

lemma same_wallet_next:
  "ServerAdd_GetNextMessageToSend al c a = Ret (r, b) \<Longrightarrow> same_wallet a b"
  by (auto simp: ServerAdd_GetNextMessageToSend_def same_wallet_def split: option.split_asm prod.split_asm)

lemma same_wallet_turn:
  "TssSend_turn cj (ServerAdd_GetNextMessageToSend al c) t a = (u, b) \<Longrightarrow> same_wallet a b"
  by (auto simp: TssSend_turn_def dest: same_wallet_next
      split: if_split_asm go.split_asm sum.split_asm)

lemma same_wallet_emit: "same_wallet a (ServerAdd_emit a x)"
  by (simp add: same_wallet_def ServerAdd_emit_def)

lemma same_wallet_change:
  "AddExisting_OnStateChanged g s (sa_service a) = Ret sv \<Longrightarrow> same_wallet a (a\<lparr>sa_service := sv\<rparr>)"
  by (auto simp: same_wallet_def AddExisting_OnStateChanged_def AddExisting_close_def
      split: if_split_asm sum.split_asm)

lemma put_adder_heap:
  assumes "adder_at st p = Some a" and "same_wallet a b"
  shows "\<exists>h. put_adder p (Some b) st = st\<lparr>ad_heap := h\<rparr> \<and> list_all2 same_wallet (ad_heap st) h"
proof -
  from assms(1) obtain i where i: "p = Some i" "i < length (ad_heap st)" "ad_heap st ! i = a"
    by (auto simp: adder_at_def split: option.split_asm if_split_asm)
  have "list_all2 same_wallet (ad_heap st) ((ad_heap st)[i := b])"
    using assms(2) i by (auto simp: list_all2_conv_all_nth nth_list_update)
  with i show ?thesis by (auto simp: put_adder_def)
qed

lemma list_all2_same_refl [simp]: "list_all2 same_wallet h h"
  by (simp add: list_all2_conv_all_nth)

lemma heap_same_self: "\<exists>h. st = st\<lparr>ad_heap := h\<rparr> \<and> list_all2 same_wallet (ad_heap st) h"
  by (rule exI [of _ "ad_heap st"]) simp

lemma handle_at_heap:
  assumes "handle_at E p msg st = Ret (r, st')"
  shows "\<exists>h. st' = st\<lparr>ad_heap := h\<rparr> \<and> list_all2 same_wallet (ad_heap st) h"
proof -
  from assms obtain x where
    x: "handle_ws_tss (en_msg E) (ServerAdd_HandleMessage (en_al E)) msg (adder_at st p) = Ret (r, x)"
      "st' = put_adder p x st"
    by (auto simp: handle_at_def split: go.split_asm)
  show ?thesis
  proof (cases "decode_ws_ptr (en_msg E) msg")
    case (Inl err)
    with x(1) have xa: "x = adder_at st p" by (simp add: handle_ws_tss_def)
    show ?thesis
    proof (cases "adder_at st p")
      case None
      with x(2) xa have "st' = st" by (simp add: put_adder_def split: option.split)
      then show ?thesis using heap_same_self by metis
    next
      case (Some a)
      with x(2) xa put_adder_heap [OF Some same_wallet_refl] show ?thesis by simp
    qed
  next
    case (Inr m)
    then obtain tm where h: "m = Some tm" "ServerAdd_HandleMessage (en_al E) (adder_at st p) tm = Ret (r, x)"
      using x(1) by (cases m) (auto simp: handle_ws_tss_def)
    then obtain a where a: "adder_at st p = Some a"
      by (cases "adder_at st p") (auto simp: ServerAdd_HandleMessage_def)
    with h same_wallet_handle obtain b where "x = Some b" "same_wallet a b" by metis
    with put_adder_heap [OF a] x(2) show ?thesis by simp
  qed
qed

subsection \<open>Wallets\<close>

definition opens ::
  "('m, 'e, 'pt, 'pl) env \<Rightarrow> string \<Rightarrow> db \<Rightarrow> string \<Rightarrow> DkgResult \<Rightarrow> bool" where
  "opens E userId d metadata w \<longleftrightarrow>
     (\<exists>fault pick. RetrieveWallet (en_wallet E) (en_aead E) fault pick (Some metadata) userId d = Ret (Inr w))"

definition from_wallet :: "DkgResult \<Rightarrow> ('m, 'e, 'pt) ServerAdd \<Rightarrow> bool" where
  "from_wallet w a \<longleftrightarrow>
     sa_originalBKs a = dr_BKs w \<and> ax_share (sa_service a) = dr_Share w \<and>
     NewPubkey (dr_Pubkey w) = Inr (ax_pubkey (sa_service a))"

text \<open>The wallet \<open>w\<close> with the party parameters \<open>bks\<close> in their place: the same share, the same key with
  its address.\<close>

definition with_parties :: "'pt curve_lib \<Rightarrow> DkgResult \<Rightarrow> BKs \<Rightarrow> DkgResult \<Rightarrow> bool" where
  "with_parties lib w bks m \<longleftrightarrow>
     (\<exists>pk addr. NewPubkey (dr_Pubkey w) = Inr pk \<and> GetAddress lib pk = Ret addr \<and>
        m = \<lparr>dr_Pubkey = GetStr pk, dr_BKs = bks, dr_Share = dr_Share w,
             dr_Address = AddressHex lib addr, dr_PeerID = serverID\<rparr>)"

text \<open>The wallet that is stored for the new device: every party parameter of the result \<open>g\<close> of the
  library is put over those of \<open>w\<close>.\<close>

definition extended :: "'pt curve_lib \<Rightarrow> DkgResult \<Rightarrow> 'pt lib_result \<Rightarrow> DkgResult \<Rightarrow> bool" where
  "extended lib w g m \<longleftrightarrow> with_parties lib w (fmadd (dr_BKs w) (fmmap bk_text (lr_Bks g))) m"

text \<open>The result that the library has reported to the adder, which is the only one.\<close>

definition reported :: "('m, 'e, 'pt) add_state \<Rightarrow> 'pt lib_result \<Rightarrow> bool" where
  "reported st g \<longleftrightarrow>
     (\<exists>a. ad_heap st = [a] \<and> ax_done (sa_service a) \<and> ax_result (sa_service a) = Some g)"

subsection \<open>Control flow\<close>

text \<open>The registering side makes at most one adder: once it has one, its reader never takes
  metadata again.\<close>

fun reader_past :: "32 word \<Rightarrow> reg_reader \<Rightarrow> bool" where
  "reader_past stage (RR_metadata dv) = False"
| "reader_past stage (RR_retrieve dv) = False"
| "reader_past stage (RR_adder w) = True"
| "reader_past stage (RR_pubkey w) = True"
| "reader_past stage RR_offer = True"
| "reader_past stage RR_stage = True"
| "reader_past stage RR_gone = True"
| "reader_past stage pc = (20 < stage)"

definition reg_flow :: "register_state \<Rightarrow> bool" where
  "reg_flow r \<longleftrightarrow>
     (rg_adder r \<noteq> None \<longrightarrow> reader_past (rg_stage r) (rg_reader r)) \<and>
     (rg_main r \<notin> {RM_wait, RM_tss, RM_failed} \<longrightarrow> rg_adder r \<noteq> None) \<and>
     (rg_main r = RM_closed \<longrightarrow> rg_serverDone r)"

text \<open>The accepting side has not passed on metadata yet.\<close>

definition acc_early :: "accept_state \<Rightarrow> bool" where
  "acc_early a \<longleftrightarrow> ac_stage a \<le> 20 \<and> ac_reader a \<notin> {AR_adder, AR_ack, AR_offer, AR_stage, AR_gone}"

definition acc_flow :: "accept_state \<Rightarrow> bool" where
  "acc_flow a \<longleftrightarrow> (acc_early a \<longrightarrow> ac_main a = AM_wait) \<and> (ac_reader a = AR_metadata \<longrightarrow> acc_early a)"

definition holds_metadata :: "register_state \<Rightarrow> bool" where
  "holds_metadata r \<longleftrightarrow> rg_adder r \<noteq> None \<or> (\<exists>dv. rg_reader r = RR_retrieve dv)"

definition metadata_flow :: "('m, 'e, 'pt) add_state \<Rightarrow> bool" where
  "metadata_flow st \<longleftrightarrow>
     (\<forall>x \<in> set (lk_metadata (ad_link st)). x = ac_metadata (ad_acc st)) \<and>
     (holds_metadata (ad_reg st) \<longrightarrow> rg_metadata (ad_reg st) = ac_metadata (ad_acc st)) \<and>
     (acc_early (ad_acc st) \<longrightarrow> lk_metadata (ad_link st) = [] \<and> \<not> holds_metadata (ad_reg st))"

definition adder_flow :: "('m, 'e, 'pt) add_state \<Rightarrow> bool" where
  "adder_flow st \<longleftrightarrow>
     (rg_adder (ad_reg st) = None \<longrightarrow>
        ad_heap st = [] \<and> lk_adder (ad_link st) = [] \<and> ac_adder (ad_acc st) = None)"

definition out_flow :: "('m, 'e, 'pt) add_state \<Rightarrow> bool" where
  "out_flow st \<longleftrightarrow>
     (\<forall>m \<in> set (rg_out (ad_reg st)). wm_Type m = MetadataMessage \<longrightarrow>
        rg_adder (ad_reg st) \<noteq> None \<and> wm_Msg m = rg_metadata (ad_reg st)) \<and>
     (rg_main (ad_reg st) \<in> {RM_done, RM_write, RM_close, RM_closed} \<longrightarrow>
        (\<exists>m \<in> set (rg_out (ad_reg st)). wm_Type m = MetadataMessage))"

definition add_flow :: "('m, 'e, 'pt) add_state \<Rightarrow> bool" where
  "add_flow st \<longleftrightarrow> reg_flow (ad_reg st) \<and> acc_flow (ad_acc st) \<and> metadata_flow st \<and> adder_flow st \<and> out_flow st"

lemmas flow_defs =
  add_flow_def reg_flow_def acc_flow_def metadata_flow_def adder_flow_def out_flow_def acc_early_def
  holds_metadata_def

lemma say_selectors [simp]:
  "rg_adder (ad_reg (reg_say m st)) = rg_adder (ad_reg st)" "rg_stage (ad_reg (reg_say m st)) = rg_stage (ad_reg st)"
  "rg_metadata (ad_reg (reg_say m st)) = rg_metadata (ad_reg st)"
  "rg_reader (ad_reg (reg_say m st)) = rg_reader (ad_reg st)" "rg_main (ad_reg (reg_say m st)) = rg_main (ad_reg st)"
  by (simp_all add: reg_say_def set_reg_def)

text \<open>Everything but the contents of the heap is what the flow looks at.\<close>

lemma add_flow_heap:
  "add_flow (st\<lparr>ad_heap := h\<rparr>) \<longleftrightarrow> add_flow st" if "length h = length (ad_heap st)"
  using that by (cases h; cases "ad_heap st")
    (simp_all add: add_flow_def metadata_flow_def adder_flow_def out_flow_def)

lemma add_crash_flow: "add_flow st \<Longrightarrow> add_flow (add_crash st)"
  by (simp add: add_crash_def add_flow_def metadata_flow_def adder_flow_def out_flow_def)

lemma other_types:
  "PeerIdBroadcastMessage \<noteq> MetadataMessage" "PubkeyMessage \<noteq> MetadataMessage"
  "ExistingDeviceDoneMessage \<noteq> MetadataMessage" "TssMessage \<noteq> MetadataMessage"
  "ErrorMessage \<noteq> MetadataMessage"
  by (simp_all add: mtype_defs)

lemma put_adder_heap_only: "\<exists>h. put_adder p a st = st\<lparr>ad_heap := h\<rparr> \<and> length h = length (ad_heap st)"
proof (cases p)
  case None
  then show ?thesis by (intro exI [of _ "ad_heap st"]) (simp add: put_adder_def)
next
  case (Some i)
  then show ?thesis
    by (intro exI [of _ "case a of None \<Rightarrow> ad_heap st | Some x \<Rightarrow> (ad_heap st)[i := x]"])
      (simp add: put_adder_def split: option.split)
qed

lemma put_adder_flow [simp]: "add_flow (put_adder p a st) = add_flow st"
proof -
  obtain h where "put_adder p a st = st\<lparr>ad_heap := h\<rparr>" "length h = length (ad_heap st)"
    using put_adder_heap_only by blast
  then show ?thesis by (simp add: add_flow_heap)
qed

lemma handle_at_flow:
  "handle_at E p msg st = Ret (r, st') \<Longrightarrow> add_flow st' = add_flow st \<and> ad_reg st' = ad_reg st \<and> ad_acc st' = ad_acc st"
  using handle_at_heap [of E p msg st r st'] by (auto simp: add_flow_heap list_all2_lengthD)

subsection \<open>Steps of the registering side\<close>

text \<open>An update of the registering side that leaves metadata and adder alone.\<close>

lemma flow_reg:
  assumes "add_flow st" and "rg_adder r = rg_adder (ad_reg st)" and "rg_metadata r = rg_metadata (ad_reg st)"
    and "rg_adder r \<noteq> None \<longrightarrow> reader_past (rg_stage r) (rg_reader r)"
    and "\<forall>dv. rg_reader r = RR_retrieve dv \<longrightarrow> rg_reader (ad_reg st) = RR_retrieve dv"
    and "rg_main r \<notin> {RM_wait, RM_tss, RM_failed} \<longrightarrow> rg_adder r \<noteq> None"
    and "rg_main r = RM_closed \<longrightarrow> rg_serverDone r"
    and "\<forall>m \<in> set (rg_out r). wm_Type m = MetadataMessage \<longrightarrow> m \<in> set (rg_out (ad_reg st)) \<or>
           rg_adder r \<noteq> None \<and> wm_Msg m = rg_metadata r"
    and "rg_main r \<in> {RM_done, RM_write, RM_close, RM_closed} \<longrightarrow> (\<exists>m \<in> set (rg_out r). wm_Type m = MetadataMessage)"
  shows "add_flow (set_reg st r)"
proof -
  have flow: "acc_flow (ad_acc st)" "metadata_flow st" "adder_flow st" "out_flow st"
    using assms(1) by (simp_all add: add_flow_def)
  have "holds_metadata r \<Longrightarrow> holds_metadata (ad_reg st)"
    using assms(2,5) by (auto simp: holds_metadata_def)
  then have "metadata_flow (set_reg st r)"
    using flow(2) assms(3) by (auto simp: metadata_flow_def set_reg_def)
  moreover have "reg_flow r" using assms(4,6,7) by (simp add: reg_flow_def)
  moreover have "adder_flow (set_reg st r)"
    using flow(3) assms(2) by (simp add: adder_flow_def set_reg_def)
  moreover have "\<forall>m \<in> set (rg_out r). wm_Type m = MetadataMessage \<longrightarrow> rg_adder r \<noteq> None \<and> wm_Msg m = rg_metadata r"
  proof (intro ballI impI)
    fix m assume m: "m \<in> set (rg_out r)" "wm_Type m = MetadataMessage"
    with assms(8) consider "m \<in> set (rg_out (ad_reg st))" | "rg_adder r \<noteq> None \<and> wm_Msg m = rg_metadata r" by blast
    then show "rg_adder r \<noteq> None \<and> wm_Msg m = rg_metadata r"
    proof cases
      case 1
      with flow(4) m(2) assms(2,3) show ?thesis by (simp add: out_flow_def)
    qed
  qed
  with assms(9) have "out_flow (set_reg st r)" by (simp add: out_flow_def set_reg_def)
  ultimately show ?thesis using flow(1) by (simp add: add_flow_def set_reg_def)
qed

text \<open>What an update may use of the state before it.\<close>

lemma reg_facts:
  assumes "add_flow st"
  shows "rg_adder (ad_reg st) \<noteq> None \<longrightarrow> reader_past (rg_stage (ad_reg st)) (rg_reader (ad_reg st))"
    and "rg_main (ad_reg st) \<notin> {RM_wait, RM_tss, RM_failed} \<longrightarrow> rg_adder (ad_reg st) \<noteq> None"
    and "rg_main (ad_reg st) = RM_closed \<longrightarrow> rg_serverDone (ad_reg st)"
    and "rg_main (ad_reg st) \<in> {RM_done, RM_write, RM_close, RM_closed} \<longrightarrow>
           (\<exists>m \<in> set (rg_out (ad_reg st)). wm_Type m = MetadataMessage)"
  using assms by (simp_all add: add_flow_def reg_flow_def out_flow_def)

lemma reg_report_flow: "add_flow st \<Longrightarrow> reg_report err st = Some st' \<Longrightarrow> add_flow st'"
proof -
  assume flow: "add_flow st" and r: "reg_report err st = Some st'"
  from r obtain q where "st' = set_reg st ((ad_reg st)\<lparr>rg_errs := q, rg_reader := RR_gone\<rparr>)"
    by (auto simp: reg_report_def split: option.split_asm)
  with flow reg_facts [OF flow] show ?thesis by (simp del: set_reg_def) (rule flow_reg; simp)
qed

lemma reg_goto_flow:
  "add_flow st \<Longrightarrow> rg_adder (ad_reg st) \<noteq> None \<longrightarrow> reader_past (rg_stage (ad_reg st)) pc \<Longrightarrow>
     \<forall>dv. pc \<noteq> RR_retrieve dv \<Longrightarrow> add_flow (reg_goto pc st)"
  using reg_facts [of st] unfolding reg_goto_def
  by (intro flow_reg) auto

lemma reg_main_goto_flow:
  "add_flow st \<Longrightarrow> pc \<notin> {RM_wait, RM_tss, RM_failed} \<longrightarrow> rg_adder (ad_reg st) \<noteq> None \<Longrightarrow>
     pc \<notin> {RM_done, RM_write, RM_close, RM_closed} \<or>
       (\<exists>m \<in> set (rg_out (ad_reg st)). wm_Type m = MetadataMessage) \<and> pc \<noteq> RM_closed \<Longrightarrow>
     add_flow (reg_main_goto pc st)"
  using reg_facts [of st] unfolding reg_main_goto_def
  by (intro flow_reg) (simp_all, blast+)

lemma reg_say_flow:
  "add_flow st \<Longrightarrow> wm_Type m = MetadataMessage \<longrightarrow> rg_adder (ad_reg st) \<noteq> None \<and> wm_Msg m = rg_metadata (ad_reg st) \<Longrightarrow>
     add_flow (reg_say m st)"
  using reg_facts [of st] unfolding reg_say_def
  by (intro flow_reg) auto

lemma flow_link:
  "add_flow st \<Longrightarrow> lk_adder l = lk_adder (ad_link st) \<Longrightarrow> lk_metadata l = lk_metadata (ad_link st) \<Longrightarrow>
     add_flow (st\<lparr>ad_link := l\<rparr>)"
  by (simp add: add_flow_def metadata_flow_def adder_flow_def out_flow_def)

lemma reg_read_err_flow: "add_flow st \<Longrightarrow> reg_read_err E err st = Some st' \<Longrightarrow> add_flow st'"
  by (auto simp: reg_read_err_def dest: reg_report_flow intro: reg_goto_flow split: option.split_asm)

lemma reg_on_peer_flow:
  assumes "add_flow st" and "reg_on_peer msg st = Some st'" and "wm_Type msg = PeerIdBroadcastMessage"
    and "rg_reader (ad_reg st) = RR_read"
  shows "add_flow st'"
proof (cases "rg_stage (ad_reg st) > mt_stage (wm_Type msg)")
  case True
  with assms show ?thesis by (simp add: reg_on_peer_def)
next
  case False
  then have "\<not> 20 < rg_stage (ad_reg st)" using assms(3) by (auto simp: mtype_defs word_less_nat_alt)
  with assms(4) reg_facts(1) [OF assms(1)] have none: "rg_adder (ad_reg st) = None" by auto
  have "st' = set_reg st ((ad_reg st)\<lparr>rg_newPeer := wm_Msg msg, rg_reader := RR_peer_send\<rparr>)"
    using False assms(2) by (simp add: reg_on_peer_def)
  with assms(1) reg_facts [OF assms(1)] none show ?thesis by (simp del: set_reg_def) (rule flow_reg; simp)
qed

lemma reg_on_device_flow:
  assumes "add_flow st" and "reg_on_device msg st = Some st'" and "wm_Type msg = DeviceMessage"
    and "rg_reader (ad_reg st) = RR_read"
  shows "add_flow st'"
proof (cases "rg_stage (ad_reg st) > mt_stage (wm_Type msg)")
  case True
  with assms show ?thesis by (simp add: reg_on_device_def)
next
  case False
  then have "\<not> 20 < rg_stage (ad_reg st)" using assms(3) by (simp add: mtype_defs)
  with assms(4) reg_facts(1) [OF assms(1)] have none: "rg_adder (ad_reg st) = None" by auto
  have "st' = reg_goto (RR_metadata (wm_Msg msg)) st"
    using False assms(2) by (simp add: reg_on_device_def)
  with none reg_goto_flow [OF assms(1)] show ?thesis by simp
qed

lemma reg_on_tss_flow:
  assumes "add_flow st" and "reg_on_tss E msg st = Some st'"
  shows "add_flow st'"
proof -
  have "add_flow (add_crash st)" using assms(1) by (rule add_crash_flow)
  with assms show ?thesis
    using handle_at_flow reg_report_flow
    by (fastforce simp: reg_on_tss_def split: if_split_asm go.split_asm sum.split_asm)
qed

lemma reg_read_flow:
  assumes "add_flow st" and "reg_read E ev st = Some st'"
  shows "add_flow st'"
proof -
  have pc: "rg_reader (ad_reg st) = RR_read" using assms(2) by (simp add: reg_read_def split: if_split_asm)
  show ?thesis
  proof (cases ev)
    case (ReadErr err)
    with assms pc reg_read_err_flow show ?thesis by (simp add: reg_read_def)
  next
    case (ReadMsg msg w)
    have other: "add_flow st'" if "reg_on_other w st = Some st'"
      using that assms(1) reg_report_flow reg_say_flow [OF assms(1), of unexpected_msg] other_types
      by (auto simp: reg_on_other_def unexpected_msg_def ws_message_def split: sum.split_asm)
    have stored: "add_flow (reg_goto RR_stored st)"
      using reg_facts(1) [OF assms(1)] pc by (intro reg_goto_flow assms(1)) auto
    show ?thesis
      using assms(2) pc ReadMsg reg_on_peer_flow [OF assms(1) _ _ pc] reg_on_device_flow [OF assms(1) _ _ pc]
        reg_on_tss_flow [OF assms(1)] other stored
      by (auto simp: reg_read_def split: if_split_asm)
  qed
qed

lemma reg_peer_step_flow:
  assumes "add_flow st" and "reg_peer_step ua w st = Some st'"
  shows "add_flow st'"
proof (cases "rg_reader (ad_reg st) = RR_peer_recv")
  case True
  with assms(2) obtain p q where
      st': "st' = set_reg (st\<lparr>ad_link := (ad_link st)\<lparr>lk_existingPeer := q\<rparr>\<rparr>)
              ((ad_reg st)\<lparr>rg_existingPeer := p, rg_reader := RR_peer_agent\<rparr>)"
    by (auto simp: reg_peer_step_def split: option.split_asm)
  have "add_flow (st\<lparr>ad_link := (ad_link st)\<lparr>lk_existingPeer := q\<rparr>\<rparr>)"
    by (rule flow_link [OF assms(1)]) simp_all
  with True reg_facts [OF assms(1)] show ?thesis unfolding st' by (rule_tac flow_reg; simp)
next
  case False
  with assms reg_facts(1) [OF assms(1)] other_types show ?thesis
    by (auto simp: reg_peer_step_def ws_message_def
        split: reg_reader.split_asm option.split_asm sum.split_asm
        intro!: reg_goto_flow flow_link reg_say_flow intro: reg_report_flow)
qed

lemma reg_take_metadata_flow:
  assumes "add_flow st" and "reg_take_metadata dv st = Some st'" and "rg_reader (ad_reg st) = RR_metadata dv"
  shows "add_flow st'"
proof -
  from assms(2) obtain m q where q: "lk_metadata (ad_link st) = m # q"
    and st': "st' = set_reg (st\<lparr>ad_link := (ad_link st)\<lparr>lk_metadata := q\<rparr>\<rparr>)
                  ((ad_reg st)\<lparr>rg_metadata := m, rg_reader := RR_retrieve dv\<rparr>)"
    by (auto simp: reg_take_metadata_def split: option.split_asm)
  have none: "rg_adder (ad_reg st) = None" using reg_facts(1) [OF assms(1)] assms(3) by auto
  have "m = ac_metadata (ad_acc st)" "\<not> acc_early (ad_acc st)" "\<forall>x \<in> set q. x = ac_metadata (ad_acc st)"
    using assms(1) q by (auto simp: add_flow_def metadata_flow_def)
  with assms(1,3) none show ?thesis
    unfolding st' by (auto simp: add_flow_def reg_flow_def metadata_flow_def adder_flow_def out_flow_def
        holds_metadata_def set_reg_def)
qed

lemma reg_make_adder_flow:
  assumes "add_flow st" and "reg_make_adder E userId f pick dv st = Some st'" and "rg_reader (ad_reg st) = RR_retrieve dv"
  shows "add_flow st'"
proof -
  have none: "rg_adder (ad_reg st) = None" using reg_facts(1) [OF assms(1)] assms(3) by auto
  have gone: "add_flow (reg_goto RR_gone st)" by (rule reg_goto_flow [OF assms(1)]) simp_all
  have "add_flow (add_crash st)" using assms(1) by (rule add_crash_flow)
  moreover have "add_flow (reg_goto RR_gone (set_reg st ((ad_reg st)\<lparr>rg_adder := None\<rparr>)))"
  proof -
    have "(ad_reg st)\<lparr>rg_adder := None\<rparr> = ad_reg st" using none by (cases "ad_reg st") simp
    then show ?thesis using gone by (simp add: set_reg_def)
  qed
  moreover have "add_flow (set_reg (st\<lparr>ad_heap := ad_heap st @ [a], ad_device := Some dv\<rparr>)
      ((ad_reg st)\<lparr>rg_adder := Some n, rg_reader := RR_adder w\<rparr>))" for a n w
    using assms(1,3) none
    by (auto simp: add_flow_def reg_flow_def metadata_flow_def adder_flow_def out_flow_def
        holds_metadata_def set_reg_def)
  ultimately show ?thesis
    using assms(2) gone by (auto simp: reg_make_adder_def split: go.split_asm sum.split_asm)
qed

lemma reg_pass_adder_flow:
  assumes "add_flow st" and "reg_pass_adder w st = Some st'"
  shows "add_flow st'"
proof -
  from assms(2) obtain i q where i: "rg_adder (ad_reg st) = Some i"
    and st': "st' = reg_goto (RR_pubkey w) (st\<lparr>ad_link := (ad_link st)\<lparr>lk_adder := q\<rparr>\<rparr>)"
    by (auto simp: reg_pass_adder_def split: option.split_asm)
  have "add_flow (st\<lparr>ad_link := (ad_link st)\<lparr>lk_adder := q\<rparr>\<rparr>)"
    using assms(1) i by (simp add: add_flow_def metadata_flow_def adder_flow_def out_flow_def)
  then show ?thesis unfolding st' by (rule reg_goto_flow) simp_all
qed

lemma reg_send_pubkey_flow:
  assumes "add_flow st" and "reg_send_pubkey cpw write w st = Some st'"
  shows "add_flow st'"
  using assms other_types reg_report_flow
  by (auto simp: reg_send_pubkey_def ws_message_def intro!: reg_goto_flow reg_say_flow
      split: sum.split_asm)

lemma reg_device_step_flow:
  assumes "add_flow st" and "reg_device_step E cpw userId f pick w st = Some st'"
  shows "add_flow st'"
proof (cases "rg_reader (ad_reg st)")
  case RR_stage
  with assms(2) have "st' = set_reg st ((ad_reg st)\<lparr>rg_stage := 30, rg_reader := RR_read\<rparr>)"
    by (simp add: reg_device_step_def)
  with assms(1) reg_facts [OF assms(1)] show ?thesis by (simp del: set_reg_def) (rule flow_reg; simp)
next
  case RR_stored
  with assms(2) obtain q where
    st': "st' = reg_goto RR_read (st\<lparr>ad_link := (ad_link st)\<lparr>lk_new_done := q\<rparr>\<rparr>)"
    by (auto simp: reg_device_step_def split: option.split_asm)
  have "add_flow (st\<lparr>ad_link := (ad_link st)\<lparr>lk_new_done := q\<rparr>\<rparr>)"
    by (rule flow_link [OF assms(1)]) simp_all
  with RR_stored reg_facts(1) [OF assms(1)] show ?thesis unfolding st' by (intro reg_goto_flow) auto
qed (use assms reg_take_metadata_flow reg_make_adder_flow reg_pass_adder_flow reg_send_pubkey_flow
    in \<open>simp_all add: reg_device_step_def\<close>)

lemma reg_start_flow:
  assumes "add_flow st" and "reg_start st = Some st'"
  shows "add_flow st'"
proof -
  from assms(2) have "st' = set_reg st ((ad_reg st)\<lparr>rg_main := RM_tss, rg_reader := RR_stage, rg_sender := Sender_on\<rparr>)"
    by (simp add: reg_start_def split: if_split_asm)
  with assms(1) reg_facts [OF assms(1)] show ?thesis by (simp del: set_reg_def) (rule flow_reg; simp)
qed

lemma reg_return_failed_flow: "add_flow st \<Longrightarrow> add_flow (reg_return RM_failed st)"
  using reg_facts [of st] unfolding reg_return_def by (intro flow_reg) auto

lemma reg_errs_flow: "add_flow st \<Longrightarrow> add_flow (set_reg st ((ad_reg st)\<lparr>rg_errs := q\<rparr>))"
  using reg_facts [of st] by (intro flow_reg) auto

lemma reg_main_write_flow:
  assumes "add_flow st" and "reg_main_write m pc write st = Some st'"
    and "wm_Type m = MetadataMessage \<longrightarrow> rg_adder (ad_reg st) \<noteq> None \<and> wm_Msg m = rg_metadata (ad_reg st)"
    and "pc \<notin> {RM_wait, RM_tss, RM_failed} \<longrightarrow> rg_adder (ad_reg st) \<noteq> None" and "pc \<noteq> RM_closed"
    and "wm_Type m = MetadataMessage \<or> pc \<notin> {RM_done, RM_write, RM_close} \<or>
           (\<exists>x \<in> set (rg_out (ad_reg st)). wm_Type x = MetadataMessage)"
  shows "add_flow st'"
proof (cases "write")
  case (Inl err)
  with assms(2) obtain q where "st' = reg_return RM_failed (set_reg st ((ad_reg st)\<lparr>rg_errs := q\<rparr>))"
    by (auto simp: reg_main_write_def split: option.split_asm)
  with assms(1) show ?thesis by (simp only: reg_return_failed_flow reg_errs_flow)
next
  case (Inr u)
  with assms(2) have st': "st' = reg_main_goto pc (reg_say m st)" by (simp add: reg_main_write_def)
  have "set (rg_out (ad_reg (reg_say m st))) = insert m (set (rg_out (ad_reg st)))"
    by (simp add: reg_say_def set_reg_def)
  with assms(3-6) show ?thesis
    unfolding st' by (intro reg_main_goto_flow reg_say_flow assms(1)) auto
qed

lemma reg_check_flow:
  assumes "add_flow st" and "reg_check E st = Some st'" and "rg_main (ad_reg st) = RM_check"
  shows "add_flow st'"
proof -
  from assms(2) consider q where "st' = reg_return RM_failed (set_reg st ((ad_reg st)\<lparr>rg_errs := q\<rparr>))"
    | q where "st' = set_reg st ((ad_reg st)\<lparr>rg_errs := q, rg_main := RM_stage\<rparr>)"
    by (auto simp: reg_check_def split: prod.split_asm option.split_asm)
  then show ?thesis
  proof cases
    case 1
    then show ?thesis using assms(1) by (simp only: reg_return_failed_flow reg_errs_flow)
  next
    case 2
    with reg_facts [OF assms(1)] assms(1,3) show ?thesis by (simp del: set_reg_def) (rule flow_reg; simp)
  qed
qed

lemma reg_main_step_flow:
  assumes "add_flow st" and "reg_main_step E write st = Some st'"
  shows "add_flow st'"
proof -
  note facts = reg_facts [OF assms(1)]
  have link: "add_flow (st\<lparr>ad_link := l\<rparr>)"
    if "lk_adder l = lk_adder (ad_link st)" "lk_metadata l = lk_metadata (ad_link st)" for l
    using flow_link [OF assms(1) that] .
  show ?thesis
  proof (cases "rg_main (ad_reg st)")
    case RM_tss
    then show ?thesis
      using assms facts by (auto simp: reg_main_step_def adder_at_def reg_return_failed_flow intro: reg_main_goto_flow
          split: option.split_asm if_split_asm)
  next
    case RM_check
    with assms reg_check_flow show ?thesis by (simp add: reg_main_step_def)
  next
    case RM_stage
    with assms(2) have "st' = set_reg st ((ad_reg st)\<lparr>rg_stage := 40, rg_main := RM_existing\<rparr>)"
      by (simp add: reg_main_step_def)
    with facts RM_stage assms(1) show ?thesis
      by (simp del: set_reg_def) (rule flow_reg; cases "rg_reader (ad_reg st)"; simp)
  next
    case RM_existing
    with assms(2) obtain q where
      "st' = reg_main_goto RM_metadata (st\<lparr>ad_link := (ad_link st)\<lparr>lk_existing_tss_done := q\<rparr>\<rparr>)"
      by (auto simp: reg_main_step_def split: option.split_asm)
    with facts RM_existing link show ?thesis by (auto intro!: reg_main_goto_flow)
  next
    case RM_metadata
    with assms(2) have "reg_main_write (ws_message MetadataMessage (rg_metadata (ad_reg st))) RM_done write st = Some st'"
      by (simp add: reg_main_step_def)
    then show ?thesis
      by (rule reg_main_write_flow [OF assms(1)]) (use facts RM_metadata in \<open>auto simp: ws_message_def\<close>)
  next
    case RM_done
    with assms(2) obtain q where
      "st' = reg_main_goto RM_write (st\<lparr>ad_link := (ad_link st)\<lparr>lk_existing_done := q\<rparr>\<rparr>)"
      by (auto simp: reg_main_step_def split: option.split_asm)
    with facts RM_done link show ?thesis by (auto intro!: reg_main_goto_flow)
  next
    case RM_write
    with assms(2) have "reg_main_write (ws_message ExistingDeviceDoneMessage []) RM_close write st = Some st'"
      by (simp add: reg_main_step_def)
    then show ?thesis
      by (rule reg_main_write_flow [OF assms(1)])
        (use facts RM_write other_types in \<open>auto simp: ws_message_def\<close>)
  next
    case RM_close
    with assms(2) have "st' = reg_return RM_closed (set_reg st ((ad_reg st)\<lparr>rg_serverDone := True\<rparr>))"
      by (simp add: reg_main_step_def)
    then have "st' = set_reg st ((ad_reg st)\<lparr>rg_serverDone := True, rg_main := RM_closed,
        rg_ctx := cancel_ctx (rg_ctx (ad_reg st))\<rparr>)" by (simp add: reg_return_def set_reg_def)
    with facts RM_close assms(1) show ?thesis by (simp del: set_reg_def) (rule flow_reg; simp)
  qed (use assms in \<open>simp_all add: reg_main_step_def\<close>)
qed

lemma reg_send_flow:
  assumes "add_flow st" and "reg_send_step E w st = Some st'"
  shows "add_flow st'"
proof (cases "adder_at st (rg_adder (ad_reg st))")
  case None
  with assms show ?thesis by (auto simp: reg_send_step_def intro: add_crash_flow split: if_split_asm)
next
  case (Some a)
  obtain u b where turn: "TssSend_turn (en_msg E) (ServerAdd_GetNextMessageToSend (en_al E) (rg_newPeer (ad_reg st)))
      \<lparr>tk_ctx_done = (rg_ctx (ad_reg st) \<noteq> Ctx_live), tk_server_done = rg_serverDone (ad_reg st), tk_write = w\<rparr> a = (u, b)"
    by (metis surj_pair)
  define st1 where "st1 = put_adder (rg_adder (ad_reg st)) (Some b) st"
  have st1: "add_flow st1" "ad_reg st1 = ad_reg st"
    using assms(1) put_adder_heap_only [of "rg_adder (ad_reg st)" "Some b" st] by (auto simp: st1_def)
  note facts = reg_facts [OF st1(1)]
  show ?thesis
  proof (cases u)
    case (Again x)
    then have st': "st' = (case x of None \<Rightarrow> st1 | Some m \<Rightarrow> reg_say m st1)"
      using assms(2) Some turn unfolding st1_def
      by (auto simp: reg_send_step_def Let_def split: if_split_asm)
    show ?thesis
    proof (cases x)
      case None
      with st' st1 show ?thesis by simp
    next
      case (Some m)
      with turn Again have "wm_Type m = TssMessage" using turn_frame by (fastforce simp: frame_def ws_message_def)
      with st' st1(1) Some other_types show ?thesis by (auto intro: reg_say_flow)
    qed
  next
    case (Stop e)
    then obtain q where "st' = set_reg st1 ((ad_reg st1)\<lparr>rg_errs := q, rg_sender := Sender_gone\<rparr>) \<or>
        st' = set_reg st1 ((ad_reg st1)\<lparr>rg_sender := Sender_gone\<rparr>)"
      using assms(2) Some turn st1(2)
      by (auto simp: reg_send_step_def st1_def [symmetric] Let_def split: if_split_asm option.split_asm)
    then show ?thesis
      by (elim disjE) (simp_all del: set_reg_def, (rule flow_reg, use facts st1 in simp_all)+)
  next
    case (Crash m)
    then have "st' = add_crash st" using assms(2) Some turn by (simp add: reg_send_step_def Let_def split: if_split_asm)
    with assms(1) show ?thesis by (simp add: add_crash_flow)
  qed
qed

subsection \<open>Steps of the accepting side\<close>

lemma flow_acc:
  assumes "add_flow st" and "ac_adder a = ac_adder (ad_acc st) \<or> rg_adder (ad_reg st) \<noteq> None"
    and "ac_metadata a = ac_metadata (ad_acc st) \<or> acc_early (ad_acc st)"
    and "acc_early a \<longrightarrow> acc_early (ad_acc st) \<and> ac_main a = AM_wait"
    and "ac_reader a = AR_metadata \<longrightarrow> acc_early a"
  shows "add_flow (set_acc st a)"
proof -
  have flow: "reg_flow (ad_reg st)" "metadata_flow st" "adder_flow st" "out_flow st"
    using assms(1) by (simp_all add: add_flow_def)
  have "metadata_flow (set_acc st a)"
    using flow(2) assms(3,4) unfolding metadata_flow_def set_acc_def by auto
  moreover have "adder_flow (set_acc st a)"
    using flow(3) assms(2) unfolding adder_flow_def set_acc_def by auto
  moreover have "out_flow (set_acc st a)" using flow(4) by (simp add: out_flow_def set_acc_def)
  moreover have "acc_flow a" using assms(4,5) by (simp add: acc_flow_def)
  ultimately show ?thesis using flow(1) by (simp add: add_flow_def set_acc_def)
qed

lemma acc_facts:
  assumes "add_flow st"
  shows "acc_early (ad_acc st) \<longrightarrow> ac_main (ad_acc st) = AM_wait"
    and "ac_reader (ad_acc st) = AR_metadata \<longrightarrow> acc_early (ad_acc st)"
  using assms by (simp_all add: add_flow_def acc_flow_def)

text \<open>Updates that neither move the reader back nor touch what is shared.\<close>

lemma flow_acc_same:
  assumes "add_flow st" and "ac_adder a = ac_adder (ad_acc st)" and "ac_metadata a = ac_metadata (ad_acc st)"
    and "ac_stage a = ac_stage (ad_acc st)" and "ac_reader a = ac_reader (ad_acc st) \<or> ac_reader a = AR_gone"
    and "ac_main a = ac_main (ad_acc st) \<or> \<not> acc_early (ad_acc st)"
  shows "add_flow (set_acc st a)"
proof -
  have early: "acc_early a \<Longrightarrow> acc_early (ad_acc st)"
      "ac_reader a = AR_metadata \<Longrightarrow> acc_early (ad_acc st) \<Longrightarrow> acc_early a"
    using assms(4,5) by (auto simp: acc_early_def)
  show ?thesis
    by (rule flow_acc [OF assms(1)]) (use assms early acc_facts [OF assms(1)] in auto)
qed

lemma acc_report_flow: "add_flow st \<Longrightarrow> acc_report err st = Some st' \<Longrightarrow> add_flow st'"
proof -
  assume flow: "add_flow st" and r: "acc_report err st = Some st'"
  from r obtain q where "st' = set_acc st ((ad_acc st)\<lparr>ac_errs := q, ac_reader := AR_gone\<rparr>)"
    by (auto simp: acc_report_def split: option.split_asm)
  with flow show ?thesis by (simp del: set_acc_def) (rule flow_acc_same; simp)
qed

lemma acc_say_flow: "add_flow st \<Longrightarrow> add_flow (acc_say m st)"
  unfolding acc_say_def by (rule flow_acc_same) simp_all

lemma acc_goto_flow:
  "add_flow st \<Longrightarrow> pc \<in> {AR_adder, AR_ack, AR_offer, AR_stage, AR_gone} \<or>
     ac_reader (ad_acc st) \<notin> {AR_adder, AR_ack, AR_offer, AR_stage, AR_gone} \<and> pc \<noteq> AR_metadata \<Longrightarrow>
     add_flow (acc_goto pc st)"
proof -
  assume flow: "add_flow st" and pc: "pc \<in> {AR_adder, AR_ack, AR_offer, AR_stage, AR_gone} \<or>
     ac_reader (ad_acc st) \<notin> {AR_adder, AR_ack, AR_offer, AR_stage, AR_gone} \<and> pc \<noteq> AR_metadata"
  have early: "acc_early ((ad_acc st)\<lparr>ac_reader := pc\<rparr>) \<Longrightarrow> acc_early (ad_acc st)"
    using pc by (auto simp: acc_early_def)
  show ?thesis unfolding acc_goto_def
    by (rule flow_acc [OF flow]) (use early pc acc_facts [OF flow] in auto)
qed

lemma acc_main_goto_flow: "add_flow st \<Longrightarrow> ac_main (ad_acc st) \<noteq> AM_wait \<Longrightarrow> add_flow (acc_main_goto pc st)"
  using acc_facts [of st] unfolding acc_main_goto_def by (intro flow_acc_same) auto

lemma acc_return_flow: "add_flow st \<Longrightarrow> ac_main (ad_acc st) \<noteq> AM_wait \<Longrightarrow> add_flow (acc_return pc st)"
  using acc_facts [of st] unfolding acc_return_def by (intro flow_acc_same) auto

lemma acc_read_err_flow: "add_flow st \<Longrightarrow> acc_read_err E err st = Some st' \<Longrightarrow> add_flow st'"
  by (auto simp: acc_read_err_def dest: acc_report_flow intro: acc_goto_flow split: option.split_asm)

lemma acc_on_peer_flow:
  assumes "add_flow st" and "acc_on_peer msg st = Some st'" and "ac_reader (ad_acc st) = AR_read"
  shows "add_flow st'"
proof (cases "ac_stage (ad_acc st) > mt_stage (wm_Type msg)")
  case True
  with assms show ?thesis by (simp add: acc_on_peer_def)
next
  case False
  with assms(2) have st': "st' = set_acc st ((ad_acc st)\<lparr>ac_existingPeer := wm_Msg msg, ac_reader := AR_peer_send\<rparr>)"
    by (simp add: acc_on_peer_def)
  show ?thesis unfolding st'
    by (rule flow_acc [OF assms(1)]) (use assms(3) acc_facts [OF assms(1)] in \<open>auto simp: acc_early_def\<close>)
qed

lemma acc_on_metadata_flow:
  assumes "add_flow st" and "acc_on_metadata msg st = Some st'" and "ac_reader (ad_acc st) = AR_read"
    and "wm_Type msg = MetadataMessage"
  shows "add_flow st'"
proof (cases "ac_stage (ad_acc st) > mt_stage (wm_Type msg)")
  case True
  with assms show ?thesis by (simp add: acc_on_metadata_def)
next
  case False
  then have early: "acc_early (ad_acc st)" using assms(3,4) by (simp add: acc_early_def mtype_defs)
  from False assms(2) have st': "st' = set_acc st ((ad_acc st)\<lparr>ac_metadata := wm_Msg msg, ac_reader := AR_metadata\<rparr>)"
    by (simp add: acc_on_metadata_def)
  show ?thesis unfolding st'
    by (rule flow_acc [OF assms(1)]) (use early acc_facts [OF assms(1)] in \<open>auto simp: acc_early_def\<close>)
qed

lemma acc_on_tss_flow:
  assumes "add_flow st" and "acc_on_tss E msg st = Some st'"
  shows "add_flow st'"
proof (cases "ac_stage (ad_acc st) > mt_stage (wm_Type msg)")
  case True
  with assms show ?thesis by (simp add: acc_on_tss_def)
next
  case late: False
  show ?thesis
  proof (cases "handle_at E (ac_adder (ad_acc st)) msg st")
    case (Panic m)
    with late assms add_crash_flow [OF assms(1)] show ?thesis by (simp add: acc_on_tss_def)
  next
    case (Ret x)
    obtain r st1 where x: "x = (r, st1)" by (cases x)
    with Ret handle_at_flow assms(1) have "add_flow st1" by blast
    with late assms(2) Ret x acc_report_flow [of st1] show ?thesis
      by (auto simp: acc_on_tss_def split: sum.split_asm)
  qed
qed

lemma acc_read_flow:
  assumes "add_flow st" and "acc_read E ev st = Some st'"
  shows "add_flow st'"
proof -
  have pc: "ac_reader (ad_acc st) = AR_read" using assms(2) by (simp add: acc_read_def split: if_split_asm)
  show ?thesis
  proof (cases ev)
    case (ReadErr err)
    with assms pc acc_read_err_flow show ?thesis by (simp add: acc_read_def)
  next
    case (ReadMsg msg w)
    have other: "add_flow st'" if "acc_on_other w st = Some st'"
      using that acc_report_flow [OF assms(1)] acc_say_flow [OF assms(1)]
      by (auto simp: acc_on_other_def split: sum.split_asm)
    have on_step: "add_flow st'" if "acc_on_step p msg st = Some st'" "p \<noteq> AR_metadata" for p
      using that assms(1) pc acc_goto_flow [OF assms(1), of p] by (auto simp: acc_on_step_def split: if_split_asm)
    show ?thesis
      using assms(2) pc ReadMsg acc_on_peer_flow [OF assms(1) _ pc] acc_on_metadata_flow [OF assms(1) _ pc]
        acc_on_tss_flow [OF assms(1)] other on_step
      by (auto simp: acc_read_def split: if_split_asm)
  qed
qed

lemma acc_peer_step_flow:
  assumes "add_flow st" and "acc_peer_step w st = Some st'"
  shows "add_flow st'"
proof (cases "ac_reader (ad_acc st) = AR_peer_recv")
  case True
  with assms(2) obtain p q where
      st': "st' = set_acc (st\<lparr>ad_link := (ad_link st)\<lparr>lk_newPeer := q\<rparr>\<rparr>)
              ((ad_acc st)\<lparr>ac_newPeer := p, ac_reader := AR_peer_write\<rparr>)"
    by (auto simp: acc_peer_step_def split: option.split_asm)
  have l: "add_flow (st\<lparr>ad_link := (ad_link st)\<lparr>lk_newPeer := q\<rparr>\<rparr>)"
    by (rule flow_link [OF assms(1)]) simp_all
  show ?thesis unfolding st'
    by (rule flow_acc [OF l]) (use True acc_facts [OF assms(1)] in \<open>auto simp: acc_early_def\<close>)
next
  case False
  with assms show ?thesis
    by (auto simp: acc_peer_step_def acc_say_def set_acc_def
        split: acc_reader.split_asm option.split_asm sum.split_asm
        intro!: acc_goto_flow flow_link acc_say_flow [unfolded acc_say_def set_acc_def] intro: acc_report_flow)
qed

lemma acc_metadata_step_flow:
  assumes "add_flow st" and "acc_metadata_step w st = Some st'"
  shows "add_flow st'"
proof (cases "ac_reader (ad_acc st)")
  case AR_metadata
  then have early: "acc_early (ad_acc st)" using acc_facts(2) [OF assms(1)] by simp
  from AR_metadata assms(2) have st': "st' = acc_goto AR_adder (st\<lparr>ad_link := (ad_link st)\<lparr>lk_metadata := [ac_metadata (ad_acc st)]\<rparr>\<rparr>)"
    using early assms(1) by (auto simp: acc_metadata_step_def chan_send_def add_flow_def metadata_flow_def)
  with early assms(1) show ?thesis
    by (simp add: add_flow_def acc_flow_def metadata_flow_def adder_flow_def out_flow_def acc_goto_def
        set_acc_def acc_early_def)
next
  case AR_adder
  with assms(2) obtain i q where q: "lk_adder (ad_link st) = i # q"
    and st': "st' = set_acc (st\<lparr>ad_link := (ad_link st)\<lparr>lk_adder := q\<rparr>\<rparr>)
                ((ad_acc st)\<lparr>ac_adder := Some i, ac_reader := AR_ack\<rparr>)"
    by (auto simp: acc_metadata_step_def split: option.split_asm)
  have some: "rg_adder (ad_reg st) \<noteq> None" using assms(1) q by (auto simp: add_flow_def adder_flow_def)
  then have "add_flow (st\<lparr>ad_link := (ad_link st)\<lparr>lk_adder := q\<rparr>\<rparr>)"
    using assms(1) by (auto simp: add_flow_def metadata_flow_def adder_flow_def out_flow_def)
  then show ?thesis unfolding st'
    by (rule flow_acc) (use some in \<open>auto simp: acc_early_def\<close>)
next
  case AR_ack
  with assms show ?thesis
    by (auto simp: acc_metadata_step_def intro!: acc_goto_flow acc_say_flow intro: acc_report_flow split: sum.split_asm)
next
  case AR_stage
  with assms(2) have st': "st' = set_acc st ((ad_acc st)\<lparr>ac_stage := 30, ac_reader := AR_read\<rparr>)"
    by (simp add: acc_metadata_step_def)
  show ?thesis unfolding st' by (rule flow_acc [OF assms(1)]) (auto simp: acc_early_def)
qed (use assms in \<open>simp_all add: acc_metadata_step_def\<close>)

lemma acc_signal_step_flow:
  assumes "add_flow st" and "acc_signal_step st = Some st'"
  shows "add_flow st'"
proof (cases "ac_reader (ad_acc st) = AR_close")
  case True
  have "add_flow (set_acc st ((ad_acc st)\<lparr>ac_serverDone := True, ac_reader := AR_read\<rparr>))"
    by (rule flow_acc [OF assms(1)]) (use True acc_facts [OF assms(1)] in \<open>auto simp: acc_early_def\<close>)
  with True assms show ?thesis by (auto simp: acc_signal_step_def add_crash_flow split: if_split_asm)
next
  case False
  with assms show ?thesis
    by (auto simp: acc_signal_step_def intro!: acc_goto_flow flow_link split: acc_reader.split_asm option.split_asm)
qed

lemma acc_start_flow: "add_flow st \<Longrightarrow> acc_start st = Some st' \<Longrightarrow> add_flow st'"
  by (auto simp: acc_start_def acc_early_def intro!: flow_acc split: if_split_asm)

lemma acc_late: "add_flow st \<Longrightarrow> ac_main (ad_acc st) \<noteq> AM_wait \<Longrightarrow> \<not> acc_early (ad_acc st)"
  using acc_facts(1) [of st] by blast

lemma flow_db [simp]: "add_flow (st\<lparr>ad_db := d\<rparr>) = add_flow st"
  by (simp add: add_flow_def metadata_flow_def adder_flow_def out_flow_def)

lemma acc_errs_flow: "add_flow st \<Longrightarrow> add_flow (set_acc st ((ad_acc st)\<lparr>ac_errs := q\<rparr>))"
  by (rule flow_acc_same) simp_all

lemma set_acc_main [simp]: "ac_main (ad_acc (set_acc st a)) = ac_main a"
  by (simp add: set_acc_def)

lemma acc_check_flow:
  assumes "add_flow st" and "acc_check E st = Some st'" and "ac_main (ad_acc st) \<noteq> AM_wait"
  shows "add_flow st'"
proof -
  from assms(2) obtain q where "st' = acc_return AM_failed (set_acc st ((ad_acc st)\<lparr>ac_errs := q\<rparr>)) \<or>
      st' = set_acc st ((ad_acc st)\<lparr>ac_errs := q, ac_main := AM_stage\<rparr>)"
    by (auto simp: acc_check_def split: prod.split_asm option.split_asm)
  then show ?thesis
  proof
    assume "st' = acc_return AM_failed (set_acc st ((ad_acc st)\<lparr>ac_errs := q\<rparr>))"
    then show ?thesis using assms(1,3) by (simp add: acc_return_flow acc_errs_flow)
  next
    assume "st' = set_acc st ((ad_acc st)\<lparr>ac_errs := q, ac_main := AM_stage\<rparr>)"
    then show ?thesis using acc_late [OF assms(1,3)] assms(1) by (auto intro: flow_acc_same)
  qed
qed

lemma acc_write_flow:
  assumes "add_flow st" and "acc_write w st = Some st'" and "ac_main (ad_acc st) \<noteq> AM_wait"
  shows "add_flow st'"
proof (cases w)
  case (Inl err)
  with assms(2) obtain q where "st' = acc_return AM_failed (set_acc st ((ad_acc st)\<lparr>ac_errs := q\<rparr>))"
    by (auto simp: acc_write_def split: option.split_asm)
  then show ?thesis using assms(1,3) by (simp add: acc_return_flow acc_errs_flow)
next
  case (Inr u)
  with assms show ?thesis
    by (auto simp: acc_write_def acc_say_def intro!: acc_main_goto_flow acc_say_flow [unfolded acc_say_def])
qed

lemma acc_main_step_flow:
  assumes "add_flow st" and "acc_main_step E userId rnd pick w st = Some st'"
  shows "add_flow st'"
proof (cases "ac_main (ad_acc st) = AM_stage")
  case True
  with assms(2) have st': "st' = set_acc st ((ad_acc st)\<lparr>ac_stage := 40, ac_main := AM_new_done\<rparr>)"
    by (simp add: acc_main_step_def)
  have "\<not> acc_early (ad_acc st)" using acc_late [OF assms(1)] True by simp
  then show ?thesis unfolding st' using acc_facts [OF assms(1)]
    by (intro flow_acc [OF assms(1)]) (auto simp: acc_early_def)
next
  case False
  have wait: "ac_main (ad_acc st) \<noteq> AM_wait" using assms(2) by (auto simp: acc_main_step_def)
  note ret = acc_return_flow [OF assms(1) wait] and goto = acc_main_goto_flow [OF assms(1) wait]
  have link: "add_flow (acc_main_goto pc (st\<lparr>ad_link := l\<rparr>))"
    if "lk_adder l = lk_adder (ad_link st)" "lk_metadata l = lk_metadata (ad_link st)" for pc l
    using flow_link [OF assms(1) that] wait by (simp add: acc_main_goto_flow)
  have db: "add_flow (acc_return pc (st\<lparr>ad_db := d\<rparr>)) \<and> add_flow (acc_main_goto pc (st\<lparr>ad_db := d\<rparr>))" for pc d
    using assms(1) wait by (simp add: acc_return_flow acc_main_goto_flow)
  show ?thesis
    using assms(2) False ret goto link db acc_check_flow [OF assms(1) _ wait] acc_write_flow [OF assms(1) _ wait]
    by (cases "ac_main (ad_acc st)")
      (auto simp: acc_main_step_def acc_original_def acc_process_def acc_store_def
        split: option.split_asm go.split_asm sum.split_asm prod.split_asm if_split_asm)
qed

text \<open>What a turn of the accepting side's sender does to the state.\<close>

lemma acc_send_shape:
  assumes "acc_send_step E w st = Some st'"
  obtains "st' = add_crash st"
  | a b u x st1 where "adder_at st (ac_adder (ad_acc st)) = Some a"
      "TssSend_turn (en_msg E) (ServerAdd_GetNextMessageToSend (en_al E) (ac_existingPeer (ad_acc st))) u a = (x, b)"
      "st1 = put_adder (ac_adder (ad_acc st)) (Some b) st"
      "st' = st1 \<or> (\<exists>m. x = Again (Some m) \<and> st' = acc_say m st1) \<or>
       (\<exists>q. st' = set_acc st1 ((ad_acc st)\<lparr>ac_errs := q, ac_sender := Sender_gone\<rparr>))"
proof (cases "adder_at st (ac_adder (ad_acc st))")
  case None
  with assms that(1) show ?thesis by (auto simp: acc_send_step_def split: if_split_asm)
next
  case (Some a)
  let ?u = "\<lparr>tk_ctx_done = (ac_ctx (ad_acc st) \<noteq> Ctx_live), tk_server_done = ac_serverDone (ad_acc st), tk_write = w\<rparr>"
  obtain x b where turn: "TssSend_turn (en_msg E) (ServerAdd_GetNextMessageToSend (en_al E) (ac_existingPeer (ad_acc st)))
      ?u a = (x, b)" by (metis surj_pair)
  let ?st1 = "put_adder (ac_adder (ad_acc st)) (Some b) st"
  have "st' = add_crash st \<or> (st' = ?st1 \<or> (\<exists>m. x = Again (Some m) \<and> st' = acc_say m ?st1) \<or>
           (\<exists>q. st' = set_acc ?st1 ((ad_acc st)\<lparr>ac_errs := q, ac_sender := Sender_gone\<rparr>)))"
  proof (cases x)
    case (Again y)
    with assms Some turn show ?thesis by (cases y) (auto simp: acc_send_step_def Let_def split: if_split_asm)
  next
    case (Stop e)
    show ?thesis
    proof (cases e)
      case None
      with Stop assms Some turn
      have "st' = add_crash st \<or> st' = set_acc ?st1 ((ad_acc st)\<lparr>ac_sender := Sender_gone\<rparr>)"
        by (auto simp: acc_send_step_def Let_def split: if_split_asm)
      moreover have "(ad_acc st)\<lparr>ac_sender := Sender_gone\<rparr> =
          (ad_acc st)\<lparr>ac_errs := ac_errs (ad_acc st), ac_sender := Sender_gone\<rparr>" by (cases "ad_acc st") simp
      ultimately show ?thesis by metis
    next
      case (Some err)
      with Stop assms \<open>adder_at st (ac_adder (ad_acc st)) = Some a\<close> turn show ?thesis
        by (auto simp: acc_send_step_def Let_def split: if_split_asm option.split_asm)
    qed
  next
    case (Crash m)
    with assms Some turn show ?thesis by (simp add: acc_send_step_def Let_def split: if_split_asm)
  qed
  with Some turn that show ?thesis by metis
qed

lemma put_adder_acc [simp]: "ad_acc (put_adder p a st) = ad_acc st"
  using put_adder_heap_only [of p a st] by auto

lemma acc_send_flow:
  assumes "add_flow st" and "acc_send_step E w st = Some st'"
  shows "add_flow st'"
proof -
  from assms(2) show ?thesis
  proof (cases rule: acc_send_shape)
    case 1
    with assms(1) show ?thesis by (simp add: add_crash_flow)
  next
    case (2 a b u x st1)
    have "add_flow st1" using assms(1) 2(3) by simp
    moreover have "add_flow (set_acc st1 ((ad_acc st)\<lparr>ac_errs := q, ac_sender := Sender_gone\<rparr>))" for q
      using \<open>add_flow st1\<close> by (rule flow_acc_same) (simp_all add: 2(3))
    ultimately show ?thesis using 2(4) by (auto intro: acc_say_flow)
  qed
qed

lemma add_emit_flow: "add_flow st \<Longrightarrow> add_emit peer m st = Some st' \<Longrightarrow> add_flow st'"
  by (auto simp: add_emit_def split: option.split_asm if_split_asm)

lemma add_report_state_flow: "add_flow st \<Longrightarrow> add_report_state g s st = Some st' \<Longrightarrow> add_flow st'"
  by (auto simp: add_report_state_def add_crash_flow split: option.split_asm if_split_asm go.split_asm)

lemma reg_timeout_flow: "add_flow st \<Longrightarrow> add_flow (set_reg st ((ad_reg st)\<lparr>rg_ctx := c\<rparr>))"
  using reg_facts [of st] by (intro flow_reg) auto

lemma acc_timeout_flow: "add_flow st \<Longrightarrow> add_flow (set_acc st ((ad_acc st)\<lparr>ac_ctx := c\<rparr>))"
  by (rule flow_acc_same) simp_all

text \<open>One fact per event.\<close>

lemmas reg_flows = reg_read_flow reg_peer_step_flow reg_device_step_flow reg_start_flow reg_main_step_flow reg_send_flow

lemmas acc_flows = acc_read_flow acc_peer_step_flow acc_metadata_step_flow acc_signal_step_flow acc_start_flow
  acc_main_step_flow acc_send_flow add_emit_flow add_report_state_flow

lemma add_step_flow:
  assumes "add_flow st" and "add_step E cpw userId ev st = Some st'"
  shows "add_flow st'"
proof -
  have "\<not> ad_crashed st" using assms(2) by (simp split: if_split_asm)
  with assms show ?thesis
    by (cases ev) (auto elim: reg_flows [OF assms(1)] acc_flows [OF assms(1)] intro: reg_timeout_flow acc_timeout_flow
        split: if_split_asm)
qed

lemma add_init_flow: "add_flow (add_init d)"
  by (simp add: add_init_def flow_defs)

lemma add_reach_flow: "add_reach E cpw userId d st \<Longrightarrow> add_flow st"
  by (induction rule: add_reach.induct) (auto simp: add_init_flow simp del: add_step.simps intro: add_step_flow)

end
