(* ===== verification/AddWallet.thy ===== *)
theory AddWallet
  imports AddSafety KeyProperties
begin

text \<open>
  The invariant of the two multi-device handlers on the wallet: the metadata of the existing
  device opens the user's wallet, the wallet that the handlers hold on its way to the vault is
  that one with the party parameters of the library's result put over its own, and the database
  changes by its store only.
\<close>

subsection \<open>The wallet in hand\<close>

text \<open>\<open>R\<close> says of a result that the library has reported it, \<open>ok\<close> of the wallet that it has been stored.\<close>

fun pc_wallet ::
  "'pt curve_lib \<Rightarrow> ('pt lib_result \<Rightarrow> bool) \<Rightarrow> (DkgResult \<Rightarrow> bool) \<Rightarrow> DkgResult \<Rightarrow> acc_main \<Rightarrow> bool" where
  "pc_wallet lib R ok w (AM_process original) = with_parties lib w (dr_BKs w) original"
| "pc_wallet lib R ok w (AM_merge original updated) =
     (with_parties lib w (dr_BKs w) original \<and> (\<exists>g. R g \<and> dr_BKs updated = fmmap bk_text (lr_Bks g)))"
| "pc_wallet lib R ok w (AM_agent merged) = (\<exists>g. R g \<and> extended lib w g merged)"
| "pc_wallet lib R ok w (AM_store merged ua) = (\<exists>g. R g \<and> extended lib w g merged)"
| "pc_wallet lib R ok w AM_wait = True"
| "pc_wallet lib R ok w AM_original = True"
| "pc_wallet lib R ok w AM_failed = True"
| "pc_wallet lib R ok w _ = ok w"

fun before_store :: "acc_main \<Rightarrow> bool" where
  "before_store AM_wait = True"
| "before_store AM_original = True"
| "before_store (AM_process original) = True"
| "before_store (AM_merge original updated) = True"
| "before_store (AM_agent merged) = True"
| "before_store (AM_store merged ua) = True"
| "before_store _ = False"

definition committed ::
  "('m, 'e, 'pt, 'pl) env \<Rightarrow> ('pt lib_result \<Rightarrow> bool) \<Rightarrow> string \<Rightarrow> db \<Rightarrow> string \<Rightarrow> DkgResult \<Rightarrow> db \<Rightarrow> bool" where
  "committed E R userId d metadata w d' \<longleftrightarrow>
     (\<exists>g merged rnd pick peer ua res. R g \<and> extended (en_lib E) w g merged \<and> draw_ok rnd \<and>
        VaultAddPeer (en_wallet E) (en_aead E) rnd pick (Some metadata) userId peer ua merged d = (res, d'))"

definition stored ::
  "('m, 'e, 'pt, 'pl) env \<Rightarrow> ('pt lib_result \<Rightarrow> bool) \<Rightarrow> string \<Rightarrow> db \<Rightarrow> string \<Rightarrow> db \<Rightarrow> DkgResult \<Rightarrow> bool" where
  "stored E R userId d metadata d' w \<longleftrightarrow>
     (\<exists>g merged rnd pick peer ua v. R g \<and> extended (en_lib E) w g merged \<and> draw_ok rnd \<and>
        VaultAddPeer (en_wallet E) (en_aead E) rnd pick (Some metadata) userId peer ua merged d = (Inr v, d'))"

text \<open>What has been reported stays so.\<close>

lemma reported_mono:
  "(\<And>g. R g \<Longrightarrow> R' g) \<Longrightarrow> committed E R u d md w d' \<Longrightarrow> committed E R' u d md w d'"
  "(\<And>g. R g \<Longrightarrow> R' g) \<Longrightarrow> stored E R u d md d' w \<Longrightarrow> stored E R' u d md d' w"
  unfolding committed_def stored_def by blast+

lemma pc_wallet_mono:
  "pc_wallet lib R ok w pc \<Longrightarrow> (\<And>g. R g \<Longrightarrow> R' g) \<Longrightarrow> (ok w \<Longrightarrow> ok' w) \<Longrightarrow> pc_wallet lib R' ok' w pc"
  by (cases pc) auto

lemma Pubkey_eta: "\<lparr>pk_X = pk_X k, pk_Y = pk_Y k\<rparr> = k"
  by simp

lemma original_parties:
  assumes "from_wallet w a" and "GetOriginalWallet lib a = Ret wo"
  shows "with_parties lib w (dr_BKs w) wo"
  using assms by (auto simp: from_wallet_def GetOriginalWallet_def Let_def Pubkey_eta with_parties_def
      simp del: Pubkey.surjective split: go.split_asm)

lemma merge_extended:
  assumes "with_parties lib w (dr_BKs w) wo" and "dr_BKs wu = fmmap bk_text (lr_Bks g)"
    and "MergeDkgResults wo wu = Some m"
  shows "extended lib w g m"
  using assms by (auto simp: extended_def with_parties_def MergeDkgResults_Some_iff)

lemma process_result:
  "ServerAdd_Process lib a = Some (Ret (Inr w)) \<Longrightarrow>
     \<exists>g. ax_done (sa_service a) \<and> ax_result (sa_service a) = Some g \<and> dr_BKs w = fmmap bk_text (lr_Bks g)"
  by (auto simp: ServerAdd_Process_def Let_def split: if_split_asm option.split_asm go.split_asm)

lemma from_wallet_same: "same_wallet a b \<Longrightarrow> from_wallet w a \<Longrightarrow> from_wallet w b"
  by (simp add: same_wallet_def from_wallet_def)

lemma from_wallet_heap:
  "list_all2 same_wallet xs ys \<Longrightarrow> \<forall>a \<in> set xs. from_wallet w a \<Longrightarrow> \<forall>a \<in> set ys. from_wallet w a"
  by (induction rule: list_all2_induct) (auto dest: from_wallet_same)

lemma NewServerAdd_from:
  "NewServerAdd lib al new old (dr_Pubkey w) (dr_Share w) (dr_BKs w) = Inr a \<Longrightarrow> from_wallet w a"
  using NewServerAdd_ok [of lib al new old "dr_Pubkey w" "dr_Share w" "dr_BKs w" a]
  by (auto simp: from_wallet_def)

subsection \<open>The invariant\<close>

definition add_wallet :: "('m, 'e, 'pt, 'pl) env \<Rightarrow> string \<Rightarrow> db \<Rightarrow> ('m, 'e, 'pt) add_state \<Rightarrow> bool" where
  "add_wallet E userId d st \<longleftrightarrow>
     (before_store (ac_main (ad_acc st)) \<longrightarrow> ad_db st = d) \<and>
     (rg_adder (ad_reg st) = None \<longrightarrow> ad_db st = d \<and> ac_main (ad_acc st) \<in> {AM_wait, AM_original, AM_failed}) \<and>
     (rg_adder (ad_reg st) \<noteq> None \<longrightarrow>
        (\<exists>w. opens E userId d (rg_metadata (ad_reg st)) w \<and> (\<forall>a \<in> set (ad_heap st). from_wallet w a) \<and>
           length (ad_heap st) = 1 \<and>
           pc_wallet (en_lib E) (reported st) (stored E (reported st) userId d (rg_metadata (ad_reg st)) (ad_db st)) w
             (ac_main (ad_acc st)) \<and>
           (ad_db st = d \<or> committed E (reported st) userId d (rg_metadata (ad_reg st)) w (ad_db st))))"

text \<open>Most steps change none of this.\<close>

definition quiet :: "('m, 'e, 'pt) add_state \<Rightarrow> ('m, 'e, 'pt) add_state \<Rightarrow> bool" where
  "quiet st st' \<longleftrightarrow>
     rg_adder (ad_reg st') = rg_adder (ad_reg st) \<and>
     (rg_adder (ad_reg st) \<noteq> None \<longrightarrow> rg_metadata (ad_reg st') = rg_metadata (ad_reg st)) \<and>
     ac_main (ad_acc st') = ac_main (ad_acc st) \<and> ad_db st' = ad_db st \<and>
     list_all2 same_wallet (ad_heap st) (ad_heap st')"

lemma heap_reported: "list_all2 same_wallet (ad_heap st) (ad_heap st') \<Longrightarrow> reported st g \<Longrightarrow> reported st' g"
  by (auto simp: reported_def same_wallet_def list_all2_Cons1)

lemma quiet_wallet: "quiet st st' \<Longrightarrow> add_wallet E userId d st \<Longrightarrow> add_wallet E userId d st'"
proof -
  assume q: "quiet st st'" and w: "add_wallet E userId d st"
  show ?thesis
  proof (cases "rg_adder (ad_reg st)")
    case None
    with q w show ?thesis by (auto simp: quiet_def add_wallet_def)
  next
    case (Some i)
    let ?md = "rg_metadata (ad_reg st)"
    from Some w obtain w0 where w0: "opens E userId d ?md w0" "\<forall>a \<in> set (ad_heap st). from_wallet w0 a"
       "length (ad_heap st) = 1"
       "pc_wallet (en_lib E) (reported st) (stored E (reported st) userId d ?md (ad_db st)) w0 (ac_main (ad_acc st))"
       "ad_db st = d \<or> committed E (reported st) userId d ?md w0 (ad_db st)"
       "before_store (ac_main (ad_acc st)) \<longrightarrow> ad_db st = d"
      by (auto simp: add_wallet_def)
    from q have heap: "list_all2 same_wallet (ad_heap st) (ad_heap st')" by (simp add: quiet_def)
    note rep = heap_reported [OF heap]
    have "pc_wallet (en_lib E) (reported st') (stored E (reported st') userId d ?md (ad_db st)) w0 (ac_main (ad_acc st))"
      using rep reported_mono(2) by (intro pc_wallet_mono [OF w0(4)]) blast+
    moreover have "ad_db st = d \<or> committed E (reported st') userId d ?md w0 (ad_db st)"
      using w0(5) rep reported_mono(1) by blast
    moreover have "length (ad_heap st') = 1" using w0(3) heap by (simp add: list_all2_lengthD)
    ultimately show ?thesis using q Some w0(1,6) from_wallet_heap [OF heap w0(2)]
      by (auto simp: quiet_def add_wallet_def)
  qed
qed

lemma quiet_refl [simp]: "quiet st st"
  by (simp add: quiet_def)

lemma quiet_trans: "quiet a b \<Longrightarrow> quiet b c \<Longrightarrow> quiet a c"
proof -
  assume a: "quiet a b" and b: "quiet b c"
  have "list_all2 same_wallet (ad_heap a) (ad_heap c)"
    by (rule list_all2_trans [of same_wallet same_wallet same_wallet])
      (use a b in \<open>auto simp: quiet_def same_wallet_def\<close>)
  with a b show ?thesis by (auto simp: quiet_def)
qed

lemma quiet_heap: "list_all2 same_wallet (ad_heap st) h \<Longrightarrow> quiet st (st\<lparr>ad_heap := h\<rparr>)"
  by (simp add: quiet_def)

lemma quiet_put:
  "adder_at st p = Some a \<Longrightarrow> same_wallet a b \<Longrightarrow> quiet st (put_adder p (Some b) st)"
  using put_adder_heap [of st p a b] quiet_heap by metis

lemma quiet_handle: "handle_at E p msg st = Ret (r, st') \<Longrightarrow> quiet st st'"
  using handle_at_heap [of E p msg st r st'] quiet_heap by metis

text \<open>Updates of either side that the invariant does not look at.\<close>

lemma quiet_reg:
  "rg_adder r = rg_adder (ad_reg st) \<Longrightarrow> rg_metadata r = rg_metadata (ad_reg st) \<Longrightarrow> quiet st (set_reg st r)"
  by (simp add: quiet_def set_reg_def)

lemma quiet_acc: "ac_main a = ac_main (ad_acc st) \<Longrightarrow> quiet st (set_acc st a)"
  by (simp add: quiet_def set_acc_def)

lemma quiet_link: "quiet st (st\<lparr>ad_link := l\<rparr>)"
  by (simp add: quiet_def)

lemma quiet_crash: "quiet st (add_crash st)"
  by (simp add: quiet_def add_crash_def)

lemma quiet_simple:
  "quiet st (reg_goto pc st)" "quiet st (reg_say m st)" "quiet st (reg_main_goto mpc st)" "quiet st (reg_return mpc st)"
  "quiet st (acc_goto apc st)" "quiet st (acc_say m st)"
  by (simp_all add: reg_goto_def reg_say_def reg_main_goto_def reg_return_def acc_goto_def acc_say_def
      quiet_reg quiet_acc)

lemma quiet_link_reg:
  "rg_adder r = rg_adder (ad_reg st) \<Longrightarrow> rg_metadata r = rg_metadata (ad_reg st) \<Longrightarrow>
     quiet st (set_reg (st\<lparr>ad_link := l\<rparr>) r)"
  by (simp add: quiet_def set_reg_def)

lemma quiet_link_acc: "ac_main a = ac_main (ad_acc st) \<Longrightarrow> quiet st (set_acc (st\<lparr>ad_link := l\<rparr>) a)"
  by (simp add: quiet_def set_acc_def)

lemma quiet_reg_report: "reg_report err st = Some st' \<Longrightarrow> quiet st st'"
  by (auto simp: reg_report_def intro: quiet_reg split: option.split_asm)

lemma quiet_acc_report: "acc_report err st = Some st' \<Longrightarrow> quiet st st'"
  by (auto simp: acc_report_def intro: quiet_acc split: option.split_asm)

text \<open>Two simple updates in a row.\<close>

lemma quiet_two:
  "quiet st (reg_goto pc (reg_say m st))" "quiet st (reg_goto pc (st\<lparr>ad_link := l\<rparr>))"
  "quiet st (reg_main_goto mpc (reg_say m st))" "quiet st (reg_main_goto mpc (st\<lparr>ad_link := l\<rparr>))"
  "quiet st (acc_goto apc (acc_say m st))" "quiet st (acc_goto apc (st\<lparr>ad_link := l\<rparr>))"
  by (simp_all add: quiet_def reg_goto_def reg_say_def reg_main_goto_def acc_goto_def acc_say_def
      set_reg_def set_acc_def)

lemmas quiet_rules = quiet_simple quiet_two quiet_link quiet_crash quiet_reg quiet_acc quiet_link_reg quiet_link_acc

lemma quiet_reg_read: "reg_read E ev st = Some st' \<Longrightarrow> quiet st st'"
proof -
  assume r: "reg_read E ev st = Some st'"
  have tss: "quiet st st'" if "reg_on_tss E msg st = Some st'" for msg
  proof -
    from that consider "st' = st" | "st' = add_crash st"
      | err s1 where "handle_at E (rg_adder (ad_reg st)) msg st = Ret (Inl err, s1)" "reg_report err s1 = Some st'"
      | "handle_at E (rg_adder (ad_reg st)) msg st = Ret (Inr (), st')"
      by (auto simp: reg_on_tss_def split: if_split_asm go.split_asm sum.split_asm)
    then show ?thesis
      by cases (auto intro: quiet_crash quiet_handle quiet_trans [OF quiet_handle quiet_reg_report])
  qed
  from r show ?thesis
    by (auto simp: reg_read_def reg_read_err_def reg_on_peer_def reg_on_device_def reg_on_other_def
        intro: quiet_rules quiet_reg_report tss
        split: if_split_asm read_event.split_asm option.split_asm sum.split_asm)
qed

lemma quiet_acc_read: "acc_read E ev st = Some st' \<Longrightarrow> quiet st st'"
proof -
  assume r: "acc_read E ev st = Some st'"
  have tss: "quiet st st'" if "acc_on_tss E msg st = Some st'" for msg
  proof -
    from that consider "st' = st" | "st' = add_crash st"
      | err s1 where "handle_at E (ac_adder (ad_acc st)) msg st = Ret (Inl err, s1)" "acc_report err s1 = Some st'"
      | "handle_at E (ac_adder (ad_acc st)) msg st = Ret (Inr (), st')"
      by (auto simp: acc_on_tss_def split: if_split_asm go.split_asm sum.split_asm)
    then show ?thesis
      by cases (auto intro: quiet_crash quiet_handle quiet_trans [OF quiet_handle quiet_acc_report])
  qed
  from r show ?thesis
    by (auto simp: acc_read_def acc_read_err_def acc_on_peer_def acc_on_metadata_def acc_on_step_def acc_on_other_def
        intro: quiet_rules quiet_acc_report tss
        split: if_split_asm read_event.split_asm option.split_asm sum.split_asm)
qed

lemma quiet_reg_peer: "reg_peer_step ua w st = Some st' \<Longrightarrow> quiet st st'"
  by (auto simp: reg_peer_step_def intro: quiet_rules quiet_reg_report
      split: reg_reader.split_asm option.split_asm sum.split_asm)

lemma quiet_acc_peer: "acc_peer_step w st = Some st' \<Longrightarrow> quiet st st'"
  by (auto simp: acc_peer_step_def intro: quiet_rules quiet_acc_report
      split: acc_reader.split_asm option.split_asm sum.split_asm)

lemma quiet_acc_metadata: "acc_metadata_step w st = Some st' \<Longrightarrow> quiet st st'"
  by (auto simp: acc_metadata_step_def intro: quiet_rules quiet_acc_report
      split: acc_reader.split_asm option.split_asm sum.split_asm)

lemma quiet_acc_signal: "acc_signal_step st = Some st' \<Longrightarrow> quiet st st'"
  by (auto simp: acc_signal_step_def intro: quiet_rules
      split: acc_reader.split_asm option.split_asm if_split_asm)

lemma quiet_reg_start: "reg_start st = Some st' \<Longrightarrow> quiet st st'"
  by (auto simp: reg_start_def intro: quiet_rules split: if_split_asm)

lemma quiet_return_errs: "quiet st (reg_return pc (set_reg st ((ad_reg st)\<lparr>rg_errs := q\<rparr>)))"
  "quiet st (reg_return pc (set_reg st ((ad_reg st)\<lparr>rg_serverDone := b\<rparr>)))"
  by (simp_all add: quiet_def reg_return_def set_reg_def)

lemma quiet_reg_main: "reg_main_step E w st = Some st' \<Longrightarrow> quiet st st'"
proof -
  assume r: "reg_main_step E w st = Some st'"
  have check: "quiet st st'" if "reg_check E st = Some st'"
    using that by (auto simp: reg_check_def intro: quiet_rules quiet_return_errs split: prod.split_asm option.split_asm)
  have writes: "quiet st st'" if "reg_main_write m pc w st = Some st'" for m pc
    using that by (auto simp: reg_main_write_def intro: quiet_rules quiet_return_errs split: sum.split_asm option.split_asm)
  from r show ?thesis
    by (auto simp: reg_main_step_def intro: quiet_rules quiet_return_errs check writes
        split: reg_main.split_asm option.split_asm if_split_asm)
qed

lemma quiet_acc_send: "acc_send_step E w st = Some st' \<Longrightarrow> quiet st st'"
proof -
  assume "acc_send_step E w st = Some st'"
  then show ?thesis
  proof (cases rule: acc_send_shape)
    case 1
    then show ?thesis by (simp add: quiet_crash)
  next
    case (2 a b u x st1)
    have "quiet st st1" using quiet_put [OF 2(1)] same_wallet_turn [OF 2(2)] 2(3) by simp
    moreover have "quiet st1 st'" using 2(3,4) by (auto intro: quiet_rules)
    ultimately show ?thesis by (rule quiet_trans)
  qed
qed

lemma quiet_reg_send: "reg_send_step E w st = Some st' \<Longrightarrow> quiet st st'"
proof -
  assume r: "reg_send_step E w st = Some st'"
  show ?thesis
  proof (cases "adder_at st (rg_adder (ad_reg st))")
    case None
    with r show ?thesis by (auto simp: reg_send_step_def intro: quiet_crash split: if_split_asm)
  next
    case (Some a)
    obtain u b where turn: "TssSend_turn (en_msg E) (ServerAdd_GetNextMessageToSend (en_al E) (rg_newPeer (ad_reg st)))
        \<lparr>tk_ctx_done = (rg_ctx (ad_reg st) \<noteq> Ctx_live), tk_server_done = rg_serverDone (ad_reg st), tk_write = w\<rparr> a = (u, b)"
      by (metis surj_pair)
    let ?st1 = "put_adder (rg_adder (ad_reg st)) (Some b) st"
    have q: "quiet st ?st1" using quiet_put [OF Some same_wallet_turn [OF turn]] .
    have "ad_reg ?st1 = ad_reg st" using put_adder_heap_only [of "rg_adder (ad_reg st)" "Some b" st] by auto
    then have "st' = add_crash st \<or> quiet ?st1 st'"
      using r Some turn
      by (cases u) (auto simp: reg_send_step_def Let_def intro: quiet_rules
          split: if_split_asm option.split_asm)
    with q show ?thesis by (auto intro: quiet_crash quiet_trans)
  qed
qed

lemma quiet_emit: "add_emit peer m st = Some st' \<Longrightarrow> quiet st st'"
  by (auto simp: add_emit_def intro: quiet_put same_wallet_emit split: option.split_asm if_split_asm)

lemma quiet_report_state: "add_report_state g s st = Some st' \<Longrightarrow> quiet st st'"
  by (auto simp: add_report_state_def intro: quiet_put same_wallet_change quiet_crash
      split: option.split_asm if_split_asm go.split_asm)

subsection \<open>The steps that are not quiet\<close>

lemma wallet_make_adder:
  assumes "add_flow st" and "add_wallet E userId d st" and "rg_reader (ad_reg st) = RR_retrieve dv"
    and "reg_make_adder E userId f pick dv st = Some st'"
  shows "add_wallet E userId d st'"
proof -
  have none: "rg_adder (ad_reg st) = None" using reg_facts(1) [OF assms(1)] assms(3) by auto
  with assms(1) have heap: "ad_heap st = []" by (simp add: add_flow_def adder_flow_def)
  from assms(2) none have d: "ad_db st = d" "ac_main (ad_acc st) \<in> {AM_wait, AM_original, AM_failed}"
    by (simp_all add: add_wallet_def)
  let ?ret = "RetrieveWallet (en_wallet E) (en_aead E) f pick (Some (rg_metadata (ad_reg st))) userId (ad_db st)"
  from assms(4) consider "quiet st st'"
    | w a n where "?ret = Ret (Inr w)"
        "NewServerAdd (en_lib E) (en_al E) (rg_newPeer (ad_reg st)) (rg_existingPeer (ad_reg st))
           (dr_Pubkey w) (dr_Share w) (dr_BKs w) = Inr a"
        "st' = set_reg (st\<lparr>ad_heap := ad_heap st @ [a], ad_device := Some dv\<rparr>)
                 ((ad_reg st)\<lparr>rg_adder := Some n, rg_reader := RR_adder w\<rparr>)"
    using none by (auto simp: reg_make_adder_def quiet_def add_crash_def reg_goto_def set_reg_def
        split: go.split_asm sum.split_asm)
  then show ?thesis
  proof cases
    case 1
    then show ?thesis using assms(2) by (rule quiet_wallet)
  next
    case 2
    have "opens E userId d (rg_metadata (ad_reg st)) w" using 2(1) d by (auto simp: opens_def)
    moreover have "from_wallet w a" using 2(2) by (rule NewServerAdd_from)
    moreover have "pc_wallet lib R ok w (ac_main (ad_acc st))" for lib :: "'c curve_lib" and R ok using d(2) by auto
    ultimately show ?thesis
      using heap d(1) 2(3) by (auto simp: add_wallet_def set_reg_def)
  qed
qed

lemma wallet_reg_device:
  assumes "add_flow st" and "add_wallet E userId d st" and "reg_device_step E cpw userId f pick w st = Some st'"
  shows "add_wallet E userId d st'"
proof (cases "rg_reader (ad_reg st)")
  case (RR_retrieve dv)
  with assms wallet_make_adder [OF assms(1,2) RR_retrieve] show ?thesis by (simp add: reg_device_step_def)
next
  case (RR_metadata dv)
  then have "rg_adder (ad_reg st) = None" using reg_facts(1) [OF assms(1)] by auto
  with RR_metadata assms(3) have "quiet st st'"
    by (auto simp: reg_device_step_def reg_take_metadata_def quiet_def set_reg_def split: option.split_asm)
  then show ?thesis using assms(2) by (rule quiet_wallet)
next
  case (RR_pubkey x)
  have "quiet st (reg_goto pc (reg_say m st))" for pc m by (rule quiet_rules)
  with RR_pubkey assms(3) have "quiet st st'"
    by (auto simp: reg_device_step_def reg_send_pubkey_def intro: quiet_reg_report split: sum.split_asm)
  then show ?thesis using assms(2) by (rule quiet_wallet)
next
  case (RR_adder x)
  with assms(3) have "quiet st st'"
    by (auto simp: reg_device_step_def reg_pass_adder_def intro: quiet_rules split: option.split_asm)
  then show ?thesis using assms(2) by (rule quiet_wallet)
next
  case RR_stored
  with assms(3) have "quiet st st'"
    by (auto simp: reg_device_step_def intro: quiet_rules split: option.split_asm)
  then show ?thesis using assms(2) by (rule quiet_wallet)
next
  case RR_stage
  with assms(3) have "quiet st st'" by (auto simp: reg_device_step_def intro: quiet_rules)
  then show ?thesis using assms(2) by (rule quiet_wallet)
qed (use assms(3) in \<open>simp_all add: reg_device_step_def\<close>)

text \<open>A move of the accepting side's main goroutine that leaves the database alone.\<close>

lemma wallet_pc:
  assumes "add_wallet E userId d st" and "ad_reg st' = ad_reg st" and "ad_heap st' = ad_heap st" and "ad_db st' = ad_db st"
    and "before_store (ac_main (ad_acc st')) \<longrightarrow> before_store (ac_main (ad_acc st))"
    and "rg_adder (ad_reg st) = None \<longrightarrow> ac_main (ad_acc st') \<in> {AM_wait, AM_original, AM_failed}"
    and "\<And>w ok. \<forall>a \<in> set (ad_heap st). from_wallet w a \<Longrightarrow> length (ad_heap st) = 1 \<Longrightarrow>
           pc_wallet (en_lib E) (reported st) ok w (ac_main (ad_acc st)) \<Longrightarrow>
           pc_wallet (en_lib E) (reported st) ok w (ac_main (ad_acc st'))"
  shows "add_wallet E userId d st'"
proof (cases "rg_adder (ad_reg st)")
  case None
  with assms show ?thesis by (auto simp: add_wallet_def)
next
  case (Some i)
  have rep: "reported st' = reported st" using assms(3) by (simp add: reported_def fun_eq_iff)
  from Some assms(1) obtain w where "opens E userId d (rg_metadata (ad_reg st)) w"
      "\<forall>a \<in> set (ad_heap st). from_wallet w a" "length (ad_heap st) = 1"
      "pc_wallet (en_lib E) (reported st) (stored E (reported st) userId d (rg_metadata (ad_reg st)) (ad_db st)) w
         (ac_main (ad_acc st))"
      "ad_db st = d \<or> committed E (reported st) userId d (rg_metadata (ad_reg st)) w (ad_db st)"
      "before_store (ac_main (ad_acc st)) \<longrightarrow> ad_db st = d"
    by (auto simp: add_wallet_def)
  with assms(2-5,7) Some show ?thesis unfolding add_wallet_def rep by auto
qed

lemma acc_views [simp]:
  "ad_reg (acc_return pc st) = ad_reg st" "ad_heap (acc_return pc st) = ad_heap st" "ad_db (acc_return pc st) = ad_db st"
  "ac_main (ad_acc (acc_return pc st)) = pc"
  "ad_reg (acc_main_goto pc st) = ad_reg st" "ad_heap (acc_main_goto pc st) = ad_heap st"
  "ad_db (acc_main_goto pc st) = ad_db st" "ac_main (ad_acc (acc_main_goto pc st)) = pc"
  "ad_reg (set_acc st a) = ad_reg st" "ad_heap (set_acc st a) = ad_heap st" "ad_db (set_acc st a) = ad_db st"
  "ad_acc (set_acc st a) = a" "ad_reg (acc_say m st) = ad_reg st" "ad_heap (acc_say m st) = ad_heap st"
  "ad_db (acc_say m st) = ad_db st"
  by (simp_all add: acc_return_def acc_main_goto_def set_acc_def acc_say_def)

lemma adder_in_heap: "adder_at st p = Some a \<Longrightarrow> a \<in> set (ad_heap st)"
  by (auto simp: adder_at_def split: option.split_asm if_split_asm)

lemma adder_known:
  "add_flow st \<Longrightarrow> adder_at st p = Some a \<Longrightarrow> rg_adder (ad_reg st) \<noteq> None"
  by (auto simp: add_flow_def adder_flow_def dest!: adder_in_heap)

lemma wallet_acc_start: "add_wallet E userId d st \<Longrightarrow> acc_start st = Some st' \<Longrightarrow> add_wallet E userId d st'"
  by (auto simp: acc_start_def intro: wallet_pc split: if_split_asm)

lemma wallet_acc_original:
  assumes "add_flow st" and "add_wallet E userId d st" and "ac_main (ad_acc st) = AM_original"
    and "acc_original E st = Some st'"
  shows "add_wallet E userId d st'"
proof -
  from assms(4) consider "st' = acc_return AM_failed st"
    | a w where "adder_at st (ac_adder (ad_acc st)) = Some a" "GetOriginalWallet (en_lib E) a = Ret w"
        "st' = acc_main_goto (AM_process w) st"
    by (auto simp: acc_original_def split: option.split_asm go.split_asm)
  then show ?thesis
  proof cases
    case 1
    then show ?thesis by (auto intro: wallet_pc [OF assms(2)])
  next
    case 2
    have "with_parties (en_lib E) wa (dr_BKs wa) w" if "\<forall>a \<in> set (ad_heap st). from_wallet wa a" for wa
      using that original_parties adder_in_heap [OF 2(1)] 2(2) by blast
    then show ?thesis unfolding 2(3)
      by (intro wallet_pc [OF assms(2)]) (use assms(3) adder_known [OF assms(1) 2(1)] in auto)
  qed
qed

lemma wallet_acc_store:
  assumes "add_flow st" and "add_wallet E userId d st" and "ac_main (ad_acc st) = AM_store merged ua"
    and "acc_store E userId rnd pick merged ua st = Some st'" and "draw_ok rnd"
  shows "add_wallet E userId d st'"
proof -
  have some: "rg_adder (ad_reg st) \<noteq> None" using assms(2,3) by (auto simp: add_wallet_def)
  then have md: "ac_metadata (ad_acc st) = rg_metadata (ad_reg st)"
    using assms(1) by (simp add: add_flow_def metadata_flow_def holds_metadata_def)
  from some assms(2,3) obtain w where w: "opens E userId d (rg_metadata (ad_reg st)) w"
      "\<forall>a \<in> set (ad_heap st). from_wallet w a" "length (ad_heap st) = 1"
      "\<exists>g. reported st g \<and> extended (en_lib E) w g merged" and d: "ad_db st = d"
    by (auto simp: add_wallet_def)
  from assms(4) obtain res d' where
      "VaultAddPeer (en_wallet E) (en_aead E) rnd pick (Some (ac_metadata (ad_acc st))) userId
         (ac_newPeer (ad_acc st)) ua merged (ad_db st) = (res, d')"
      and st': "st' = acc_return AM_failed (st\<lparr>ad_db := d'\<rparr>) \<or>
        (\<exists>v. res = Inr v) \<and> st' = acc_main_goto AM_tss (st\<lparr>ad_db := d'\<rparr>)"
    by (auto simp: acc_store_def split: prod.split_asm sum.split_asm)
  then have "VaultAddPeer (en_wallet E) (en_aead E) rnd pick (Some (rg_metadata (ad_reg st))) userId
      (ac_newPeer (ad_acc st)) ua merged d = (res, d')" using md d by simp
  then have "committed E (reported st) userId d (rg_metadata (ad_reg st)) w d'"
      "(\<exists>v. res = Inr v) \<Longrightarrow> stored E (reported st) userId d (rg_metadata (ad_reg st)) d' w"
    unfolding committed_def stored_def using w(4) assms(5) by blast+
  moreover have "reported st' = reported st" using st' by (auto simp: reported_def fun_eq_iff)
  ultimately show ?thesis using st' some w by (auto simp: add_wallet_def)
qed

text \<open>From the end of the store on, the main goroutine only moves forward.\<close>

fun at_end :: "acc_main \<Rightarrow> bool" where
  "at_end AM_tss = True"
| "at_end AM_check = True"
| "at_end AM_stage = True"
| "at_end AM_new_done = True"
| "at_end AM_write = True"
| "at_end AM_done = True"
| "at_end AM_closed = True"
| "at_end AM_failed = True"
| "at_end _ = False"

lemma at_end_wallet:
  "at_end pc \<Longrightarrow> \<not> before_store pc"
  "at_end pc \<Longrightarrow> pc \<noteq> AM_failed \<Longrightarrow> pc_wallet lib R ok w pc = ok w"
  "at_end pc \<Longrightarrow> ok w \<Longrightarrow> pc_wallet lib R ok w pc"
  by (cases pc; simp)+

lemma wallet_acc_end:
  assumes "acc_main_step E userId rnd pick w st = Some st'" and "at_end (ac_main (ad_acc st))"
  shows "ad_reg st' = ad_reg st \<and> ad_heap st' = ad_heap st \<and> ad_db st' = ad_db st \<and> at_end (ac_main (ad_acc st')) \<and>
    ac_main (ad_acc st) \<noteq> AM_failed"
  using assms
  by (cases "ac_main (ad_acc st)")
    (auto simp: acc_main_step_def acc_check_def acc_write_def
      split: option.split_asm if_split_asm prod.split_asm sum.split_asm)

lemma wallet_at_end:
  assumes "add_wallet E userId d st" and "acc_main_step E userId rnd pick w st = Some st'"
    and "at_end (ac_main (ad_acc st))"
  shows "add_wallet E userId d st'"
proof -
  note e = wallet_acc_end [OF assms(2,3)]
  have "rg_adder (ad_reg st) \<noteq> None" using assms(1,3) e by (auto simp: add_wallet_def)
  moreover have "pc_wallet (en_lib E) R ok w (ac_main (ad_acc st'))"
    if "pc_wallet (en_lib E) R ok w (ac_main (ad_acc st))" for R ok w
  proof -
    from that e assms(3) have "ok w" by (simp add: at_end_wallet(2))
    then show ?thesis using e by (simp add: at_end_wallet(3))
  qed
  ultimately show ?thesis
    using e at_end_wallet(1) by (intro wallet_pc [OF assms(1)]) auto
qed

lemma wallet_acc_main:
  assumes "add_flow st" and "add_wallet E userId d st" and "acc_main_step E userId rnd pick w st = Some st'"
    and "draw_ok rnd"
  shows "add_wallet E userId d st'"
proof (cases "ac_main (ad_acc st)")
  case AM_original
  with assms wallet_acc_original show ?thesis by (simp add: acc_main_step_def)
next
  case (AM_store merged ua)
  with assms wallet_acc_store [OF assms(1,2) AM_store] show ?thesis by (simp add: acc_main_step_def)
next
  case (AM_process original)
  then have some: "rg_adder (ad_reg st) \<noteq> None" using assms(2) by (auto simp: add_wallet_def)
  from AM_process assms(3) consider "st' = acc_return AM_failed st"
    | a updated where "a \<in> set (ad_heap st)" "ServerAdd_Process (en_lib E) a = Some (Ret (Inr updated))"
        "st' = acc_main_goto (AM_merge original updated) st"
    by (auto simp: acc_main_step_def acc_process_def simp del: ServerAdd_GetDoneChan_def dest!: adder_in_heap
        split: option.split_asm go.split_asm sum.split_asm)
  then show ?thesis
  proof cases
    case 1
    then show ?thesis by (auto intro!: wallet_pc [OF assms(2)] simp: AM_process some)
  next
    case 2
    have "\<exists>g. reported st g \<and> dr_BKs updated = fmmap bk_text (lr_Bks g)" if "length (ad_heap st) = 1"
      using that process_result [OF 2(2)] 2(1) by (auto simp: reported_def length_Suc_conv)
    then show ?thesis unfolding 2(3) by (intro wallet_pc [OF assms(2)]) (auto simp: AM_process some)
  qed
next
  case (AM_merge original updated)
  then have some: "rg_adder (ad_reg st) \<noteq> None" using assms(2) by (auto simp: add_wallet_def)
  from AM_merge assms(3) consider "st' = acc_return AM_failed st"
    | merged where "MergeDkgResults original updated = Some merged" "st' = acc_main_goto (AM_agent merged) st"
    by (auto simp: acc_main_step_def split: option.split_asm)
  then show ?thesis
  proof cases
    case 1
    then show ?thesis by (auto intro!: wallet_pc [OF assms(2)] simp: AM_merge some)
  next
    case 2
    then show ?thesis unfolding 2(2)
      by (intro wallet_pc [OF assms(2)]) (auto simp: AM_merge some intro: merge_extended)
  qed
next
  case (AM_agent merged)
  then have some: "rg_adder (ad_reg st) \<noteq> None" using assms(2) by (auto simp: add_wallet_def)
  from AM_agent assms(3) obtain l ua where "st' = acc_main_goto (AM_store merged ua) (st\<lparr>ad_link := l\<rparr>)"
    by (auto simp: acc_main_step_def split: option.split_asm)
  then show ?thesis by (auto intro!: wallet_pc [OF assms(2)] simp: AM_agent some)
qed (use wallet_at_end [OF assms(2,3)] assms(3) in \<open>simp_all add: acc_main_step_def\<close>)

subsection \<open>Reachable states\<close>

lemmas quiet_events = quiet_reg_read quiet_reg_peer quiet_reg_start quiet_reg_main quiet_reg_send quiet_acc_read
  quiet_acc_peer quiet_acc_metadata quiet_acc_signal quiet_acc_send quiet_emit quiet_report_state

lemma quiet_timeout:
  "quiet st (set_reg st ((ad_reg st)\<lparr>rg_ctx := c\<rparr>))" "quiet st (set_acc st ((ad_acc st)\<lparr>ac_ctx := c\<rparr>))"
  by (simp_all add: quiet_def set_reg_def set_acc_def)

lemma add_step_wallet:
  assumes "add_flow st" and "add_wallet E userId d st" and "add_event_fair ev" and "add_step E cpw userId ev st = Some st'"
  shows "add_wallet E userId d st'"
proof -
  have step: "\<not> ad_crashed st" using assms(4) by (simp split: if_split_asm)
  consider (device) f pick w where "ev = Ae_reg_device f pick w" | (start) "ev = Ae_acc_start"
    | (main) rnd pick w where "ev = Ae_acc_main rnd pick w" | (quiet) "quiet st st'"
    using step assms(4) by (cases ev) (auto dest: quiet_events intro: quiet_timeout split: if_split_asm)
  then show ?thesis
  proof cases
    case device
    with step assms(4) show ?thesis by (auto intro: wallet_reg_device [OF assms(1,2)])
  next
    case start
    with step assms(4) show ?thesis by (auto intro: wallet_acc_start [OF assms(2)])
  next
    case main
    with step assms(3,4) show ?thesis by (auto intro: wallet_acc_main [OF assms(1,2)])
  next
    case quiet
    then show ?thesis using assms(2) by (rule quiet_wallet)
  qed
qed

lemma add_init_wallet: "add_wallet E userId d (add_init d)"
  by (simp add: add_init_def add_wallet_def)

lemma add_reach_wallet: "add_reach E cpw userId d st \<Longrightarrow> add_wallet E userId d st"
  by (induction rule: add_reach.induct)
    (auto simp: add_init_wallet simp del: add_step.simps intro: add_step_wallet add_reach_flow)

lemma opens_known: "opens E userId d md w \<Longrightarrow> known d userId"
proof (rule ccontr)
  assume "opens E userId d md w" and "\<not> known d userId"
  then have "GetUserSigningParameters pick userId d = Inl ErrNoRows" for pick
    by (simp add: GetUserSigningParameters_def signing_rows_def user_ids_unknown one_row_def)
  with \<open>opens E userId d md w\<close> show False
    by (auto simp: opens_def RetrieveWallet_def split: option.split_asm sum.split_asm)
qed

lemma committed_outcome:
  assumes "vault_ok d" and "known d userId" and "committed E R userId d md w d'"
  shows "aead_ok (en_aead E) \<Longrightarrow> d' = d \<or> (\<exists>g merged. R g \<and> extended (en_lib E) w g merged \<and> vault_ok d' \<and> known d' userId \<and>
           (\<forall>pick. RetrieveWallet (en_wallet E) (en_aead E) None pick (Some md) userId d' =
              Ret (read_back (en_wallet E) merged)))"
    and "k \<noteq> userId \<Longrightarrow> RetrieveWallet (en_wallet E) (en_aead E) None pick key k d' =
           RetrieveWallet (en_wallet E) (en_aead E) None pick key k d"
proof -
  from assms(3) obtain g merged rnd i peer ua res where m: "R g" "extended (en_lib E) w g merged" "draw_ok rnd"
      "VaultAddPeer (en_wallet E) (en_aead E) rnd i (Some md) userId peer ua merged d = (res, d')"
    unfolding committed_def by blast
  show "d' = d \<or> (\<exists>g merged. R g \<and> extended (en_lib E) w g merged \<and> vault_ok d' \<and> known d' userId \<and>
           (\<forall>pick. RetrieveWallet (en_wallet E) (en_aead E) None pick (Some md) userId d' =
              Ret (read_back (en_wallet E) merged)))" if ae: "aead_ok (en_aead E)"
  proof (cases res)
    case (Inl err)
    with vault_store.peer_fail [OF assms(1), of userId] assms(2) m(4) show ?thesis by (auto simp: db_knows_iff)
  next
    case (Inr u)
    with VaultAddPeer_reads [OF assms(1) m(3) ae assms(2)] m show ?thesis by blast
  qed
  show "k \<noteq> userId \<Longrightarrow> RetrieveWallet (en_wallet E) (en_aead E) None pick key k d' =
           RetrieveWallet (en_wallet E) (en_aead E) None pick key k d"
    using vault_store.peer_frame [OF assms(1) m(4)] by blast
qed

end
