(* ===== verification/AddTold.thy ===== *)
theory AddTold
  imports AddWallet "HOL-Library.Sublist"
begin

text \<open>
  Who has told whom in the multi-device process: the handler of the new device says that the
  existing device is done only when that device has said so, and after the metadata; the handler of
  the existing device says that the new device is done only when the wallet has been stored.
\<close>

subsection \<open>Steps that tell nothing\<close>

definition has_type :: "MessageType \<Rightarrow> ws_msg list \<Rightarrow> bool" where
  "has_type t ms \<longleftrightarrow> (\<exists>m \<in> set ms. wm_Type m = t)"

lemma has_type_simps [simp]:
  "\<not> has_type t []" "has_type t (xs @ ys) \<longleftrightarrow> has_type t xs \<or> has_type t ys"
  "has_type t (x # xs) \<longleftrightarrow> wm_Type x = t \<or> has_type t xs"
  by (auto simp: has_type_def)

lemma has_type_prefix: "prefix xs ys \<Longrightarrow> has_type t xs \<Longrightarrow> has_type t ys"
  by (auto simp: prefix_def)

definition reg_telling :: "reg_main set" where "reg_telling = {RM_write, RM_close, RM_closed}"
definition acc_signing :: "acc_reader set" where "acc_signing = {AR_device_done, AR_close}"
definition acc_told :: "acc_main set" where "acc_told = {AM_done, AM_closed}"

definition says :: "MessageType \<Rightarrow> ws_msg list \<Rightarrow> ws_msg list \<Rightarrow> bool" where
  "says t out out' \<longleftrightarrow> (\<exists>ms. out' = out @ ms \<and> \<not> has_type t ms)"

lemma says_trans: "says t xs ys \<Longrightarrow> says t ys zs \<Longrightarrow> says t xs zs"
  by (auto simp: says_def)

lemma says_simps [simp]: "says t xs xs" "says t xs (xs @ [m]) \<longleftrightarrow> wm_Type m \<noteq> t"
  by (auto simp: says_def)

definition chat :: "('m, 'e, 'pt) add_state \<Rightarrow> ('m, 'e, 'pt) add_state \<Rightarrow> bool" where
  "chat st st' \<longleftrightarrow>
     says ExistingDeviceDoneMessage (rg_out (ad_reg st)) (rg_out (ad_reg st')) \<and>
     says NewDeviceDoneMessage (ac_out (ad_acc st)) (ac_out (ad_acc st')) \<and>
     (rg_main (ad_reg st') \<in> reg_telling \<longrightarrow> rg_main (ad_reg st) \<in> reg_telling) \<and>
     (ac_main (ad_acc st) \<in> acc_told \<longrightarrow> ac_main (ad_acc st') \<in> acc_told) \<and>
     (ac_reader (ad_acc st') \<in> acc_signing \<longrightarrow> ac_reader (ad_acc st) \<in> acc_signing) \<and>
     lk_existing_done (ad_link st') = lk_existing_done (ad_link st)"

lemma chat_refl [simp]: "chat st st"
  by (simp add: chat_def)

lemma chat_trans: "chat a b \<Longrightarrow> chat b c \<Longrightarrow> chat a c"
  unfolding chat_def by (elim conjE) (intro conjI, (erule (1) says_trans)+, simp_all)

lemma chat_heap: "chat st (st\<lparr>ad_heap := h\<rparr>)" "chat st (st\<lparr>ad_heap := h, ad_device := dv\<rparr>)"
  "chat st (add_crash st)" "chat st (st\<lparr>ad_db := d\<rparr>)"
  by (simp_all add: chat_def add_crash_def)

lemma chat_put: "chat st (put_adder p a st)"
  using put_adder_heap_only [of p a st] chat_heap(1) by metis

lemma chat_handle: "handle_at E p msg st = Ret (r, st') \<Longrightarrow> chat st st'"
  using handle_at_heap [of E p msg st r st'] chat_heap(1) by metis

lemma chat_reg:
  "rg_out r = rg_out (ad_reg st) \<Longrightarrow> rg_main r \<in> reg_telling \<longrightarrow> rg_main (ad_reg st) \<in> reg_telling \<Longrightarrow> chat st (set_reg st r)"
  by (simp add: chat_def set_reg_def)

lemma chat_acc:
  "ac_out a = ac_out (ad_acc st) \<Longrightarrow> ac_main (ad_acc st) \<in> acc_told \<longrightarrow> ac_main a \<in> acc_told \<Longrightarrow>
     ac_reader a \<in> acc_signing \<longrightarrow> ac_reader (ad_acc st) \<in> acc_signing \<Longrightarrow> chat st (set_acc st a)"
  by (simp add: chat_def set_acc_def)

lemma chat_link: "lk_existing_done l = lk_existing_done (ad_link st) \<Longrightarrow> chat st (st\<lparr>ad_link := l\<rparr>)"
  by (simp add: chat_def)

lemma chat_say:
  "wm_Type m \<noteq> ExistingDeviceDoneMessage \<Longrightarrow> chat st (reg_say m st)"
  "wm_Type m \<noteq> NewDeviceDoneMessage \<Longrightarrow> chat st (acc_say m st)"
  by (simp_all add: chat_def reg_say_def acc_say_def set_reg_def set_acc_def)

lemma chat_goto:
  "chat st (reg_goto pc st)" "apc \<notin> acc_signing \<Longrightarrow> chat st (acc_goto apc st)"
  "mpc \<notin> reg_telling \<Longrightarrow> chat st (reg_main_goto mpc st)" "mpc \<notin> reg_telling \<Longrightarrow> chat st (reg_return mpc st)"
  "ac_main (ad_acc st) \<notin> acc_told \<Longrightarrow> chat st (acc_main_goto ampc st)"
  "ac_main (ad_acc st) \<notin> acc_told \<Longrightarrow> chat st (acc_return ampc st)"
  by (simp_all add: reg_goto_def acc_goto_def reg_main_goto_def reg_return_def acc_main_goto_def acc_return_def
      chat_reg chat_acc)

lemmas chat_simple = chat_heap chat_put chat_link chat_say chat_goto chat_reg chat_acc

lemma chat_reg_report: "reg_report err st = Some st' \<Longrightarrow> chat st st'"
  by (auto simp: reg_report_def intro: chat_reg split: option.split_asm)

lemma chat_acc_report: "acc_report err st = Some st' \<Longrightarrow> chat st st'"
  by (auto simp: acc_report_def acc_signing_def intro: chat_acc split: option.split_asm)

text \<open>Two updates in a row.\<close>

lemma chat_two:
  "wm_Type m \<noteq> ExistingDeviceDoneMessage \<Longrightarrow> chat st (reg_goto pc (reg_say m st))"
  "lk_existing_done l = lk_existing_done (ad_link st) \<Longrightarrow> chat st (reg_goto pc (st\<lparr>ad_link := l\<rparr>))"
  "lk_existing_done l = lk_existing_done (ad_link st) \<Longrightarrow> rg_out r = rg_out (ad_reg st) \<Longrightarrow>
     rg_main r = rg_main (ad_reg st) \<Longrightarrow> chat st (set_reg (st\<lparr>ad_link := l\<rparr>) r)"
  "wm_Type m \<noteq> NewDeviceDoneMessage \<Longrightarrow> apc \<notin> acc_signing \<Longrightarrow> chat st (acc_goto apc (acc_say m st))"
  "lk_existing_done l = lk_existing_done (ad_link st) \<Longrightarrow> apc \<notin> acc_signing \<Longrightarrow> chat st (acc_goto apc (st\<lparr>ad_link := l\<rparr>))"
  "lk_existing_done l = lk_existing_done (ad_link st) \<Longrightarrow> ac_out a = ac_out (ad_acc st) \<Longrightarrow>
     ac_main a = ac_main (ad_acc st) \<Longrightarrow> ac_reader a \<notin> acc_signing \<Longrightarrow> chat st (set_acc (st\<lparr>ad_link := l\<rparr>) a)"
  "lk_existing_done l = lk_existing_done (ad_link st) \<Longrightarrow> mpc \<notin> reg_telling \<Longrightarrow> chat st (reg_main_goto mpc (st\<lparr>ad_link := l\<rparr>))"
  "wm_Type m \<noteq> ExistingDeviceDoneMessage \<Longrightarrow> mpc \<notin> reg_telling \<Longrightarrow> chat st (reg_main_goto mpc (reg_say m st))"
  by (simp_all add: chat_def reg_goto_def reg_say_def reg_main_goto_def acc_goto_def acc_say_def
      set_reg_def set_acc_def)

text \<open>The other messages of the server.\<close>

lemma told_types [simp]:
  "PeerIdBroadcastMessage \<noteq> ExistingDeviceDoneMessage" "PubkeyMessage \<noteq> ExistingDeviceDoneMessage"
  "MetadataMessage \<noteq> ExistingDeviceDoneMessage" "TssMessage \<noteq> ExistingDeviceDoneMessage"
  "PeerIdBroadcastMessage \<noteq> NewDeviceDoneMessage" "MetadataAckMessage \<noteq> NewDeviceDoneMessage"
  "TssMessage \<noteq> NewDeviceDoneMessage" "wm_Type unexpected_msg \<noteq> ExistingDeviceDoneMessage"
  "wm_Type unexpected_msg \<noteq> NewDeviceDoneMessage"
  by (simp_all add: mtype_defs unexpected_msg_def ws_message_def)

lemma signing_pcs [simp]:
  "AR_read \<notin> acc_signing" "AR_peer_send \<notin> acc_signing" "AR_peer_recv \<notin> acc_signing" "AR_peer_write \<notin> acc_signing"
  "AR_metadata \<notin> acc_signing" "AR_adder \<notin> acc_signing" "AR_ack \<notin> acc_signing" "AR_offer \<notin> acc_signing"
  "AR_stage \<notin> acc_signing" "AR_tss_done \<notin> acc_signing" "AR_gone \<notin> acc_signing"
  by (simp_all add: acc_signing_def)

lemma ws_message_type [simp]: "wm_Type (ws_message t s) = t"
  by (simp add: ws_message_def)

subsection \<open>The steps of both handlers\<close>

lemma chat_tss:
  "reg_on_tss E msg st = Some st' \<Longrightarrow> chat st st'" "acc_on_tss E msg st = Some st' \<Longrightarrow> chat st st'"
  by (auto simp: reg_on_tss_def acc_on_tss_def
      intro: chat_heap chat_handle chat_trans [OF chat_handle chat_reg_report] chat_trans [OF chat_handle chat_acc_report]
      split: if_split_asm go.split_asm sum.split_asm)

lemma chat_reg_read: "reg_read E ev st = Some st' \<Longrightarrow> chat st st'"
  by (auto simp: reg_read_def reg_read_err_def reg_on_peer_def reg_on_device_def reg_on_other_def
      intro: chat_simple chat_reg_report chat_tss
      split: if_split_asm read_event.split_asm option.split_asm sum.split_asm)

lemma chat_acc_read:
  "acc_read E ev st = Some st' \<Longrightarrow> \<forall>msg w. ev = ReadMsg msg w \<longrightarrow> wm_Type msg \<noteq> ExistingDeviceDoneMessage \<Longrightarrow> chat st st'"
  by (auto simp: acc_read_def acc_read_err_def acc_on_peer_def acc_on_metadata_def acc_on_step_def acc_on_other_def
      intro: chat_simple chat_acc_report chat_tss
      split: if_split_asm read_event.split_asm option.split_asm sum.split_asm)

lemma chat_peer:
  "reg_peer_step ua w st = Some st' \<Longrightarrow> chat st st'" "acc_peer_step w st = Some st' \<Longrightarrow> chat st st'"
  by (auto simp: reg_peer_step_def acc_peer_step_def intro: chat_simple chat_two chat_reg_report chat_acc_report
      split: reg_reader.split_asm acc_reader.split_asm option.split_asm sum.split_asm)

lemma chat_metadata: "acc_metadata_step w st = Some st' \<Longrightarrow> chat st st'"
  by (auto simp: acc_metadata_step_def intro: chat_simple chat_two chat_acc_report
      split: acc_reader.split_asm option.split_asm sum.split_asm)

lemma chat_make_adder: "reg_make_adder E userId f pick dv st = Some st' \<Longrightarrow> chat st st'"
  by (auto simp: reg_make_adder_def intro: chat_simple chat_trans [OF chat_heap(2) chat_reg]
      chat_trans [OF chat_reg chat_goto(1)] split: go.split_asm sum.split_asm)

lemma chat_device: "reg_device_step E cpw userId f pick w st = Some st' \<Longrightarrow> chat st st'"
  by (auto simp: reg_device_step_def reg_take_metadata_def reg_pass_adder_def reg_send_pubkey_def
      intro: chat_simple chat_two chat_reg_report chat_make_adder
      split: reg_reader.split_asm option.split_asm sum.split_asm)

lemma chat_start:
  "reg_start st = Some st' \<Longrightarrow> chat st st'" "acc_start st = Some st' \<Longrightarrow> chat st st'"
  by (auto simp: reg_start_def acc_start_def reg_telling_def acc_told_def intro!: chat_reg chat_acc
      split: if_split_asm)

lemma chat_frame: "TssSend_turn cj next t q = (Again (Some m), q') \<Longrightarrow> wm_Type m = TssMessage"
  by (auto dest!: turn_frame simp: frame_def)

lemma chat_reg_send: "reg_send_step E w st = Some st' \<Longrightarrow> chat st st'"
proof -
  assume r: "reg_send_step E w st = Some st'"
  show ?thesis
  proof (cases "adder_at st (rg_adder (ad_reg st))")
    case None
    with r show ?thesis by (auto simp: reg_send_step_def intro: chat_heap split: if_split_asm)
  next
    case (Some a)
    obtain u b where turn: "TssSend_turn (en_msg E) (ServerAdd_GetNextMessageToSend (en_al E) (rg_newPeer (ad_reg st)))
        \<lparr>tk_ctx_done = (rg_ctx (ad_reg st) \<noteq> Ctx_live), tk_server_done = rg_serverDone (ad_reg st), tk_write = w\<rparr> a = (u, b)"
      by (metis surj_pair)
    let ?st1 = "put_adder (rg_adder (ad_reg st)) (Some b) st"
    have same: "ad_reg ?st1 = ad_reg st" using put_adder_heap_only [of "rg_adder (ad_reg st)" "Some b" st] by auto
    have say: "chat ?st1 (reg_say m ?st1)" if "u = Again (Some m)" for m
    proof -
      have "wm_Type m = TssMessage" using turn unfolding that by (rule chat_frame)
      then show ?thesis by (intro chat_say) simp
    qed
    from r Some turn same have "st' = add_crash st \<or> chat ?st1 st'"
      by (cases u) (auto simp: reg_send_step_def Let_def intro: chat_simple say
          split: if_split_asm option.split_asm)
    then show ?thesis using chat_put chat_heap(3) by (metis chat_trans)
  qed
qed

lemma chat_acc_send: "acc_send_step E w st = Some st' \<Longrightarrow> chat st st'"
proof -
  assume "acc_send_step E w st = Some st'"
  then show ?thesis
  proof (cases rule: acc_send_shape)
    case 1
    then show ?thesis by (simp add: chat_heap)
  next
    case (2 a b u x st1)
    have same: "ad_acc st1 = ad_acc st"
      using put_adder_heap_only [of "ac_adder (ad_acc st)" "Some b" st] 2(3) by auto
    have say: "chat st1 (acc_say m st1)" if "x = Again (Some m)" for m
    proof -
      have "wm_Type m = TssMessage" using 2(2) unfolding that by (rule chat_frame)
      then show ?thesis by (intro chat_say) simp
    qed
    have gone: "chat st1 (set_acc st1 ((ad_acc st)\<lparr>ac_errs := q, ac_sender := Sender_gone\<rparr>))" for q
      by (rule chat_acc) (simp_all add: same)
    from 2(4) say gone have "chat st1 st'" by auto
    then show ?thesis using chat_put 2(3) by (metis chat_trans)
  qed
qed

lemma chat_library:
  "add_emit peer m st = Some st' \<Longrightarrow> chat st st'" "add_report_state g s st = Some st' \<Longrightarrow> chat st st'"
  by (auto simp: add_emit_def add_report_state_def intro: chat_put chat_heap
      split: option.split_asm if_split_asm go.split_asm)

subsection \<open>The invariant\<close>

text \<open>The metadata goes to the new device before the news that the existing device is done.\<close>

definition metadata_first :: "ws_msg list \<Rightarrow> bool" where
  "metadata_first out \<longleftrightarrow>
     (\<forall>xs. prefix xs out \<longrightarrow> has_type ExistingDeviceDoneMessage xs \<longrightarrow> has_type MetadataMessage xs)"

lemma metadata_first_prefix: "metadata_first ys \<Longrightarrow> prefix xs ys \<Longrightarrow> metadata_first xs"
  unfolding metadata_first_def by (meson prefix_order.trans)

lemma metadata_first_says:
  assumes "metadata_first xs" and "says ExistingDeviceDoneMessage xs ys"
  shows "metadata_first ys"
proof -
  from assms(2) obtain ms where ys: "ys = xs @ ms" "\<not> has_type ExistingDeviceDoneMessage ms" by (auto simp: says_def)
  have "has_type MetadataMessage zs" if zs: "prefix zs ys" "has_type ExistingDeviceDoneMessage zs" for zs
  proof -
    from zs(1) ys(1) consider "prefix zs xs" | ns where "zs = xs @ ns" "prefix ns ms"
      by (auto simp: prefix_append)
    then show ?thesis
    proof cases
      case 1
      with assms(1) zs(2) show ?thesis by (simp add: metadata_first_def)
    next
      case 2
      with zs(2) ys(2) has_type_prefix have "has_type ExistingDeviceDoneMessage xs" by auto
      with assms(1) have "has_type MetadataMessage xs" by (simp add: metadata_first_def)
      with 2(1) show ?thesis by simp
    qed
  qed
  then show ?thesis by (simp add: metadata_first_def)
qed

lemma metadata_first_app:
  "metadata_first xs \<Longrightarrow> has_type MetadataMessage xs \<Longrightarrow> metadata_first (xs @ [m])"
  by (auto simp: metadata_first_def prefix_append prefix_Cons)

text \<open>\<open>msgs\<close> are the messages that the existing device has sent.\<close>

definition told :: "ws_msg list \<Rightarrow> ('m, 'e, 'pt) add_state \<Rightarrow> bool" where
  "told msgs st \<longleftrightarrow>
     (has_type NewDeviceDoneMessage (ac_out (ad_acc st)) \<longrightarrow> ac_main (ad_acc st) \<in> acc_told) \<and>
     (lk_existing_done (ad_link st) \<noteq> [] \<or> ac_reader (ad_acc st) \<in> acc_signing \<or>
        rg_main (ad_reg st) \<in> reg_telling \<or> has_type ExistingDeviceDoneMessage (rg_out (ad_reg st)) \<longrightarrow>
      has_type ExistingDeviceDoneMessage msgs) \<and>
     metadata_first (rg_out (ad_reg st))"

lemma says_type: "says t xs ys \<Longrightarrow> has_type t ys \<longleftrightarrow> has_type t xs"
  by (auto simp: says_def)

lemma says_prefix: "says t xs ys \<Longrightarrow> prefix xs ys"
  by (auto simp: says_def)

lemma told_chat: "told msgs st \<Longrightarrow> chat st st' \<Longrightarrow> told (msgs @ news) st'"
  unfolding told_def chat_def by (auto dest: says_type metadata_first_says)

definition longer :: "('m, 'e, 'pt) add_state \<Rightarrow> ('m, 'e, 'pt) add_state \<Rightarrow> bool" where
  "longer st st' \<longleftrightarrow> prefix (rg_out (ad_reg st)) (rg_out (ad_reg st')) \<and> prefix (ac_out (ad_acc st)) (ac_out (ad_acc st'))"

lemma chat_longer: "chat st st' \<Longrightarrow> longer st st'"
  unfolding chat_def longer_def by (blast intro: says_prefix)

lemma told_step: "told msgs st \<Longrightarrow> chat st st' \<Longrightarrow> told msgs st' \<and> longer st st'"
  using told_chat [of msgs st st' "[]"] by (simp add: chat_longer)

text \<open>The main goroutine of the registering side.\<close>

lemma main_pcs [simp]:
  "RM_write \<in> reg_telling" "RM_close \<in> reg_telling" "RM_closed \<in> reg_telling" "RM_check \<notin> reg_telling"
  "RM_stage \<notin> reg_telling" "RM_existing \<notin> reg_telling" "RM_metadata \<notin> reg_telling" "RM_done \<notin> reg_telling"
  "RM_failed \<notin> reg_telling" "AM_done \<in> acc_told" "AM_closed \<in> acc_told" "AM_write \<notin> acc_told" "AM_tss \<notin> acc_told"
  "AM_original \<notin> acc_told" "AM_process a \<notin> acc_told" "AM_merge a b \<notin> acc_told" "AM_agent a \<notin> acc_told"
  "AM_store a ua \<notin> acc_told" "AM_check \<notin> acc_told" "AM_stage \<notin> acc_told" "AM_new_done \<notin> acc_told"
  by (simp_all add: reg_telling_def acc_told_def)

lemma chat_return:
  "mpc \<notin> reg_telling \<Longrightarrow> chat st (reg_return mpc (set_reg st ((ad_reg st)\<lparr>rg_errs := q\<rparr>)))"
  "ac_main (ad_acc st) \<notin> acc_told \<Longrightarrow> chat st (acc_return apc (set_acc st ((ad_acc st)\<lparr>ac_errs := q\<rparr>)))"
  "ac_main (ad_acc st) \<notin> acc_told \<Longrightarrow> chat st (acc_return apc (st\<lparr>ad_db := d\<rparr>))"
  "ac_main (ad_acc st) \<notin> acc_told \<Longrightarrow> chat st (acc_main_goto apc (st\<lparr>ad_db := d\<rparr>))"
  "ac_main (ad_acc st) \<notin> acc_told \<Longrightarrow> lk_existing_done l = lk_existing_done (ad_link st) \<Longrightarrow>
     chat st (acc_main_goto apc (st\<lparr>ad_link := l\<rparr>))"
  by (simp_all add: chat_def reg_return_def acc_return_def acc_main_goto_def set_reg_def set_acc_def)

lemma chat_main_write:
  "wm_Type m \<noteq> ExistingDeviceDoneMessage \<Longrightarrow> mpc \<notin> reg_telling \<Longrightarrow> reg_main_write m mpc w st = Some st' \<Longrightarrow> chat st st'"
  by (auto simp: reg_main_write_def intro: chat_two chat_return split: sum.split_asm option.split_asm)

lemma chat_reg_main:
  "reg_main_step E w st = Some st' \<Longrightarrow> rg_main (ad_reg st) \<notin> {RM_done, RM_write, RM_close} \<Longrightarrow> chat st st'"
  by (cases "rg_main (ad_reg st)")
    (auto simp: reg_main_step_def reg_check_def intro: chat_simple chat_two chat_return chat_main_write [rotated 2]
      split: option.split_asm prod.split_asm if_split_asm)

lemma told_reg_done:
  assumes "told msgs st" and "chan_recv (lk_existing_done (ad_link st)) = Some (x, q)"
  shows "told msgs (reg_main_goto RM_write (st\<lparr>ad_link := (ad_link st)\<lparr>lk_existing_done := q\<rparr>\<rparr>))"
proof -
  have "lk_existing_done (ad_link st) \<noteq> []" using assms(2) by (auto simp: chan_recv_def)
  with assms(1) show ?thesis by (simp add: told_def reg_main_goto_def set_reg_def)
qed

lemma told_reg_write:
  assumes "add_flow st" and "told msgs st" and "rg_main (ad_reg st) = RM_write"
  shows "told msgs (reg_main_goto RM_close (reg_say m st))"
proof -
  have "has_type MetadataMessage (rg_out (ad_reg st))"
    using assms(1,3) by (simp add: add_flow_def out_flow_def has_type_def)
  with assms(2) have "metadata_first (rg_out (ad_reg st) @ [m])" by (simp add: told_def metadata_first_app)
  with assms(2,3) show ?thesis by (simp add: told_def reg_main_goto_def reg_say_def set_reg_def)
qed

lemma told_reg_main:
  assumes "add_flow st" and "told msgs st" and "reg_main_step E w st = Some st'"
  shows "told msgs st' \<and> longer st st'"
proof (cases "rg_main (ad_reg st)")
  case RM_done
  with assms(3) obtain x q where x: "chan_recv (lk_existing_done (ad_link st)) = Some (x, q)"
      "st' = reg_main_goto RM_write (st\<lparr>ad_link := (ad_link st)\<lparr>lk_existing_done := q\<rparr>\<rparr>)"
    by (auto simp: reg_main_step_def split: option.split_asm)
  with told_reg_done [OF assms(2) x(1)] show ?thesis by (simp add: longer_def reg_main_goto_def set_reg_def)
next
  case RM_write
  from RM_write assms(3) consider q where "st' = reg_return RM_failed (set_reg st ((ad_reg st)\<lparr>rg_errs := q\<rparr>))"
    | "st' = reg_main_goto RM_close (reg_say (ws_message ExistingDeviceDoneMessage []) st)"
    by (auto simp: reg_main_step_def reg_main_write_def split: sum.split_asm option.split_asm)
  then show ?thesis
  proof cases
    case 1
    show ?thesis unfolding 1 by (rule told_step [OF assms(2) chat_return(1)]) simp
  next
    case 2
    with told_reg_write [OF assms(1,2) RM_write] show ?thesis
      by (simp add: longer_def reg_main_goto_def reg_say_def set_reg_def)
  qed
next
  case RM_close
  with assms(2,3) show ?thesis by (auto simp: reg_main_step_def told_def longer_def reg_return_def set_reg_def)
qed (use told_step [OF assms(2)] chat_reg_main [OF assms(3)] in simp_all)

text \<open>The main goroutine of the accepting side.\<close>

lemma chat_acc_main:
  "acc_main_step E u rnd pick w st = Some st' \<Longrightarrow> ac_main (ad_acc st) \<notin> {AM_write, AM_done} \<Longrightarrow> chat st st'"
  by (cases "ac_main (ad_acc st)")
    (auto simp: acc_main_step_def acc_original_def acc_process_def acc_store_def acc_check_def
      intro: chat_simple chat_two chat_return
      split: option.split_asm go.split_asm sum.split_asm prod.split_asm if_split_asm)

lemma told_acc_main:
  assumes "told msgs st" and "acc_main_step E u rnd pick w st = Some st'"
  shows "told msgs st' \<and> longer st st'"
proof (cases "ac_main (ad_acc st)")
  case AM_write
  from AM_write assms(2) consider q where "st' = acc_return AM_failed (set_acc st ((ad_acc st)\<lparr>ac_errs := q\<rparr>))"
    | "st' = acc_main_goto AM_done (acc_say (ws_message NewDeviceDoneMessage []) st)"
    by (auto simp: acc_main_step_def acc_write_def split: sum.split_asm option.split_asm)
  then show ?thesis
  proof cases
    case 1
    show ?thesis unfolding 1 by (rule told_step [OF assms(1) chat_return(2)]) (simp add: AM_write)
  next
    case 2
    with assms(1) show ?thesis by (simp add: told_def longer_def acc_main_goto_def acc_say_def set_acc_def)
  qed
next
  case AM_done
  with assms show ?thesis
    by (auto simp: acc_main_step_def told_def longer_def acc_return_def set_acc_def split: if_split_asm)
qed (use told_step [OF assms(1)] chat_acc_main [OF assms(2)] in simp_all)

text \<open>The news of the existing device on its way to the other side.\<close>

lemma told_acc_read:
  assumes "told msgs st" and "acc_read E ev st = Some st'"
  shows "told (msgs @ (case ev of ReadMsg m w \<Rightarrow> [m] | ReadErr e \<Rightarrow> [])) st' \<and> longer st st'"
proof (cases "\<exists>m w. ev = ReadMsg m w \<and> wm_Type m = ExistingDeviceDoneMessage")
  case True
  then obtain m w where m: "ev = ReadMsg m w" "wm_Type m = ExistingDeviceDoneMessage" by blast
  with assms(2) have "st' = st \<or> st' = acc_goto AR_device_done st"
    by (auto simp: acc_read_def acc_on_step_def mtype_defs split: if_split_asm)
  with assms(1) m show ?thesis by (auto simp: told_def longer_def acc_goto_def set_acc_def)
next
  case False
  then have "chat st st'" using chat_acc_read [OF assms(2)] by blast
  with told_chat [OF assms(1) this] show ?thesis by (simp add: chat_longer)
qed

lemma told_signal:
  assumes "told msgs st" and "acc_signal_step st = Some st'"
  shows "told msgs st' \<and> longer st st'"
  using assms by (auto simp: acc_signal_step_def told_def longer_def acc_signing_def acc_goto_def add_crash_def set_acc_def
      split: acc_reader.split_asm option.split_asm if_split_asm)

lemma told_timeout:
  "chat st (set_reg st ((ad_reg st)\<lparr>rg_ctx := c\<rparr>))" "chat st (set_acc st ((ad_acc st)\<lparr>ac_ctx := c\<rparr>))"
  by (simp_all add: chat_reg chat_acc)

lemmas chat_events = chat_reg_read chat_peer chat_metadata chat_device chat_start chat_reg_send chat_acc_send chat_library

subsection \<open>All steps\<close>

text \<open>What a step reads of the existing device.\<close>

fun acc_reads :: "('m, 'pt) add_event \<Rightarrow> ws_msg option" where
  "acc_reads (Ae_acc_read (ReadMsg m w)) = Some m"
| "acc_reads _ = None"

fun reg_reads :: "('m, 'pt) add_event \<Rightarrow> ws_msg option" where
  "reg_reads (Ae_reg_read (ReadMsg m w)) = Some m"
| "reg_reads _ = None"

lemma add_step_told:
  assumes "add_flow st" and "told msgs st" and "add_step E cpw userId ev st = Some st'"
  shows "told (msgs @ (case acc_reads ev of None \<Rightarrow> [] | Some m \<Rightarrow> [m])) st' \<and> longer st st'"
proof -
  have step: "\<not> ad_crashed st" using assms(3) by (simp split: if_split_asm)
  consider (chat) "chat st st'" "acc_reads ev = None" | (main) w where "ev = Ae_reg_main w"
    | (acc) rnd pick w where "ev = Ae_acc_main rnd pick w" | (signal) "ev = Ae_acc_signal"
    | (read) re where "ev = Ae_acc_read re"
    using step assms(3) by (cases ev) (auto dest: chat_events intro: told_timeout split: if_split_asm)
  then show ?thesis
  proof cases
    case chat
    with told_step [OF assms(2)] show ?thesis by simp
  next
    case (main w)
    with step assms(3) told_reg_main [OF assms(1,2)] show ?thesis by simp
  next
    case (acc rnd pick w)
    with step assms(3) told_acc_main [OF assms(2)] show ?thesis by simp
  next
    case signal
    with step assms(3) told_signal [OF assms(2)] show ?thesis by simp
  next
    case (read re)
    with step assms(3) told_acc_read [OF assms(2)] show ?thesis by (cases re) fastforce+
  qed
qed

lemma told_init: "told [] (add_init d)"
  by (simp add: told_def add_init_def metadata_first_def acc_signing_def reg_telling_def)

end
