(* ===== verification/AddEnds.thy ===== *)
theory AddEnds
  imports AddTold DkgEnds
begin

text \<open>
  The two websockets of the multi-device process: \<open>AcceptDevice\<close> of \<open>client/tss_add.go\<close> against
  the handlers of \<open>server/tss_add.go\<close>, and the two of them as the far end of the new device's
  connection.
\<close>

subsection \<open>The connection of the existing device\<close>

definition accept_port ::
  "('m, 'e, 'pt, 'pl) env \<Rightarrow> PublicWallet codec \<Rightarrow> string \<Rightarrow> (('m, 'pt) add_event, ('m, 'e, 'pt) add_state) port" where
  "accept_port E cpw userId =
     \<lparr>pt_step = add_step E cpw userId, pt_out = (\<lambda>st. ac_out (ad_acc st)), pt_in = acc_reads,
      pt_fair = add_event_fair\<rparr>"

definition existing_port ::
  "('m, 'e, 'pt, 'pl) env \<Rightarrow> DkgResult \<Rightarrow> string
     \<Rightarrow> (('m, 'pt) conn_event, ('m, 'e, 'pt) ExistingClientAdd conn) port" where
  "existing_port E w metadata =
     \<lparr>pt_step = conn_step E (Accept_ops E w metadata), pt_out = cn_out, pt_in = conn_reads, pt_fair = (\<lambda>ev. True)\<rparr>"

definition add_keeps ::
  "('m, 'e, 'pt, 'pl) env \<Rightarrow> string \<Rightarrow> db \<Rightarrow> ws_msg list \<Rightarrow> ('m, 'e, 'pt) add_state \<Rightarrow> bool" where
  "add_keeps E userId d msgs st \<longleftrightarrow> add_flow st \<and> add_wallet E userId d st \<and> told msgs st"

lemma add_step_keeps:
  assumes "add_keeps E u d msgs st" and "add_event_fair ev" and "add_step E cpw u ev st = Some st'"
  shows "add_keeps E u d (msgs @ got (acc_reads ev)) st' \<and> longer st st'"
proof -
  from assms(1) have st: "add_flow st" "add_wallet E u d st" "told msgs st" by (simp_all add: add_keeps_def)
  from add_step_told [OF st(1,3) assms(3)] add_step_flow [OF st(1) assms(3)] add_step_wallet [OF st(1,2) assms(2,3)]
  show ?thesis by (simp add: add_keeps_def got_def)
qed

interpretation accepting: endpoint "accept_port E cpw userId" "add_keeps E userId d"
  for E :: "('m, 'e, 'pt, 'pl) env" and cpw and userId and d
proof unfold_locales
  fix msgs x and s s' :: "('m, 'e, 'pt) add_state"
  assume "add_keeps E userId d msgs s" "pt_fair (accept_port E cpw userId) x"
    "pt_step (accept_port E cpw userId) x s = Some s'"
  with add_step_keeps [of E userId d msgs s x cpw s']
  have k: "add_keeps E userId d (msgs @ got (acc_reads x)) s' \<and> longer s s'"
    by (simp add: accept_port_def del: add_step.simps)
  then show "add_keeps E userId d (msgs @ got (pt_in (accept_port E cpw userId) x)) s'"
    by (simp add: accept_port_def)
  from k show "prefix (pt_out (accept_port E cpw userId) s) (pt_out (accept_port E cpw userId) s')"
    by (simp add: accept_port_def longer_def)
qed

text \<open>The existing device says that it is done after it has read that the new device is.\<close>

definition existing_told :: "ws_msg list \<Rightarrow> 'a conn \<Rightarrow> bool" where
  "existing_told msgs c \<longleftrightarrow>
     (has_type ExistingDeviceDoneMessage (cn_out c) \<longrightarrow> has_type NewDeviceDoneMessage msgs)"

definition hush :: "'a conn \<Rightarrow> 'a conn \<Rightarrow> bool" where
  "hush c c' \<longleftrightarrow> says ExistingDeviceDoneMessage (cn_out c) (cn_out c')"

lemma hush_told: "existing_told msgs c \<Longrightarrow> hush c c' \<Longrightarrow> existing_told (msgs @ news) c' \<and> prefix (cn_out c) (cn_out c')"
  by (auto simp: existing_told_def hush_def dest: says_type says_prefix)

lemma done_types [simp]:
  "TssDoneMessage \<noteq> ExistingDeviceDoneMessage" "DeviceMessage \<noteq> ExistingDeviceDoneMessage"
  "EverythingStoredClientMessage \<noteq> ExistingDeviceDoneMessage"
  by (simp_all add: mtype_defs)

lemma hush_report: "conn_report err c = Some c' \<Longrightarrow> hush c c'"
  by (auto simp: conn_report_def hush_def split: option.split_asm)

lemma hush_reply: "wm_Type m \<noteq> ExistingDeviceDoneMessage \<Longrightarrow> conn_reply w m c = Some c' \<Longrightarrow> hush c c'"
  by (auto simp: conn_reply_def conn_say_def hush_report split: sum.split_asm) (simp add: hush_def)

lemma hush_send: "conn_send cj next w c = Some c' \<Longrightarrow> hush c c'"
  by (auto simp: conn_send_def hush_def conn_crash_def says_simps dest: chat_frame
      split: if_split_asm option.split_asm option.splits prod.split_asm turn.split_asm)

lemma hush_tss: "conn_tss cj handle msg c = Some c' \<Longrightarrow> hush c c'"
  using hush_report [of _ "c\<lparr>cn_actor := _\<rparr>" c']
  by (auto simp: conn_tss_def hush_def conn_crash_def split: if_split_asm go.split_asm prod.split_asm sum.split_asm)

lemma hush_engine: "conn_engine f c = Some c' \<Longrightarrow> hush c c'"
  by (auto simp: conn_engine_def hush_def conn_crash_def split: option.split_asm if_split_asm go.split_asm)

lemma hush_others:
  "conn_start c = Some c' \<Longrightarrow> hush c c'" "conn_timeout c = Some c' \<Longrightarrow> hush c c'"
  "conn_read_err normal err c = Some c' \<Longrightarrow> hush c c'"
  "conn_process process pc c = Some c' \<Longrightarrow> hush c c'" "conn_check normal r c = Some c' \<Longrightarrow> hush c c'"
  "conn_set_stage spc r c = Some c' \<Longrightarrow> hush c c'" "conn_finish result r c = Some c' \<Longrightarrow> hush c c'"
  "Accept_tell w r c = Some c' \<Longrightarrow> hush c c'" "conn_new_actor made c = Some c' \<Longrightarrow> hush c c'"
  by (auto simp: conn_start_def conn_timeout_def conn_read_err_def conn_process_def conn_check_def conn_set_stage_def
      conn_finish_def conn_return_def conn_crash_def Accept_tell_def conn_say_def conn_new_actor_def Let_def
      conn_report_def hush_def
      split: option.split_asm sum.split_asm go.split_asm prod.split_asm if_split_asm)

lemmas hush_pieces = hush_report hush_send hush_tss hush_engine hush_others

lemma hush_main: "Accept_main E w c = Some c' \<Longrightarrow> hush c c'"
  by (auto simp: Accept_main_def intro: hush_pieces split: conn_main.split_asm option.split_asm if_split_asm)
    (simp_all add: hush_def conn_crash_def)

lemma hush_peer: "conn_reply w m (c\<lparr>cn_peer := p\<rparr>) = Some c' \<Longrightarrow> wm_Type m \<noteq> ExistingDeviceDoneMessage \<Longrightarrow> hush c c'"
  using hush_reply [of m w "c\<lparr>cn_peer := p\<rparr>" c'] by (simp add: hush_def)

lemma hush_accept_read:
  "Accept_read E w0 md msg w c = Some c' \<Longrightarrow> wm_Type msg \<noteq> NewDeviceDoneMessage \<Longrightarrow> hush c c'"
  by (auto simp: Accept_read_def intro: hush_pieces hush_peer hush_reply [rotated] split: if_split_asm)
    (simp_all add: hush_def)

lemma existing_done_read:
  assumes "Accept_read E w0 md msg w c = Some c'" and "wm_Type msg = NewDeviceDoneMessage"
  shows "existing_told (msgs @ [msg]) c' \<and> prefix (cn_out c) (cn_out c')"
proof -
  have "NewDeviceDoneMessage \<noteq> PeerIdBroadcastMessage" "NewDeviceDoneMessage \<noteq> MetadataAckMessage"
      "NewDeviceDoneMessage \<noteq> TssMessage" by (simp_all add: mtype_defs)
  with assms have "c' = c \<or> conn_reply_close w (ws_message ExistingDeviceDoneMessage []) c = Some c'"
    by (auto simp: Accept_read_def split: if_split_asm)
  with assms(2) show ?thesis
    by (auto simp: existing_told_def conn_reply_close_def conn_report_def conn_close_done_def conn_say_def conn_crash_def
        split: sum.split_asm option.split_asm if_split_asm)
qed

lemma existing_step:
  assumes "conn_step E (Accept_ops E w0 md) ev c = Some c'" and "existing_told msgs c"
  shows "existing_told (msgs @ got (conn_reads ev)) c' \<and> prefix (cn_out c) (cn_out c')"
proof (cases "\<exists>msg w. ev = Ce_read (ReadMsg msg w) \<and> wm_Type msg = NewDeviceDoneMessage")
  case True
  then obtain msg w where ev: "ev = Ce_read (ReadMsg msg w)" "wm_Type msg = NewDeviceDoneMessage" by blast
  with assms(1) have "Accept_read E w0 md msg w c = Some c'" by (simp add: Accept_ops_def split: if_split_asm)
  from existing_done_read [OF this ev(2)] ev(1) show ?thesis by simp
next
  case False
  have "hush c c'"
  proof (cases ev)
    case (Ce_read re)
    with assms(1) False show ?thesis
      by (cases re) (auto simp: Accept_ops_def intro: hush_pieces hush_accept_read split: if_split_asm)
  qed (use assms(1) in \<open>auto simp: Accept_ops_def intro: hush_pieces hush_main split: if_split_asm\<close>)
  with assms(2) show ?thesis by (rule hush_told)
qed

interpretation existing: endpoint "existing_port E w metadata" existing_told
  for E :: "('m, 'e, 'pt, 'pl) env" and w and metadata
  by unfold_locales (simp_all add: existing_port_def existing_step del: conn_step.simps)

interpretation accept_ends: duplex "accept_port E cpw userId" "add_keeps E userId d" "existing_port E w metadata" existing_told
  for E :: "('m, 'e, 'pt, 'pl) env" and cpw and userId and d and w and metadata
  by unfold_locales

subsection \<open>The connection of the new device\<close>

text \<open>The handlers with the existing device's connection, seen from the new device's.\<close>

fun new_reads :: "(('m, 'pt) add_event, 'y) wire_event \<Rightarrow> ws_msg option" where
  "new_reads (Server_does x) = reg_reads x"
| "new_reads (Client_does y) = None"

definition register_port ::
  "('m, 'e, 'pt, 'pl) env \<Rightarrow> PublicWallet codec \<Rightarrow> string \<Rightarrow> DkgResult \<Rightarrow> string
     \<Rightarrow> ((('m, 'pt) add_event, ('m, 'pt) conn_event) wire_event,
         (('m, 'e, 'pt) add_state, ('m, 'e, 'pt) ExistingClientAdd conn) wire) port" where
  "register_port E cpw userId w metadata =
     \<lparr>pt_step = wire_step (accept_port E cpw userId) (existing_port E w metadata),
      pt_out = (\<lambda>p. rg_out (ad_reg (wi_server p))), pt_in = new_reads,
      pt_fair = wire_fair (accept_port E cpw userId) (existing_port E w metadata)\<rparr>"

definition both_keep ::
  "('m, 'e, 'pt, 'pl) env \<Rightarrow> PublicWallet codec \<Rightarrow> string \<Rightarrow> DkgResult \<Rightarrow> string \<Rightarrow> db \<Rightarrow> ws_msg list
     \<Rightarrow> (('m, 'e, 'pt) add_state, ('m, 'e, 'pt) ExistingClientAdd conn) wire \<Rightarrow> bool" where
  "both_keep E cpw userId w metadata d msgs p \<longleftrightarrow>
     wire_holds (accept_port E cpw userId) (add_keeps E userId d) (existing_port E w metadata) existing_told p"

interpretation registering: endpoint "register_port E cpw userId w metadata" "both_keep E cpw userId w metadata d"
  for E :: "('m, 'e, 'pt, 'pl) env" and cpw and userId and w and metadata and d
proof unfold_locales
  fix msgs x and p p' :: "(('m, 'e, 'pt) add_state, ('m, 'e, 'pt) ExistingClientAdd conn) wire"
  assume k: "both_keep E cpw userId w metadata d msgs p" and x: "pt_fair (register_port E cpw userId w metadata) x"
    and s: "pt_step (register_port E cpw userId w metadata) x p = Some p'"
  from k x s show "both_keep E cpw userId w metadata d (msgs @ got (pt_in (register_port E cpw userId w metadata) x)) p'"
    by (auto simp: both_keep_def register_port_def intro: accept_ends.step_holds simp del: wire_step.simps)
  show "prefix (pt_out (register_port E cpw userId w metadata) p) (pt_out (register_port E cpw userId w metadata) p')"
  proof (cases x)
    case (Server_does y)
    from k obtain up where "add_keeps E userId d up (wi_server p)"
      by (auto simp: both_keep_def wire_holds_def)
    moreover from s x Server_does have "add_step E cpw userId y (wi_server p) = Some (wi_server p')" "add_event_fair y"
      by (auto simp: register_port_def accept_port_def simp del: add_step.simps split: option.split_asm)
    ultimately have "longer (wi_server p) (wi_server p')" using add_step_keeps by blast
    then show ?thesis by (simp add: register_port_def longer_def)
  next
    case (Client_does y)
    with s show ?thesis by (auto simp: register_port_def split: option.split_asm)
  qed
qed

end
