(* ===== verification/NewDevice.thy ===== *)
theory NewDevice
  imports AddEnds
begin

text \<open>
  \<open>RegisterDevice\<close> and \<open>AcceptDevice\<close> of \<open>client/tss_add.go\<close> against the two handlers of
  \<open>server/tss_add.go\<close>: two websockets, one for each device, whose server ends share the state of
  the handlers. What the new device knows of the far ends: by the time it has been told that the
  existing device is done, the merged wallet has been stored.
\<close>

subsection \<open>The actor of the new device\<close>

definition new_keyed :: "'pt \<Rightarrow> ('m, 'e, 'pt) ClientAdd \<Rightarrow> bool" where
  "new_keyed P a \<longleftrightarrow> (\<forall>g. an_result (ca_service a) = Some g \<longrightarrow> lr_PublicKey g = P)"

lemma new_results:
  "NewClientAdd lib al peer old pk bks = Inr a \<Longrightarrow> an_result (ca_service a) = None"
  "ClientAdd_GetNextMessageToSendAll al a = Ret (r, b) \<Longrightarrow> an_result (ca_service b) = an_result (ca_service a)"
  "ClientAdd_HandleMessage al p m = Ret (r', Some b) \<Longrightarrow> \<exists>a. p = Some a \<and> an_result (ca_service b) = an_result (ca_service a)"
  by (auto simp: NewClientAdd_def AddNew_Init_def NewServiceAddNew_def Let_def ClientAdd_GetNextMessageToSendAll_def
      ClientAdd_HandleMessage_def split: sum.split_asm option.split_asm go.split_asm prod.split_asm)

interpretation new_actor: conn_actor "Register_ops E cpw peerID device" "new_keyed P" "keyed_engine P"
  for E :: "('m, 'e, 'pt, 'pl) env" and cpw and peerID and device and P :: 'pt
proof unfold_locales
  fix a b :: "('m, 'e, 'pt) ClientAdd" and x :: "('m, 'pt) engine_event"
  assume "new_keyed P a" "keyed_engine P x" "co_engine (Register_ops E cpw peerID device) x a = Ret b"
  then show "new_keyed P b"
    by (cases x) (auto simp: Register_ops_def Register_engine_def new_keyed_def ClientAdd_emit_def
        AddNew_OnStateChanged_def AddNew_close_def split: go.split_asm if_split_asm sum.split_asm option.split_asm)
next
  fix a b :: "('m, 'e, 'pt) ClientAdd" and r
  assume "new_keyed P a" "co_next (Register_ops E cpw peerID device) a = Ret (r, b)"
  then show "new_keyed P b" by (auto simp: Register_ops_def new_keyed_def dest: new_results(2))
next
  fix c c' :: "('m, 'e, 'pt) ClientAdd conn" and msg w
  assume g: "actor_good (new_keyed P) c" and r: "co_read (Register_ops E cpw peerID device) msg w c = Some c'"
  have keep: "\<exists>a. p = Some a \<and> (new_keyed P a \<longrightarrow> new_keyed P b)"
    if "ClientAdd_HandleMessage (en_al E) p m = Ret (r, Some b)" for p m r b
    using new_results(3) [OF that] by (auto simp: new_keyed_def)
  have made: "new_keyed P a" if "NewClientAdd lib al peer old pk bks = Inr a" for lib al peer old pk bks and a :: "('m, 'e, 'pt) ClientAdd"
    using new_results(1) [OF that] by (simp add: new_keyed_def)
  have pub: "actor_good (new_keyed P) c'" if "Register_on_pubkey E cpw peerID msg c = Some c'"
    using that by (auto simp: Register_on_pubkey_def intro: actor_good_same [OF actor_pieces(1) g] actor_new [OF _ g made]
        split: sum.split_asm)
  from r show "actor_good (new_keyed P) c'"
    by (auto simp: Register_ops_def Register_read_def intro: g pub actor_tss [OF _ g keep]
        actor_good_same [OF actor_pieces(3) g] actor_good_same [OF actor_pieces(11) g] split: if_split_asm)
      (use g in \<open>auto simp: actor_good_def dest: actor_pieces(3)\<close>)
next
  fix c c' :: "('m, 'e, 'pt) ClientAdd conn" and w
  assume "co_main (Register_ops E cpw peerID device) w c = Some c'"
  then show "cn_actor c' = cn_actor c"
    by (auto simp: Register_ops_def Register_main_def intro: actor_pieces
        split: conn_main.split_asm option.split_asm if_split_asm) (simp add: conn_crash_def)
qed

subsection \<open>What the new device knows\<close>

definition new_told :: "ws_msg list \<Rightarrow> 'a conn \<Rightarrow> bool" where
  "new_told msgs c \<longleftrightarrow>
     (cn_serverDone c \<longrightarrow> has_type ExistingDeviceDoneMessage msgs) \<and>
     (has_type MetadataMessage msgs \<longrightarrow> cn_metadata c \<in> sent_metadata msgs)"

definition new_keeps ::
  "('m, 'e, 'pt, 'pl) env \<Rightarrow> 'pt \<Rightarrow> ws_msg list \<Rightarrow> ('m, 'e, 'pt) ClientAdd conn \<Rightarrow> bool" where
  "new_keeps E P msgs c \<longleftrightarrow>
     actor_good (new_keyed P) c \<and> wallet_done c \<and>
     (metadata_first msgs \<longrightarrow> new_told msgs c \<and> returns_key (en_lib E) P msgs c)"

text \<open>Calm steps on messages that are not metadata.\<close>

lemma new_calm:
  assumes "new_told msgs c" and "calm c c'" and "\<not> has_type MetadataMessage news"
  shows "new_told (msgs @ news) c'"
proof -
  have "sent_metadata msgs \<subseteq> sent_metadata (msgs @ news)" by (auto intro: sent_metadata_more)
  with assms show ?thesis by (auto simp: new_told_def calm_def)
qed

lemma calm_refl: "calm c c"
  by (simp add: calm_def)

lemma calm_register_read:
  assumes "Register_read E cpw peerID device msg w c = Some c'" and "wm_Type msg \<noteq> MetadataMessage"
    and "wm_Type msg \<noteq> ExistingDeviceDoneMessage"
  shows "calm c c'"
proof -
  have peer: "calm c c'" if "conn_reply w m (c\<lparr>cn_peer := p\<rparr>) = Some c'" for m p
    using calm_reply [OF that] by (simp add: calm_def)
  have key: "calm c c'" if "Register_on_pubkey E cpw peerID msg c = Some c'"
    using that by (auto simp: Register_on_pubkey_def intro: calm_pieces split: sum.split_asm)
  from assms show ?thesis
    by (auto simp: Register_read_def intro: peer key calm_pieces calm_refl split: if_split_asm)
qed

lemma register_types:
  "MetadataMessage \<noteq> PeerIdBroadcastMessage" "MetadataMessage \<noteq> PubkeyMessage" "MetadataMessage \<noteq> TssMessage"
  "ExistingDeviceDoneMessage \<noteq> PeerIdBroadcastMessage" "ExistingDeviceDoneMessage \<noteq> PubkeyMessage"
  "ExistingDeviceDoneMessage \<noteq> TssMessage" "ExistingDeviceDoneMessage \<noteq> MetadataMessage"
  by (simp_all add: mtype_defs)

text \<open>Metadata, and the news that the existing device is done.\<close>

lemma register_metadata:
  assumes "Register_read E cpw peerID device msg w c = Some c'" and "wm_Type msg = MetadataMessage"
    and "new_told msgs c" and "returns_key lib P msgs c"
  shows "new_told (msgs @ [msg]) c' \<and> returns_key lib P (msgs @ [msg]) c'"
proof -
  have md: "wm_Msg msg \<in> sent_metadata (msgs @ [msg])" using assms(2) by (auto simp: sent_metadata_def)
  have "conn_reply w (ws_message EverythingStoredClientMessage []) (c\<lparr>cn_metadata := wm_Msg msg\<rparr>) = Some c'"
    using assms(1,2) by (simp add: Register_read_def register_types)
  then have c': "calm (c\<lparr>cn_metadata := wm_Msg msg\<rparr>) c'" by (rule calm_reply)
  then have "cn_metadata c' = wm_Msg msg" "cn_serverDone c' = cn_serverDone c" "cn_returned c' = cn_returned c"
      "main_wallet (cn_main c') = main_wallet (cn_main c)"
    by (auto simp: calm_def)
  with assms(3,4) md show ?thesis by (auto simp: new_told_def returns_key_def intro: sent_metadata_more)
qed

lemma register_done:
  assumes "Register_read E cpw peerID device msg w c = Some c'" and "wm_Type msg = ExistingDeviceDoneMessage"
    and "metadata_first (msgs @ [msg])" and "new_told msgs c" and "returns_key lib P msgs c"
  shows "new_told (msgs @ [msg]) c' \<and> returns_key lib P (msgs @ [msg]) c'"
proof -
  have "has_type MetadataMessage (msgs @ [msg])" using assms(2,3) by (simp add: metadata_first_def)
  with assms(2,4) have md: "cn_metadata c \<in> sent_metadata (msgs @ [msg])"
    by (auto simp: new_told_def register_types intro: sent_metadata_more)
  have "c' = c \<or> c' = conn_close_done c"
    using assms(1,2) by (auto simp: Register_read_def register_types split: if_split_asm)
  then have "cn_metadata c' = cn_metadata c" "cn_returned c' = cn_returned c" "cn_main c' = cn_main c"
    by (auto simp: conn_close_done_def conn_crash_def)
  with assms(2,5) md show ?thesis by (auto simp: new_told_def returns_key_def intro: sent_metadata_more)
qed

text \<open>The calling goroutine.\<close>

lemma new_process_key:
  assumes "actor_good (new_keyed P) c" and "cn_actor c = Some a" and "ClientAdd_Process lib a = Some (Ret (Inr r))"
  shows "has_key lib P r"
proof -
  from assms(3) obtain g where g: "an_result (ca_service a) = Some g"
      "PostProcessResult lib \<lparr>pr_PublicKey = lr_PublicKey g, pr_Share = lr_Share g, pr_Bks = lr_Bks g,
         pr_PeerID = ca_peerID a\<rparr> = Ret (Inr r)"
    by (auto simp: ClientAdd_Process_def split: if_split_asm option.split_asm)
  from g(1) assms(1,2) have "lr_PublicKey g = P" by (simp add: actor_good_def new_keyed_def)
  with post_process_key [OF g(2)] show ?thesis by simp
qed

lemma register_main:
  assumes "Register_main E w c = Some c'" and "actor_good (new_keyed P) c" and "returns_key (en_lib E) P msgs c"
  shows "returns_key (en_lib E) P msgs c' \<and> cn_serverDone c' = cn_serverDone c \<and> cn_metadata c' = cn_metadata c"
proof (cases "cn_main c")
  case CM_process
  with assms(1) have "conn_process (ClientAdd_Process (en_lib E)) CM_done c = Some c'" by (simp add: Register_main_def)
  with assms(3) new_process_key [OF assms(2)] show ?thesis
    by (auto simp: conn_process_def returns_key_def conn_crash_def conn_return_def oc_nil_def
        split: option.split_asm go.split_asm sum.split_asm)
next
  case (CM_done r)
  with assms(1,3) show ?thesis
    by (auto simp: Register_main_def returns_key_def conn_crash_def split: option.split_asm if_split_asm)
next
  case (CM_check r)
  with assms(1) have "conn_check (en_closed E) r c = Some c'" by (simp add: Register_main_def)
  with assms(3) CM_check show ?thesis
    by (auto simp: conn_check_def returns_key_def conn_return_def oc_fail_def split: prod.split_asm option.split_asm)
next
  case (CM_stage r)
  with assms(1,3) show ?thesis by (auto simp: Register_main_def conn_set_stage_def returns_key_def)
next
  case (CM_finish r)
  with assms(1,3) show ?thesis
    by (auto simp: Register_main_def conn_finish_def returns_key_def conn_return_def oc_wallet_def split: if_split_asm)
qed (use assms(1) in \<open>simp_all add: Register_main_def\<close>)

lemma main_writes: "Register_main E w c = Some c' \<Longrightarrow> prefix (cn_out c) (cn_out c')"
  by (auto simp: Register_main_def conn_process_def conn_check_def conn_set_stage_def conn_finish_def conn_return_def
      conn_crash_def split: conn_main.split_asm option.split_asm go.split_asm sum.split_asm prod.split_asm if_split_asm)

lemma read_writes:
  assumes "Register_read E cpw peerID device msg w c = Some c'"
  shows "prefix (cn_out c) (cn_out c')"
proof -
  consider (metadata) "wm_Type msg = MetadataMessage" | (finished) "wm_Type msg = ExistingDeviceDoneMessage"
    | (other) "wm_Type msg \<noteq> MetadataMessage" "wm_Type msg \<noteq> ExistingDeviceDoneMessage" by blast
  then show ?thesis
  proof cases
    case metadata
    with assms have "conn_reply w (ws_message EverythingStoredClientMessage []) (c\<lparr>cn_metadata := wm_Msg msg\<rparr>) = Some c'"
      by (simp add: Register_read_def register_types)
    from calm_reply [OF this] show ?thesis by (simp add: calm_def)
  next
    case finished
    with assms show ?thesis
      by (auto simp: Register_read_def register_types conn_close_done_def conn_crash_def split: if_split_asm)
  next
    case other
    from calm_register_read [OF assms other] show ?thesis by (simp add: calm_def)
  qed
qed

text \<open>Every step that is not one of these is calm.\<close>

lemma register_events:
  assumes "conn_step E (Register_ops E cpw peerID device) ev c = Some c'"
  obtains (main) w where "ev = Ce_main w" "Register_main E w c = Some c'"
  | (read) msg w where "ev = Ce_read (ReadMsg msg w)" "Register_read E cpw peerID device msg w c = Some c'"
  | (calm) "conn_reads ev = None" "calm c c'"
proof (cases ev)
  case (Ce_read re)
  then show ?thesis
  proof (cases re)
    case (ReadErr err)
    with Ce_read assms have "calm c c'" by (auto intro: calm_read_err split: if_split_asm)
    with calm Ce_read ReadErr show ?thesis by simp
  next
    case (ReadMsg msg w)
    with read Ce_read assms show ?thesis by (simp add: Register_ops_def split: if_split_asm)
  qed
next
  case (Ce_main w)
  with main assms show ?thesis by (simp add: Register_ops_def split: if_split_asm)
qed (use assms calm in \<open>auto simp: Register_ops_def dest: calm_pieces split: if_split_asm\<close>)

lemma register_writes:
  assumes "conn_step E (Register_ops E cpw peerID device) ev c = Some c'"
  shows "prefix (cn_out c) (cn_out c')"
  using assms by (cases rule: register_events) (auto simp: calm_def dest: main_writes read_writes)

lemma register_step:
  assumes "conn_step E (Register_ops E cpw peerID device) ev c = Some c'" and "actor_good (new_keyed P) c"
    and "metadata_first (msgs @ got (conn_reads ev))" and "new_told msgs c" and "returns_key (en_lib E) P msgs c"
  shows "new_told (msgs @ got (conn_reads ev)) c' \<and> returns_key (en_lib E) P (msgs @ got (conn_reads ev)) c'"
  using assms(1)
proof (cases rule: register_events)
  case (main w)
  with register_main [OF main(2) assms(2,5)] assms(4) show ?thesis by (simp add: new_told_def)
next
  case (read msg w)
  consider (metadata) "wm_Type msg = MetadataMessage" | (finished) "wm_Type msg = ExistingDeviceDoneMessage"
    | (other) "wm_Type msg \<noteq> MetadataMessage" "wm_Type msg \<noteq> ExistingDeviceDoneMessage" by blast
  then show ?thesis
  proof cases
    case metadata
    from register_metadata [OF read(2) this assms(4,5)] read(1) show ?thesis by simp
  next
    case finished
    from assms(3) read(1) have "metadata_first (msgs @ [msg])" by simp
    from register_done [OF read(2) finished this assms(4,5)] read(1) show ?thesis by simp
  next
    case other
    note calm_register_read [OF read(2) other]
    with new_calm [OF assms(4) this, of "[msg]"] returns_key_calm [OF assms(5) this] other(1) read(1) show ?thesis by simp
  qed
next
  case calm
  with new_calm [OF assms(4) calm(2), of "[]"] returns_key_calm [OF assms(5) calm(2), of "[]"] show ?thesis by simp
qed

interpretation new_device: endpoint "conn_port E (Register_ops E cpw peerID device) P" "new_keeps E P"
  for E :: "('m, 'e, 'pt, 'pl) env" and cpw and peerID and device and P
proof unfold_locales
  fix msgs x and c c' :: "('m, 'e, 'pt) ClientAdd conn"
  assume k: "new_keeps E P msgs c" and x: "pt_fair (conn_port E (Register_ops E cpw peerID device) P) x"
    and s: "pt_step (conn_port E (Register_ops E cpw peerID device) P) x c = Some c'"
  from s x have step: "conn_step E (Register_ops E cpw peerID device) x c = Some c'" "conn_keyed_event P x"
    by (simp_all add: conn_port_def)
  from k have c: "actor_good (new_keyed P) c" "wallet_done c" by (simp_all add: new_keeps_def)
  have "actor_good (new_keyed P) c'"
    by (rule new_actor.step_good [OF step(1) _ c(1)]) (use step(2) in \<open>simp add: keyed_engine_event\<close>)
  moreover have "wallet_done c'" by (rule register_loop.step_holds [OF step(1) c(2)])
  moreover have "new_told (msgs @ got (conn_reads x)) c' \<and> returns_key (en_lib E) P (msgs @ got (conn_reads x)) c'"
    if m: "metadata_first (msgs @ got (conn_reads x))"
  proof -
    have "metadata_first msgs" using m by (rule metadata_first_prefix) simp
    with k have "new_told msgs c" "returns_key (en_lib E) P msgs c" by (simp_all add: new_keeps_def)
    with register_step [OF step(1) c(1) m] show ?thesis by blast
  qed
  ultimately show "new_keeps E P (msgs @ got (pt_in (conn_port E (Register_ops E cpw peerID device) P) x)) c'"
    by (simp add: new_keeps_def conn_port_def)
  show "prefix (pt_out (conn_port E (Register_ops E cpw peerID device) P) c)
      (pt_out (conn_port E (Register_ops E cpw peerID device) P) c')"
    using register_writes [OF step(1)] by (simp add: conn_port_def)
qed

interpretation device_ends: duplex "register_port E cpw userId w metadata" "both_keep E cpw userId w metadata d"
    "conn_port E (Register_ops E cpw peerID device) P" "new_keeps E P"
  for E :: "('m, 'e, 'pt, 'pl) env" and cpw and userId and w and metadata and d and peerID and device and P
  by unfold_locales

subsection \<open>The wallet of the new device\<close>

text \<open>The runs of both devices with the handlers, from the first message of each.\<close>

definition devices_start ::
  "db \<Rightarrow> DkgResult \<Rightarrow> string
     \<Rightarrow> ((('m, 'e, 'pt) add_state, ('m, 'e, 'pt) ExistingClientAdd conn) wire, ('m, 'e, 'pt) ClientAdd conn) wire" where
  "devices_start d w peerID =
     wire_init (wire_init (add_init d) (Accept_start (ws_message PeerIdBroadcastMessage (dr_PeerID w))))
       (Register_start (ws_message PeerIdBroadcastMessage peerID))"

lemma existing_starts: "both_keep E cpw u w md d [] (wire_init (add_init d)
    (Accept_start (ws_message PeerIdBroadcastMessage (dr_PeerID w)) :: ('m, 'e, 'pt) ExistingClientAdd conn))"
  for E :: "('m, 'e, 'pt, 'pl) env"
  by (simp add: both_keep_def wire_holds_init add_keeps_def add_init_flow add_init_wallet told_init existing_told_def
      Accept_start_def conn_init_def)

lemma new_starts: "new_keeps E P [] (Register_start hello)"
  by (simp add: new_keeps_def actor_good_def new_told_def returns_key_def Register_start_def conn_init_def wallet_done_def)

text \<open>What each end of the two connections knows.\<close>

lemma devices_know:
  assumes "wire_reach (register_port E cpw u w md) (conn_port E (Register_ops E cpw peerID device) P)
             (devices_start d w peerID) p"
  obtains up down seen where "add_keeps E u d up (wi_server (wi_server p))"
    "prefix up (cn_out (wi_client (wi_server p)))" "existing_told seen (wi_client (wi_server p))"
    "prefix seen (ac_out (ad_acc (wi_server (wi_server p))))"
    "prefix down (rg_out (ad_reg (wi_server (wi_server p))))" "new_keeps E P down (wi_client p)"
proof -
  from device_ends.reach_ends [OF assms [unfolded devices_start_def] existing_starts new_starts]
  obtain down where down: "prefix down (rg_out (ad_reg (wi_server (wi_server p))))" "new_keeps E P down (wi_client p)"
      "both_keep E cpw u w md d [] (wi_server p)"
    by (auto simp: register_port_def both_keep_def)
  from wire_holds_ends [OF down(3) [unfolded both_keep_def]] that [OF _ _ _ _ down(1,2)] show ?thesis
    by (auto simp: accept_port_def existing_port_def)
qed

text \<open>When the new device has been told that the existing one is done, the wallet has been stored.\<close>

lemma told_stored:
  assumes "add_keeps E u d up st" and "prefix up (cn_out c)" and "existing_told seen c" and "prefix seen (ac_out (ad_acc st))"
    and "prefix down (rg_out (ad_reg st))" and "has_type ExistingDeviceDoneMessage down" and "md \<in> sent_metadata down"
  obtains w where "opens E u d md w" "stored E (reported st) u d md (ad_db st) w"
proof -
  from assms(1) have st: "add_flow st" "add_wallet E u d st" "told up st" by (simp_all add: add_keeps_def)
  from assms(5,6) have "has_type ExistingDeviceDoneMessage (rg_out (ad_reg st))" by (rule has_type_prefix)
  with st(3) have "has_type ExistingDeviceDoneMessage up" by (simp add: told_def)
  with assms(2) have "has_type ExistingDeviceDoneMessage (cn_out c)" by (rule has_type_prefix)
  with assms(3) have "has_type NewDeviceDoneMessage seen" by (simp add: existing_told_def)
  with assms(4) have "has_type NewDeviceDoneMessage (ac_out (ad_acc st))" by (rule has_type_prefix)
  with st(3) have pc: "ac_main (ad_acc st) \<in> {AM_done, AM_closed}" by (simp add: told_def acc_told_def)
  from assms(5,7) obtain m where "m \<in> set (rg_out (ad_reg st))" "wm_Type m = MetadataMessage" "wm_Msg m = md"
    by (auto simp: sent_metadata_def dest: set_mono_prefix)
  with st(1) have md: "rg_adder (ad_reg st) \<noteq> None" "rg_metadata (ad_reg st) = md"
    by (auto simp: add_flow_def out_flow_def)
  with st(2) pc that show ?thesis by (auto simp: add_wallet_def)
qed

end
