(* ===== verification/AddRun.thy ===== *)
theory AddRun
  imports AddWallet
begin

text \<open>
  A run of the two multi-device handlers from start to end, in five phases: the identifiers, the
  metadata and the adder, the process and the store, the news of the new device, the news of the
  existing device. Each phase is stated on its own, so that the devices can take their turns in
  between.
\<close>

subsection \<open>Phases\<close>

definition ws_hear :: "MessageType \<Rightarrow> string \<Rightarrow> read_event" where
  "ws_hear t s = ReadMsg (ws_message t s) (Inr ())"

definition peers_phase :: "string \<Rightarrow> string \<Rightarrow> string \<Rightarrow> ('m, 'pt) add_event list" where
  "peers_phase new old ua =
     [Ae_reg_read (ws_hear PeerIdBroadcastMessage new), Ae_reg_peer ua (Inr ()),
      Ae_acc_read (ws_hear PeerIdBroadcastMessage old), Ae_acc_peer (Inr ()), Ae_acc_peer (Inr ()), Ae_acc_peer (Inr ()),
      Ae_reg_peer ua (Inr ()), Ae_reg_peer ua (Inr ()), Ae_reg_peer ua (Inr ())]"

definition meet_phase :: "string \<Rightarrow> string \<Rightarrow> go_error option \<Rightarrow> nat \<Rightarrow> ('m, 'pt) add_event list" where
  "meet_phase device md fault pick =
     [Ae_reg_read (ws_hear DeviceMessage device), Ae_acc_read (ws_hear MetadataMessage md), Ae_acc_metadata (Inr ()),
      Ae_reg_device fault pick (Inr ()), Ae_reg_device fault pick (Inr ()), Ae_reg_device fault pick (Inr ()),
      Ae_reg_device fault pick (Inr ()), Ae_reg_start, Ae_reg_device fault pick (Inr ()),
      Ae_acc_metadata (Inr ()), Ae_acc_metadata (Inr ()), Ae_acc_start, Ae_acc_metadata (Inr ())]"

definition share_phase :: "'pt lib_result \<Rightarrow> draw \<Rightarrow> nat \<Rightarrow> ('m, 'pt) add_event list" where
  "share_phase g rnd pick =
     [Ae_acc_main rnd pick (Inr ()), Ae_state (Inr g) StateDone, Ae_acc_main rnd pick (Inr ()),
      Ae_acc_main rnd pick (Inr ()), Ae_acc_main rnd pick (Inr ()), Ae_acc_main rnd pick (Inr ()),
      Ae_acc_read (ws_hear TssDoneMessage []), Ae_acc_signal,
      Ae_reg_main (Inr ()), Ae_reg_main (Inr ()), Ae_reg_main (Inr ()), Ae_reg_main (Inr ()), Ae_reg_main (Inr ())]"

definition new_done_phase :: "draw \<Rightarrow> ('m, 'pt) add_event list" where
  "new_done_phase rnd =
     [Ae_reg_read (ws_hear EverythingStoredClientMessage []), Ae_reg_device None 0 (Inr ()),
      Ae_acc_main rnd 0 (Inr ()), Ae_acc_main rnd 0 (Inr ()), Ae_acc_main rnd 0 (Inr ()), Ae_acc_main rnd 0 (Inr ()),
      Ae_acc_main rnd 0 (Inr ())]"

definition closing_phase :: "draw \<Rightarrow> ('m, 'pt) add_event list" where
  "closing_phase rnd =
     [Ae_acc_read (ws_hear ExistingDeviceDoneMessage []), Ae_acc_signal, Ae_acc_signal, Ae_acc_main rnd 0 (Inr ()),
      Ae_reg_main (Inr ()), Ae_reg_main (Inr ()), Ae_reg_main (Inr ())]"

lemma phases_fair:
  "ev \<in> set (peers_phase new old ua) \<Longrightarrow> add_event_fair ev"
  "ev \<in> set (meet_phase device md fault pick) \<Longrightarrow> add_event_fair ev"
  "ev \<in> set (share_phase g rnd pick) \<Longrightarrow> draw_ok rnd \<Longrightarrow> add_event_fair ev"
  "ev \<in> set (new_done_phase rnd) \<Longrightarrow> draw_ok rnd \<Longrightarrow> add_event_fair ev"
  "ev \<in> set (closing_phase rnd) \<Longrightarrow> draw_ok rnd \<Longrightarrow> add_event_fair ev"
  by (auto simp: peers_phase_def meet_phase_def share_phase_def new_done_phase_def closing_phase_def)

subsection \<open>States between the phases\<close>

definition idle_link :: link where
  "idle_link = \<lparr>lk_newPeer = [], lk_existingPeer = [], lk_agent = [], lk_metadata = [], lk_adder = [],
     lk_existing_tss_done = [], lk_new_done = [], lk_existing_done = []\<rparr>"

definition met_state :: "string \<Rightarrow> string \<Rightarrow> string \<Rightarrow> db \<Rightarrow> ('m, 'e, 'pt) add_state" where
  "met_state new old ua d =
     \<lparr>ad_reg = \<lparr>rg_reader = RR_read, rg_main = RM_wait, rg_sender = Sender_off, rg_adder = None,
        rg_newPeer = new, rg_existingPeer = old, rg_metadata = [], rg_stage = 0, rg_errs = [], rg_ctx = Ctx_live,
        rg_serverDone = False, rg_out = [ws_message PeerIdBroadcastMessage old]\<rparr>,
      ad_acc = \<lparr>ac_reader = AR_read, ac_main = AM_wait, ac_sender = Sender_off, ac_adder = None,
        ac_newPeer = new, ac_existingPeer = old, ac_metadata = [], ac_stage = 0, ac_errs = [], ac_ctx = Ctx_live,
        ac_serverDone = False, ac_out = [ws_message PeerIdBroadcastMessage new]\<rparr>,
      ad_link = idle_link\<lparr>lk_agent := [ua]\<rparr>, ad_heap = [], ad_db = d, ad_device = None, ad_crashed = False\<rparr>"

text \<open>From the start of the process on the two sides differ in where they are and what they said.\<close>

definition running ::
  "string \<Rightarrow> string \<Rightarrow> string \<Rightarrow> string \<Rightarrow> ('m, 'e, 'pt) ServerAdd \<Rightarrow> db \<Rightarrow> link
     \<Rightarrow> reg_main \<Rightarrow> 32 word \<Rightarrow> ws_msg list \<Rightarrow> acc_main \<Rightarrow> 32 word \<Rightarrow> ws_msg list \<Rightarrow> ('m, 'e, 'pt) add_state" where
  "running new old device md a d l rpc rstage rout apc astage aout =
     \<lparr>ad_reg = \<lparr>rg_reader = RR_read, rg_main = rpc, rg_sender = Sender_on, rg_adder = Some 0,
        rg_newPeer = new, rg_existingPeer = old, rg_metadata = md, rg_stage = rstage, rg_errs = [], rg_ctx = Ctx_live,
        rg_serverDone = False, rg_out = rout\<rparr>,
      ad_acc = \<lparr>ac_reader = AR_read, ac_main = apc, ac_sender = Sender_on, ac_adder = Some 0,
        ac_newPeer = new, ac_existingPeer = old, ac_metadata = md, ac_stage = astage, ac_errs = [], ac_ctx = Ctx_live,
        ac_serverDone = False, ac_out = aout\<rparr>,
      ad_link = l, ad_heap = [a], ad_db = d, ad_device = Some device, ad_crashed = False\<rparr>"

definition started_state where
  "started_state new old ua device md json a d =
     running new old device md a d (idle_link\<lparr>lk_agent := [ua]\<rparr>)
       RM_tss 30 [ws_message PeerIdBroadcastMessage old, ws_message PubkeyMessage (hex_encode json)]
       AM_original 30 [ws_message PeerIdBroadcastMessage new, ws_message MetadataAckMessage []]"

definition shared_state where
  "shared_state new old device md json a d =
     running new old device md a d idle_link
       RM_done 40 [ws_message PeerIdBroadcastMessage old, ws_message PubkeyMessage (hex_encode json),
         ws_message MetadataMessage md]
       AM_tss 30 [ws_message PeerIdBroadcastMessage new, ws_message MetadataAckMessage []]"

definition told_state where
  "told_state new old device md json a d =
     running new old device md a d idle_link
       RM_done 40 [ws_message PeerIdBroadcastMessage old, ws_message PubkeyMessage (hex_encode json),
         ws_message MetadataMessage md]
       AM_done 40 [ws_message PeerIdBroadcastMessage new, ws_message MetadataAckMessage [],
         ws_message NewDeviceDoneMessage []]"

definition closed_state ::
  "string \<Rightarrow> string \<Rightarrow> string \<Rightarrow> string \<Rightarrow> bytes \<Rightarrow> ('m, 'e, 'pt) ServerAdd \<Rightarrow> db \<Rightarrow> ('m, 'e, 'pt) add_state" where
  "closed_state new old device md json a d =
     \<lparr>ad_reg = \<lparr>rg_reader = RR_read, rg_main = RM_closed, rg_sender = Sender_on, rg_adder = Some 0,
        rg_newPeer = new, rg_existingPeer = old, rg_metadata = md, rg_stage = 40, rg_errs = [], rg_ctx = Ctx_canceled,
        rg_serverDone = True,
        rg_out = [ws_message PeerIdBroadcastMessage old, ws_message PubkeyMessage (hex_encode json),
          ws_message MetadataMessage md, ws_message ExistingDeviceDoneMessage []]\<rparr>,
      ad_acc = \<lparr>ac_reader = AR_read, ac_main = AM_closed, ac_sender = Sender_on, ac_adder = Some 0,
        ac_newPeer = new, ac_existingPeer = old, ac_metadata = md, ac_stage = 40, ac_errs = [], ac_ctx = Ctx_canceled,
        ac_serverDone = True,
        ac_out = [ws_message PeerIdBroadcastMessage new, ws_message MetadataAckMessage [],
          ws_message NewDeviceDoneMessage []]\<rparr>,
      ad_link = idle_link, ad_heap = [a], ad_db = d, ad_device = Some device, ad_crashed = False\<rparr>"

definition adder_completed :: "('m, 'e, 'pt) ServerAdd \<Rightarrow> 'pt lib_result \<Rightarrow> ('m, 'e, 'pt) ServerAdd" where
  "adder_completed a g = a\<lparr>sa_service := (sa_service a)\<lparr>ax_result := Some g, ax_done := True\<rparr>\<rparr>"

subsection \<open>The phases run\<close>

lemma link_types:
  "DeviceMessage \<noteq> PeerIdBroadcastMessage" "MetadataMessage \<noteq> PeerIdBroadcastMessage"
  "TssDoneMessage \<noteq> PeerIdBroadcastMessage" "TssDoneMessage \<noteq> MetadataMessage" "TssDoneMessage \<noteq> TssMessage"
  "EverythingStoredClientMessage \<noteq> PeerIdBroadcastMessage" "EverythingStoredClientMessage \<noteq> DeviceMessage"
  "EverythingStoredClientMessage \<noteq> TssMessage" "ExistingDeviceDoneMessage \<noteq> PeerIdBroadcastMessage"
  "ExistingDeviceDoneMessage \<noteq> MetadataMessage" "ExistingDeviceDoneMessage \<noteq> TssMessage"
  "ExistingDeviceDoneMessage \<noteq> TssDoneMessage"
  "mt_stage PeerIdBroadcastMessage = 10" "mt_stage DeviceMessage = 20" "mt_stage MetadataMessage = 20"
  "mt_stage TssDoneMessage = 50" "mt_stage ExistingDeviceDoneMessage = 80"
  by (simp_all add: mtype_defs)

lemmas run_defs =
  ws_message_def chan_send_def chan_recv_def set_reg_def set_acc_def reg_goto_def acc_goto_def reg_say_def acc_say_def
  reg_main_goto_def acc_main_goto_def reg_return_def acc_return_def link_types ws_hear_def idle_link_def

lemma peers_run: "steps (add_step E cpw u) (peers_phase new old ua) (add_init d) = Some (met_state new old ua d)"
  by (simp add: peers_phase_def met_state_def add_init_def reg_read_def reg_on_peer_def reg_peer_step_def
      acc_read_def acc_on_peer_def acc_peer_step_def run_defs)

lemma meet_run:
  assumes "RetrieveWallet (en_wallet E) (en_aead E) fault pick (Some md) u d = Ret (Inr w)"
    and "NewServerAdd (en_lib E) (en_al E) new old (dr_Pubkey w) (dr_Share w) (dr_BKs w) = Inr a"
    and "Marshal cpw \<lparr>pw_PublicKey = dr_Pubkey w, pw_BKs = dr_BKs w\<rparr> = Inr json"
  shows "steps (add_step E cpw u) (meet_phase device md fault pick) (met_state new old ua d) =
         Some (started_state new old ua device md json a d)"
  by (simp add: meet_phase_def met_state_def started_state_def running_def reg_read_def acc_read_def reg_on_device_def
      acc_on_metadata_def acc_metadata_step_def reg_device_step_def reg_take_metadata_def reg_make_adder_def
      reg_pass_adder_def reg_send_pubkey_def reg_start_def acc_start_def run_defs assms)

lemma share_run:
  assumes "\<not> ax_done (sa_service a)" and "GetOriginalWallet (en_lib E) a = Ret wo"
    and "ServerAdd_Process (en_lib E) (adder_completed a g) = Some (Ret (Inr wu))"
    and "MergeDkgResults wo wu = Some merged"
    and "VaultAddPeer (en_wallet E) (en_aead E) rnd pick (Some md) u new ua merged d = (Inr v, d')"
  shows "steps (add_step E cpw u) (share_phase g rnd pick) (started_state new old ua device md json a d) =
         Some (shared_state new old device md json (adder_completed a g) d')"
proof -
  have fin: "AddExisting_OnStateChanged (Inr g) StateDone (sa_service a) = Ret (sa_service (adder_completed a g))"
      "a\<lparr>sa_service := sa_service (adder_completed a g)\<rparr> = adder_completed a g" "ax_done (sa_service (adder_completed a g))"
    using assms(1) by (simp_all add: AddExisting_OnStateChanged_def AddExisting_close_def adder_completed_def)
  show ?thesis
    by (simp add: share_phase_def started_state_def shared_state_def running_def acc_read_def acc_main_step_def
        acc_original_def adder_at_def add_report_state_def add_started_def put_adder_def acc_process_def acc_store_def
        acc_on_step_def acc_signal_step_def reg_main_step_def reg_check_def ProcessErrors_def reg_main_write_def run_defs
        assms fin)
qed

lemma new_done_run:
  assumes "ax_done (sa_service a)"
  shows "steps (add_step E cpw u) (new_done_phase rnd) (shared_state new old device md json a d) =
         Some (told_state new old device md json a d)"
  by (simp add: new_done_phase_def shared_state_def told_state_def running_def reg_read_def reg_device_step_def
      acc_main_step_def adder_at_def acc_check_def ProcessErrors_def acc_write_def run_defs assms)

lemma closing_run:
  "steps (add_step E cpw u) (closing_phase rnd) (told_state new old device md json a d) =
     Some (closed_state new old device md json a d)"
  by (simp add: closing_phase_def told_state_def closed_state_def running_def acc_read_def acc_on_step_def
      acc_signal_step_def acc_main_step_def reg_main_step_def reg_main_write_def cancel_ctx_def run_defs)

lemma add_run_reach:
  "steps (add_step E cpw userId) evs st = Some st' \<Longrightarrow> add_reach E cpw userId d st \<Longrightarrow> \<forall>ev \<in> set evs. add_event_fair ev \<Longrightarrow>
     add_reach E cpw userId d st'"
  by (rule steps_invariant [where P = "add_reach E cpw userId d"]) (auto intro: add_reach_step simp del: add_step.simps)

end
