(* ===== verification/DeviceRun.thy ===== *)
theory DeviceRun
  imports NewDevice AddRun
begin

text \<open>
  A run of \<open>RegisterDevice\<close>, \<open>AcceptDevice\<close> and the two handlers that registers the new device:
  the phases of the handlers with the turns of the two devices in between.
\<close>

subsection \<open>The turns of the new device\<close>

definition new_greet :: "string \<Rightarrow> ('m, 'pt) conn_event list" where
  "new_greet old = [Ce_read (ws_hear PeerIdBroadcastMessage old)]"

definition new_process :: "bytes \<Rightarrow> 'pt lib_result \<Rightarrow> ('m, 'pt) conn_event list" where
  "new_process json g =
     [Ce_read (ws_hear PubkeyMessage (hex_encode json)), Ce_start, Ce_engine (En_state (Inr g) StateDone),
      Ce_main (Inr ()), Ce_main (Inr ()), Ce_main (Inr ()), Ce_main (Inr ())]"

definition new_stored :: "string \<Rightarrow> ('m, 'pt) conn_event list" where
  "new_stored md = [Ce_read (ws_hear MetadataMessage md)]"

definition new_end :: "('m, 'pt) conn_event list" where
  "new_end = [Ce_read (ws_hear ExistingDeviceDoneMessage []), Ce_main (Inr ())]"

definition new_state ::
  "string \<Rightarrow> conn_main \<Rightarrow> sender_pc \<Rightarrow> 'a option \<Rightarrow> string \<Rightarrow> 32 word \<Rightarrow> ws_msg list \<Rightarrow> 'a conn" where
  "new_state old pc sender a md stage out =
     \<lparr>cn_reader = CR_read, cn_main = pc, cn_sender = sender, cn_actor = a, cn_peer = old, cn_metadata = md,
      cn_stage = stage, cn_errs = [], cn_serverDone = False, cn_ctx = Ctx_live, cn_out = out, cn_returned = None,
      cn_crashed = False\<rparr>"

definition conn_ended :: "outcome \<Rightarrow> 'a conn \<Rightarrow> 'a conn" where
  "conn_ended oc c = c\<lparr>cn_main := CM_returned, cn_serverDone := True, cn_ctx := Ctx_canceled, cn_returned := Some oc\<rparr>"

definition new_completed :: "('m, 'e, 'pt) ClientAdd \<Rightarrow> 'pt lib_result \<Rightarrow> ('m, 'e, 'pt) ClientAdd" where
  "new_completed a g = a\<lparr>ca_service := (ca_service a)\<lparr>an_result := Some g, an_done := True\<rparr>\<rparr>"

lemma turn_types:
  "PubkeyMessage \<noteq> PeerIdBroadcastMessage" "MetadataMessage \<noteq> PeerIdBroadcastMessage" "MetadataMessage \<noteq> PubkeyMessage"
  "MetadataMessage \<noteq> TssMessage" "ExistingDeviceDoneMessage \<noteq> PeerIdBroadcastMessage"
  "ExistingDeviceDoneMessage \<noteq> PubkeyMessage" "ExistingDeviceDoneMessage \<noteq> TssMessage"
  "ExistingDeviceDoneMessage \<noteq> MetadataMessage" "MetadataAckMessage \<noteq> PeerIdBroadcastMessage"
  "NewDeviceDoneMessage \<noteq> PeerIdBroadcastMessage" "NewDeviceDoneMessage \<noteq> MetadataAckMessage"
  "NewDeviceDoneMessage \<noteq> TssMessage"
  "mt_stage PeerIdBroadcastMessage = 10" "mt_stage ExistingDeviceDoneMessage = 80" "mt_stage NewDeviceDoneMessage = 80"
  by (simp_all add: mtype_defs)

lemmas turn_defs =
  ws_hear_def ws_message_def turn_types conn_reply_def conn_say_def conn_new_actor_def conn_start_def conn_engine_def
  conn_process_def conn_check_def ProcessErrors_def conn_set_stage_def conn_late_def conn_close_done_def conn_finish_def
  conn_return_def cancel_ctx_def new_state_def conn_ended_def

lemma new_greet_run:
  "steps (conn_step E (Register_ops E cpw new device)) (new_greet old) (Register_start (ws_message PeerIdBroadcastMessage new)) =
     Some (new_state old CM_wait Sender_off None [] 0
       [ws_message PeerIdBroadcastMessage new, ws_message DeviceMessage device])"
  by (simp add: new_greet_def Register_start_def conn_init_def Register_ops_def Register_read_def turn_defs)

lemma new_process_run:
  assumes "Unmarshal cpw json = Inr pw" and "NewClientAdd (en_lib E) (en_al E) new old (pw_PublicKey pw) (pw_BKs pw) = Inr a"
    and "ClientAdd_Process (en_lib E) (new_completed a g) = Some (Ret (Inr w'))"
  shows "steps (conn_step E (Register_ops E cpw new device)) (new_process json g) (new_state old CM_wait Sender_off None [] 0 out) =
         Some (new_state old (CM_finish w') Sender_on (Some (new_completed a g)) [] 40 out)"
proof -
  have "\<not> an_done (ca_service a)"
    using assms(2) by (auto simp: NewClientAdd_def AddNew_Init_def NewServiceAddNew_def Let_def split: sum.split_asm)
  then show ?thesis using assms(3)
    by (simp add: new_process_def Register_ops_def Register_read_def Register_on_pubkey_def Register_engine_def
        AddNew_OnStateChanged_def AddNew_close_def Register_main_def new_completed_def turn_defs assms(1,2))
qed

lemma new_stored_run:
  "steps (conn_step E (Register_ops E cpw new device)) (new_stored md) (new_state old pc sender a [] stage out) =
     Some (new_state old pc sender a md stage (out @ [ws_message EverythingStoredClientMessage []]))"
  by (simp add: new_stored_def Register_ops_def Register_read_def turn_defs)

lemma new_end_run:
  "steps (conn_step E (Register_ops E cpw new device)) new_end (new_state old (CM_finish w') sender a md 40 out) =
     Some (conn_ended \<lparr>oc_result = Some w', oc_metadata = md, oc_err = None\<rparr> (new_state old (CM_finish w') sender a md 40 out))"
  by (simp add: new_end_def Register_ops_def Register_read_def Register_main_def oc_wallet_def turn_defs)

subsection \<open>The turns of the existing device\<close>

definition old_greet :: "string \<Rightarrow> ('m, 'pt) conn_event list" where
  "old_greet new = [Ce_read (ws_hear PeerIdBroadcastMessage new)]"

definition old_process :: "'pt lib_result \<Rightarrow> ('m, 'pt) conn_event list" where
  "old_process g =
     [Ce_read (ws_hear MetadataAckMessage []), Ce_start, Ce_engine (En_state (Inr g) StateDone),
      Ce_main (Inr ()), Ce_main (Inr ()), Ce_main (Inr ()), Ce_main (Inr ()), Ce_main (Inr ())]"

definition old_end :: "('m, 'pt) conn_event list" where
  "old_end = [Ce_read (ws_hear NewDeviceDoneMessage []), Ce_main (Inr ())]"

definition old_completed :: "('m, 'e, 'pt) ExistingClientAdd \<Rightarrow> 'pt lib_result \<Rightarrow> ('m, 'e, 'pt) ExistingClientAdd" where
  "old_completed a g = a\<lparr>ea_service := (ea_service a)\<lparr>ax_result := Some g, ax_done := True\<rparr>\<rparr>"

lemma old_greet_run:
  "steps (conn_step E (Accept_ops E w md)) (old_greet new) (Accept_start hello) =
     Some (new_state new CM_wait Sender_off None [] 0 [hello, ws_message MetadataMessage md])"
  by (simp add: old_greet_def Accept_start_def conn_init_def Accept_ops_def Accept_read_def turn_defs)

lemma old_process_run:
  assumes "NewExistingClientAdd (en_lib E) (en_al E) new (dr_PeerID w) (dr_Pubkey w) (dr_Share w) (dr_BKs w) = Inr a"
    and "ExistingClientAdd_Process (en_lib E) (old_completed a g) = Some (Ret (Inr w'))"
  shows "steps (conn_step E (Accept_ops E w md)) (old_process g) (new_state new CM_wait Sender_off None [] 0 out) =
         Some (new_state new (CM_finish w') Sender_on (Some (old_completed a g)) [] 40 (out @ [ws_message TssDoneMessage []]))"
proof -
  have "\<not> ax_done (ea_service a)"
    using assms(1) by (auto simp: NewExistingClientAdd_def AddExisting_Init_def NewServiceAddExisting_def Let_def
        split: sum.split_asm)
  then show ?thesis using assms(2)
    by (simp add: old_process_def Accept_ops_def Accept_read_def Accept_engine_def AddExisting_OnStateChanged_def
        AddExisting_close_def Accept_main_def Accept_tell_def old_completed_def turn_defs assms(1))
qed

lemma old_end_run:
  "steps (conn_step E (Accept_ops E w md)) old_end (new_state new (CM_finish w') sender a mdx 40 out) =
     Some (conn_ended oc_nil (new_state new (CM_finish w') sender a mdx 40 (out @ [ws_message ExistingDeviceDoneMessage []])))"
  by (simp add: old_end_def Accept_ops_def Accept_read_def Accept_main_def conn_reply_close_def turn_defs)

subsection \<open>Turns on the two connections\<close>

text \<open>\<open>acc\<close> and \<open>ack\<close> count what the handlers and the existing device have read of each other,
  \<open>reg\<close> and \<open>seen\<close> what the handlers and the new device have.\<close>

definition devices where
  "devices st old new acc ack reg seen =
     \<lparr>wi_server = \<lparr>wi_server = st, wi_client = old, wi_up = acc, wi_down = ack\<rparr>, wi_client = new,
      wi_up = reg, wi_down = seen\<rparr>"

abbreviation both_step where
  "both_step E cpw u w md device new P \<equiv>
     wire_step (register_port E cpw u w md) (conn_port E (Register_ops E cpw new device) P)"

lemma reads_map:
  "reads_of (register_port E cpw u w md) (map Server_does xs) = concat (map (\<lambda>x. got (reg_reads x)) xs)"
  "reads_of (register_port E cpw u w md) (map Client_does ys) = []"
  "reads_of (accept_port E cpw u) xs = concat (map (\<lambda>x. got (acc_reads x)) xs)"
  "reads_of (existing_port E w md) ys = concat (map (\<lambda>y. got (conn_reads y)) ys)"
  "reads_of (conn_port E ops P) ys = concat (map (\<lambda>y. got (conn_reads y)) ys)"
  by (simp_all add: reads_of_def register_port_def accept_port_def existing_port_def conn_port_def comp_def)

lemma handlers_turn:
  assumes "steps (add_step E cpw u) xs st = Some st'"
    and "concat (map (\<lambda>x. got (acc_reads x)) xs) = as" and "prefix as (drop acc (cn_out old))"
    and "concat (map (\<lambda>x. got (reg_reads x)) xs) = rs" and "prefix rs (drop reg (cn_out new))"
  shows "steps (both_step E cpw u w md device name P) (map Server_does (map Server_does xs)) (devices st old new acc ack reg seen) =
         Some (devices st' old new (acc + length as) ack (reg + length rs) seen)"
proof -
  let ?in = "\<lparr>wi_server = st, wi_client = old, wi_up = acc, wi_down = ack\<rparr>"
  have inner: "steps (wire_step (accept_port E cpw u) (existing_port E w md)) (map Server_does xs) ?in =
      Some (?in\<lparr>wi_server := st', wi_up := acc + length as\<rparr>)"
    using wire_run_server_reads [of "accept_port E cpw u" xs ?in st' "existing_port E w md"] assms(1-3)
    by (simp add: reads_map) (simp add: accept_port_def existing_port_def)
  have "pt_step (register_port E cpw u w md) = wire_step (accept_port E cpw u) (existing_port E w md)"
      "pt_out (conn_port E (Register_ops E cpw name device) P) = cn_out"
    by (simp_all add: register_port_def conn_port_def)
  with wire_run_server_reads [of "register_port E cpw u w md" "map Server_does xs" "devices st old new acc ack reg seen"
      _ "conn_port E (Register_ops E cpw name device) P"] inner assms(4,5)
  show ?thesis by (simp add: reads_map devices_def)
qed

lemma existing_turn:
  assumes "steps (conn_step E (Accept_ops E w md)) ys old = Some old'"
    and "concat (map (\<lambda>y. got (conn_reads y)) ys) = rs" and "prefix rs (drop ack (ac_out (ad_acc st)))"
  shows "steps (both_step E cpw u w md device name P) (map Server_does (map Client_does ys)) (devices st old new acc ack reg seen) =
         Some (devices st old' new acc (ack + length rs) reg seen)"
proof -
  let ?in = "\<lparr>wi_server = st, wi_client = old, wi_up = acc, wi_down = ack\<rparr>"
  have inner: "steps (wire_step (accept_port E cpw u) (existing_port E w md)) (map Client_does ys) ?in =
      Some (?in\<lparr>wi_client := old', wi_down := ack + length rs\<rparr>)"
    using wire_run_client_reads [of "existing_port E w md" ys ?in old' "accept_port E cpw u"] assms
    by (simp add: reads_map) (simp add: accept_port_def existing_port_def)
  have "pt_step (register_port E cpw u w md) = wire_step (accept_port E cpw u) (existing_port E w md)"
    by (simp add: register_port_def)
  with wire_run_server_reads [of "register_port E cpw u w md" "map Client_does ys" "devices st old new acc ack reg seen"
      _ "conn_port E (Register_ops E cpw name device) P"] inner
  show ?thesis by (simp add: reads_map devices_def)
qed

lemma new_turn:
  assumes "steps (conn_step E (Register_ops E cpw name device)) ys new = Some new'"
    and "concat (map (\<lambda>y. got (conn_reads y)) ys) = rs" and "prefix rs (drop seen (rg_out (ad_reg st)))"
  shows "steps (both_step E cpw u w md device name P) (map Client_does ys) (devices st old new acc ack reg seen) =
         Some (devices st old new' acc ack reg (seen + length rs))"
  using wire_run_client_reads [of "conn_port E (Register_ops E cpw name device) P" ys "devices st old new acc ack reg seen"
      new' "register_port E cpw u w md"] assms
  by (simp add: reads_map devices_def) (simp add: conn_port_def register_port_def)

subsection \<open>The run of all three\<close>

definition device_schedule where
  "device_schedule new old ua device md fault pick json rnd g gn gx =
     map Server_does (map Server_does (peers_phase new old ua)) @ map Client_does (new_greet old) @
     map Server_does (map Client_does (old_greet new)) @
     map Server_does (map Server_does (meet_phase device md fault pick)) @ map Client_does (new_process json gn) @
     map Server_does (map Client_does (old_process gx)) @
     map Server_does (map Server_does (share_phase g rnd pick)) @ map Client_does (new_stored md) @
     map Server_does (map Server_does (new_done_phase rnd)) @ map Server_does (map Client_does old_end) @
     map Server_does (map Server_does (closing_phase rnd)) @ map Client_does new_end"

definition new_said :: "string \<Rightarrow> string \<Rightarrow> ws_msg list" where
  "new_said new device = [ws_message PeerIdBroadcastMessage new, ws_message DeviceMessage device]"

definition old_said :: "string \<Rightarrow> string \<Rightarrow> ws_msg list" where
  "old_said old md = [ws_message PeerIdBroadcastMessage old, ws_message MetadataMessage md]"

definition devices_end where
  "devices_end new old device md json a d n w' x wx =
     devices (closed_state new old device md json a d)
       (conn_ended oc_nil (new_state new (CM_finish wx) Sender_on (Some x) [] 40
          (old_said old md @ [ws_message TssDoneMessage [], ws_message ExistingDeviceDoneMessage []])))
       (conn_ended \<lparr>oc_result = Some w', oc_metadata = md, oc_err = None\<rparr>
          (new_state old (CM_finish w') Sender_on (Some n) md 40
             (new_said new device @ [ws_message EverythingStoredClientMessage []])))
       4 3 3 4"

lemma hear_reads [simp]:
  "acc_reads (Ae_acc_read (ws_hear t s)) = Some (ws_message t s)"
  "reg_reads (Ae_reg_read (ws_hear t s)) = Some (ws_message t s)"
  "conn_reads (Ce_read (ws_hear t s)) = Some (ws_message t s)"
  by (simp_all add: ws_hear_def)

lemmas phase_defs = peers_phase_def meet_phase_def share_phase_def new_done_phase_def closing_phase_def new_greet_def
  new_process_def new_stored_def new_end_def old_greet_def old_process_def old_end_def

lemmas said_defs = met_state_def started_state_def shared_state_def told_state_def closed_state_def running_def
  new_state_def new_said_def old_said_def conn_ended_def

lemma device_run:
  assumes "RetrieveWallet (en_wallet E) (en_aead E) fault pick (Some md) u d = Ret (Inr w)"
    and "NewServerAdd (en_lib E) (en_al E) new (dr_PeerID w0) (dr_Pubkey w) (dr_Share w) (dr_BKs w) = Inr a"
    and "Marshal cpw \<lparr>pw_PublicKey = dr_Pubkey w, pw_BKs = dr_BKs w\<rparr> = Inr json"
    and "GetOriginalWallet (en_lib E) a = Ret wo"
    and "ServerAdd_Process (en_lib E) (adder_completed a g) = Some (Ret (Inr wu))"
    and "MergeDkgResults wo wu = Some merged"
    and "VaultAddPeer (en_wallet E) (en_aead E) rnd pick (Some md) u new ua merged d = (Inr v, d')"
    and "Unmarshal cpw json = Inr pw"
    and "NewClientAdd (en_lib E) (en_al E) new (dr_PeerID w0) (pw_PublicKey pw) (pw_BKs pw) = Inr n"
    and "ClientAdd_Process (en_lib E) (new_completed n gn) = Some (Ret (Inr w'))"
    and "NewExistingClientAdd (en_lib E) (en_al E) new (dr_PeerID w0) (dr_Pubkey w0) (dr_Share w0) (dr_BKs w0) = Inr x"
    and "ExistingClientAdd_Process (en_lib E) (old_completed x gx) = Some (Ret (Inr wx))"
  shows "steps (both_step E cpw u w0 md device new P)
           (device_schedule new (dr_PeerID w0) ua device md fault pick json rnd g gn gx) (devices_start d w0 new) =
         Some (devices_end new (dr_PeerID w0) device md json (adder_completed a g) d' (new_completed n gn) w'
           (old_completed x gx) wx)"
proof -
  let ?o = "dr_PeerID w0" and ?a = "adder_completed a g" and ?n = "new_completed n gn" and ?x = "old_completed x gx"
  let ?step = "both_step E cpw u w0 md device new P"
  let ?na = "Register_start (ws_message PeerIdBroadcastMessage new)"
  let ?nb = "new_state ?o CM_wait Sender_off None [] 0 (new_said new device)"
  let ?nc = "new_state ?o (CM_finish w') Sender_on (Some ?n) [] 40 (new_said new device)"
  let ?nd = "new_state ?o (CM_finish w') Sender_on (Some ?n) md 40
      (new_said new device @ [ws_message EverythingStoredClientMessage []])"
  let ?ne = "conn_ended \<lparr>oc_result = Some w', oc_metadata = md, oc_err = None\<rparr> ?nd"
  let ?oa = "Accept_start (ws_message PeerIdBroadcastMessage ?o)"
  let ?ob = "new_state new CM_wait Sender_off None [] 0 (old_said ?o md)"
  let ?oc = "new_state new (CM_finish wx) Sender_on (Some ?x) [] 40 (old_said ?o md @ [ws_message TssDoneMessage []])"
  let ?od = "conn_ended oc_nil (new_state new (CM_finish wx) Sender_on (Some ?x) [] 40
      (old_said ?o md @ [ws_message TssDoneMessage [], ws_message ExistingDeviceDoneMessage []]))"
  let ?sa = "met_state new ?o ua d" and ?sb = "started_state new ?o ua device md json a d"
  let ?sc = "shared_state new ?o device md json ?a d'" and ?sd = "told_state new ?o device md json ?a d'"
  let ?se = "closed_state new ?o device md json ?a d'"
  have start: "devices_start d w0 new = devices (add_init d) ?oa ?na 0 0 0 0"
    by (simp add: devices_start_def devices_def wire_init_def)
  have fresh: "\<not> ax_done (sa_service a)" using NewServerAdd_ok [OF assms(2)] by blast
  have finished: "ax_done (sa_service ?a)" by (simp add: adder_completed_def)
  have said: "ws_message PeerIdBroadcastMessage new # [ws_message DeviceMessage device] = new_said new device"
      "ws_message PeerIdBroadcastMessage ?o # [ws_message MetadataMessage md] = old_said ?o md"
    by (simp_all add: new_said_def old_said_def)
  note greet = new_greet_run [unfolded said] old_greet_run [of E w0 md new "ws_message PeerIdBroadcastMessage ?o", unfolded said]
  have t1: "steps ?step (map Server_does (map Server_does (peers_phase new ?o ua))) (devices (add_init d) ?oa ?na 0 0 0 0) =
      Some (devices ?sa ?oa ?na 1 0 1 0)"
    by (subst handlers_turn [OF peers_run refl _ refl])
      (simp_all add: phase_defs Accept_start_def Register_start_def conn_init_def)
  have t2: "steps ?step (map Client_does (new_greet ?o)) (devices ?sa ?oa ?na 1 0 1 0) = Some (devices ?sa ?oa ?nb 1 0 1 1)"
    by (subst new_turn [OF greet(1) refl]) (simp_all add: phase_defs said_defs eval_nat_numeral)
  have t3: "steps ?step (map Server_does (map Client_does (old_greet new))) (devices ?sa ?oa ?nb 1 0 1 1) =
      Some (devices ?sa ?ob ?nb 1 1 1 1)"
    by (subst existing_turn [OF greet(2) refl]) (simp_all add: phase_defs said_defs eval_nat_numeral)
  have t4: "steps ?step (map Server_does (map Server_does (meet_phase device md fault pick))) (devices ?sa ?ob ?nb 1 1 1 1) =
      Some (devices ?sb ?ob ?nb 2 1 2 1)"
    by (subst handlers_turn [OF meet_run [OF assms(1-3)] refl _ refl]) (simp_all add: phase_defs said_defs eval_nat_numeral)
  have t5: "steps ?step (map Client_does (new_process json gn)) (devices ?sb ?ob ?nb 2 1 2 1) = Some (devices ?sb ?ob ?nc 2 1 2 2)"
    by (subst new_turn [OF new_process_run [OF assms(8-10)] refl]) (simp_all add: phase_defs said_defs eval_nat_numeral)
  have t6: "steps ?step (map Server_does (map Client_does (old_process gx))) (devices ?sb ?ob ?nc 2 1 2 2) =
      Some (devices ?sb ?oc ?nc 2 2 2 2)"
    by (subst existing_turn [OF old_process_run [OF assms(11,12)] refl]) (simp_all add: phase_defs said_defs eval_nat_numeral)
  have t7: "steps ?step (map Server_does (map Server_does (share_phase g rnd pick))) (devices ?sb ?oc ?nc 2 2 2 2) =
      Some (devices ?sc ?oc ?nc 3 2 2 2)"
    by (subst handlers_turn [OF share_run [OF fresh assms(4-7)] refl _ refl]) (simp_all add: phase_defs said_defs eval_nat_numeral)
  have t8: "steps ?step (map Client_does (new_stored md)) (devices ?sc ?oc ?nc 3 2 2 2) = Some (devices ?sc ?oc ?nd 3 2 2 3)"
    by (subst new_turn [OF new_stored_run refl]) (simp_all add: phase_defs said_defs eval_nat_numeral)
  have t9: "steps ?step (map Server_does (map Server_does (new_done_phase rnd))) (devices ?sc ?oc ?nd 3 2 2 3) =
      Some (devices ?sd ?oc ?nd 3 2 3 3)"
    by (subst handlers_turn [OF new_done_run [OF finished] refl _ refl]) (simp_all add: phase_defs said_defs eval_nat_numeral)
  have t10: "steps ?step (map Server_does (map Client_does old_end)) (devices ?sd ?oc ?nd 3 2 3 3) =
      Some (devices ?sd ?od ?nd 3 3 3 3)"
    by (subst existing_turn [OF old_end_run [of E w0 md new, unfolded append_assoc append_Cons append_Nil] refl]) (simp_all add: phase_defs said_defs eval_nat_numeral)
  have t11: "steps ?step (map Server_does (map Server_does (closing_phase rnd))) (devices ?sd ?od ?nd 3 3 3 3) =
      Some (devices ?se ?od ?nd 4 3 3 3)"
    by (subst handlers_turn [OF closing_run refl _ refl]) (simp_all add: phase_defs said_defs eval_nat_numeral)
  have t12: "steps ?step (map Client_does new_end) (devices ?se ?od ?nd 4 3 3 3) = Some (devices ?se ?od ?ne 4 3 3 4)"
    by (subst new_turn [OF new_end_run refl]) (simp_all add: phase_defs said_defs eval_nat_numeral)
  show ?thesis
    unfolding device_schedule_def start devices_end_def
    by (simp only: steps_append t1 t2 t3 t4 t5 t6 t7 t8 t9 t10 t11 t12 option.case)
qed

lemma device_schedule_fair:
  assumes "draw_ok rnd" and "lr_PublicKey gn = P" and "ev \<in> set (device_schedule new old ua device md fault pick json rnd g gn gx)"
  shows "wire_fair (register_port E cpw u w md) (conn_port E (Register_ops E cpw name dv) P) ev"
  using assms by (auto simp: device_schedule_def register_port_def accept_port_def existing_port_def conn_port_def
      new_greet_def new_process_def new_stored_def new_end_def ws_hear_def phases_fair)

end
