(* ===== verification/AddProperties.thy ===== *)
theory AddProperties
  imports DeviceRun
begin

text \<open>
  What the two multi-device handlers do to the vault, in every interleaving of their goroutines:
  the metadata of the existing device opens the user's wallet, the only change is that wallet
  with further party parameters, and it opens with the metadata that the new device is sent. With
  the two devices at the other ends of the connections, the wallet that the new device returns
  has the key of the one that is stored, and there is a run that registers the device.
\<close>

text \<open>C4: in every reachable state of the two multi-device handlers of a user, the only change of
  the database is that the wallet which the existing device's metadata opened has been replaced by
  the same wallet (share, key and address) with all the party parameters of the result which the
  library has reported to the one adder of the handlers added to its own: under the same metadata
  the vault decodes what its encoder made of that wallet. The metadata that the new device is sent
  is that one; no other user's wallet is touched; and the connection of the new device is closed
  normally only after the metadata was sent.\<close>

theorem devices_share_wallet:
  assumes "vault_ok d" and "aead_ok (en_aead E)" and "add_reach E cpw userId d st"
  shows "(ad_db st = d \<and> (\<forall>m \<in> set (rg_out (ad_reg st)). wm_Type m \<noteq> MetadataMessage) \<or>
          (\<exists>md w. opens E userId d md w \<and>
             (\<forall>m \<in> set (rg_out (ad_reg st)). wm_Type m = MetadataMessage \<longrightarrow> wm_Msg m = md) \<and>
             (ad_db st = d \<or>
              (\<exists>g merged. reported st g \<and> extended (en_lib E) w g merged \<and> vault_ok (ad_db st) \<and>
                 (\<forall>pick. RetrieveWallet (en_wallet E) (en_aead E) None pick (Some md) userId (ad_db st) =
                    Ret (read_back (en_wallet E) merged)))))) \<and>
         (\<forall>k key pick. k \<noteq> userId \<longrightarrow>
            RetrieveWallet (en_wallet E) (en_aead E) None pick key k (ad_db st) =
            RetrieveWallet (en_wallet E) (en_aead E) None pick key k d) \<and>
         (rg_main (ad_reg st) = RM_closed \<longrightarrow>
            rg_serverDone (ad_reg st) \<and> (\<exists>m \<in> set (rg_out (ad_reg st)). wm_Type m = MetadataMessage))"
proof -
  have flow: "reg_flow (ad_reg st)" "out_flow st"
    using add_reach_flow [OF assms(3)] by (simp_all add: add_flow_def)
  note wallet = add_reach_wallet [OF assms(3)]
  have closed: "rg_main (ad_reg st) = RM_closed \<longrightarrow>
      rg_serverDone (ad_reg st) \<and> (\<exists>m \<in> set (rg_out (ad_reg st)). wm_Type m = MetadataMessage)"
    using flow by (simp add: reg_flow_def out_flow_def)
  show ?thesis
  proof (cases "rg_adder (ad_reg st)")
    case None
    with wallet flow(2) have "ad_db st = d" "\<forall>m \<in> set (rg_out (ad_reg st)). wm_Type m \<noteq> MetadataMessage"
      by (auto simp: add_wallet_def out_flow_def)
    with closed show ?thesis by simp
  next
    case (Some i)
    with wallet obtain w where w: "opens E userId d (rg_metadata (ad_reg st)) w"
        "ad_db st = d \<or> committed E (reported st) userId d (rg_metadata (ad_reg st)) w (ad_db st)"
      by (auto simp: add_wallet_def)
    have "\<forall>m \<in> set (rg_out (ad_reg st)). wm_Type m = MetadataMessage \<longrightarrow> wm_Msg m = rg_metadata (ad_reg st)"
      using flow(2) by (simp add: out_flow_def)
    moreover have "ad_db st = d \<or> (\<exists>g merged. reported st g \<and> extended (en_lib E) w g merged \<and> vault_ok (ad_db st) \<and>
        (\<forall>pick. RetrieveWallet (en_wallet E) (en_aead E) None pick (Some (rg_metadata (ad_reg st))) userId (ad_db st) =
           Ret (read_back (en_wallet E) merged)))"
      using w(2) committed_outcome(1) [OF assms(1) opens_known [OF w(1)] _ assms(2), where R = "reported st"] by blast
    moreover have "\<forall>k key pick. k \<noteq> userId \<longrightarrow>
        RetrieveWallet (en_wallet E) (en_aead E) None pick key k (ad_db st) =
        RetrieveWallet (en_wallet E) (en_aead E) None pick key k d"
      using w(2) committed_outcome(2) [OF assms(1) opens_known [OF w(1)], where R = "reported st"] by metis
    ultimately show ?thesis using w(1) closed by blast
  qed
qed

text \<open>C1: two devices and the handlers of one user, every order of their steps, every failure of a
  read or write: when the library gives the new device the public key of the user's wallet and
  \<open>RegisterDevice\<close> returns a wallet, then no error is returned, the wallet has that key and its
  address, and the metadata that is returned opens, in the server's vault, what the encoder made of
  the user's wallet with all the party parameters of the result that the library has reported to
  the adder, with the same share, key and address: the server has stored it before the new device
  was told that everything is done.\<close>

theorem new_device_shares_wallet:
  assumes "vault_ok d" and "aead_ok (en_aead E)" and "\<forall>w. opens E u d (oc_metadata oc) w \<longrightarrow> NewPubkey (dr_Pubkey w) = Inr \<lparr>pk_X = GetX (en_lib E) P, pk_Y = GetY (en_lib E) P\<rparr>"
    and "wire_reach (register_port E cpw u w0 md0) (conn_port E (Register_ops E cpw peerID device) P)
           (devices_start d w0 peerID) p"
    and "cn_returned (wi_client p) = Some oc" and "oc_result oc = Some w'"
  shows "oc_err oc = None \<and> has_key (en_lib E) P w' \<and>
         (\<exists>w g merged. opens E u d (oc_metadata oc) w \<and> reported (wi_server (wi_server p)) g \<and>
            extended (en_lib E) w g merged \<and> dr_Pubkey merged = dr_Pubkey w' \<and> dr_Address merged = dr_Address w' \<and>
            RetrieveWallet (en_wallet E) (en_aead E) None pick (Some (oc_metadata oc)) u (ad_db (wi_server (wi_server p))) =
              Ret (read_back (en_wallet E) merged))"
proof -
  obtain up down seen where k: "add_keeps E u d up (wi_server (wi_server p))"
    "prefix up (cn_out (wi_client (wi_server p)))" "existing_told seen (wi_client (wi_server p))"
    "prefix seen (ac_out (ad_acc (wi_server (wi_server p))))"
    "prefix down (rg_out (ad_reg (wi_server (wi_server p))))" "new_keeps E P down (wi_client p)"
    by (rule devices_know [OF assms(4)])
  have "metadata_first down"
    using k(1,5) by (auto simp: add_keeps_def told_def intro: metadata_first_prefix)
  with k(6) assms(5,6) have new: "has_type ExistingDeviceDoneMessage down" "oc_metadata oc \<in> sent_metadata down"
      "oc_err oc = None" "has_key (en_lib E) P w'"
    by (auto simp: new_keeps_def new_told_def returns_key_def wallet_done_def)
  obtain w where w: "opens E u d (oc_metadata oc) w"
      "stored E (reported (wi_server (wi_server p))) u d (oc_metadata oc) (ad_db (wi_server (wi_server p))) w"
    by (rule told_stored [OF k(1-5) new(1,2)])
  from w(2) obtain g merged rnd i peer ua v where m: "reported (wi_server (wi_server p)) g" "extended (en_lib E) w g merged"
      "draw_ok rnd"
      "VaultAddPeer (en_wallet E) (en_aead E) rnd i (Some (oc_metadata oc)) u peer ua merged d =
         (Inr v, ad_db (wi_server (wi_server p)))"
    unfolding stored_def by blast
  have "RetrieveWallet (en_wallet E) (en_aead E) None pick (Some (oc_metadata oc)) u (ad_db (wi_server (wi_server p))) =
      Ret (read_back (en_wallet E) merged)"
    using VaultAddPeer_reads [OF assms(1) m(3) assms(2) opens_known [OF w(1)]] m(4) by simp
  moreover have "dr_Pubkey merged = dr_Pubkey w' \<and> dr_Address merged = dr_Address w'"
    using m(2) new(4) assms(3) w(1) by (fastforce simp: extended_def with_parties_def has_key_def)
  ultimately show ?thesis using new(3,4) w(1) m(1,2) by simp blast
qed

text \<open>C15: when the metadata of the existing device opens the user's wallet, the actors of the
  three parties can be made, the library gives each a result that can be post-processed, the new
  device can read the public wallet, and the merged wallet can be stored, then there is a schedule
  of the two connections that runs everybody to the normal end: both handlers close, the merged
  wallet is stored, \<open>AcceptDevice\<close> returns without an error and \<open>RegisterDevice\<close> returns the new
  device's wallet with the metadata.\<close>

theorem new_device_registers:
  assumes "RetrieveWallet (en_wallet E) (en_aead E) fault pick (Some md) u d = Ret (Inr w)"
    and "NewServerAdd (en_lib E) (en_al E) new (dr_PeerID w0) (dr_Pubkey w) (dr_Share w) (dr_BKs w) = Inr a"
    and "Marshal cpw \<lparr>pw_PublicKey = dr_Pubkey w, pw_BKs = dr_BKs w\<rparr> = Inr json"
    and "GetOriginalWallet (en_lib E) a = Ret wo"
    and "ServerAdd_Process (en_lib E) (adder_completed a g) = Some (Ret (Inr wu))"
    and "MergeDkgResults wo wu = Some merged"
    and "VaultAddPeer (en_wallet E) (en_aead E) rnd pick (Some md) u new ua merged d = (Inr v, d')"
    and "Unmarshal cpw json = Inr pw"
    and "NewClientAdd (en_lib E) (en_al E) new (dr_PeerID w0) (pw_PublicKey pw) (pw_BKs pw) = Inr n"
    and "ClientAdd_Process (en_lib E) (new_completed n gn) = Some (Ret (Inr w'))"
    and "NewExistingClientAdd (en_lib E) (en_al E) new (dr_PeerID w0) (dr_Pubkey w0) (dr_Share w0) (dr_BKs w0) = Inr x"
    and "ExistingClientAdd_Process (en_lib E) (old_completed x gx) = Some (Ret (Inr wx))"
    and "draw_ok rnd" and "lr_PublicKey gn = P"
  shows "\<exists>p. wire_reach (register_port E cpw u w0 md) (conn_port E (Register_ops E cpw new device) P) (devices_start d w0 new) p \<and>
           cn_returned (wi_client p) = Some \<lparr>oc_result = Some w', oc_metadata = md, oc_err = None\<rparr> \<and>
           cn_returned (wi_client (wi_server p)) = Some oc_nil \<and>
           (let st = wi_server (wi_server p)
            in rg_main (ad_reg st) = RM_closed \<and> ac_main (ad_acc st) = AM_closed \<and>
               rg_errs (ad_reg st) = [] \<and> ac_errs (ad_acc st) = [] \<and> ad_db st = d' \<and> \<not> ad_crashed st)"
proof (intro exI conjI)
  show "wire_reach (register_port E cpw u w0 md) (conn_port E (Register_ops E cpw new device) P) (devices_start d w0 new)
      (devices_end new (dr_PeerID w0) device md json (adder_completed a g) d' (new_completed n gn) w' (old_completed x gx) wx)"
    by (rule wire_run_reach [OF device_run [OF assms(1-12)] _ wire_reach_init]) (intro ballI device_schedule_fair [OF assms(13,14)])
qed (simp_all add: devices_end_def devices_def closed_state_def conn_ended_def)

subsection \<open>A run\<close>

definition toy_add_result :: "int lib_result" where
  "toy_add_result = \<lparr>lr_PublicKey = 5, lr_Share = 1, lr_Bks = fmap_of_list [(''n'', \<lparr>bp_x = 3, bp_rank = 0\<rparr>)]\<rparr>"

text \<open>The wallet of the existing device.\<close>

lemma toy_adder:
  obtains a where "NewServerAdd toy_lib toy_alice ''n'' ''c'' (dr_Pubkey toy_wallet) (dr_Share toy_wallet) (dr_BKs toy_wallet) = Inr a"
    "\<not> ax_done (sa_service a)" "ax_pubkey (sa_service a) = toy_key" "ax_share (sa_service a) = ''1''"
    "sa_originalBKs a = toy_bks"
proof -
  have "party_BKs ''c'' toy_bks = toy_bks" by (rule fmap_ext) (simp add: party_BKs_def toy_bks_def serverID_def fmlookup_of_list)
  moreover have "ConvertDKGResult toy_lib toy_key ''1'' toy_bks =
      Inr \<lparr>lr_PublicKey = 5, lr_Share = 1, lr_Bks = fmmap (\<lambda>bk. the (bk_param bk)) toy_bks\<rparr>"
    using toy_bks_parse by (simp add: ConvertDKGResult_def toy_recovery toy_numbers toy_key_def)
  moreover have "NewPubkey (dr_Pubkey toy_wallet) = Inr toy_key" by (simp add: toy_recovery toy_key_def)
  ultimately have "\<exists>a. NewServerAdd toy_lib toy_alice ''n'' ''c'' (dr_Pubkey toy_wallet) (dr_Share toy_wallet)
      (dr_BKs toy_wallet) = Inr a"
    by (simp add: NewServerAdd_def AddExisting_Init_def NewServiceAddExisting_def Let_def toy_wallet_def toy_alice_def)
  then obtain a where a: "NewServerAdd toy_lib toy_alice ''n'' ''c'' (dr_Pubkey toy_wallet) (dr_Share toy_wallet)
      (dr_BKs toy_wallet) = Inr a" by blast
  from NewServerAdd_ok [OF a] \<open>NewPubkey (dr_Pubkey toy_wallet) = Inr toy_key\<close> that [OF a] show ?thesis
    by (auto simp: toy_wallet_def)
qed

lemma toy_peer_stored:
  assumes "vault_ok d" and "known d ''u''"
  shows "\<exists>d'. VaultAddPeer toy_wallet_codec toy_aead toy_draw 0 (Some toy_metadata) ''u'' ''n'' ''ua'' m d = (Inr (), d')"
proof (cases "VaultAddPeer toy_wallet_codec toy_aead toy_draw 0 (Some toy_metadata) ''u'' ''n'' ''ua'' m d")
  case (Pair r d')
  obtain ct nonce where "encryptAES toy_aead (dw_nonce toy_draw) (toy_text m) (replicate 32 (CHR ''k'')) = Inr (nonce, ct)"
    by (auto simp: encryptAES_def NewCipher_def toy_draw_def generateRandomBytes_def NonceSize_def)
  moreover obtain x d2 where q: "AddPeerQuery 0 ''ua'' ''n'' ''u'' ct nonce d = (x, d2)" by fastforce
  moreover from AddPeer_query [OF assms q] obtain v where "x = Inr v" by blast
  ultimately show ?thesis
    using Pair by (auto simp: VaultAddPeer_def toy_metadata_def toy_draw_def run_query_def)
qed

lemma toy_merge:
  assumes "ax_pubkey (sa_service a) = toy_key" and "ax_share (sa_service a) = ''1''" and "vault_ok d" and "known d ''u''"
  shows "\<exists>wo wu m d'. GetOriginalWallet toy_lib a = Ret wo \<and> ServerAdd_Process toy_lib (adder_completed a toy_add_result) = Some (Ret (Inr wu)) \<and>
     MergeDkgResults wo wu = Some m \<and>
     VaultAddPeer toy_wallet_codec toy_aead toy_draw 0 (Some toy_metadata) ''u'' ''n'' ''ua'' m d = (Inr (), d')"
proof -
  obtain addr where addr: "GetAddress toy_lib toy_key = Ret addr"
    by (simp add: toy_key_def GetAddress_def GetECDSA_def PubkeyToAddress_def FromECDSAPub_def ec_Marshal_def
        toy_lib_def FillBytes_def slice_from_1_def)
  let ?w = "\<lambda>bks. \<lparr>dr_Pubkey = GetStr toy_key, dr_BKs = bks, dr_Share = ''1'', dr_Address = AddressHex toy_lib addr,
      dr_PeerID = serverID\<rparr>" and ?news = "fmmap bk_text (lr_Bks toy_add_result)"
  have key: "\<lparr>pk_X = 5, pk_Y = 6\<rparr> = toy_key" by (simp add: toy_key_def)
  have one: "big_String 1 = ''1''" by code_simp
  have "GetOriginalWallet toy_lib a = Ret (?w (sa_originalBKs a))"
    using assms(1,2) addr by (simp add: GetOriginalWallet_def Let_def toy_key_def)
  moreover have "GetX toy_lib 5 = 5" "GetY toy_lib 5 = 6" by (simp_all add: toy_lib_def)
  then have "ServerAdd_Process toy_lib (adder_completed a toy_add_result) = Some (Ret (Inr (?w ?news)))"
    using addr key one by (simp add: ServerAdd_Process_def adder_completed_def toy_add_result_def Let_def)
  moreover have "\<exists>m. MergeDkgResults (?w (sa_originalBKs a)) (?w ?news) = Some m"
    by (simp add: MergeDkgResults_def)
  ultimately show ?thesis using toy_peer_stored [OF assms(3,4)] by blast
qed

definition toy_old :: "(string, string list, int) ExistingClientAdd \<Rightarrow> bool" where
  "toy_old x \<longleftrightarrow> NewExistingClientAdd toy_lib toy_alice ''n'' (dr_PeerID toy_wallet) (dr_Pubkey toy_wallet) (dr_Share toy_wallet)
     (dr_BKs toy_wallet) = Inr x"

lemma toy_old_client: "\<exists>x. toy_old x"
proof -
  have "party_BKs ''c'' toy_bks = toy_bks" by (rule fmap_ext) (simp add: party_BKs_def toy_bks_def serverID_def fmlookup_of_list)
  moreover have "ConvertDKGResult toy_lib toy_key ''1'' toy_bks =
      Inr \<lparr>lr_PublicKey = 5, lr_Share = 1, lr_Bks = fmmap (\<lambda>bk. the (bk_param bk)) toy_bks\<rparr>"
    using toy_bks_parse by (simp add: ConvertDKGResult_def toy_recovery toy_numbers toy_key_def)
  moreover have "NewPubkey (dr_Pubkey toy_wallet) = Inr toy_key" by (simp add: toy_recovery toy_key_def)
  ultimately show ?thesis
    by (simp add: toy_old_def NewExistingClientAdd_def AddExisting_Init_def NewServiceAddExisting_def Let_def toy_wallet_def toy_alice_def)
qed

lemma toy_old_process: "\<exists>w. ExistingClientAdd_Process toy_lib (old_completed x toy_add_result) = Some (Ret (Inr w))"
  by (simp add: ExistingClientAdd_Process_def old_completed_def toy_add_result_def PostProcessResult_def Let_def
      GetAddress_def GetECDSA_def PubkeyToAddress_def FromECDSAPub_def ec_Marshal_def toy_lib_def FillBytes_def
      slice_from_1_def)

lemma toy_new_client:
  "\<exists>n. NewClientAdd toy_lib toy_alice ''n'' old (dr_Pubkey toy_wallet) toy_bks = Inr n"
proof -
  have "NewPubkey (dr_Pubkey toy_wallet) = Inr toy_key" by (simp add: toy_recovery toy_key_def)
  moreover have "GetECPoint toy_lib toy_key = Inr 5" by (simp add: toy_key_def toy_recovery)
  ultimately show ?thesis by (simp add: NewClientAdd_def AddNew_Init_def NewServiceAddNew_def Let_def)
qed

lemma toy_new_process: "\<exists>w. ClientAdd_Process toy_lib (new_completed n toy_add_result) = Some (Ret (Inr w))"
  by (simp add: ClientAdd_Process_def new_completed_def toy_add_result_def PostProcessResult_def Let_def
      GetAddress_def GetECDSA_def PubkeyToAddress_def FromECDSAPub_def ec_Marshal_def toy_lib_def FillBytes_def
      slice_from_1_def)

text \<open>Everything that a run needs.\<close>

lemma toy_device_facts:
  obtains a wo wu m d' n w' x wx where
    "RetrieveWallet (en_wallet toy_env) (en_aead toy_env) None 0 (Some toy_metadata) ''u'' toy_db = Ret (Inr toy_wallet)"
    "NewServerAdd (en_lib toy_env) (en_al toy_env) ''n'' (dr_PeerID toy_wallet) (dr_Pubkey toy_wallet) (dr_Share toy_wallet)
       (dr_BKs toy_wallet) = Inr a"
    "Marshal toy_public \<lparr>pw_PublicKey = dr_Pubkey toy_wallet, pw_BKs = dr_BKs toy_wallet\<rparr> = Inr ''p''"
    "GetOriginalWallet (en_lib toy_env) a = Ret wo"
    "ServerAdd_Process (en_lib toy_env) (adder_completed a toy_add_result) = Some (Ret (Inr wu))"
    "MergeDkgResults wo wu = Some m"
    "VaultAddPeer (en_wallet toy_env) (en_aead toy_env) toy_draw 0 (Some toy_metadata) ''u'' ''n'' ''ua'' m toy_db = (Inr (), d')"
    "Unmarshal toy_public ''p'' = Inr \<lparr>pw_PublicKey = dr_Pubkey toy_wallet, pw_BKs = toy_bks\<rparr>"
    "NewClientAdd (en_lib toy_env) (en_al toy_env) ''n'' (dr_PeerID toy_wallet)
       (pw_PublicKey \<lparr>pw_PublicKey = dr_Pubkey toy_wallet, pw_BKs = toy_bks\<rparr>)
       (pw_BKs \<lparr>pw_PublicKey = dr_Pubkey toy_wallet, pw_BKs = toy_bks\<rparr>) = Inr n"
    "ClientAdd_Process (en_lib toy_env) (new_completed n toy_add_result) = Some (Ret (Inr w'))"
    "NewExistingClientAdd (en_lib toy_env) (en_al toy_env) ''n'' (dr_PeerID toy_wallet) (dr_Pubkey toy_wallet) (dr_Share toy_wallet)
       (dr_BKs toy_wallet) = Inr x"
    "ExistingClientAdd_Process (en_lib toy_env) (old_completed x toy_add_result) = Some (Ret (Inr wx))"
    "draw_ok toy_draw" "lr_PublicKey toy_add_result = 5"
proof -
  have peer: "dr_PeerID toy_wallet = ''c''" by (simp add: toy_wallet_def)
  obtain a where a: "NewServerAdd toy_lib toy_alice ''n'' ''c'' (dr_Pubkey toy_wallet) (dr_Share toy_wallet) (dr_BKs toy_wallet) = Inr a"
    "ax_pubkey (sa_service a) = toy_key" "ax_share (sa_service a) = ''1''" by (rule toy_adder)
  obtain wo wu m d' where w: "GetOriginalWallet toy_lib a = Ret wo"
     "ServerAdd_Process toy_lib (adder_completed a toy_add_result) = Some (Ret (Inr wu))" "MergeDkgResults wo wu = Some m"
     "VaultAddPeer toy_wallet_codec toy_aead toy_draw 0 (Some toy_metadata) ''u'' ''n'' ''ua'' m toy_db = (Inr (), d')"
    using toy_merge [OF a(2,3) toy_db_known] by blast
  obtain n where n: "NewClientAdd toy_lib toy_alice ''n'' ''c'' (dr_Pubkey toy_wallet) toy_bks = Inr n"
    using toy_new_client by blast
  obtain w' where w': "ClientAdd_Process toy_lib (new_completed n toy_add_result) = Some (Ret (Inr w'))"
    using toy_new_process by blast
  obtain x where x: "toy_old x" using toy_old_client by blast
  obtain wx where wx: "ExistingClientAdd_Process toy_lib (old_completed x toy_add_result) = Some (Ret (Inr wx))"
    using toy_old_process by blast
  show ?thesis
    by (rule that [of a wo wu m d' n w' x wx])
      (use a w n w' x wx peer in \<open>simp_all add: toy_retrieve toy_public_def toy_old_def toy_draw_ok toy_add_result_def\<close>)
qed

theorem new_device_registers_witness:
  "\<exists>p w'. wire_reach (register_port toy_env toy_public ''u'' toy_wallet toy_metadata)
       (conn_port toy_env (Register_ops toy_env toy_public ''n'' ''web'') 5) (devices_start toy_db toy_wallet ''n'') p \<and>
     cn_returned (wi_client p) = Some \<lparr>oc_result = Some w', oc_metadata = toy_metadata, oc_err = None\<rparr>"
proof -
  obtain a wo wu m d' n w' x wx where f:
    "RetrieveWallet (en_wallet toy_env) (en_aead toy_env) None 0 (Some toy_metadata) ''u'' toy_db = Ret (Inr toy_wallet)"
    "NewServerAdd (en_lib toy_env) (en_al toy_env) ''n'' (dr_PeerID toy_wallet) (dr_Pubkey toy_wallet) (dr_Share toy_wallet)
       (dr_BKs toy_wallet) = Inr a"
    "Marshal toy_public \<lparr>pw_PublicKey = dr_Pubkey toy_wallet, pw_BKs = dr_BKs toy_wallet\<rparr> = Inr ''p''"
    "GetOriginalWallet (en_lib toy_env) a = Ret wo"
    "ServerAdd_Process (en_lib toy_env) (adder_completed a toy_add_result) = Some (Ret (Inr wu))"
    "MergeDkgResults wo wu = Some m"
    "VaultAddPeer (en_wallet toy_env) (en_aead toy_env) toy_draw 0 (Some toy_metadata) ''u'' ''n'' ''ua'' m toy_db = (Inr (), d')"
    "Unmarshal toy_public ''p'' = Inr \<lparr>pw_PublicKey = dr_Pubkey toy_wallet, pw_BKs = toy_bks\<rparr>"
    "NewClientAdd (en_lib toy_env) (en_al toy_env) ''n'' (dr_PeerID toy_wallet)
       (pw_PublicKey \<lparr>pw_PublicKey = dr_Pubkey toy_wallet, pw_BKs = toy_bks\<rparr>)
       (pw_BKs \<lparr>pw_PublicKey = dr_Pubkey toy_wallet, pw_BKs = toy_bks\<rparr>) = Inr n"
    "ClientAdd_Process (en_lib toy_env) (new_completed n toy_add_result) = Some (Ret (Inr w'))"
    "NewExistingClientAdd (en_lib toy_env) (en_al toy_env) ''n'' (dr_PeerID toy_wallet) (dr_Pubkey toy_wallet) (dr_Share toy_wallet)
       (dr_BKs toy_wallet) = Inr x"
    "ExistingClientAdd_Process (en_lib toy_env) (old_completed x toy_add_result) = Some (Ret (Inr wx))"
    "draw_ok toy_draw" "lr_PublicKey toy_add_result = 5"
    by (rule toy_device_facts)
  from new_device_registers [OF f] show ?thesis by blast
qed

text \<open>The run, and the part of it up to the store that the handlers make on their own.\<close>

lemma toy_runs:
  obtains st p w' where "add_reach toy_env toy_public ''u'' toy_db st"
    "ws_message MetadataMessage toy_metadata \<in> set (rg_out (ad_reg st))"
    "wire_reach (register_port toy_env toy_public ''u'' toy_wallet toy_metadata)
       (conn_port toy_env (Register_ops toy_env toy_public ''n'' ''web'') 5) (devices_start toy_db toy_wallet ''n'') p"
    "cn_returned (wi_client p) = Some \<lparr>oc_result = Some w', oc_metadata = toy_metadata, oc_err = None\<rparr>"
    "\<exists>a d'. st = shared_state ''n'' (dr_PeerID toy_wallet) ''web'' toy_metadata ''p'' a d'"
proof (rule toy_device_facts)
  let ?o = "dr_PeerID toy_wallet" and ?pw = "\<lparr>pw_PublicKey = dr_Pubkey toy_wallet, pw_BKs = toy_bks\<rparr>"
  fix a wo wu m d' n w' x wx
  assume f: "RetrieveWallet (en_wallet toy_env) (en_aead toy_env) None 0 (Some toy_metadata) ''u'' toy_db = Ret (Inr toy_wallet)"
    "NewServerAdd (en_lib toy_env) (en_al toy_env) ''n'' ?o (dr_Pubkey toy_wallet) (dr_Share toy_wallet) (dr_BKs toy_wallet) = Inr a"
    "Marshal toy_public \<lparr>pw_PublicKey = dr_Pubkey toy_wallet, pw_BKs = dr_BKs toy_wallet\<rparr> = Inr ''p''"
    "GetOriginalWallet (en_lib toy_env) a = Ret wo"
    "ServerAdd_Process (en_lib toy_env) (adder_completed a toy_add_result) = Some (Ret (Inr wu))"
    "MergeDkgResults wo wu = Some m"
    "VaultAddPeer (en_wallet toy_env) (en_aead toy_env) toy_draw 0 (Some toy_metadata) ''u'' ''n'' ''ua'' m toy_db = (Inr (), d')"
    "Unmarshal toy_public ''p'' = Inr ?pw"
    "NewClientAdd (en_lib toy_env) (en_al toy_env) ''n'' ?o (pw_PublicKey ?pw) (pw_BKs ?pw) = Inr n"
    "ClientAdd_Process (en_lib toy_env) (new_completed n toy_add_result) = Some (Ret (Inr w'))"
    "NewExistingClientAdd (en_lib toy_env) (en_al toy_env) ''n'' ?o (dr_Pubkey toy_wallet) (dr_Share toy_wallet)
       (dr_BKs toy_wallet) = Inr x"
    "ExistingClientAdd_Process (en_lib toy_env) (old_completed x toy_add_result) = Some (Ret (Inr wx))"
    "draw_ok toy_draw" "lr_PublicKey toy_add_result = 5"
  have fresh: "\<not> ax_done (sa_service a)" using NewServerAdd_ok [OF f(2)] by blast
  have "add_reach toy_env toy_public ''u'' toy_db (met_state ''n'' ?o ''ua'' toy_db)"
    by (rule add_run_reach [OF peers_run add_reach_init]) (use phases_fair(1) in blast)
  then have "add_reach toy_env toy_public ''u'' toy_db (started_state ''n'' ?o ''ua'' ''web'' toy_metadata ''p'' a toy_db)"
    by (rule add_run_reach [OF meet_run [OF f(1-3)]]) (use phases_fair(2) in blast)
  then have st: "add_reach toy_env toy_public ''u'' toy_db
      (shared_state ''n'' ?o ''web'' toy_metadata ''p'' (adder_completed a toy_add_result) d')"
    by (rule add_run_reach [OF share_run [OF fresh f(4-7)]]) (use phases_fair(3) f(13) in blast)
  have p: "wire_reach (register_port toy_env toy_public ''u'' toy_wallet toy_metadata)
      (conn_port toy_env (Register_ops toy_env toy_public ''n'' ''web'') 5) (devices_start toy_db toy_wallet ''n'')
      (devices_end ''n'' ?o ''web'' toy_metadata ''p'' (adder_completed a toy_add_result) d' (new_completed n toy_add_result)
         w' (old_completed x toy_add_result) wx)"
    by (rule wire_run_reach [OF device_run [OF f(1-12)] _ wire_reach_init]) (intro ballI device_schedule_fair [OF f(13,14)])
  show thesis
    by (rule that [OF st _ p]) (auto simp: shared_state_def running_def devices_end_def devices_def conn_ended_def)
qed

theorem devices_share_wallet_witness:
  "\<exists>st md w. add_reach toy_env toy_public ''u'' toy_db st \<and> opens toy_env ''u'' toy_db md w \<and>
     (\<exists>m \<in> set (rg_out (ad_reg st)). wm_Type m = MetadataMessage) \<and>
     (\<forall>m \<in> set (rg_out (ad_reg st)). wm_Type m = MetadataMessage \<longrightarrow> wm_Msg m = md)"
proof -
  obtain st where reach: "add_reach toy_env toy_public ''u'' toy_db st"
      "ws_message MetadataMessage toy_metadata \<in> set (rg_out (ad_reg st))" by (rule toy_runs)
  have out: "\<exists>m \<in> set (rg_out (ad_reg st)). wm_Type m = MetadataMessage"
    using reach(2) by (rule rev_bexI) simp
  have "aead_ok (en_aead toy_env)" by (simp add: toy_aead_ok)
  with devices_share_wallet [OF toy_db_known(1) this reach(1)] out obtain md w where
      "opens toy_env ''u'' toy_db md w"
      "\<forall>m \<in> set (rg_out (ad_reg st)). wm_Type m = MetadataMessage \<longrightarrow> wm_Msg m = md" by blast
  with reach out show ?thesis by blast
qed

lemma toy_opens: "opens toy_env ''u'' toy_db toy_metadata w \<Longrightarrow> w = toy_wallet"
proof -
  assume "opens toy_env ''u'' toy_db toy_metadata w"
  then obtain fault pick where w: "RetrieveWallet toy_wallet_codec toy_aead fault pick (Some toy_metadata) ''u'' toy_db = Ret (Inr w)"
    by (auto simp: opens_def)
  then have "fault = None" by (cases fault) (simp_all add: RetrieveWallet_def)
  with w toy_retrieve [of pick] show ?thesis by simp
qed

theorem new_device_shares_wallet_witness:
  "\<exists>p w' g merged. wire_reach (register_port toy_env toy_public ''u'' toy_wallet toy_metadata)
       (conn_port toy_env (Register_ops toy_env toy_public ''n'' ''web'') 5) (devices_start toy_db toy_wallet ''n'') p \<and>
     cn_returned (wi_client p) = Some \<lparr>oc_result = Some w', oc_metadata = toy_metadata, oc_err = None\<rparr> \<and>
     extended toy_lib toy_wallet g merged \<and> dr_Pubkey merged = dr_Pubkey w' \<and>
     RetrieveWallet toy_wallet_codec toy_aead None 0 (Some toy_metadata) ''u'' (ad_db (wi_server (wi_server p))) = Ret (Inr merged)"
proof -
  obtain p w' where run: "wire_reach (register_port toy_env toy_public ''u'' toy_wallet toy_metadata)
      (conn_port toy_env (Register_ops toy_env toy_public ''n'' ''web'') 5) (devices_start toy_db toy_wallet ''n'') p"
    "cn_returned (wi_client p) = Some \<lparr>oc_result = Some w', oc_metadata = toy_metadata, oc_err = None\<rparr>"
    by (rule toy_runs)
  have "NewPubkey (dr_Pubkey w) = Inr \<lparr>pk_X = GetX toy_lib 5, pk_Y = GetY toy_lib 5\<rparr>"
    if "opens toy_env ''u'' toy_db toy_metadata w" for w
    using toy_opens [OF that] by (simp add: toy_recovery toy_lib_def)
  then have key: "\<forall>w. opens toy_env ''u'' toy_db (oc_metadata \<lparr>oc_result = Some w', oc_metadata = toy_metadata, oc_err = None\<rparr>) w \<longrightarrow>
      NewPubkey (dr_Pubkey w) = Inr \<lparr>pk_X = GetX (en_lib toy_env) 5, pk_Y = GetY (en_lib toy_env) 5\<rparr>"
    by simp
  have ae: "aead_ok (en_aead toy_env)" by (simp add: toy_aead_ok)
  from new_device_shares_wallet [OF toy_db_known(1) ae key run, of w' 0] obtain w g merged where
      "opens toy_env ''u'' toy_db toy_metadata w" "extended toy_lib w g merged" "dr_Pubkey merged = dr_Pubkey w'"
      "RetrieveWallet toy_wallet_codec toy_aead None 0 (Some toy_metadata) ''u'' (ad_db (wi_server (wi_server p))) = Ret (Inr merged)"
    by (auto simp only: toy_env_simps outcome.simps toy_read_back simp_thms)
  with run toy_opens show ?thesis by blast
qed

end
