(* ===== verification/AddCrash.thy ===== *)
theory AddCrash
  imports AddProperties
begin

text \<open>
  The panics of the two multi-device handlers of \<open>server/tss_add.go\<close>. A panic in a goroutine of a
  handler ends the whole server process. The pointers of both sides refer to an adder that is
  complete whenever they are used by a sender, so what is left are messages that come too early or
  twice, a stored nonce of the wrong length, and a library that reports its end twice.
\<close>

subsection \<open>Complete adders\<close>

definition adder_wired :: "('m, 'e, 'pt) ServerAdd \<Rightarrow> bool" where
  "adder_wired a \<longleftrightarrow>
     (\<exists>pm. ax_pm (sa_service a) = Some pm \<and> pm_handle pm \<noteq> None) \<and> ax_adder (sa_service a) \<noteq> None"

lemma adder_wired_new: "NewServerAdd lib al new old pk share bks = Inr a \<Longrightarrow> adder_wired a"
  using NewServerAdd_ok [of lib al new old pk share bks a] by (auto simp: adder_wired_def)

lemma adder_wired_emit: "adder_wired a \<Longrightarrow> adder_wired (ServerAdd_emit a x)"
  by (auto simp: adder_wired_def ServerAdd_emit_def pm_feed_def)

lemma adder_wired_next:
  "adder_wired a \<Longrightarrow> \<exists>r b. ServerAdd_GetNextMessageToSend al c a = Ret (r, b) \<and> adder_wired b"
  by (auto simp: adder_wired_def ServerAdd_GetNextMessageToSend_def case_prod_beta)

lemma adder_wired_turn:
  assumes "adder_wired a" and "TssSend_turn cj (ServerAdd_GetNextMessageToSend al c) t a = (u, b)"
  shows "adder_wired b \<and> (\<forall>m. u \<noteq> Crash m)"
proof -
  obtain r x where "ServerAdd_GetNextMessageToSend al c a = Ret (r, x)" "adder_wired x"
    using adder_wired_next [OF assms(1)] by blast
  with assms show ?thesis by (auto simp: TssSend_turn_def split: if_splits sum.splits)
qed

lemma adder_wired_handle:
  "adder_wired a \<Longrightarrow> \<exists>r b. ServerAdd_HandleMessage al (Some a) m = Ret (r, Some b) \<and> adder_wired b"
  by (auto simp: adder_wired_def ServerAdd_HandleMessage_def AdderGenericHandle_def deliver_def HandleMessage_def
      MustSend_def split: sum.splits prod.splits)

lemma adder_wired_change:
  "adder_wired a \<Longrightarrow> AddExisting_OnStateChanged g s (sa_service a) = Ret sv \<Longrightarrow> adder_wired (a\<lparr>sa_service := sv\<rparr>)"
  by (auto simp: adder_wired_def AddExisting_OnStateChanged_def AddExisting_close_def split: if_split_asm sum.split_asm)

lemma adder_change_panics:
  "AddExisting_OnStateChanged g s p = Panic m \<Longrightarrow> ax_done p \<and> final_state s"
  by (auto simp: AddExisting_OnStateChanged_def AddExisting_close_def final_state_def split: if_split_asm sum.split_asm)

subsection \<open>Pointers\<close>

definition reg_needs :: "register_state \<Rightarrow> bool" where
  "reg_needs r \<longleftrightarrow> rg_sender r = Sender_on \<or> rg_reader r \<in> {RR_offer, RR_stage} \<or>
     (\<exists>w. rg_reader r \<in> {RR_adder w, RR_pubkey w})"

definition acc_needs :: "accept_state \<Rightarrow> bool" where
  "acc_needs a \<longleftrightarrow> ac_sender a = Sender_on \<or> ac_reader a \<in> {AR_ack, AR_offer, AR_stage}"

definition add_held :: "('m, 'e, 'pt) add_state \<Rightarrow> bool" where
  "add_held st \<longleftrightarrow>
     (\<forall>a \<in> set (ad_heap st). adder_wired a) \<and>
     (\<forall>i. rg_adder (ad_reg st) = Some i \<or> ac_adder (ad_acc st) = Some i \<or> i \<in> set (lk_adder (ad_link st)) \<longrightarrow>
        i < length (ad_heap st)) \<and>
     (reg_needs (ad_reg st) \<longrightarrow> rg_adder (ad_reg st) \<noteq> None) \<and>
     (acc_needs (ad_acc st) \<longrightarrow> ac_adder (ad_acc st) \<noteq> None)"

text \<open>Most steps leave the adders and the pointers to them alone.\<close>

definition steady :: "('m, 'e, 'pt) add_state \<Rightarrow> ('m, 'e, 'pt) add_state \<Rightarrow> bool" where
  "steady st st' \<longleftrightarrow>
     ad_heap st' = ad_heap st \<and> set (lk_adder (ad_link st')) \<subseteq> set (lk_adder (ad_link st)) \<and>
     rg_adder (ad_reg st') = rg_adder (ad_reg st) \<and> ac_adder (ad_acc st') = ac_adder (ad_acc st) \<and>
     (reg_needs (ad_reg st') \<longrightarrow> reg_needs (ad_reg st)) \<and> (acc_needs (ad_acc st') \<longrightarrow> acc_needs (ad_acc st)) \<and>
     ad_crashed st' = ad_crashed st"

text \<open>What a step has to show: the adders are still held, and if it crashed then for a known cause.\<close>

definition sound :: "bool \<Rightarrow> ('m, 'e, 'pt) add_state \<Rightarrow> ('m, 'e, 'pt) add_state \<Rightarrow> bool" where
  "sound cause st st' \<longleftrightarrow> add_held st \<longrightarrow> add_held st' \<and> (ad_crashed st' \<longrightarrow> ad_crashed st \<or> cause)"

lemma steady_held:
  assumes "steady st st'" and "add_held st"
  shows "add_held st'"
proof -
  from assms(1) have same: "ad_heap st' = ad_heap st" "rg_adder (ad_reg st') = rg_adder (ad_reg st)"
      "ac_adder (ad_acc st') = ac_adder (ad_acc st)" by (simp_all add: steady_def)
  have "set (lk_adder (ad_link st')) \<subseteq> set (lk_adder (ad_link st))"
      "reg_needs (ad_reg st') \<longrightarrow> reg_needs (ad_reg st)" "acc_needs (ad_acc st') \<longrightarrow> acc_needs (ad_acc st)"
    using assms(1) by (simp_all add: steady_def)
  with assms(2) show ?thesis unfolding add_held_def same by blast
qed

lemma steady_sound: "steady st st' \<Longrightarrow> sound cause st st'"
  using steady_held [of st st'] by (simp add: steady_def sound_def)

lemma steady_refl [simp]: "steady st st"
  by (simp add: steady_def)

lemma sound_steady: "sound cause st st1 \<Longrightarrow> steady st1 st' \<Longrightarrow> sound cause st st'"
  using steady_held [of st1 st'] by (simp add: steady_def sound_def)

lemma sound_crash: "cause \<Longrightarrow> sound cause st (add_crash st)"
  by (simp add: sound_def add_held_def add_crash_def)

lemmas move_defs =
  steady_def reg_needs_def acc_needs_def set_reg_def set_acc_def reg_goto_def acc_goto_def reg_say_def acc_say_def
  reg_main_goto_def acc_main_goto_def reg_return_def acc_return_def reg_report_def acc_report_def

lemma steady_reg_report: "reg_report err st = Some st' \<Longrightarrow> steady st st'"
  by (auto simp: move_defs split: option.split_asm)

lemma steady_acc_report: "acc_report err st = Some st' \<Longrightarrow> steady st st'"
  by (auto simp: move_defs split: option.split_asm)

text \<open>A call on an adder in the heap puts back a complete adder.\<close>

lemma adder_at_wired: "add_held st \<Longrightarrow> adder_at st p = Some a \<Longrightarrow> adder_wired a"
  by (auto simp: adder_at_def add_held_def split: option.split_asm if_split_asm)

lemma adder_at_held:
  "add_held st \<Longrightarrow> reg_needs (ad_reg st) \<Longrightarrow> adder_at st (rg_adder (ad_reg st)) \<noteq> None"
  "add_held st \<Longrightarrow> acc_needs (ad_acc st) \<Longrightarrow> adder_at st (ac_adder (ad_acc st)) \<noteq> None"
  by (auto simp: adder_at_def add_held_def)

lemma adder_found:
  "add_held st \<Longrightarrow> rg_adder (ad_reg st) = None \<or> adder_at st (rg_adder (ad_reg st)) \<noteq> None"
  "add_held st \<Longrightarrow> ac_adder (ad_acc st) = None \<or> adder_at st (ac_adder (ad_acc st)) \<noteq> None"
  by (auto simp: adder_at_def add_held_def split: option.split)

lemma put_adder_sound:
  assumes "adder_at st p = Some a" and "adder_wired a \<Longrightarrow> adder_wired b"
  shows "sound cause st (put_adder p (Some b) st)"
proof -
  from assms(1) obtain i where i: "p = Some i" "i < length (ad_heap st)"
    by (auto simp: adder_at_def split: option.split_asm if_split_asm)
  have "add_held (put_adder p (Some b) st)" if "add_held st"
  proof -
    have "adder_wired b" using assms(2) adder_at_wired [OF that assms(1)] .
    with that i show ?thesis by (auto simp: add_held_def put_adder_def dest!: set_update_subset_insert [THEN subsetD])
  qed
  with i show ?thesis by (simp add: sound_def put_adder_def)
qed

subsection \<open>The steps\<close>

lemma handle_at_sound:
  assumes "add_held st" and "p = None \<or> adder_at st p \<noteq> None"
  shows "handle_at E p msg st = Panic err_nil \<and> (decode_ws_ptr (en_msg E) msg = Inr None \<or> p = None) \<or>
    (\<exists>r st1. handle_at E p msg st = Ret (r, st1) \<and> sound cause st st1)"
proof (cases "decode_ws_ptr (en_msg E) msg")
  case (Inl err)
  have "sound cause st (put_adder p (adder_at st p) st)"
  proof (cases "adder_at st p")
    case None
    then show ?thesis by (simp add: put_adder_def sound_def split: option.split)
  next
    case (Some a)
    then show ?thesis by (simp add: put_adder_sound)
  qed
  with Inl show ?thesis by (simp add: handle_at_def handle_ws_tss_def)
next
  case (Inr m)
  show ?thesis
  proof (cases "m = None \<or> p = None")
    case True
    with Inr show ?thesis
      by (cases m) (auto simp: handle_at_def handle_ws_tss_def adder_at_def ServerAdd_HandleMessage_def)
  next
    case False
    with assms obtain a tm where a: "adder_at st p = Some a" "m = Some tm" by auto
    obtain r b where "ServerAdd_HandleMessage (en_al E) (Some a) tm = Ret (r, Some b)" "adder_wired b"
      using adder_wired_handle [OF adder_at_wired [OF assms(1) a(1)]] by blast
    with a Inr put_adder_sound [OF a(1), of b] show ?thesis by (simp add: handle_at_def handle_ws_tss_def)
  qed
qed

text \<open>The causes of a panic, event by event.\<close>

fun panic_cause ::
  "('m, 'e, 'pt, 'pl) env \<Rightarrow> string \<Rightarrow> ('m, 'pt) add_event \<Rightarrow> ('m, 'e, 'pt) add_state \<Rightarrow> bool" where
  "panic_cause E u (Ae_reg_read (ReadMsg msg w)) st \<longleftrightarrow>
     wm_Type msg = TssMessage \<and> (decode_ws_ptr (en_msg E) msg = Inr None \<or> rg_adder (ad_reg st) = None)"
| "panic_cause E u (Ae_acc_read (ReadMsg msg w)) st \<longleftrightarrow>
     wm_Type msg = TssMessage \<and> (decode_ws_ptr (en_msg E) msg = Inr None \<or> ac_adder (ad_acc st) = None)"
| "panic_cause E u (Ae_reg_device fault pick w) st \<longleftrightarrow>
     panics (RetrieveWallet (en_wallet E) (en_aead E) fault pick (Some (rg_metadata (ad_reg st))) u (ad_db st))"
| "panic_cause E u Ae_acc_signal st \<longleftrightarrow> ac_reader (ad_acc st) = AR_close \<and> ac_serverDone (ad_acc st)"
| "panic_cause E u (Ae_state g s) st \<longleftrightarrow>
     (\<exists>a. adder_at st (ac_adder (ad_acc st)) = Some a \<and> final_state s \<and> ax_done (sa_service a))"
| "panic_cause E u _ st \<longleftrightarrow> False"

lemma tss_types: "TssMessage \<noteq> PeerIdBroadcastMessage" "TssMessage \<noteq> DeviceMessage" "TssMessage \<noteq> MetadataMessage"
  by (simp_all add: mtype_defs)

lemma reg_tss_sound:
  assumes "reg_on_tss E msg st = Some st'" and "wm_Type msg = TssMessage"
  shows "sound (panic_cause E u (Ae_reg_read (ReadMsg msg w)) st) st st'"
proof (cases "add_held st")
  case True
  from handle_at_sound [OF True adder_found(1) [OF True], of E msg] show ?thesis
    using assms by (fastforce simp: reg_on_tss_def intro: sound_crash sound_steady steady_reg_report steady_sound
        split: if_split_asm sum.split_asm)
qed (simp add: sound_def)

lemma acc_tss_sound:
  assumes "acc_on_tss E msg st = Some st'" and "wm_Type msg = TssMessage"
  shows "sound (panic_cause E u (Ae_acc_read (ReadMsg msg w)) st) st st'"
proof (cases "add_held st")
  case True
  from handle_at_sound [OF True adder_found(2) [OF True], of E msg] show ?thesis
    using assms by (fastforce simp: acc_on_tss_def intro: sound_crash sound_steady steady_acc_report steady_sound
        split: if_split_asm sum.split_asm)
qed (simp add: sound_def)

lemma reg_read_sound:
  assumes "reg_read E ev st = Some st'"
  shows "sound (panic_cause E u (Ae_reg_read ev) st) st st'"
proof (cases "\<exists>msg w. ev = ReadMsg msg w \<and> wm_Type msg = TssMessage")
  case True
  then obtain msg w where msg: "ev = ReadMsg msg w" "wm_Type msg = TssMessage" by blast
  with assms have "reg_on_tss E msg st = Some st'" by (simp add: reg_read_def tss_types split: if_split_asm)
  from reg_tss_sound [OF this msg(2)] show ?thesis unfolding msg(1) .
next
  case False
  with assms have "steady st st'"
    by (auto simp: reg_read_def reg_read_err_def reg_on_peer_def reg_on_device_def reg_on_other_def move_defs
        split: if_split_asm read_event.split_asm option.split_asm sum.split_asm)
  then show ?thesis by (rule steady_sound)
qed

lemma acc_read_sound:
  assumes "acc_read E ev st = Some st'"
  shows "sound (panic_cause E u (Ae_acc_read ev) st) st st'"
proof (cases "\<exists>msg w. ev = ReadMsg msg w \<and> wm_Type msg = TssMessage")
  case True
  then obtain msg w where msg: "ev = ReadMsg msg w" "wm_Type msg = TssMessage" by blast
  with assms have "acc_on_tss E msg st = Some st'" by (simp add: acc_read_def tss_types split: if_split_asm)
  from acc_tss_sound [OF this msg(2)] show ?thesis unfolding msg(1) .
next
  case False
  with assms have "steady st st'"
    by (auto simp: acc_read_def acc_read_err_def acc_on_peer_def acc_on_metadata_def acc_on_step_def acc_on_other_def
        move_defs split: if_split_asm read_event.split_asm option.split_asm sum.split_asm)
  then show ?thesis by (rule steady_sound)
qed

text \<open>The steps that only move.\<close>

lemma steady_steps:
  "reg_peer_step ua w st = Some st' \<Longrightarrow> steady st st'"
  "reg_start st = Some st' \<Longrightarrow> steady st st'"
  "acc_peer_step w st = Some st' \<Longrightarrow> steady st st'"
  "acc_start st = Some st' \<Longrightarrow> steady st st'"
  by (auto simp: reg_peer_step_def reg_start_def acc_peer_step_def acc_start_def move_defs
      split: reg_reader.split_asm acc_reader.split_asm option.split_asm sum.split_asm if_split_asm)

lemma steady_reg_main: "reg_main_step E w st = Some st' \<Longrightarrow> steady st st'"
  by (auto simp: reg_main_step_def reg_check_def reg_main_write_def move_defs
      split: reg_main.split_asm option.split_asm sum.split_asm prod.split_asm if_split_asm)

lemma steady_acc_main: "acc_main_step E u rnd pick w st = Some st' \<Longrightarrow> steady st st'"
  by (auto simp: acc_main_step_def acc_original_def acc_process_def acc_store_def acc_check_def acc_write_def move_defs
      split: acc_main.split_asm option.split_asm sum.split_asm prod.split_asm go.split_asm if_split_asm)

lemma acc_signal_sound:
  assumes "acc_signal_step st = Some st'"
  shows "sound (panic_cause E u Ae_acc_signal st) st st'"
proof (cases "ac_reader (ad_acc st) = AR_close \<and> ac_serverDone (ad_acc st)")
  case True
  with assms have "st' = add_crash st" by (simp add: acc_signal_step_def)
  with True show ?thesis by (simp add: sound_crash)
next
  case False
  with assms have "steady st st'"
    by (auto simp: acc_signal_step_def move_defs split: acc_reader.split_asm option.split_asm if_split_asm)
  then show ?thesis by (rule steady_sound)
qed

lemma acc_metadata_sound:
  assumes "acc_metadata_step w st = Some st'"
  shows "sound cause st st'"
proof (cases "ac_reader (ad_acc st) = AR_adder")
  case True
  with assms obtain i q where i: "lk_adder (ad_link st) = i # q"
      "st' = set_acc (st\<lparr>ad_link := (ad_link st)\<lparr>lk_adder := q\<rparr>\<rparr>) ((ad_acc st)\<lparr>ac_adder := Some i, ac_reader := AR_ack\<rparr>)"
    by (auto simp: acc_metadata_step_def split: option.split_asm)
  then have "add_held st \<Longrightarrow> add_held st'" unfolding add_held_def by (simp add: set_acc_def)
  with i show ?thesis by (simp add: sound_def set_acc_def)
next
  case False
  with assms have "steady st st'"
    by (auto simp: acc_metadata_step_def move_defs
        split: acc_reader.split_asm option.split_asm sum.split_asm)
  then show ?thesis by (rule steady_sound)
qed

lemma make_adder_sound:
  assumes "reg_make_adder E u fault pick dv st = Some st'" and "rg_reader (ad_reg st) = RR_retrieve dv" and "add_flow st"
  shows "sound (panic_cause E u (Ae_reg_device fault pick w) st) st st'"
proof -
  have none: "rg_adder (ad_reg st) = None" using reg_facts(1) [OF assms(3)] assms(2) by auto
  consider "panics (RetrieveWallet (en_wallet E) (en_aead E) fault pick (Some (rg_metadata (ad_reg st))) u (ad_db st))"
      "st' = add_crash st"
    | "st' = reg_goto RR_gone st" | "st' = reg_goto RR_gone (set_reg st ((ad_reg st)\<lparr>rg_adder := None\<rparr>))"
    | wl a where "adder_wired a" "st' = set_reg (st\<lparr>ad_heap := ad_heap st @ [a], ad_device := Some dv\<rparr>)
        ((ad_reg st)\<lparr>rg_adder := Some (length (ad_heap st)), rg_reader := RR_adder wl\<rparr>)"
    using assms(1) by (auto simp: reg_make_adder_def dest: adder_wired_new split: go.split_asm sum.split_asm)
  then show ?thesis
  proof cases
    case 1
    then show ?thesis by (simp add: sound_crash)
  next
    case 2
    then have "steady st st'" by (simp add: move_defs)
    then show ?thesis by (rule steady_sound)
  next
    case 3
    with none have "steady st st'" by (simp add: move_defs)
    then show ?thesis by (rule steady_sound)
  next
    case 4
    then have "add_held st \<Longrightarrow> add_held st'"
      unfolding add_held_def by (auto simp: set_reg_def less_SucI)
    with 4 show ?thesis by (simp add: sound_def set_reg_def)
  qed
qed

lemma pass_adder_sound:
  assumes "reg_pass_adder wl st = Some st'" and "rg_reader (ad_reg st) = RR_adder wl"
  shows "sound cause st st'"
proof -
  from assms(1) obtain i where i: "rg_adder (ad_reg st) = Some i"
      "st' = reg_goto (RR_pubkey wl) (st\<lparr>ad_link := (ad_link st)\<lparr>lk_adder := lk_adder (ad_link st) @ [i]\<rparr>\<rparr>)"
    by (auto simp: reg_pass_adder_def split: option.split_asm)
  then have "add_held st \<Longrightarrow> add_held st'"
    unfolding add_held_def by (auto simp: reg_goto_def set_reg_def)
  with i show ?thesis by (simp add: sound_def reg_goto_def set_reg_def)
qed

lemma reg_device_sound:
  assumes "reg_device_step E cpw u fault pick w st = Some st'" and "add_flow st"
  shows "sound (panic_cause E u (Ae_reg_device fault pick w) st) st st'"
proof (cases "(\<exists>dv. rg_reader (ad_reg st) = RR_retrieve dv) \<or> (\<exists>wl. rg_reader (ad_reg st) = RR_adder wl)")
  case True
  with assms show ?thesis
    by (auto simp: reg_device_step_def intro: make_adder_sound [where w = w, simplified] pass_adder_sound)
next
  case False
  with assms have "steady st st'"
    by (auto simp: reg_device_step_def reg_take_metadata_def reg_send_pubkey_def move_defs
        split: reg_reader.split_asm option.split_asm sum.split_asm)
  then show ?thesis by (rule steady_sound)
qed

lemma reg_send_sound:
  assumes "reg_send_step E w st = Some st'"
  shows "sound False st st'"
proof (cases "add_held st")
  case True
  have "reg_needs (ad_reg st)" using assms by (auto simp: reg_send_step_def reg_needs_def split: if_split_asm)
  with adder_at_held(1) [OF True] obtain a where a: "adder_at st (rg_adder (ad_reg st)) = Some a" by auto
  obtain x b where turn: "TssSend_turn (en_msg E) (ServerAdd_GetNextMessageToSend (en_al E) (rg_newPeer (ad_reg st)))
      \<lparr>tk_ctx_done = (rg_ctx (ad_reg st) \<noteq> Ctx_live), tk_server_done = rg_serverDone (ad_reg st), tk_write = w\<rparr> a = (x, b)"
    by (metis surj_pair)
  note b = adder_wired_turn [OF adder_at_wired [OF True a] turn]
  let ?st1 = "put_adder (rg_adder (ad_reg st)) (Some b) st"
  have "ad_reg ?st1 = ad_reg st" using put_adder_heap_only [of "rg_adder (ad_reg st)" "Some b" st] by auto
  with assms a turn b have "steady ?st1 st'"
    by (cases x) (auto simp: reg_send_step_def Let_def move_defs split: if_split_asm option.split_asm)
  with put_adder_sound [OF a, of b] b show ?thesis by (blast intro: sound_steady)
qed (simp add: sound_def)

lemma acc_send_sound:
  assumes "acc_send_step E w st = Some st'"
  shows "sound False st st'"
proof (cases "add_held st")
  case True
  have "acc_needs (ad_acc st)" using assms by (auto simp: acc_send_step_def acc_needs_def split: if_split_asm)
  with adder_at_held(2) [OF True] obtain a where a: "adder_at st (ac_adder (ad_acc st)) = Some a" by auto
  obtain x b where turn: "TssSend_turn (en_msg E) (ServerAdd_GetNextMessageToSend (en_al E) (ac_existingPeer (ad_acc st)))
      \<lparr>tk_ctx_done = (ac_ctx (ad_acc st) \<noteq> Ctx_live), tk_server_done = ac_serverDone (ad_acc st), tk_write = w\<rparr> a = (x, b)"
    by (metis surj_pair)
  note b = adder_wired_turn [OF adder_at_wired [OF True a] turn]
  let ?st1 = "put_adder (ac_adder (ad_acc st)) (Some b) st"
  have "ad_acc ?st1 = ad_acc st" by simp
  with assms a turn b have "steady ?st1 st'"
    by (cases x) (auto simp: acc_send_step_def Let_def move_defs split: if_split_asm option.split_asm)
  with put_adder_sound [OF a, of b] b show ?thesis by (blast intro: sound_steady)
qed (simp add: sound_def)

lemma emit_sound: "add_emit peer m st = Some st' \<Longrightarrow> sound False st st'"
  by (auto simp: add_emit_def intro: put_adder_sound adder_wired_emit split: option.split_asm if_split_asm)

lemma state_sound:
  assumes "add_report_state g s st = Some st'"
  shows "sound (panic_cause E u (Ae_state g s) st) st st'"
  using assms by (auto simp: add_report_state_def intro: put_adder_sound adder_wired_change
      intro!: sound_crash dest: adder_change_panics split: option.split_asm if_split_asm go.split_asm)

lemma timeouts_sound:
  "sound cause st (set_reg st ((ad_reg st)\<lparr>rg_ctx := c\<rparr>))" "sound cause st (set_acc st ((ad_acc st)\<lparr>ac_ctx := c\<rparr>))"
  by (rule steady_sound, simp add: move_defs)+

lemma add_step_sound:
  assumes "add_step E cpw u ev st = Some st'" and "add_flow st"
  shows "sound (panic_cause E u ev st) st st'"
proof -
  have "\<not> ad_crashed st" using assms(1) by (simp split: if_split_asm)
  with assms(1) have step: "add_step E cpw u ev st = Some st'" "\<not> ad_crashed st" by simp_all
  show ?thesis
  proof (cases ev)
    case (Ae_reg_device f pick w)
    with step assms(2) show ?thesis using reg_device_sound [of E cpw u f pick w st st'] by simp
  qed (use step in \<open>auto intro: reg_read_sound [simplified] acc_read_sound [simplified] steady_steps [THEN steady_sound]
      steady_reg_main [THEN steady_sound] steady_acc_main [THEN steady_sound] acc_signal_sound [simplified] acc_metadata_sound
      reg_send_sound acc_send_sound emit_sound state_sound [simplified] timeouts_sound split: if_split_asm\<close>)
qed

lemma add_reach_held: "add_reach E cpw u d st \<Longrightarrow> add_held st"
proof (induction rule: add_reach.induct)
  case add_reach_init
  show ?case by (simp add: add_init_def add_held_def reg_needs_def acc_needs_def)
next
  case (add_reach_step st ev st')
  from add_step_sound [OF add_reach_step.hyps(3) add_reach_flow [OF add_reach_step.hyps(1)]] add_reach_step.IH
  show ?case by (simp add: sound_def)
qed

subsection \<open>Crashes\<close>

text \<open>A second \<open>ExistingDeviceDoneMessage\<close> closes \<open>serverDone\<close> again once the other handler has taken
  the first signal.\<close>

lemma twice_done_crash:
  assumes "\<not> ad_crashed st" and "ac_reader (ad_acc st) = AR_read" and "ac_serverDone (ad_acc st)"
    and "ac_stage (ad_acc st) \<le> 80" and "lk_existing_done (ad_link st) = []"
  shows "\<exists>st'. steps (add_step E cpw u)
    [Ae_acc_read (ws_hear ExistingDeviceDoneMessage []), Ae_acc_signal, Ae_acc_signal] st = Some st' \<and> ad_crashed st'"
  using assms by (simp add: acc_read_def acc_on_step_def acc_signal_step_def run_defs not_less add_crash_def)

lemma early_tss_crash:
  assumes "decode_ws_ptr (en_msg E) (ws_message TssMessage s) = Inr (Some m)"
  shows "\<exists>st. steps (add_step E cpw u) [Ae_reg_read (ws_hear TssMessage s)] (add_init d) = Some st \<and> ad_crashed st"
    and "\<exists>st. steps (add_step E cpw u) [Ae_acc_read (ws_hear TssMessage s)] (add_init d) = Some st \<and> ad_crashed st"
  using assms tss_types
  by (simp_all add: add_init_def ws_hear_def ws_message_def reg_read_def acc_read_def reg_on_tss_def acc_on_tss_def
      handle_at_def handle_ws_tss_def adder_at_def ServerAdd_HandleMessage_def add_crash_def)

text \<open>A TSS message in the concrete encoding.\<close>

definition toy_early :: string where
  "toy_early = hex_encode (join2 ''c'' (hex_encode ''x''))"

lemma toy_early_decodes:
  "decode_ws_ptr (en_msg toy_env) (ws_message TssMessage toy_early) = Inr (Some \<lparr>PeerID = ''c'', Msg = PStr (hex_encode ''x'')\<rparr>)"
proof -
  have "\<not> json_null (join2 ''c'' (hex_encode ''x''))" by code_simp
  then show ?thesis
    by (simp add: toy_early_def decode_ws_ptr_def ws_message_def toy_msg_codec_def del: hex_encode.simps)
qed

text \<open>C28: either device can end the whole server process by a TSS message before the adder was made,
  and the existing device also by saying again that it is done once the other handler has taken the
  first signal. In every reachable state a panic of the two multi-device handlers has one of these
  causes: a TSS message that is early or \<open>null\<close>, a second end of the existing device, a stored nonce
  that \<open>decryptAES\<close> panics on, or a library that reports two final states.\<close>

theorem add_crashes:
  assumes "decode_ws_ptr (en_msg E) (ws_message TssMessage s) = Inr (Some m)"
  shows "(\<exists>st. steps (add_step E cpw u) [Ae_reg_read (ws_hear TssMessage s)] (add_init d) = Some st \<and> ad_crashed st) \<and>
    (\<exists>st. steps (add_step E cpw u) [Ae_acc_read (ws_hear TssMessage s)] (add_init d) = Some st \<and> ad_crashed st) \<and>
    (\<forall>st. \<not> ad_crashed st \<longrightarrow> ac_reader (ad_acc st) = AR_read \<longrightarrow> ac_serverDone (ad_acc st) \<longrightarrow>
       ac_stage (ad_acc st) \<le> 80 \<longrightarrow> lk_existing_done (ad_link st) = [] \<longrightarrow>
       (\<exists>st'. steps (add_step E cpw u) [Ae_acc_read (ws_hear ExistingDeviceDoneMessage []), Ae_acc_signal, Ae_acc_signal] st
          = Some st' \<and> ad_crashed st')) \<and>
    (\<forall>ev st st'. add_reach E cpw u d st \<longrightarrow> add_step E cpw u ev st = Some st' \<longrightarrow> ad_crashed st' \<longrightarrow> panic_cause E u ev st)"
proof (intro conjI allI impI)
  fix ev st st'
  assume reach: "add_reach E cpw u d st" and step: "add_step E cpw u ev st = Some st'" and "ad_crashed st'"
  moreover have "\<not> ad_crashed st" using step by (auto split: if_split_asm)
  ultimately show "panic_cause E u ev st"
    using add_step_sound [OF step add_reach_flow [OF reach]] add_reach_held [OF reach] by (simp add: sound_def)
qed (rule early_tss_crash [OF assms] twice_done_crash; assumption)+

theorem add_crashes_witness:
  "(\<exists>st. steps (add_step toy_env toy_public ''u'') [Ae_reg_read (ws_hear TssMessage toy_early)] (add_init toy_db) = Some st \<and>
     ad_crashed st) \<and>
   (\<exists>st evs st'. add_reach toy_env toy_public ''u'' toy_db st \<and> steps (add_step toy_env toy_public ''u'') evs st = Some st' \<and>
     ad_crashed st')"
proof -
  let ?done = "[Ae_acc_read (ws_hear ExistingDeviceDoneMessage []), Ae_acc_signal, Ae_acc_signal]"
  note facts = add_crashes [OF toy_early_decodes, of toy_public "''u''" toy_db]
  obtain st a d' where st: "add_reach toy_env toy_public ''u'' toy_db st"
      "st = shared_state ''n'' (dr_PeerID toy_wallet) ''web'' toy_metadata ''p'' a d'" by (rule toy_runs) blast
  obtain st1 where st1: "steps (add_step toy_env toy_public ''u'') (?done @ [Ae_reg_main (Inr ())]) st = Some st1"
      "\<not> ad_crashed st1" "ac_reader (ad_acc st1) = AR_read" "ac_serverDone (ad_acc st1)" "ac_stage (ad_acc st1) \<le> 80"
      "lk_existing_done (ad_link st1) = []"
    by (simp add: st(2) shared_state_def running_def acc_read_def acc_on_step_def acc_signal_step_def reg_main_step_def run_defs)
  have "add_reach toy_env toy_public ''u'' toy_db st1" by (rule add_run_reach [OF st1(1) st(1)]) simp
  with facts st1(2-6) show ?thesis by blast
qed

end
