(* ===== verification/JsonText.thy ===== *)
theory JsonText
  imports TssData WsLayer
begin

text \<open>
  The strings that \<open>encoding/json\<close> keeps as they are: those in valid UTF-8, by the table of
  well-formed byte sequences that \<open>utf8.ValidString\<close> tests. Wallets whose strings are of that kind,
  which is what the conversions of \<open>utils/tss/tssManager.go\<close> make of the library's results.
\<close>

subsection \<open>UTF-8\<close>

abbreviation cont_byte :: "nat \<Rightarrow> bool" where
  "cont_byte b \<equiv> 0x80 \<le> b \<and> b \<le> 0xBF"

text \<open>The second byte of the sequences of three and four bytes: no overlong forms, no surrogates,
  nothing above U+10FFFF.\<close>

definition second_of_three :: "nat \<Rightarrow> nat \<Rightarrow> bool" where
  "second_of_three b c \<longleftrightarrow>
     0xE0 \<le> b \<and> b \<le> 0xEF \<and> cont_byte c \<and> (b = 0xE0 \<longrightarrow> 0xA0 \<le> c) \<and> (b = 0xED \<longrightarrow> c \<le> 0x9F)"

definition second_of_four :: "nat \<Rightarrow> nat \<Rightarrow> bool" where
  "second_of_four b c \<longleftrightarrow>
     0xF0 \<le> b \<and> b \<le> 0xF4 \<and> cont_byte c \<and> (b = 0xF0 \<longrightarrow> 0x90 \<le> c) \<and> (b = 0xF4 \<longrightarrow> c \<le> 0x8F)"

fun utf8_bytes :: "nat list \<Rightarrow> bool" where
  "utf8_bytes [] = True"
| "utf8_bytes (b # bs) =
     (if b < 0x80 then utf8_bytes bs
      else case bs of
        [] \<Rightarrow> False
      | c # cs \<Rightarrow>
          if 0xC2 \<le> b \<and> b \<le> 0xDF \<and> cont_byte c then utf8_bytes cs
          else case cs of
            [] \<Rightarrow> False
          | x # xs \<Rightarrow>
              if second_of_three b c \<and> cont_byte x then utf8_bytes xs
              else case xs of
                [] \<Rightarrow> False
              | y # ys \<Rightarrow> second_of_four b c \<and> cont_byte x \<and> cont_byte y \<and> utf8_bytes ys)"

definition utf8 :: "string \<Rightarrow> bool" where
  "utf8 s = utf8_bytes (map of_char s)"

lemma utf8_ascii: "(\<And>c. c \<in> set s \<Longrightarrow> (of_char c :: nat) < 0x80) \<Longrightarrow> utf8 s"
  by (induction s) (simp_all add: utf8_def)

lemma ascii_hex_digit: "n < 16 \<Longrightarrow> (of_char (hex_digit n) :: nat) < 0x80"
  by (drule hex_digit_all [of "\<lambda>(k, c). (of_char c :: nat) < 0x80", rotated])
     (simp_all add: upt_rec hex_digit_def)

lemma ascii_nat_digits: "c \<in> set (nat_digits 10 n) \<Longrightarrow> (of_char c :: nat) < 0x80"
proof (induction "10 :: nat" n rule: nat_digits.induct)
  case (1 n)
  have "n mod 10 < 16" using mod_less_divisor [of 10 n] by linarith
  with 1 show ?case by (subst (asm) nat_digits.simps) (auto simp: ascii_hex_digit split: if_split_asm)
qed

lemma utf8_big_String [simp]: "utf8 (big_String i)"
  by (rule utf8_ascii) (auto simp: big_String_def dest: ascii_nat_digits split: if_split_asm)

subsection \<open>Wallets\<close>

definition utf8_parties :: "(string, 'a) fmap \<Rightarrow> bool" where
  "utf8_parties m \<longleftrightarrow> fmpred (\<lambda>peer _. utf8 peer) m"

definition utf8_wallet :: "DkgResult \<Rightarrow> bool" where
  "utf8_wallet w \<longleftrightarrow>
     utf8 (ps_X (dr_Pubkey w)) \<and> utf8 (ps_Y (dr_Pubkey w)) \<and> utf8 (dr_Share w) \<and> utf8 (dr_Address w) \<and>
     utf8 (dr_PeerID w) \<and> fmpred (\<lambda>peer bk. utf8 peer \<and> utf8 (bk_X bk)) (dr_BKs w)"

lemma utf8_serverID [simp]: "utf8 serverID"
  by (rule utf8_ascii) (auto simp: serverID_def)

text \<open>What the conversions write: decimal numbers, the library's address, the names of the parties.\<close>

lemma utf8_converted:
  "utf8_wallet \<lparr>dr_Pubkey = GetStr pk, dr_BKs = fmmap bk_text bks, dr_Share = big_String s, dr_Address = a, dr_PeerID = peer\<rparr> \<longleftrightarrow>
     utf8 a \<and> utf8 peer \<and> utf8_parties bks"
  by (auto simp: utf8_wallet_def utf8_parties_def GetStr_def bk_text_def fmpred_iff)

text \<open>\<open>json.Marshal\<close> and \<open>json.Unmarshal\<close> of a wallet: strings in valid UTF-8 come back as they were.\<close>

definition json_wallets :: "DkgResult codec \<Rightarrow> bool" where
  "json_wallets cj \<longleftrightarrow> (\<forall>w. utf8_wallet w \<longrightarrow> codec_ok cj w)"

end
