(* ===== verification/TypedWallets.thy ===== *)
theory TypedWallets
  imports AddProperties JsonText
begin







subsection \<open>The life of a wallet\<close>











subsection \<open>A wallet that a device joins\<close>







end
