(* ===== verification/Spec2Isabelle.thy ===== *)
theory Spec2Isabelle
  imports QueueProperties SignatureProperties KeyProperties VaultProperties HttpProperties
    DkgProperties TssProperties ClientProperties InputProperties DkgEnds AddProperties
    AddCrash TypedWallets
begin

text \<open>
  Meemaw is a wallet whose private key never exists in one place: a server and a device of the
  user each hold a share, and a two-party protocol (the alice library) makes keys, signatures
  and shares for further devices. This development models the Go code of the server
  (\<open>server/\<close>), of the client (\<open>client/\<close>) and of what they share (\<open>utils/\<close>), and proves what
  makes it correct, or states precisely where it is not. Paths below are under \<open>src/\<close>.

  \<^bold>\<open>Parts and how they interact.\<close> A client asks \<open>/authorize\<close> with the bearer token of an
  identity provider and gets an access token; with it, it opens a websocket on \<open>/dkg\<close>, \<open>/sign\<close>,
  \<open>/register\<close> or \<open>/accept\<close>, or posts to \<open>/export\<close>. On both ends of a websocket an actor
  (\<open>utils/tss\<close>) wraps one run of the library: what the library wants to send is queued by its peer
  manager, \<open>TssSend\<close> (\<open>utils/ws\<close>) drains the queue into frames, and the reader of the other end
  hands them to its actor. The server stores its half of the wallet encrypted in a database
  (\<open>server/vault\<close>, \<open>server/database\<close>); the key, called metadata, is kept by the client only. A
  second device is added by two handlers of the server that meet through the cache and share one
  actor.

  \<^bold>\<open>Theories.\<close>
  \<^item> \<open>Prelude\<close>, \<open>GoStd\<close>: errors, results, panics, bounded channels; hexadecimal, decimal and
    string functions of Go's library (\<open>utils/types/errors.go\<close> for the error values).
  \<^item> \<open>PeerQueue\<close> (\<open>utils/tss/peerManager.go\<close>), \<open>TssData\<close>, \<open>Signatures\<close>, \<open>TssActors\<close>
    (\<open>tssManager.go\<close>), \<open>Recovery\<close> (\<open>recovery.go\<close>), \<open>TssServices\<close> (\<open>serviceDkg.go\<close>,
    \<open>serviceSigner.go\<close>, \<open>serviceAdd.go\<close>), \<open>TssAdd\<close> (\<open>serviceAdd.go\<close>), \<open>WsLayer\<close> (\<open>utils/ws/ws.go\<close>
    and the loops \<open>Send\<close> and \<open>Receive\<close>), \<open>TssSources\<close> (the actors as sources of \<open>TssSend\<close>).
  \<^item> \<open>Database\<close> (\<open>server/database/query.sql.go\<close> over the tables of \<open>server/sqlc/schema.sql\<close>),
    \<open>Vault\<close> (\<open>server/vault/wallet.go\<close>), \<open>Auth\<close> (\<open>server/auth_providers.go\<close>), \<open>ServerHttp\<close>
    (\<open>server/handlers.go\<close>, \<open>main.go\<close>, \<open>schema.go\<close>), \<open>Config\<close> (\<open>utils/config\<close>,
    \<open>server/cmd/main.go\<close>, the server object of \<open>server/main.go\<close>).
  \<^item> \<open>HandlerCommon\<close>, \<open>DkgHandler\<close> (\<open>server/tss_dkg.go\<close>), \<open>SignExport\<close> (\<open>tss_sign.go\<close>,
    \<open>tss_recover.go\<close>), \<open>DeviceLink\<close>, \<open>AddHandlers\<close>, \<open>AcceptHandler\<close> (\<open>tss_add.go\<close>).
  \<^item> \<open>ClientCalls\<close>, \<open>ClientLoop\<close> (\<open>client/client.go\<close>), \<open>ClientLoops\<close> (\<open>client/tss_add.go\<close>),
    \<open>ClientSign\<close> (invariants of signing), \<open>Tx\<close> (\<open>utils/tx/tx.go\<close>), \<open>Bindings\<close>
    (\<open>client/ios/ios.go\<close>, \<open>client/web/wasm/main.go\<close>).
  \<^item> \<open>Wire\<close>: two ends of a websocket run against each other. \<open>ClientContract\<close>: what the loops of the
    client share. \<open>AddSafety\<close>, \<open>AddWallet\<close>, \<open>AddTold\<close>: invariants of the two multi-device handlers
    (order of their stages, what is stored, who has told whom). \<open>DkgEnds\<close>: \<open>Dkg\<close> against
    \<open>DkgHandler\<close>. \<open>AddEnds\<close>, \<open>NewDevice\<close>: \<open>AcceptDevice\<close> and \<open>RegisterDevice\<close> against the two
    handlers. \<open>AddRun\<close>, \<open>DeviceRun\<close>: a run of the four to the end. \<open>AddCrash\<close>: the
    panics of the two handlers. \<open>JsonText\<close>, \<open>TypedWallets\<close>: strings that JSON keeps, and the form
    of a wallet from the DKG on.
  \<^item> \<open>Samples\<close>, \<open>HandlerSamples\<close>: concrete parameters that satisfy the documented behaviour of the
    libraries, at which the properties with hypotheses are applied.
  \<^item> \<open>QueueProperties\<close>, \<open>SignatureProperties\<close>, \<open>KeyProperties\<close>, \<open>VaultProperties\<close>,
    \<open>HttpProperties\<close>, \<open>DkgProperties\<close>, \<open>TssProperties\<close>, \<open>ClientProperties\<close>, \<open>InputProperties\<close>,
    \<open>AddProperties\<close>, and the ends of \<open>DkgEnds\<close> and \<open>TypedWallets\<close>: the properties.

  \<^bold>\<open>State and operations.\<close> A Go struct is a record with the same fields, a pointer that may be nil
  an \<open>option\<close>, a pair of value and error a sum \<open>go_error + 'a\<close>, and a call that may panic has the
  result type \<open>go\<close>. A method is a function from the state of its receiver to its result and the new
  state. Goroutines are a step function on one record: every send, receive, close, read, write
  and database call is a step of its own, so that all interleavings are covered, and a blocked
  step is \<open>None\<close>. What the outside decides (a message, the result of a write, random bytes, the row
  a query answers with) is part of the event. \<open>dkg_reach\<close>, \<open>sign_reach\<close>, \<open>add_reach\<close>, \<open>conn_reach\<close>
  and \<open>csign_reach\<close> are the reachable states. Channels are lists with a capacity; \<open>uint32\<close> stages,
  \<open>uint64\<close> nonces and \<open>int64\<close> numbers are words; \<open>int\<close> and \<open>big.Int\<close> are integers with the range
  checked where Go checks it.

  \<^bold>\<open>Interfaces.\<close> \<open>peer_outbox\<close> (a queue per peer, provided by the peer manager), \<open>tss_listener\<close> (a
  service that is told the library's states, provided by the four services), \<open>tss_source\<close> (what
  \<open>TssSend\<close> relies on, provided by the five actors), \<open>wallet_store\<close> (a store of wallets, provided by
  the vault on the database), \<open>conn_loop\<close> and \<open>conn_actor\<close> (a client loop and the actor in it, provided
  by \<open>Dkg\<close> and \<open>RegisterDevice\<close>), \<open>endpoint\<close> (one end of a websocket and what it guarantees of the
  messages it has read and written, provided by the handlers and the calls of the client) and
  \<open>duplex\<close> (an endpoint against an endpoint) are locales, each interpreted on the model's own
  definitions; the properties rest on the facts of these interpretations. The two handlers with
  the existing device at the far end are one endpoint again, which is how three parties are
  composed from two.

  \<^bold>\<open>What is shown.\<close>
  \<^item> Keys and wallets: what a DKG handler stores is the wallet of the result that the library
    reported to its actor, and what it sends opens it, in every interleaving; adding a device
    changes the user's wallet only by the party parameters of the result reported to the adder, all
    of them, and no other user's. Opening is stated as \<open>read_back\<close>: the decoder of the vault applied to
    what its encoder made of that wallet, whatever the encoding is; with an encoding that keeps
    strings in UTF-8, as JSON does, the wallet itself comes back (\<open>TypedWallets\<close>). A
    history of vault operations refines a map from users to metadata and wallet; exporting gives
    a scalar whose point is the wallet's key; two shares recover the key; signatures that leave
    either side verify; stored texts read back as the library's results.
  \<^item> Both ends: when \<open>Dkg\<close> returns a wallet, the server holds a wallet with the same key and address,
    which opens with the returned metadata; when \<open>RegisterDevice\<close> returns one, the merged wallet has
    been stored before. Nothing is assumed of the order of steps or of failures of the connection,
    and of the library only that the parties of a run get the same public key. A wallet keeps its
    form, share, key, address and party parameters through any number of such sessions.
  \<^item> Messages: queues are FIFO; the frames of one engine are all written and arrive at the other
    engine in order, until it refuses one; the server relays between two devices without change.
  \<^item> Access: no request reaches a guarded handler without an accepted credential; an access token
    stands for the identity and metadata it was made for; an identity comes only from the
    configured provider; accepting devices meet only devices of their own user.
  \<^item> Progress: there are runs in which \<open>Dkg\<close> and its handler, or \<open>RegisterDevice\<close>, \<open>AcceptDevice\<close> and
    the two handlers, all come to their end without an error; \<open>Process\<close> returns (or panics, for a key
    off the curve) when the library has reported a final state; the channel of errors never blocks
    its two senders.
  \<^item> Failures, as theorems about the code as it is: crashes and waits that a client can cause,
    wallets left behind by a failed write, errors that are dropped, requests that are always
    refused, signatures refused or accepted by the search for a recovery identifier.

  \<^bold>\<open>Bounds.\<close> No fuel is used: loops of one execution are structural recursions, and endless loops
  are step functions, one turn each. The channel of errors holds 2, the channels between the two
  multi-device handlers hold 1, as in the code.

  \<^bold>\<open>Parameters.\<close> The alice library (\<open>alice\<close>), the elliptic curve, Keccak and recovery functions
  (\<open>curve_lib\<close>), AES-GCM and randomness (\<open>aead\<close>, \<open>draw\<close>), JSON (\<open>codec\<close>), the cache (\<open>cache_lib\<close>),
  net/http and net/url (\<open>auth_lib\<close>, \<open>client_lib\<close>), the websocket package (\<open>env\<close>), go-ethereum
  (\<open>eth_lib\<close>), parsing of decimal fractions (\<open>num_lib\<close>) and the database driver. Their documented
  behaviour appears as named predicates (\<open>aead_ok\<close>, \<open>codec_ok\<close>, \<open>json_wallets\<close>, \<open>cache_ok\<close>,
  \<open>bk_coefs_ok\<close>, \<open>proto_ok\<close>, \<open>eip155\<close> and others) in the hypotheses of the properties that rely on it. Dialing
  and \<open>database/sql\<close> may fail at any call.

  \<^bold>\<open>Not modelled.\<close> Logging and printing; starting and stopping the library's engines; expiry of
  cache entries; sleeping in \<open>backup\<close>; torn reads of the stage variables that two goroutines share, and
  the moments inside one turn of \<open>TssSend\<close>, \<open>Send\<close> or \<open>Receive\<close>, whose checks and call are one step.
  A query that fails changes nothing: a commit whose acknowledgement is lost, and sequence values used
  up by failed inserts, are left out. The router is modelled for the exact paths that the server
  registers, not for the patterns that \<open>AddRoute\<close> may bring. The compression and the listening
  socket; the JavaScript and Swift packages, the documentation and the tests.
\<close>

end
